(* ===== verification/Prelude.thy ===== *)
theory Prelude
  imports Main "HOL-Library.AList" "HOL-Library.Multiset" "HOL-Library.Sublist" "HOL-Library.List_Lexorder" "HOL-Library.Char_ord"
begin

text \<open>
  The vocabulary the components share: Go's error values, the operations of Go's
  \<open>strings\<close> package that the program calls, byte classes of the regular expressions,
  and generic facts about association lists (the model of Go maps; the list order is the
  iteration order of one run, so a theorem over all lists is a theorem over all orders).

  Strings are byte strings, as Go's are. The functions below that Go defines on runes
  (\<open>strings.TrimSpace\<close>, \<open>unicode.IsUpper\<close>, \<dots>) are given for ASCII; bytes from 128 on
  count as letters without case that are not white space.
\<close>

named_theorems go_simps \<open>unfolding rules for the small Go helpers\<close>
named_theorems gomap_simps \<open>lookup after update or delete on Go maps\<close>

section \<open>Errors\<close>

text \<open>
  A Go error is its text together with the sentinel that \<open>errors.Is\<close> would find.
  Wrapping with \<open>%w\<close> keeps the sentinel and puts text in front; \<open>%v\<close> forgets it.
\<close>

datatype sentinel = ErrNotFound | ErrUnauthorized | ErrInvalidRequest | ErrServerError
  | ErrSkillSourceMissing | ErrContext | ErrNotExist

datatype goerr = GoErr (sentinel_of: "sentinel option") (errText: string)

type_synonym 'a result = "goerr + 'a"

definition errorf :: "string \<Rightarrow> goerr" where
  "errorf msg = GoErr None msg"

definition wrapf :: "string \<Rightarrow> goerr \<Rightarrow> goerr" where
  "wrapf pre e = GoErr (sentinel_of e) (pre @ errText e)"

definition errorsIs :: "goerr \<Rightarrow> sentinel \<Rightarrow> bool" where
  "errorsIs e s \<longleftrightarrow> sentinel_of e = Some s"

declare errorf_def [go_simps] wrapf_def [go_simps] errorsIs_def [go_simps]

lemma errorsIs_wrapf [simp]: "errorsIs (wrapf pre e) s = errorsIs e s"
  by (simp add: go_simps)

lemma errorsIs_errorf [simp]: "\<not> errorsIs (errorf msg) s"
  by (simp add: go_simps)

lemma errText_wrapf [simp]: "errText (wrapf pre e) = pre @ errText e"
  by (simp add: go_simps)

lemma errText_errorf [simp]: "errText (errorf msg) = msg"
  by (simp add: go_simps)

section \<open>Byte classes\<close>

abbreviation code :: "char \<Rightarrow> nat" where
  "code c \<equiv> of_char c"

definition isUpper :: "char \<Rightarrow> bool" where
  "isUpper c \<longleftrightarrow> 65 \<le> code c \<and> code c \<le> 90"

definition isLower :: "char \<Rightarrow> bool" where
  "isLower c \<longleftrightarrow> 97 \<le> code c \<and> code c \<le> 122"

definition isDigit :: "char \<Rightarrow> bool" where
  "isDigit c \<longleftrightarrow> 48 \<le> code c \<and> code c \<le> 57"

definition isSpace :: "char \<Rightarrow> bool" where
  "isSpace c \<longleftrightarrow> code c = 32 \<or> (9 \<le> code c \<and> code c \<le> 13)"

definition toLowerC :: "char \<Rightarrow> char" where
  "toLowerC c = (if isUpper c then char_of (code c + 32) else c)"

definition toUpperC :: "char \<Rightarrow> char" where
  "toUpperC c = (if isLower c then char_of (code c - 32) else c)"

lemma isUpper_isLower [simp]: "isUpper c \<Longrightarrow> \<not> isLower c"
  by (simp add: isUpper_def isLower_def)

lemma isUpper_isDigit [simp]: "isUpper c \<Longrightarrow> \<not> isDigit c"
  by (simp add: isUpper_def isDigit_def)

lemma isLower_isDigit [simp]: "isLower c \<Longrightarrow> \<not> isDigit c"
  by (simp add: isLower_def isDigit_def)

lemma code_char_of: "n < 256 \<Longrightarrow> code (char_of n) = n"
  by (simp add: of_char_of)

lemma isLower_toLowerC [simp]: "isUpper c \<Longrightarrow> isLower (toLowerC c)"
  by (simp add: toLowerC_def isLower_def isUpper_def code_char_of)

lemma code_toUpperC: "isLower c \<Longrightarrow> code (toUpperC c) = code c - 32"
proof -
  assume lo: "isLower c"
  then have "code c - 32 < 256" unfolding isLower_def by linarith
  with lo show ?thesis by (simp only: toUpperC_def if_True code_char_of)
qed

lemma isUpper_toUpperC [simp]: "isLower c \<Longrightarrow> isUpper (toUpperC c)"
  by (simp only: isUpper_def code_toUpperC) (simp add: isLower_def, linarith)

lemma not_isUpper_toLowerC [simp]: "\<not> isUpper (toLowerC c)"
proof (cases "isUpper c")
  case True
  then show ?thesis using isLower_toLowerC isUpper_isLower by blast
next
  case False
  then show ?thesis by (simp add: toLowerC_def)
qed

lemma toLowerC_id [simp]: "\<not> isUpper c \<Longrightarrow> toLowerC c = c"
  by (simp add: toLowerC_def)

lemma toUpperC_id [simp]: "\<not> isLower c \<Longrightarrow> toUpperC c = c"
  by (simp add: toUpperC_def)

lemma toUpperC_toLowerC: "isUpper c \<Longrightarrow> toUpperC (toLowerC c) = c"
proof -
  assume up: "isUpper c"
  then have "code (toLowerC c) = code c + 32"
    by (simp add: toLowerC_def isUpper_def code_char_of)
  moreover from up have "isLower (toLowerC c)" by simp
  ultimately show ?thesis by (simp add: toUpperC_def)
qed

lemma toLowerC_toUpperC: "isLower c \<Longrightarrow> toLowerC (toUpperC c) = c"
proof -
  assume lo: "isLower c"
  then have "code (toUpperC c) = code c - 32"
    by (rule code_toUpperC)
  moreover from lo have "isUpper (toUpperC c)" by simp
  moreover from lo have "32 \<le> code c" by (simp add: isLower_def)
  ultimately show ?thesis by (simp add: toLowerC_def)
qed

section \<open>The strings package\<close>

definition hasPrefix :: "string \<Rightarrow> string \<Rightarrow> bool" where
  "hasPrefix p s \<longleftrightarrow> take (length p) s = p"

text \<open>\<open>strings.Cut\<close>: the text before and after the first occurrence of the separator.\<close>

fun strCut :: "string \<Rightarrow> string \<Rightarrow> (string \<times> string) option" where
  "strCut sep [] = (if sep = [] then Some ([], []) else None)"
| "strCut sep (c # cs) =
     (if hasPrefix sep (c # cs) then Some ([], drop (length sep) (c # cs))
      else map_option (\<lambda>(b, a). (c # b, a)) (strCut sep cs))"

definition strContains :: "string \<Rightarrow> string \<Rightarrow> bool" where
  "strContains s sub \<longleftrightarrow> strCut sub s \<noteq> None"

lemma hasPrefix_iff: "hasPrefix p s \<longleftrightarrow> (\<exists>t. s = p @ t)"
  unfolding hasPrefix_def by (metis append_eq_conv_conj append_take_drop_id)

lemma strCut_Some: "strCut sep s = Some (b, a) \<Longrightarrow> s = b @ sep @ a"
proof (induction sep s arbitrary: b a rule: strCut.induct)
  case (1 sep)
  then show ?case by (simp split: if_splits)
next
  case (2 sep c cs)
  show ?case
  proof (cases "hasPrefix sep (c # cs)")
    case True
    then have "take (length sep) (c # cs) = sep" by (simp add: hasPrefix_def)
    then have "c # cs = sep @ drop (length sep) (c # cs)"
      by (metis append_take_drop_id)
    with True "2.prems" show ?thesis by auto
  next
    case False
    with "2.prems" obtain b' where "strCut sep cs = Some (b', a)" and "b = c # b'"
      by auto
    with "2.IH" [OF False] show ?thesis by simp
  qed
qed

lemma strCut_None: "strCut sep s = None \<longleftrightarrow> (\<nexists>b a. s = b @ sep @ a)"
proof (induction sep s rule: strCut.induct)
  case (1 sep)
  then show ?case by auto
next
  case (2 sep c cs)
  show ?case
  proof (cases "hasPrefix sep (c # cs)")
    case True
    then obtain t where "c # cs = [] @ sep @ t" by (auto simp: hasPrefix_iff)
    with True show ?thesis by (metis option.distinct(1) strCut.simps(2))
  next
    case False
    have "(\<exists>b a. c # cs = b @ sep @ a) \<longleftrightarrow> (\<exists>b a. cs = b @ sep @ a)" (is "?l = ?r")
    proof
      assume ?l
      then obtain b a where e: "c # cs = b @ sep @ a" by blast
      with False have "b \<noteq> []" by (auto simp: hasPrefix_iff)
      with e show ?r by (cases b) auto
    next
      assume ?r then show ?l by (metis append_Cons)
    qed
    with "2.IH" [OF False] False show ?thesis by simp
  qed
qed

lemma strContains_iff: "strContains s sub \<longleftrightarrow> (\<exists>b a. s = b @ sub @ a)"
  by (auto simp: strContains_def strCut_None)

lemma strCut_length: "strCut sep s = Some (b, a) \<Longrightarrow> sep \<noteq> [] \<Longrightarrow> length a < length s"
  by (drule strCut_Some) (cases sep; simp)

text \<open>\<open>strings.Split\<close> for a non-empty separator.\<close>

function strSplit :: "string \<Rightarrow> string \<Rightarrow> string list" where
  "strSplit sep s =
     (if sep = [] then map (\<lambda>c. [c]) s
      else case strCut sep s of None \<Rightarrow> [s] | Some (b, a) \<Rightarrow> b # strSplit sep a)"
  by pat_completeness auto
termination
  by (relation "measure (\<lambda>(sep, s). length s)") (auto dest: strCut_length)

declare strSplit.simps [simp del]

definition trimSpace :: "string \<Rightarrow> string" where
  "trimSpace s = rev (dropWhile isSpace (rev (dropWhile isSpace s)))"

definition trimPrefix :: "string \<Rightarrow> string \<Rightarrow> string" where
  "trimPrefix p s = (if hasPrefix p s then drop (length p) s else s)"

fun strJoin :: "string \<Rightarrow> string list \<Rightarrow> string" where
  "strJoin sep [] = []"
| "strJoin sep [s] = s"
| "strJoin sep (s # t # ts) = s @ sep @ strJoin sep (t # ts)"

declare hasPrefix_def [go_simps] trimPrefix_def [go_simps]

lemma strJoin_Cons: "ts \<noteq> [] \<Longrightarrow> strJoin sep (s # ts) = s @ sep @ strJoin sep ts"
  by (cases ts) auto

lemma strSplit_nonempty [simp]: "sep \<noteq> [] \<Longrightarrow> strSplit sep s \<noteq> []"
  by (subst strSplit.simps) (auto split: option.split)

lemma strJoin_strSplit: "sep \<noteq> [] \<Longrightarrow> strJoin sep (strSplit sep s) = s"
proof (induction sep s rule: strSplit.induct)
  case (1 sep s)
  show ?case
  proof (cases "strCut sep s")
    case None
    with "1.prems" show ?thesis by (simp add: strSplit.simps [of sep s])
  next
    case (Some p)
    obtain b a where p: "p = (b, a)" by (cases p)
    with Some "1.prems" have "strSplit sep s = b # strSplit sep a"
      by (simp add: strSplit.simps [of sep s])
    moreover have "strJoin sep (strSplit sep a) = a"
      using "1.IH" [OF "1.prems" Some p [symmetric]] "1.prems" by simp
    ultimately show ?thesis
      using strCut_Some Some p "1.prems" by (simp add: strJoin_Cons)
  qed
qed

text \<open>
  \<open>%q\<close> (\<open>strconv.Quote\<close>): printable ASCII and bytes from 128 on as they are, the quote
  and the backslash escaped, control bytes in their short or hexadecimal escape.
\<close>

definition hexDigit :: "nat \<Rightarrow> char" where
  "hexDigit n = (if n < 10 then char_of (48 + n) else char_of (87 + n))"

definition quoteC :: "char \<Rightarrow> string" where
  "quoteC c =
     (let n = code c in
      if n = 34 then [char_of (92::nat), c]
      else if n = 92 then [c, c]
      else if n = 7 then [char_of (92::nat), CHR ''a'']
      else if n = 8 then [char_of (92::nat), CHR ''b'']
      else if n = 12 then [char_of (92::nat), CHR ''f'']
      else if n = 10 then [char_of (92::nat), CHR ''n'']
      else if n = 13 then [char_of (92::nat), CHR ''r'']
      else if n = 9 then [char_of (92::nat), CHR ''t'']
      else if n = 11 then [char_of (92::nat), CHR ''v'']
      else if n < 32 \<or> n = 127 then
        [char_of (92::nat), CHR ''x'', hexDigit (n div 16), hexDigit (n mod 16)]
      else [c])"

definition goQuote :: "string \<Rightarrow> string" where
  "goQuote s = [char_of (34::nat)] @ concat (map quoteC s) @ [char_of (34::nat)]"

text \<open>\<open>io.LimitReader\<close>: the first bytes; the bound is an integer so that large ones compute.\<close>

fun takeI :: "int \<Rightarrow> 'a list \<Rightarrow> 'a list" where
  "takeI n [] = []"
| "takeI n (x # xs) = (if n \<le> 0 then [] else x # takeI (n - 1) xs)"

lemma takeI_take: "takeI n xs = take (nat n) xs"
  by (induction n xs rule: takeI.induct) (auto simp: take_Cons' nat_diff_distrib)

text \<open>\<open>%d\<close>.\<close>

fun showNat :: "nat \<Rightarrow> string" where
  "showNat n = (if n < 10 then [char_of (48 + n)] else showNat (n div 10) @ [char_of (48 + n mod 10)])"

declare showNat.simps [simp del]

definition showInt :: "int \<Rightarrow> string" where
  "showInt i = (if i < 0 then ''-'' @ showNat (nat (- i)) else showNat (nat i))"

section \<open>Association lists as Go maps\<close>

lemma map_of_update [gomap_simps]:
  "map_of (AList.update k v m) k' = (if k' = k then Some v else map_of m k')"
  by (simp add: update_conv')

lemma map_of_delete [gomap_simps]:
  "map_of (AList.delete k m) k' = (if k' = k then None else map_of m k')"
  by (simp add: delete_conv')

lemma keys_update: "fst ` set (AList.update k v m) = insert k (fst ` set m)"
  by (induction m) auto

lemma map_of_Some_set: "map_of m k = Some v \<Longrightarrow> (k, v) \<in> set m"
  by (rule map_of_SomeD)

lemma map_of_distinct_iff:
  "distinct (map fst m) \<Longrightarrow> map_of m k = Some v \<longleftrightarrow> (k, v) \<in> set m"
  by (simp add: map_of_eq_Some_iff)

end
