(* ===== verification/GoValue.thy ===== *)
theory GoValue
  imports Prelude Complex_Main
begin

text \<open>
  The dynamically typed values a spec can hold: what \<open>yaml.v3\<close> and \<open>encoding/json\<close> decode
  into \<open>any\<close>, plus the two Go slice types the program puts there itself. A Go map is an
  association list whose order is the iteration order; \<open>wf_val\<close> says that every map in a
  value has distinct keys, which the Go types guarantee.
\<close>

section \<open>IEEE double precision numbers\<close>

text \<open>
  A \<open>float64\<close> is not-a-number, an infinity, or a finite number, kept as the rational it
  denotes (negative zero equals zero under Go's \<open>==\<close>). The program only converts integers
  to \<open>float64\<close> and compares; the conversion rounds to 53 bits, ties to even.
\<close>

datatype f64 = FNaN | FInf bool | FFin rat

fun f64_eq :: "f64 \<Rightarrow> f64 \<Rightarrow> bool" where
  "f64_eq FNaN y = False"
| "f64_eq x FNaN = False"
| "f64_eq (FInf a) (FInf b) = (a = b)"
| "f64_eq (FFin p) (FFin q) = (p = q)"
| "f64_eq x y = False"

fun bitlen :: "nat \<Rightarrow> nat" where
  "bitlen n = (if n = 0 then 0 else Suc (bitlen (n div 2)))"

declare bitlen.simps [simp del]

definition round53 :: "nat \<Rightarrow> nat" where
  "round53 a =
     (if bitlen a \<le> 53 then a
      else let s = bitlen a - 53; q = a div 2 ^ s; r = a mod 2 ^ s; half = 2 ^ (s - 1)
           in (if half < r \<or> (r = half \<and> odd q) then Suc q else q) * 2 ^ s)"

definition f64_of_int :: "int \<Rightarrow> f64" where
  "f64_of_int n = FFin (of_int (sgn n * int (round53 (nat \<bar>n\<bar>))))"

lemma f64_eq_refl: "x \<noteq> FNaN \<Longrightarrow> f64_eq x x"
  by (cases x) auto

lemma f64_eq_sym: "f64_eq x y = f64_eq y x"
  by (cases x; cases y) auto

lemma f64_eq_iff: "f64_eq x y \<longleftrightarrow> x = y \<and> x \<noteq> FNaN"
  by (cases x; cases y) auto

lemma f64_of_int_not_nan [simp]: "f64_of_int n \<noteq> FNaN"
  by (simp add: f64_of_int_def)

lemma bitlen_le: "n < 2 ^ k \<Longrightarrow> bitlen n \<le> k"
proof (induction k arbitrary: n)
  case 0
  then show ?case by (simp add: bitlen.simps)
next
  case (Suc k)
  from Suc.prems have "n div 2 < 2 ^ k" by auto
  then have "bitlen (n div 2) \<le> k" by (rule Suc.IH)
  then show ?case by (subst bitlen.simps) simp
qed

lemma bitlen_eq: "2 ^ k \<le> n \<Longrightarrow> n < 2 ^ Suc k \<Longrightarrow> bitlen n = Suc k"
proof (induction k arbitrary: n)
  case 0
  then have "n = 1" by simp
  then show ?case by (simp add: bitlen.simps)
next
  case (Suc k)
  then have "bitlen (n div 2) = Suc k" by (intro Suc.IH) auto
  with Suc.prems show ?case by (subst bitlen.simps) auto
qed

lemma round53_tie: "round53 (2 ^ 53) = round53 (2 ^ 53 + 1)"
proof -
  have b: "bitlen (2 ^ 53) = 54" "bitlen (2 ^ 53 + 1) = 54"
    using bitlen_eq [of 53 "2 ^ 53"] bitlen_eq [of 53 "2 ^ 53 + 1"] by auto
  show ?thesis unfolding round53_def b by simp
qed

lemma round53_exact: "a < 2 ^ 53 \<Longrightarrow> round53 a = a"
  using bitlen_le [of a 53] by (simp add: round53_def)

lemma f64_of_int_exact: "\<bar>n\<bar> < 2 ^ 53 \<Longrightarrow> f64_of_int n = FFin (of_int n)"
proof -
  assume "\<bar>n\<bar> < 2 ^ 53"
  then have "nat \<bar>n\<bar> < 2 ^ 53" by (simp add: nat_less_iff)
  then have "round53 (nat \<bar>n\<bar>) = nat \<bar>n\<bar>" by (rule round53_exact)
  then show ?thesis by (simp add: f64_of_int_def sgn_mult_abs)
qed

section \<open>Values\<close>

text \<open>
  \<open>GAnyMap\<close> is \<open>map[any]any\<close>, which \<open>yaml.v3\<close> builds for a mapping with a key that is not a
  string; each key is kept as its \<open>%v\<close> rendering, the only thing the program reads of it, so
  two keys may share one. \<open>GOther\<close> is any other dynamic type (\<open>uint64\<close>, \<open>time.Time\<close>): its type
  name and contents.
\<close>

datatype gval =
    GNil
  | GBool bool
  | GInt int
  | GInt64 int
  | GF64 f64
  | GF32 f64
  | GStr string
  | GList "gval list"
  | GStrs "string list"
  | GMap "(string \<times> gval) list"
  | GAnyMap "(string \<times> gval) list"
  | GOther string string

type_synonym gomap = "(string \<times> gval) list"

text \<open>A nesting measure for the recursions; a list or map is larger than what it holds.\<close>

fun gsize :: "gval \<Rightarrow> nat" where
  "gsize (GList vs) = Suc (sum_list (map gsize vs))"
| "gsize (GStrs ss) = Suc (length ss)"
| "gsize (GMap m) = Suc (sum_list (map (\<lambda>(k, v). Suc (gsize v)) m))"
| "gsize (GAnyMap m) = Suc (sum_list (map (\<lambda>(k, v). Suc (gsize v)) m))"
| "gsize v = 1"

definition msize :: "gomap \<Rightarrow> nat" where
  "msize m = sum_list (map (\<lambda>(k, v). Suc (gsize v)) m)"

fun wf_val :: "gval \<Rightarrow> bool" where
  "wf_val (GList vs) = list_all wf_val vs"
| "wf_val (GMap m) = (distinct (map fst m) \<and> list_all (\<lambda>(k, v). wf_val v) m)"
| "wf_val (GAnyMap m) = (distinct (map fst m) \<and> list_all (\<lambda>(k, v). wf_val v) m)"
| "wf_val v = True"

definition wf_map :: "gomap \<Rightarrow> bool" where
  "wf_map m = wf_val (GMap m)"

text \<open>No float inside is not-a-number.\<close>

fun nan_free :: "gval \<Rightarrow> bool" where
  "nan_free (GF64 x) = (x \<noteq> FNaN)"
| "nan_free (GF32 x) = (x \<noteq> FNaN)"
| "nan_free (GList vs) = list_all nan_free vs"
| "nan_free (GMap m) = list_all (\<lambda>(k, v). nan_free v) m"
| "nan_free (GAnyMap m) = list_all (\<lambda>(k, v). nan_free v) m"
| "nan_free v = True"

lemma wf_map_iff: "wf_map m \<longleftrightarrow> distinct (map fst m) \<and> (\<forall>k v. (k, v) \<in> set m \<longrightarrow> wf_val v)"
  by (auto simp: wf_map_def list_all_iff)

lemma gsize_pos [simp]: "0 < gsize v"
  by (cases v) auto

lemma gsize_GMap [simp]: "gsize (GMap m) = Suc (msize m)"
  by (simp add: msize_def)

lemma gsize_GAnyMap [simp]: "gsize (GAnyMap m) = Suc (msize m)"
  by (simp add: msize_def)

declare gsize.simps(3,4) [simp del]

lemma msize_simps [simp]:
  "msize [] = 0"
  "msize ((k, v) # m) = Suc (gsize v) + msize m"
  by (simp_all add: msize_def)

lemma msize_mem: "(k, v) \<in> set m \<Longrightarrow> gsize v < msize m"
  by (induction m) auto

lemma gsize_list_mem: "v \<in> set vs \<Longrightarrow> gsize v < gsize (GList vs)"
  by (induction vs) auto

lemma wf_map_lookup: "wf_map m \<Longrightarrow> map_of m k = Some v \<Longrightarrow> wf_val v"
  by (auto simp: wf_map_iff dest: map_of_SomeD)

section \<open>Type assertions\<close>

text \<open>
  Reading a field of a Go map: \<open>specStr\<close> and \<open>strVal\<close> are the two spellings the program has
  of \<open>m[k].(string)\<close> with the empty string for a missing key or another type.
\<close>

fun asStr :: "gval option \<Rightarrow> string option" where
  "asStr (Some (GStr s)) = Some s"
| "asStr _ = None"

fun asBool :: "gval option \<Rightarrow> bool option" where
  "asBool (Some (GBool b)) = Some b"
| "asBool _ = None"

fun asList :: "gval option \<Rightarrow> gval list option" where
  "asList (Some (GList vs)) = Some vs"
| "asList _ = None"

fun asMap :: "gval option \<Rightarrow> gomap option" where
  "asMap (Some (GMap m)) = Some m"
| "asMap _ = None"

definition strOr :: "gval option \<Rightarrow> string" where
  "strOr v = (case asStr v of Some s \<Rightarrow> s | None \<Rightarrow> [])"

fun isNilVal :: "gval \<Rightarrow> bool" where
  "isNilVal GNil = True"
| "isNilVal _ = False"

lemma asStr_Some [simp]: "asStr v = Some s \<longleftrightarrow> v = Some (GStr s)"
  by (cases v rule: asStr.cases) auto

lemma asMap_Some [simp]: "asMap v = Some m \<longleftrightarrow> v = Some (GMap m)"
  by (cases v rule: asMap.cases) auto

lemma asList_Some [simp]: "asList v = Some m \<longleftrightarrow> v = Some (GList m)"
  by (cases v rule: asList.cases) auto

lemma asBool_Some [simp]: "asBool v = Some b \<longleftrightarrow> v = Some (GBool b)"
  by (cases v rule: asBool.cases) auto

lemma strOr_nonempty: "strOr v = s \<Longrightarrow> s \<noteq> [] \<Longrightarrow> v = Some (GStr s)"
  by (auto simp: strOr_def split: option.splits)

lemma strOr_GStr [simp]: "strOr (Some (GStr s)) = s"
  by (simp add: strOr_def)

end
