(* ===== verification/Keyconv.thy ===== *)
theory Keyconv
  imports GoValue
begin

text \<open>
  \<open>internal/keyconv\<close>: the conversion of map keys between the manifest's camelCase and the
  snake\_case of the GoClaw API. The conversion of one key (\<open>camelToSnake\<close>,
  \<open>snakeToCamel\<close>) and its recursive application to a spec (\<open>transformKeys\<close>), with the fields
  whose value maps are user data (\<open>passthroughKey\<close>). The two directions share one contract,
  the locale \<open>key_roundtrip\<close>.
\<close>

section \<open>One key\<close>

definition passthroughKey :: "string \<Rightarrow> bool" where
  "passthroughKey k \<longleftrightarrow>
     k = ''env'' \<or> k = ''encrypted_env'' \<or> k = ''encryptedEnv'' \<or>
     k = ''headers'' \<or> k = ''defaultEnv'' \<or> k = ''default_env''"

text \<open>The loop of \<open>camelToSnake\<close>: \<open>prev\<close> is \<open>runes[i-1]\<close>, absent at \<open>i = 0\<close>.\<close>

fun camelToSnakeLoop :: "char option \<Rightarrow> string \<Rightarrow> string" where
  "camelToSnakeLoop prev [] = []"
| "camelToSnakeLoop prev (r # rs) =
     (case prev of
        None \<Rightarrow> []
      | Some p \<Rightarrow>
          if isUpper r then
            (if isLower p \<or> isDigit p then ''_''
             else if isUpper p \<and> (case rs of [] \<Rightarrow> False | n # _ \<Rightarrow> isLower n) then ''_''
             else [])
          else [])
     @ [toLowerC r] @ camelToSnakeLoop (Some r) rs"

definition camelToSnake :: "string \<Rightarrow> string" where
  "camelToSnake s = (if s = [] then s else camelToSnakeLoop None s)"

fun capitalize :: "string \<Rightarrow> string" where
  "capitalize [] = []"
| "capitalize (c # cs) = toUpperC c # cs"

definition snakeToCamel :: "string \<Rightarrow> string" where
  "snakeToCamel s =
     (if s = [] \<or> \<not> strContains s ''_'' then s
      else case strSplit ''_'' s of
             [] \<Rightarrow> []
           | p # ps \<Rightarrow> p @ concat (map capitalize ps))"

section \<open>Whole specs\<close>

function transformValue :: "gval \<Rightarrow> (string \<Rightarrow> string) \<Rightarrow> gval"
  and transformLoop :: "gomap \<Rightarrow> (string \<Rightarrow> string) \<Rightarrow> gomap \<Rightarrow> gomap"
where
  "transformValue (GMap m) fn = GMap (transformLoop m fn [])"
| "transformValue (GList vs) fn = GList (map (\<lambda>v. transformValue v fn) vs)"
| "transformValue GNil fn = GNil"
| "transformValue (GBool b) fn = GBool b"
| "transformValue (GInt n) fn = GInt n"
| "transformValue (GInt64 n) fn = GInt64 n"
| "transformValue (GF64 x) fn = GF64 x"
| "transformValue (GF32 x) fn = GF32 x"
| "transformValue (GStr s) fn = GStr s"
| "transformValue (GStrs ss) fn = GStrs ss"
| "transformValue (GAnyMap m) fn = GAnyMap m"
| "transformValue (GOther t x) fn = GOther t x"
| "transformLoop [] fn out = out"
| "transformLoop ((k, v) # m) fn out =
     transformLoop m fn
       (AList.update (fn k)
          (if passthroughKey k \<or> passthroughKey (fn k) then v else transformValue v fn) out)"
  by pat_completeness auto
termination
  by (relation "measure (\<lambda>x. case x of Inl (v, fn) \<Rightarrow> gsize v | Inr (m, fn, out) \<Rightarrow> msize m)")
     (auto dest: gsize_list_mem)

definition transformKeys :: "gomap \<Rightarrow> (string \<Rightarrow> string) \<Rightarrow> gomap" where
  "transformKeys m fn = transformLoop m fn []"

definition CamelToSnake :: "gomap \<Rightarrow> gomap" where
  "CamelToSnake m = transformKeys m camelToSnake"

definition SnakeToCamel :: "gomap \<Rightarrow> gomap" where
  "SnakeToCamel m = transformKeys m snakeToCamel"

section \<open>Key shapes\<close>

text \<open>
  A camelCase key: no underscore, and every capital follows a small letter or a digit (so
  no capital at the start and no acronym).
\<close>

fun camelFrom :: "char option \<Rightarrow> string \<Rightarrow> bool" where
  "camelFrom prev [] = True"
| "camelFrom prev (c # cs) =
     (c \<noteq> CHR ''_'' \<and>
      (if isUpper c then (case prev of None \<Rightarrow> False | Some p \<Rightarrow> isLower p \<or> isDigit p) else True) \<and>
      camelFrom (Some c) cs)"

definition camelKey :: "string \<Rightarrow> bool" where
  "camelKey s = camelFrom None s"

text \<open>
  A snake\_case key: small letters and digits in segments joined by single underscores,
  every segment after the first starting with a letter and, but for the last, at least two
  bytes long.
\<close>

fun snakeFrom :: "bool \<Rightarrow> string \<Rightarrow> bool" where
  "snakeFrom b [] = True"
| "snakeFrom b (c # cs) =
     (if c = CHR ''_'' then
        b \<and> (case cs of [] \<Rightarrow> False | d # ds \<Rightarrow> isLower d \<and> snakeFrom False ds)
      else (isLower c \<or> isDigit c) \<and> snakeFrom True cs)"

definition snakeKey :: "string \<Rightarrow> bool" where
  "snakeKey s = snakeFrom False s"

text \<open>
  A one-pass reading of \<open>snakeToCamel\<close>: drop underscores, capitalise what follows one.
\<close>

fun snakeScan :: "bool \<Rightarrow> string \<Rightarrow> string" where
  "snakeScan up [] = []"
| "snakeScan up (c # cs) =
     (if c = CHR ''_'' then snakeScan True cs
      else (if up then toUpperC c else c) # snakeScan False cs)"

text \<open>
  Every key that a transformation reaches satisfies \<open>P\<close>, and keys are distinct. The value of
  a passthrough field is not entered.
\<close>

fun keysOk :: "(string \<Rightarrow> bool) \<Rightarrow> (string \<Rightarrow> string) \<Rightarrow> gval \<Rightarrow> bool" where
  "keysOk P fn (GMap m) =
     (distinct (map fst m) \<and>
      list_all (\<lambda>(k, v). P k \<and> (if passthroughKey k \<or> passthroughKey (fn k) then True else keysOk P fn v)) m)"
| "keysOk P fn (GList vs) = list_all (keysOk P fn) vs"
| "keysOk P fn v = True"

section \<open>Properties of one key\<close>

lemma underscore_classes [simp]:
  "\<not> isUpper (CHR ''_'')" "\<not> isLower (CHR ''_'')" "\<not> isDigit (CHR ''_'')"
  by (simp_all add: isUpper_def isLower_def isDigit_def)

lemma toLowerC_underscore [simp]: "toLowerC c = CHR ''_'' \<longleftrightarrow> c = CHR ''_''"
  using isLower_toLowerC [of c] by (cases "isUpper c") (auto simp del: isLower_toLowerC)

lemma toUpperC_underscore [simp]: "toUpperC c = CHR ''_'' \<longleftrightarrow> c = CHR ''_''"
  using isUpper_toUpperC [of c] by (cases "isLower c") (auto simp del: isUpper_toUpperC)

lemma strCut_underscore:
  "strCut ''_'' (c # cs) =
     (if c = CHR ''_'' then Some ([], cs) else map_option (\<lambda>(b, a). (c # b, a)) (strCut ''_'' cs))"
  by (simp add: hasPrefix_def)

lemma strSplit_underscore_Nil: "strSplit ''_'' [] = [[]]"
  by (simp add: strSplit.simps)

lemma strSplit_underscore_Cons:
  "strSplit ''_'' (c # cs) =
     (if c = CHR ''_'' then [] # strSplit ''_'' cs
      else (c # hd (strSplit ''_'' cs)) # tl (strSplit ''_'' cs))"
  by (subst strSplit.simps, subst strCut_underscore, subst (3 4) strSplit.simps)
     (auto split: option.split)

lemma split_scan:
  "strSplit ''_'' s = p # ps \<Longrightarrow>
     snakeScan False s = p @ concat (map capitalize ps) \<and>
     snakeScan True s = capitalize p @ concat (map capitalize ps)"
proof (induction s arbitrary: p ps)
  case Nil
  then show ?case by (simp add: strSplit_underscore_Nil)
next
  case (Cons c cs)
  obtain q qs where q: "strSplit ''_'' cs = q # qs"
    by (cases "strSplit ''_'' cs") auto
  from Cons.IH [OF q] Cons.prems show ?case
    by (auto simp: strSplit_underscore_Cons q split: if_splits)
qed

lemma scan_no_underscore: "CHR ''_'' \<notin> set s \<Longrightarrow> snakeScan False s = s"
  by (induction s) auto

lemma strContains_underscore: "strContains s ''_'' \<longleftrightarrow> CHR ''_'' \<in> set s"
  by (auto simp: strContains_iff in_set_conv_decomp)

lemma snakeToCamel_scan: "snakeToCamel s = snakeScan False s"
proof (cases "s = [] \<or> \<not> strContains s ''_''")
  case True
  then show ?thesis
    by (auto simp: snakeToCamel_def strContains_underscore scan_no_underscore)
next
  case False
  obtain p ps where "strSplit ''_'' s = p # ps"
    by (cases "strSplit ''_'' s") auto
  with False split_scan [OF this] show ?thesis by (simp add: snakeToCamel_def)
qed

lemma camelToSnake_loop: "camelToSnake s = camelToSnakeLoop None s"
  by (simp add: camelToSnake_def)

lemma scan_camelToSnakeLoop:
  "camelFrom prev s \<Longrightarrow> snakeScan False (camelToSnakeLoop prev s) = s"
  by (induction prev s rule: camelToSnakeLoop.induct)
     (auto simp: toUpperC_toLowerC split: if_splits option.splits)

lemma snakeToCamel_camelToSnake: "camelKey s \<Longrightarrow> snakeToCamel (camelToSnake s) = s"
  by (simp add: snakeToCamel_scan camelToSnake_loop camelKey_def scan_camelToSnakeLoop)

lemma isUpper_lower_digit: "isLower c \<or> isDigit c \<Longrightarrow> \<not> isUpper c"
  using isUpper_isLower isUpper_isDigit by blast

lemma camelToSnakeLoop_scan:
  "snakeFrom b s \<Longrightarrow> (b \<longrightarrow> (\<exists>p. prev = Some p \<and> (isLower p \<or> isDigit p))) \<Longrightarrow>
     camelToSnakeLoop prev (snakeScan False s) = s"
proof (induction b s arbitrary: prev rule: snakeFrom.induct)
  case (1 b)
  then show ?case by simp
next
  case (2 b c cs)
  show ?case
  proof (cases "c = CHR ''_''")
    case True
    with "2.prems" obtain d ds p where d: "cs = d # ds" "isLower d" "snakeFrom False ds"
      and p: "prev = Some p" "isLower p \<or> isDigit p"
      by (auto split: list.splits)
    have "camelToSnakeLoop (Some (toUpperC d)) (snakeScan False ds) = ds"
      using "2.IH"(1) [OF True d(1)] d(3) by simp
    with True d p show ?thesis
      by (auto simp: toLowerC_toUpperC)
  next
    case False
    with "2.prems" have c: "isLower c \<or> isDigit c" and "snakeFrom True cs" by auto
    then have "camelToSnakeLoop (Some c) (snakeScan False cs) = cs"
      using "2.IH"(2) [OF False] by simp
    with False isUpper_lower_digit [OF c] show ?thesis
      by (auto split: option.split)
  qed
qed

lemma camelToSnake_snakeToCamel: "snakeKey s \<Longrightarrow> camelToSnake (snakeToCamel s) = s"
  by (simp add: snakeToCamel_scan camelToSnake_loop snakeKey_def camelToSnakeLoop_scan)

lemma camelToSnakeLoop_no_upper: "c \<in> set (camelToSnakeLoop prev s) \<Longrightarrow> \<not> isUpper c"
  by (induction prev s rule: camelToSnakeLoop.induct) (auto split: option.splits if_splits)

lemma camelToSnakeLoop_id: "(\<And>c. c \<in> set s \<Longrightarrow> \<not> isUpper c) \<Longrightarrow> camelToSnakeLoop prev s = s"
  by (induction prev s rule: camelToSnakeLoop.induct) (auto split: option.splits)

lemma camelToSnake_idem: "camelToSnake (camelToSnake s) = camelToSnake s"
  by (metis camelToSnake_loop camelToSnakeLoop_id camelToSnakeLoop_no_upper)

section \<open>Transforming a spec\<close>

text \<open>What one entry of a map becomes.\<close>

definition transformEntry :: "(string \<Rightarrow> string) \<Rightarrow> string \<times> gval \<Rightarrow> string \<times> gval" where
  "transformEntry fn e =
     (fn (fst e), if passthroughKey (fst e) \<or> passthroughKey (fn (fst e)) then snd e
                  else transformValue (snd e) fn)"

lemma update_fresh: "k \<notin> fst ` set m \<Longrightarrow> AList.update k v m = m @ [(k, v)]"
  by (induction m) auto

lemma transformLoop_inj:
  assumes "inj_on fn (fst ` set m)" "distinct (map fst m)" "fn ` fst ` set m \<inter> fst ` set out = {}"
  shows "transformLoop m fn out = out @ map (transformEntry fn) m"
  using assms
proof (induction m arbitrary: out)
  case Nil
  then show ?case by simp
next
  case (Cons e m)
  obtain k v where e: "e = (k, v)" by (cases e)
  let ?out = "out @ [transformEntry fn e]"
  from Cons.prems e have "fn k \<notin> fst ` set out" by auto
  then have "transformLoop (e # m) fn out = transformLoop m fn ?out"
    by (simp add: e transformEntry_def update_fresh)
  moreover have "fn k \<notin> fn ` fst ` set m"
    using Cons.prems e by (auto simp: inj_on_def)
  then have "fn ` fst ` set m \<inter> fst ` set ?out = {}"
    using Cons.prems e by (auto simp: transformEntry_def)
  ultimately show ?case using Cons.IH [of ?out] Cons.prems by (auto simp: e)
qed

lemma transformKeys_inj:
  "inj_on fn (fst ` set m) \<Longrightarrow> distinct (map fst m) \<Longrightarrow> transformKeys m fn = map (transformEntry fn) m"
  by (simp add: transformKeys_def transformLoop_inj)

lemma transformValue_GMap: "transformValue (GMap m) fn = GMap (transformKeys m fn)"
  by (simp add: transformKeys_def)

lemma transformLoop_keys:
  "fst ` set (transformLoop m fn out) = fst ` set out \<union> fn ` fst ` set m"
proof (induction m arbitrary: out)
  case (Cons e m)
  then show ?case by (cases e) (auto simp: keys_update)
qed simp

lemma transformKeys_keys: "fst ` set (transformKeys m fn) = fn ` fst ` set m"
  by (simp add: transformKeys_def transformLoop_keys)

lemma transformLoop_distinct:
  "distinct (map fst out) \<Longrightarrow> distinct (map fst (transformLoop m fn out))"
proof (induction m arbitrary: out)
  case (Cons e m)
  then show ?case by (cases e) (simp add: distinct_update)
qed simp

lemma transformKeys_distinct: "distinct (map fst (transformKeys m fn))"
  by (simp add: transformKeys_def transformLoop_distinct)

lemma transformKeys_lookup:
  assumes "inj_on fn (fst ` set m)" "distinct (map fst m)" "map_of m k = Some v"
  shows "map_of (transformKeys m fn) (fn k) = Some (snd (transformEntry fn (k, v)))"
proof -
  from assms(3) have "(k, v) \<in> set m" by (rule map_of_SomeD)
  then have "(fn k, snd (transformEntry fn (k, v))) \<in> set (transformKeys m fn)"
    using assms by (force simp: transformKeys_inj transformEntry_def)
  then show ?thesis by (simp add: transformKeys_distinct map_of_eq_Some_iff)
qed

section \<open>The contract of a pair of conversions\<close>

locale key_roundtrip =
  fixes fn gn :: "string \<Rightarrow> string" and good :: "string \<Rightarrow> bool"
  assumes gn_fn: "good k \<Longrightarrow> gn (fn k) = k"
begin

lemma fn_inj: "(\<And>k. k \<in> A \<Longrightarrow> good k) \<Longrightarrow> inj_on fn A"
  by (rule inj_on_inverseI [where g = gn]) (simp add: gn_fn)

lemma roundtrip_entry:
  assumes "good k"
    and "passthroughKey k \<or> passthroughKey (fn k) \<or> transformValue (transformValue v fn) gn = v"
  shows "transformEntry gn (transformEntry fn (k, v)) = (k, v)"
  using assms by (auto simp: transformEntry_def gn_fn)

lemma roundtrip_value: "keysOk good fn v \<Longrightarrow> transformValue (transformValue v fn) gn = v"
proof (induction v)
  case (GList vs)
  then show ?case by (auto simp: list_all_iff intro: map_idI)
next
  case (GMap m)
  have good: "\<And>k. k \<in> fst ` set m \<Longrightarrow> good k" and dist: "distinct (map fst m)"
    using GMap.prems by (auto simp: list_all_iff)
  have inj: "inj_on fn (fst ` set m)" using good by (rule fn_inj)
  let ?m = "map (transformEntry fn) m"
  have "inj_on gn (fst ` set ?m)"
    using good by (auto simp: inj_on_def transformEntry_def gn_fn)
  moreover have "distinct (map fst ?m)"
    using dist inj by (simp add: transformEntry_def comp_def distinct_map inj_on_def)
  moreover have "map (transformEntry gn) ?m = m"
  proof (simp add: map_idI, rule map_idI)
    fix e assume e: "e \<in> set m"
    obtain k v where kv: "e = (k, v)" by (cases e)
    show "(transformEntry gn \<circ> transformEntry fn) e = e"
      using GMap.IH [of e v] GMap.prems e
      by (auto simp: kv list_all_iff intro!: roundtrip_entry split: if_splits)
  qed
  ultimately show ?case
    using inj dist by (simp add: transformValue_GMap transformKeys_inj del: transformValue.simps)
qed simp_all

lemma roundtrip_map: "keysOk good fn (GMap m) \<Longrightarrow> transformKeys (transformKeys m fn) gn = m"
  using roundtrip_value [of "GMap m"] by (simp add: transformKeys_def)

end

interpretation to_api: key_roundtrip camelToSnake snakeToCamel camelKey
  by unfold_locales (rule snakeToCamel_camelToSnake)

interpretation from_api: key_roundtrip snakeToCamel camelToSnake snakeKey
  by unfold_locales (rule camelToSnake_snakeToCamel)


section \<open>Properties\<close>

text \<open>
  C36: A spec whose field names are camelCase survives the trip to the API and back unchanged,
  at every depth: \<open>SnakeToCamel (CamelToSnake m) = m\<close>.
\<close>

theorem spec_api_roundtrip:
  assumes "keysOk camelKey camelToSnake (GMap m)"
  shows "SnakeToCamel (CamelToSnake m) = m"
  unfolding SnakeToCamel_def CamelToSnake_def using assms by (rule to_api.roundtrip_map)

theorem spec_api_roundtrip_witness:
  "SnakeToCamel (CamelToSnake
     [(''displayName'', GStr ''x''), (''env'', GMap [(''GH_TOKEN'', GStr ''t'')]),
      (''retryConfig'', GList [GMap [(''maxRetries2x'', GInt 3)]])]) =
     [(''displayName'', GStr ''x''), (''env'', GMap [(''GH_TOKEN'', GStr ''t'')]),
      (''retryConfig'', GList [GMap [(''maxRetries2x'', GInt 3)]])]"
  by (rule spec_api_roundtrip) code_simp

text \<open>
  An API response whose keys are snake\_case survives the trip to the manifest's camelCase
  and back unchanged, at every depth.
\<close>

lemma api_spec_roundtrip:
  assumes "keysOk snakeKey snakeToCamel (GMap m)"
  shows "CamelToSnake (SnakeToCamel m) = m"
  unfolding SnakeToCamel_def CamelToSnake_def using assms by (rule from_api.roundtrip_map)

text \<open>
  The value of a passthrough field (environment variables, HTTP headers) is delivered
  verbatim, under the converted field name, in both directions, as long as no two fields of the
  map collide under the conversion.
\<close>

lemma passthrough_verbatim:
  assumes "distinct (map fst m)" "map_of m k = Some v" "passthroughKey k"
  shows "(inj_on camelToSnake (fst ` set m) \<longrightarrow> map_of (CamelToSnake m) (camelToSnake k) = Some v) \<and>
         (inj_on snakeToCamel (fst ` set m) \<longrightarrow> map_of (SnakeToCamel m) (snakeToCamel k) = Some v)"
  using assms
  by (simp add: CamelToSnake_def SnakeToCamel_def transformKeys_lookup transformEntry_def)

end
