(* ===== verification/Compare.thy ===== *)
theory Compare
  imports GoValue
begin

text \<open>
  \<open>internal/reconciler/compare.go\<close>: the comparison of a desired spec with an observed one.
  \<open>normVal\<close> is the specification of value equality (two values are equal when their normal
  forms are), and \<open>conforms\<close> the specification of an empty diff.
\<close>

section \<open>Definitions\<close>

record field_diff =
  Old :: gval
  New :: gval

type_synonym diffs = "(string \<times> field_diff) list"

text \<open>\<open>toMap\<close>: two \<open>map[any]any\<close> keys with one rendering leave the one visited last.\<close>

fun toMapLoop :: "gomap \<Rightarrow> gomap \<Rightarrow> gomap" where
  "toMapLoop [] out = out"
| "toMapLoop ((k, v) # m) out = toMapLoop m (AList.update k v out)"

fun toMap :: "gval \<Rightarrow> gomap option" where
  "toMap (GMap m) = Some m"
| "toMap (GAnyMap m) = Some (toMapLoop m [])"
| "toMap _ = None"

fun toFloat64 :: "gval \<Rightarrow> f64 option" where
  "toFloat64 (GF64 n) = Some n"
| "toFloat64 (GF32 n) = Some n"
| "toFloat64 (GInt n) = Some (f64_of_int n)"
| "toFloat64 (GInt64 n) = Some (f64_of_int n)"
| "toFloat64 _ = None"

fun toSlice :: "gval \<Rightarrow> gval list option" where
  "toSlice (GList s) = Some s"
| "toSlice (GStrs s) = Some (map GStr s)"
| "toSlice _ = None"

text \<open>
  \<open>reflect.DeepEqual\<close> on what reaches it: no number, slice or map against another one, so
  either scalars of one type or values of different types.
\<close>

definition deepEqual :: "gval \<Rightarrow> gval \<Rightarrow> bool" where
  "deepEqual a b \<longleftrightarrow> a = b"

lemma toMapLoop_set: "set (toMapLoop m out) \<subseteq> set m \<union> set out"
proof (induction m out rule: toMapLoop.induct)
  case (2 k v m out)
  have "set (AList.update k v out) \<subseteq> insert (k, v) (set out)"
    by (induction out) auto
  with 2 show ?case by auto
qed simp

lemma toMap_smaller: "toMap a = Some m \<Longrightarrow> (k, v) \<in> set m \<Longrightarrow> gsize v < gsize a"
  by (cases a rule: toMap.cases) (auto dest!: msize_mem toMapLoop_set [THEN subsetD])

lemma toSlice_smaller: "toSlice a = Some s \<Longrightarrow> v \<in> set s \<Longrightarrow> gsize v < gsize a"
proof (cases a rule: toSlice.cases)
  case (2 ss)
  then show "toSlice a = Some s \<Longrightarrow> v \<in> set s \<Longrightarrow> gsize v < gsize a"
    using length_pos_if_in_set by fastforce
qed (auto dest: gsize_list_mem)

function valuesEqual :: "gval \<Rightarrow> gval \<Rightarrow> bool" where
  "valuesEqual a b =
     (case (toFloat64 a, toFloat64 b) of
        (Some aNum, Some bNum) \<Rightarrow> f64_eq aNum bNum
      | _ \<Rightarrow>
     (case (toSlice a, toSlice b) of
        (Some aSlice, Some bSlice) \<Rightarrow>
          (if length aSlice \<noteq> length bSlice then False
           else list_all (\<lambda>(x, y). valuesEqual x y) (zip aSlice bSlice))
      | _ \<Rightarrow>
     (case (toMap a, toMap b) of
        (Some aMap, Some bMap) \<Rightarrow>
          (if length aMap \<noteq> length bMap then False
           else list_all (\<lambda>(k, av). case map_of bMap k of
                                       None \<Rightarrow> False
                                     | Some bv \<Rightarrow> valuesEqual av bv) aMap)
      | _ \<Rightarrow> deepEqual a b)))"
  by pat_completeness auto
termination
  by (relation "measure (\<lambda>(a, b). gsize a)")
     (auto dest: set_zip_leftD toSlice_smaller [OF sym] toMap_smaller [OF sym])

declare valuesEqual.simps [simp del]

definition unorderedStringSetPath :: "string \<Rightarrow> bool" where
  "unorderedStringSetPath path \<longleftrightarrow> path = ''grants.agents'' \<or> path = ''grants.users''"

text \<open>The string set of a slice, as the list of its members; \<open>None\<close> when an element is no string.\<close>

fun toStringSetLoop :: "gval list \<Rightarrow> string list \<Rightarrow> string list option" where
  "toStringSetLoop [] out = Some out"
| "toStringSetLoop (item # items) out =
     (case asStr (Some item) of
        None \<Rightarrow> None
      | Some s \<Rightarrow> toStringSetLoop items (List.insert s out))"

definition toStringSet :: "gval \<Rightarrow> string list option" where
  "toStringSet v = (case toSlice v of None \<Rightarrow> None | Some slice \<Rightarrow> toStringSetLoop slice [])"

definition stringSetEqual :: "gval \<Rightarrow> gval \<Rightarrow> bool" where
  "stringSetEqual a b =
     (case (toStringSet a, toStringSet b) of
        (Some aStrings, Some bStrings) \<Rightarrow>
          (if length aStrings \<noteq> length bStrings then False
           else list_all (\<lambda>s. s \<in> set bStrings) aStrings)
      | _ \<Rightarrow> False)"

definition joinPath :: "string \<Rightarrow> string \<Rightarrow> string" where
  "joinPath prfx key = (if prfx \<noteq> [] then prfx @ ''.'' @ key else key)"

lemma toMapLoop_length: "msize (toMapLoop m out) \<le> msize m + msize out"
proof (induction m out rule: toMapLoop.induct)
  case (2 k v m out)
  have "msize (AList.update k v out) \<le> Suc (gsize v) + msize out"
    by (induction out) auto
  with 2 show ?case by auto
qed simp

lemma toMap_msize: "toMap v = Some m \<Longrightarrow> msize m < gsize v"
  using toMapLoop_length [of _ "[]"] by (cases v rule: toMap.cases) (auto simp: less_Suc_eq_le)

function compareRecursiveExcluding ::
  "string \<Rightarrow> gomap \<Rightarrow> gomap \<Rightarrow> diffs \<Rightarrow> string list \<Rightarrow> diffs"
where
  "compareRecursiveExcluding prfx [] actual ds excludeSet = ds"
| "compareRecursiveExcluding prfx ((key, dVal) # desired) actual ds excludeSet =
     (if prfx = [] \<and> key \<in> set excludeSet
      then compareRecursiveExcluding prfx desired actual ds excludeSet
      else
        let path = joinPath prfx key in
        compareRecursiveExcluding prfx desired actual
          (case map_of actual key of
             None \<Rightarrow> AList.update path \<lparr>Old = GNil, New = dVal\<rparr> ds
           | Some aVal \<Rightarrow>
               (case (toMap dVal, toMap aVal) of
                  (Some dMap, Some aMap) \<Rightarrow>
                    compareRecursiveExcluding path dMap aMap ds excludeSet
                | _ \<Rightarrow>
                    if aVal = GStr ''***'' then ds
                    else if unorderedStringSetPath path then
                      (if \<not> stringSetEqual dVal aVal
                       then AList.update path \<lparr>Old = aVal, New = dVal\<rparr> ds else ds)
                    else if \<not> valuesEqual dVal aVal
                    then AList.update path \<lparr>Old = aVal, New = dVal\<rparr> ds
                    else ds))
          excludeSet)"
  by pat_completeness auto

termination
  by (relation "measure (\<lambda>(prfx, desired, actual, ds, ex). msize desired)")
     (auto dest!: toMap_msize [OF sym])

definition CompareSpecExcluding :: "gomap \<Rightarrow> gomap \<Rightarrow> string list \<Rightarrow> diffs" where
  "CompareSpecExcluding desired actual exclude =
     compareRecursiveExcluding [] desired actual [] exclude"

definition CompareSpec :: "gomap \<Rightarrow> gomap \<Rightarrow> diffs" where
  "CompareSpec desired actual = CompareSpecExcluding desired actual []"


section \<open>Value equality\<close>

text \<open>
  The normal form of a value: every number is the \<open>float64\<close> it converts to, every slice a
  list, every map a map sorted by key.
\<close>

function normVal :: "gval \<Rightarrow> gval" where
  "normVal v =
     (case toFloat64 v of
        Some x \<Rightarrow> GF64 x
      | None \<Rightarrow>
     (case toSlice v of
        Some s \<Rightarrow> GList (map normVal s)
      | None \<Rightarrow>
     (case toMap v of
        Some m \<Rightarrow> GMap (sort_key fst (map (\<lambda>(k, x). (k, normVal x)) m))
      | None \<Rightarrow> v)))"
  by pat_completeness auto
termination
  by (relation "measure gsize") (auto dest: toSlice_smaller toMap_smaller)

declare normVal.simps [simp del]

lemma toMapLoop_distinct: "distinct (map fst out) \<Longrightarrow> distinct (map fst (toMapLoop m out))"
  by (induction m out rule: toMapLoop.induct) (auto simp: distinct_update)

lemma toMap_wf:
  "toMap a = Some m \<Longrightarrow> wf_val a \<Longrightarrow> distinct (map fst m) \<and> (\<forall>(k, v) \<in> set m. wf_val v)"
  using toMapLoop_distinct [of "[]"] toMapLoop_set [of _ "[]"]
  by (cases a rule: toMap.cases) (fastforce simp: list_all_iff)+

lemma toMap_nan_free: "toMap a = Some m \<Longrightarrow> nan_free a \<Longrightarrow> (k, v) \<in> set m \<Longrightarrow> nan_free v"
  using toMapLoop_set [of _ "[]"] by (cases a rule: toMap.cases) (fastforce simp: list_all_iff)+

lemma toSlice_wf: "toSlice a = Some s \<Longrightarrow> wf_val a \<Longrightarrow> v \<in> set s \<Longrightarrow> wf_val v"
  by (cases a rule: toSlice.cases) (auto simp: list_all_iff)

lemma toSlice_nan_free: "toSlice a = Some s \<Longrightarrow> nan_free a \<Longrightarrow> v \<in> set s \<Longrightarrow> nan_free v"
  by (cases a rule: toSlice.cases) (auto simp: list_all_iff)

lemma toFloat64_nan_free: "toFloat64 a = Some x \<Longrightarrow> nan_free a \<Longrightarrow> x \<noteq> FNaN"
  by (cases a rule: toFloat64.cases) auto

text \<open>A value is a number, a slice, a map, or none of them.\<close>

lemma classes_exclusive:
  "toFloat64 a = Some x \<Longrightarrow> toSlice a = None \<and> toMap a = None"
  "toSlice a = Some s \<Longrightarrow> toFloat64 a = None \<and> toMap a = None"
  "toMap a = Some m \<Longrightarrow> toFloat64 a = None \<and> toSlice a = None"
  by (cases a; simp)+

lemma sort_key_fst_eq:
  assumes "distinct (map fst m)" "distinct (map fst n)"
  shows "sort_key fst m = sort_key fst n \<longleftrightarrow> set m = set n"
proof
  assume "sort_key fst m = sort_key fst n"
  then show "set m = set n" by (metis set_sort)
next
  assume s: "set m = set n"
  have d: "distinct (map fst (sort_key fst m))" "distinct (map fst (sort_key fst n))"
    using assms by (auto simp: distinct_map distinct_sort)
  have "inj_on fst (set (sort_key fst m) \<union> set (sort_key fst n))"
    using assms s by (simp add: distinct_map)
  with s d show "sort_key fst m = sort_key fst n"
    by (intro map_sorted_distinct_set_unique [of fst]) auto
qed

lemma distinct_same_keys:
  assumes "distinct (map fst m)" "distinct (map fst n)" "length m = length n"
    and "fst ` set m \<subseteq> fst ` set n"
  shows "fst ` set m = fst ` set n"
proof (rule card_subset_eq)
  show "card (fst ` set m) = card (fst ` set n)"
    using assms by (metis distinct_card length_map set_map)
qed (use assms in auto)

lemma map_values_eq:
  fixes g :: "gval \<Rightarrow> gval"
  assumes "distinct (map fst m)" "distinct (map fst n)"
    and eq: "\<And>k v w. (k, v) \<in> set m \<Longrightarrow> map_of n k = Some w \<Longrightarrow> P v w \<longleftrightarrow> g v = g w"
  shows "(length m = length n \<and> list_all (\<lambda>(k, v). case map_of n k of None \<Rightarrow> False | Some w \<Rightarrow> P v w) m)
    \<longleftrightarrow> set (map (\<lambda>(k, v). (k, g v)) m) = set (map (\<lambda>(k, v). (k, g v)) n)" (is "?l \<longleftrightarrow> ?r")
proof
  assume ?l
  then have len: "length m = length n"
    and all: "\<And>k v. (k, v) \<in> set m \<Longrightarrow> \<exists>w. map_of n k = Some w \<and> g v = g w"
    using eq by (auto simp: list_all_iff split: option.splits)
  from all have sub: "(\<lambda>(k, v). (k, g v)) ` set m \<subseteq> (\<lambda>(k, v). (k, g v)) ` set n"
    by (fastforce dest: map_of_SomeD)
  have "fst ` set m \<subseteq> fst ` set n"
  proof
    fix k assume "k \<in> fst ` set m"
    then obtain v where "(k, v) \<in> set m" by auto
    then obtain w where "map_of n k = Some w" using all by blast
    then show "k \<in> fst ` set n" by (metis domI dom_map_of_conv_image_fst)
  qed
  then have "fst ` set m = fst ` set n" by (rule distinct_same_keys [OF assms(1,2) len])
  then have "(\<lambda>(k, v). (k, g v)) ` set n \<subseteq> (\<lambda>(k, v). (k, g v)) ` set m"
  proof (intro subsetI, elim imageE)
    fix p e assume keys: "fst ` set m = fst ` set n" and p: "p = (\<lambda>(k, v). (k, g v)) e" and e: "e \<in> set n"
    obtain k w where kw: "e = (k, w)" by (cases e)
    with e have "k \<in> fst ` set n" by force
    with keys have "k \<in> fst ` set m" by simp
    then obtain v where v: "(k, v) \<in> set m" by auto
    with all obtain w' where "map_of n k = Some w'" "g v = g w'" by blast
    with e kw assms(2) have "g v = g w" by simp
    with v p kw show "p \<in> (\<lambda>(k, v). (k, g v)) ` set m" by force
  qed
  with sub show ?r by simp
next
  assume r: ?r
  have "map fst (map (\<lambda>(k, v). (k, g v)) m) = map fst m"
       "map fst (map (\<lambda>(k, v). (k, g v)) n) = map fst n" by auto
  then have "distinct (map (\<lambda>(k, v). (k, g v)) m)" "distinct (map (\<lambda>(k, v). (k, g v)) n)"
    using assms(1,2) by (metis distinct_map)+
  with r have "length m = length n" by (metis distinct_card length_map)
  moreover have "\<exists>w. map_of n k = Some w \<and> P v w" if kv: "(k, v) \<in> set m" for k v
  proof -
    from r kv have "(k, g v) \<in> set (map (\<lambda>(k, v). (k, g v)) n)" by (metis (mono_tags, lifting) case_prod_conv image_eqI image_set)
    then obtain w where "(k, w) \<in> set n" "g v = g w" by auto
    then show ?thesis using eq [OF kv] assms(2) by auto
  qed
  ultimately show ?l by (fastforce simp: list_all_iff)
qed

lemma valuesEqual_iff_normVal:
  "wf_val a \<Longrightarrow> wf_val b \<Longrightarrow> nan_free a \<Longrightarrow> nan_free b \<Longrightarrow>
     valuesEqual a b \<longleftrightarrow> normVal a = normVal b"
proof (induction "gsize a" arbitrary: a b rule: less_induct)
  case less
  note wf = less.prems(1,2) and nan = less.prems(3,4)
  consider (slice) s t where "toSlice a = Some s" "toSlice b = Some t"
    | (maps) m n where "toMap a = Some m" "toMap b = Some n"
    | (other) "\<nexists>s t. toSlice a = Some s \<and> toSlice b = Some t"
              "\<nexists>m n. toMap a = Some m \<and> toMap b = Some n" by blast
  then show ?case
  proof cases
    case slice
    note none = classes_exclusive(2) [OF slice(1)] classes_exclusive(2) [OF slice(2)]
    have "valuesEqual x y \<longleftrightarrow> normVal x = normVal y" if "(x, y) \<in> set (zip s t)" for x y
      using set_zip_leftD [OF that] set_zip_rightD [OF that] slice wf nan
      by (intro less.hyps) (auto dest: toSlice_smaller toSlice_wf toSlice_nan_free)
    then have "valuesEqual a b \<longleftrightarrow> map normVal s = map normVal t"
      by (subst valuesEqual.simps)
         (auto simp: slice none list_all_iff list_eq_iff_zip_eq zip_map1 zip_map2)
    then show ?thesis by (simp add: normVal.simps [of a] normVal.simps [of b] slice none)
  next
    case maps
    note none = classes_exclusive(3) [OF maps(1)] classes_exclusive(3) [OF maps(2)]
    have d: "distinct (map fst m)" "distinct (map fst n)" using maps wf toMap_wf by blast+
    have ih: "valuesEqual v w \<longleftrightarrow> normVal v = normVal w"
      if kv: "(k, v) \<in> set m" and kw: "map_of n k = Some w" for k v w
      using toMap_wf [OF maps(1)] toMap_wf [OF maps(2)] maps wf nan kv map_of_SomeD [OF kw]
      by (intro less.hyps) (auto dest: toMap_smaller toMap_nan_free)
    have "valuesEqual a b \<longleftrightarrow>
      set (map (\<lambda>(k, x). (k, normVal x)) m) = set (map (\<lambda>(k, x). (k, normVal x)) n)"
      by (subst map_values_eq [OF d ih, symmetric])
         (auto simp: valuesEqual.simps [of a b] maps none)
    also have "\<dots> \<longleftrightarrow> sort_key fst (map (\<lambda>(k, x). (k, normVal x)) m) =
      sort_key fst (map (\<lambda>(k, x). (k, normVal x)) n)"
      using d by (subst sort_key_fst_eq) (auto simp: comp_def case_prod_beta)
    finally show ?thesis by (simp add: normVal.simps [of a] normVal.simps [of b] maps none)
  next
    case other
    then show ?thesis using nan
      by (subst valuesEqual.simps, cases a; cases b)
         (auto simp: normVal.simps f64_eq_iff deepEqual_def)
  qed
qed


section \<open>Empty diffs\<close>

text \<open>
  When an observed value counts as equal to the desired one at a path: maps field by field
  (extra observed fields do not matter), a masked secret always, the grant lists as sets of
  strings, everything else by value.
\<close>

inductive conforms :: "string list \<Rightarrow> string \<Rightarrow> gomap \<Rightarrow> gomap \<Rightarrow> bool"
  and fieldOk :: "string list \<Rightarrow> string \<Rightarrow> gval \<Rightarrow> gval \<Rightarrow> bool"
  for ex :: "string list"
where
  fields: "(\<And>k d. (k, d) \<in> set desired \<Longrightarrow> \<not> (prfx = [] \<and> k \<in> set ex) \<Longrightarrow>
      \<exists>a. map_of actual k = Some a \<and> fieldOk ex (joinPath prfx k) d a) \<Longrightarrow>
    conforms ex prfx desired actual"
| submap: "toMap d = Some dm \<Longrightarrow> toMap a = Some am \<Longrightarrow> conforms ex path dm am \<Longrightarrow> fieldOk ex path d a"
| masked: "fieldOk ex path d (GStr ''***'')"
| as_set: "unorderedStringSetPath path \<Longrightarrow> toMap d = None \<or> toMap a = None \<Longrightarrow>
    stringSetEqual d a \<Longrightarrow> fieldOk ex path d a"
| by_value: "\<not> unorderedStringSetPath path \<Longrightarrow> toMap d = None \<or> toMap a = None \<Longrightarrow>
    valuesEqual d a \<Longrightarrow> fieldOk ex path d a"

inductive_simps conforms_iff: "conforms ex prfx desired actual"
inductive_simps fieldOk_iff: "fieldOk ex path d a"

lemma update_nonempty [simp]: "AList.update k v m \<noteq> []"
  by (induction m) auto

lemma conforms_Nil [simp]: "conforms ex prfx [] actual"
  by (simp add: conforms_iff)

lemma conforms_Cons:
  "conforms ex prfx ((k, d) # ds) actual \<longleftrightarrow>
     ((prfx = [] \<and> k \<in> set ex) \<or> (\<exists>a. map_of actual k = Some a \<and> fieldOk ex (joinPath prfx k) d a))
     \<and> conforms ex prfx ds actual"
  unfolding conforms_iff [of ex prfx] by auto

lemma compare_empty_iff:
  "compareRecursiveExcluding prfx desired actual ds ex = [] \<longleftrightarrow>
     ds = [] \<and> conforms ex prfx desired actual"
proof (induction prfx desired actual ds ex rule: compareRecursiveExcluding.induct)
  case (1 prfx actual ds ex)
  then show ?case by simp
next
  case (2 prfx key dVal desired actual ds ex)
  show ?case
  proof (cases "prfx = [] \<and> key \<in> set ex")
    case True
    with "2.IH"(1) show ?thesis by (simp add: conforms_Cons)
  next
    case False
    note outer = "2.IH"(3) [OF False refl]
      and inner = "2.IH"(2) [OF False refl]
    show ?thesis
    proof (cases "map_of actual key")
      case None
      with False outer show ?thesis by (auto simp: conforms_Cons Let_def)
    next
      case (Some aVal)
      show ?thesis
      proof (cases "\<exists>dm am. toMap dVal = Some dm \<and> toMap aVal = Some am")
        case True
        then obtain dm am where m: "toMap dVal = Some dm" "toMap aVal = Some am" by blast
        with Some inner have
          "compareRecursiveExcluding (joinPath prfx key) dm am ds ex = [] \<longleftrightarrow>
             ds = [] \<and> conforms ex (joinPath prfx key) dm am"
          by simp
        moreover have "fieldOk ex (joinPath prfx key) dVal aVal \<longleftrightarrow> conforms ex (joinPath prfx key) dm am"
          using m by (subst fieldOk_iff) auto
        ultimately show ?thesis
          using False outer Some m by (auto simp: conforms_Cons Let_def)
      next
        case nomaps: False
        then have "fieldOk ex (joinPath prfx key) dVal aVal \<longleftrightarrow>
            aVal = GStr ''***'' \<or>
            (if unorderedStringSetPath (joinPath prfx key) then stringSetEqual dVal aVal
             else valuesEqual dVal aVal)"
          by (subst fieldOk_iff) auto
        with False outer Some nomaps show ?thesis
          by (auto simp: conforms_Cons Let_def split: option.splits)
      qed
    qed
  qed
qed


lemma CompareSpecExcluding_empty:
  "CompareSpecExcluding d a ex = [] \<longleftrightarrow> conforms ex [] d a"
  by (simp add: CompareSpecExcluding_def compare_empty_iff)

section \<open>String sets\<close>

lemma toStringSetLoop_Some:
  "toStringSetLoop vs out = Some xs \<Longrightarrow>
     \<exists>ss. vs = map GStr ss \<and> set xs = set ss \<union> set out \<and> (distinct out \<longrightarrow> distinct xs)"
proof (induction vs out rule: toStringSetLoop.induct)
  case (2 item items out)
  then obtain s where item: "item = GStr s" and "toStringSetLoop items (List.insert s out) = Some xs"
    by (auto split: option.splits)
  with "2.IH" [of s] obtain ss where
    "items = map GStr ss" "set xs = set ss \<union> insert s (set out)" "distinct out \<longrightarrow> distinct xs" by auto
  then have "item # items = map GStr (s # ss) \<and> set xs = set (s # ss) \<union> set out \<and> (distinct out \<longrightarrow> distinct xs)"
    using item by simp
  then show ?case by (rule exI)
qed simp

lemma toStringSetLoop_strs: "toStringSetLoop (map GStr ss) out = Some (fold List.insert ss out)"
  by (induction ss arbitrary: out) auto

lemma set_fold_insert: "set (fold List.insert ss out) = set ss \<union> set out"
  by (induction ss arbitrary: out) auto

lemma toStringSet_Some:
  "toStringSet v = Some xs \<Longrightarrow> \<exists>ss. toSlice v = Some (map GStr ss) \<and> set xs = set ss \<and> distinct xs"
  by (auto simp: toStringSet_def split: option.splits dest!: toStringSetLoop_Some)

lemma toStringSet_strs: "toSlice v = Some (map GStr ss) \<Longrightarrow> \<exists>xs. toStringSet v = Some xs \<and> set xs = set ss"
  by (simp add: toStringSet_def toStringSetLoop_strs set_fold_insert)

lemma stringSetEqual_iff:
  "stringSetEqual a b \<longleftrightarrow>
     (\<exists>ss ts. toSlice a = Some (map GStr ss) \<and> toSlice b = Some (map GStr ts) \<and> set ss = set ts)"
proof
  assume "stringSetEqual a b"
  then obtain xs ys where xy: "toStringSet a = Some xs" "toStringSet b = Some ys"
    "length xs = length ys" "set xs \<subseteq> set ys"
    by (auto simp: stringSetEqual_def list_all_iff split: option.splits if_splits)
  then have "distinct xs" "distinct ys" using toStringSet_Some by blast+
  with xy have "set xs = set ys"
    by (metis card_subset_eq distinct_card finite_set)
  with xy show "\<exists>ss ts. toSlice a = Some (map GStr ss) \<and> toSlice b = Some (map GStr ts) \<and> set ss = set ts"
    using toStringSet_Some by metis
next
  assume "\<exists>ss ts. toSlice a = Some (map GStr ss) \<and> toSlice b = Some (map GStr ts) \<and> set ss = set ts"
  then obtain xs ys where xy: "toStringSet a = Some xs" "toStringSet b = Some ys" "set xs = set ys"
    using toStringSet_strs by metis
  moreover from this have "distinct xs" "distinct ys" using toStringSet_Some by blast+
  then have "length xs = length ys" using xy by (metis distinct_card)
  ultimately show "stringSetEqual a b" by (simp add: stringSetEqual_def list_all_iff)
qed

section \<open>An echoed spec\<close>

text \<open>The grant lists of a value, wherever a path leads to one, hold strings only.\<close>

function setFieldsOk :: "string \<Rightarrow> gval \<Rightarrow> bool" where
  "setFieldsOk path v =
     (case toMap v of
        Some m \<Rightarrow> list_all (\<lambda>(k, x). setFieldsOk (joinPath path k) x) m
      | None \<Rightarrow> unorderedStringSetPath path \<longrightarrow> toStringSet v \<noteq> None)"
  by pat_completeness auto
termination
  by (relation "measure (\<lambda>(path, v). gsize v)") (auto dest: toMap_smaller)

declare setFieldsOk.simps [simp del]

lemma fieldOk_self:
  "wf_val v \<Longrightarrow> nan_free v \<Longrightarrow> setFieldsOk path v \<Longrightarrow> fieldOk ex path v v"
proof (induction "gsize v" arbitrary: path v rule: less_induct)
  case less
  show ?case
  proof (cases "toMap v")
    case (Some m)
    note d = toMap_wf [OF Some less.prems(1)]
    have "fieldOk ex (joinPath path k) x x" if "(k, x) \<in> set m" for k x
      using that d Some less.prems toMap_smaller [OF Some that] toMap_nan_free [OF Some]
      by (intro less.hyps) (auto simp: setFieldsOk.simps [of path v] list_all_iff)
    with d have "conforms ex path m m" by (auto intro!: fields)
    with Some show ?thesis by (blast intro: submap)
  next
    case None
    have "valuesEqual v v" using less.prems by (simp add: valuesEqual_iff_normVal)
    moreover have "unorderedStringSetPath path \<Longrightarrow> stringSetEqual v v"
      using None less.prems(3) by (auto simp: setFieldsOk.simps [of path v] stringSetEqual_def list_all_iff)
    ultimately show ?thesis using None by (auto intro: as_set by_value)
  qed
qed


section \<open>Properties\<close>

text \<open>
  C32: On well-formed values without not-a-number, \<open>valuesEqual\<close> is equality of normal forms:
  numbers by their \<open>float64\<close>, slices of either type element by element, maps of either type
  regardless of order. It is therefore an equivalence relation.
\<close>

theorem valuesEqual_normal_forms:
  assumes "wf_val a" "wf_val b" "nan_free a" "nan_free b"
  shows "valuesEqual a b \<longleftrightarrow> normVal a = normVal b"
  using assms by (rule valuesEqual_iff_normVal)

theorem valuesEqual_normal_forms_witness:
  "valuesEqual
     (GMap [(''n'', GInt 3), (''tags'', GStrs [''a'', ''b''])])
     (GMap [(''tags'', GList [GStr ''a'', GStr ''b'']), (''n'', GF64 (FFin 3))])"
proof -
  let ?a = "GMap [(''n'', GInt 3), (''tags'', GStrs [''a'', ''b''])]"
    and ?b = "GMap [(''tags'', GList [GStr ''a'', GStr ''b'']), (''n'', GF64 (FFin 3))]"
  have "normVal ?a = normVal ?b" by code_simp
  then show ?thesis using valuesEqual_normal_forms [of ?a ?b] by simp
qed

text \<open>
  C31: \<open>CompareSpecExcluding\<close> reports no difference exactly when the observed spec conforms to
  the desired one: every desired field that is not excluded is present and equal, with maps
  compared field by field, masked secrets skipped and grant lists compared as sets.
\<close>

theorem no_diff_iff_conforms:
  "CompareSpecExcluding desired actual exclude = [] \<longleftrightarrow> conforms exclude [] desired actual"
  unfolding CompareSpecExcluding_def using compare_empty_iff [of "[]" desired actual "[]" exclude] by simp

text \<open>
  No perpetual drift: if the API echoes every desired field that is not write-only, then the
  comparison is empty, whatever other fields the API returns.
\<close>

lemma echoed_spec_has_no_diff:
  assumes "\<And>k v. (k, v) \<in> set desired \<Longrightarrow> k \<notin> set exclude \<Longrightarrow>
    map_of actual k = Some v \<and> wf_val v \<and> nan_free v \<and> setFieldsOk k v"
  shows "CompareSpecExcluding desired actual exclude = []"
  unfolding CompareSpecExcluding_empty
  using assms by (intro fields) (auto simp: joinPath_def intro: fieldOk_self)

text \<open>
  C34: An integer of the manifest and a number of the API compare exactly as long as both stay
  below \<open>2^53\<close> in magnitude; from there on the comparison goes through \<open>float64\<close> and two
  different integers can pass as equal.
\<close>

theorem integer_comparison_window:
  "(\<forall>x y. \<bar>x\<bar> < 2 ^ 53 \<and> \<bar>y\<bar> < 2 ^ 53 \<longrightarrow>
      (valuesEqual (GInt x) (GF64 (f64_of_int y)) \<longleftrightarrow> x = y)) \<and>
   valuesEqual (GInt (2 ^ 53)) (GInt (2 ^ 53 + 1))"
proof (intro conjI allI impI)
  fix x y :: int
  assume xy: "\<bar>x\<bar> < 2 ^ 53 \<and> \<bar>y\<bar> < 2 ^ 53"
  have "valuesEqual (GInt x) (GF64 (f64_of_int y)) \<longleftrightarrow> f64_of_int x = f64_of_int y"
    by (subst valuesEqual.simps) (simp add: f64_eq_iff)
  also have "\<dots> \<longleftrightarrow> x = y"
    by (simp only: f64_of_int_exact [OF conjunct1 [OF xy]] f64_of_int_exact [OF conjunct2 [OF xy]]
        f64.inject of_int_eq_iff)
  finally show "valuesEqual (GInt x) (GF64 (f64_of_int y)) \<longleftrightarrow> x = y" .
next
  have "nat \<bar>2 ^ 53\<bar> = 2 ^ 53" "nat \<bar>2 ^ 53 + 1\<bar> = 2 ^ 53 + 1" by simp_all
  then have "f64_of_int (2 ^ 53) = f64_of_int (2 ^ 53 + 1)"
    unfolding f64_of_int_def using round53_tie by simp
  then show "valuesEqual (GInt (2 ^ 53)) (GInt (2 ^ 53 + 1))"
    by (subst valuesEqual.simps) (simp add: f64_eq_iff)
qed

theorem integer_comparison_window_witness:
  "\<not> valuesEqual (GInt 9007199254740991) (GF64 (f64_of_int 9007199254740990))"
  using integer_comparison_window by simp

end
