(* ===== verification/Manifest.thy ===== *)
theory Manifest
  imports GoValue
begin

text \<open>
  \<open>internal/manifest\<close>, the data model and the static tables: \<open>types.go\<close>, \<open>annotations.go\<close>,
  \<open>delete_order.go\<close>, \<open>field_config.go\<close> and \<open>filter.go\<close>. A resource kind is a Go string type, so
  it is a string here, and a spec that YAML left out is the nil map, \<open>None\<close>. The locale
  \<open>dependency_order\<close> is what the engine relies on: an order in which everything a kind
  depends on comes earlier.
\<close>

section \<open>Types\<close>

type_synonym resource_kind = string
type_synonym strmap = "(string \<times> string) list"

record metadata =
  metaName :: string
  Environment :: string

record connection =
  Endpoint :: string
  Token :: string
  TenantID :: string
  UserID :: string

record resource =
  resKind :: resource_kind
  resName :: string
  Labels :: strmap
  Annotations :: strmap
  Spec :: "gomap option"

record manifest =
  APIVersion :: string
  manKind :: string
  Metadata :: metadata
  Connection :: connection
  Resources :: "resource list"

abbreviation KindTenant :: resource_kind where "KindTenant \<equiv> ''Tenant''"
abbreviation KindProvider :: resource_kind where "KindProvider \<equiv> ''Provider''"
abbreviation KindAgent :: resource_kind where "KindAgent \<equiv> ''Agent''"
abbreviation KindChannel :: resource_kind where "KindChannel \<equiv> ''Channel''"
abbreviation KindCronJob :: resource_kind where "KindCronJob \<equiv> ''CronJob''"
abbreviation KindMCPServer :: resource_kind where "KindMCPServer \<equiv> ''MCPServer''"
abbreviation KindSkill :: resource_kind where "KindSkill \<equiv> ''Skill''"
abbreviation KindAgentTeam :: resource_kind where "KindAgentTeam \<equiv> ''AgentTeam''"
abbreviation KindBuiltinToolConfig :: resource_kind where "KindBuiltinToolConfig \<equiv> ''BuiltinToolConfig''"
abbreviation KindSkillConfig :: resource_kind where "KindSkillConfig \<equiv> ''SkillConfig''"
abbreviation KindMCPCredentials :: resource_kind where "KindMCPCredentials \<equiv> ''MCPCredentials''"
abbreviation KindSystemConfig :: resource_kind where "KindSystemConfig \<equiv> ''SystemConfig''"
abbreviation KindSecureCLI :: resource_kind where "KindSecureCLI \<equiv> ''SecureCLI''"
abbreviation KindSecureCLIGrant :: resource_kind where "KindSecureCLIGrant \<equiv> ''SecureCLIGrant''"
abbreviation KindAgentLink :: resource_kind where "KindAgentLink \<equiv> ''AgentLink''"
abbreviation KindWorkstation :: resource_kind where "KindWorkstation \<equiv> ''Workstation''"

text \<open>Reading a nil map is reading an empty one.\<close>

definition specMap :: "resource \<Rightarrow> gomap" where
  "specMap r = (case Spec r of None \<Rightarrow> [] | Some m \<Rightarrow> m)"

text \<open>Indexing a \<open>map[string]string\<close>: the empty string for a missing key.\<close>

definition strAt :: "strmap \<Rightarrow> string \<Rightarrow> string" where
  "strAt m k = (case map_of m k of None \<Rightarrow> [] | Some v \<Rightarrow> v)"

text \<open>What identifies a resource.\<close>

definition ident :: "resource \<Rightarrow> resource_kind \<times> string" where
  "ident r = (resKind r, resName r)"

section \<open>Orders\<close>

definition ApplyOrder :: "resource_kind list" where
  "ApplyOrder =
     [KindTenant, KindProvider, KindAgent, KindSkill, KindBuiltinToolConfig, KindSkillConfig,
      KindSystemConfig, KindMCPServer, KindMCPCredentials, KindChannel, KindCronJob,
      KindSecureCLI, KindSecureCLIGrant, KindAgentTeam, KindAgentLink, KindWorkstation]"

text \<open>\<open>reversed[len(order)-1-i] = k\<close> for each \<open>i\<close>, starting from empty strings.\<close>

fun reverseInto :: "nat \<Rightarrow> nat \<Rightarrow> 'a list \<Rightarrow> 'a list \<Rightarrow> 'a list" where
  "reverseInto n i [] out = out"
| "reverseInto n i (k # ks) out = reverseInto n (Suc i) ks (out[n - 1 - i := k])"

definition DeleteOrder :: "resource_kind list" where
  "DeleteOrder =
     (let order = ApplyOrder
      in reverseInto (length order) 0 order (replicate (length order) []))"

section \<open>Field configuration\<close>

definition writeOnlyTable :: "(resource_kind \<times> string list) list" where
  "writeOnlyTable =
     [(KindTenant, []),
      (KindProvider, [''apiKey'']),
      (KindAgent,
        [''contextFiles'', ''systemPrompt'', ''toolsConfig'', ''sandboxConfig'', ''subagentsConfig'',
         ''memoryConfig'', ''compactionConfig'', ''contextPruning'', ''otherConfig'',
         ''reasoningConfig'', ''workspaceSharing'', ''chatgptOauthRouting'', ''shellDenyGroups'',
         ''kgDedupConfig'']),
      (KindChannel, [''agentKey'', ''credentials'', ''config'']),
      (KindMCPServer, [''grants'', ''headers'']),
      (KindCronJob, [''agentKey'', ''message'']),
      (KindAgentTeam, [''lead'', ''members'', ''displayName'']),
      (KindSkill, [''sourceDir'', ''version'']),
      (KindBuiltinToolConfig, []),
      (KindSkillConfig, []),
      (KindSystemConfig, []),
      (KindMCPCredentials, [''credentials'']),
      (KindSecureCLI, [''env'']),
      (KindSecureCLIGrant, [''agentKey'', ''binaryName'']),
      (KindAgentLink, [''sourceAgent'', ''targetAgent'', ''settings'']),
      (KindWorkstation,
        [''privateKey'', ''knownHostsFingerprint'', ''host'', ''port'', ''user'', ''connectTimeoutSec'',
         ''allowlist'', ''agents''])]"

definition WriteOnlyFields :: "resource_kind \<Rightarrow> string list" where
  "WriteOnlyFields kind = (case map_of writeOnlyTable kind of None \<Rightarrow> [] | Some fs \<Rightarrow> fs)"

definition SupportsWriteOnlyHash :: "resource_kind \<Rightarrow> bool" where
  "SupportsWriteOnlyHash kind \<longleftrightarrow> kind = KindCronJob \<or> kind = KindProvider \<or> kind = KindAgent"

section \<open>Annotations\<close>

abbreviation AnnotationIgnoreWriteOnly :: string where
  "AnnotationIgnoreWriteOnly \<equiv> ''gcplane.io/ignore-write-only''"
abbreviation AnnotationIgnoreFields :: string where
  "AnnotationIgnoreFields \<equiv> ''gcplane.io/ignore-fields''"
abbreviation AnnotationSyncPolicy :: string where
  "AnnotationSyncPolicy \<equiv> ''gcplane.io/sync-policy''"
abbreviation SyncPolicyIgnore :: string where
  "SyncPolicyIgnore \<equiv> ''Ignore''"

definition ParseIgnoreFields :: "strmap \<Rightarrow> string list" where
  "ParseIgnoreFields annotations =
     (case map_of annotations AnnotationIgnoreFields of
        None \<Rightarrow> []
      | Some val \<Rightarrow>
          if val = [] then []
          else filter (\<lambda>f. f \<noteq> []) (map trimSpace (strSplit '','' val)))"

section \<open>Label filters\<close>

definition matchesLabels :: "strmap \<Rightarrow> strmap \<Rightarrow> bool" where
  "matchesLabels labels selector = list_all (\<lambda>(k, v). strAt labels k = v) selector"

definition FilterByLabels :: "resource list \<Rightarrow> strmap \<Rightarrow> resource list" where
  "FilterByLabels resources selector =
     (if length selector = 0 then resources
      else filter (\<lambda>r. matchesLabels (Labels r) selector) resources)"

fun parseSelectorLoop :: "string list \<Rightarrow> strmap \<Rightarrow> strmap" where
  "parseSelectorLoop [] result = result"
| "parseSelectorLoop (pair # pairs) result =
     parseSelectorLoop pairs
       (case strCut ''='' pair of
          None \<Rightarrow> result
        | Some (k, v) \<Rightarrow> AList.update (trimSpace k) (trimSpace v) result)"

definition ParseLabelSelector :: "string \<Rightarrow> strmap" where
  "ParseLabelSelector s =
     (if s = [] then [] else parseSelectorLoop (strSplit '','' s) [])"

section \<open>Dependency orders\<close>

text \<open>\<open>x\<close> comes before \<open>y\<close> in a list.\<close>

definition before :: "'a list \<Rightarrow> 'a \<Rightarrow> 'a \<Rightarrow> bool" where
  "before xs x y \<longleftrightarrow> x \<in> set xs \<and> y \<in> set (tl (dropWhile (\<lambda>z. z \<noteq> x) xs))"

lemma before_iff: "before xs x y \<longleftrightarrow> (\<exists>us vs ws. xs = us @ x # vs @ y # ws)"
proof
  assume b: "before xs x y"
  then have x: "x \<in> set xs" by (simp add: before_def)
  let ?us = "takeWhile (\<lambda>z. z \<noteq> x) xs" and ?ds = "dropWhile (\<lambda>z. z \<noteq> x) xs"
  from x have ne: "?ds \<noteq> []" by (auto simp: dropWhile_eq_Nil_conv)
  then have "hd ?ds = x" using hd_dropWhile by blast
  with ne have "xs = ?us @ x # tl ?ds"
    by (metis list.collapse takeWhile_dropWhile_id)
  moreover from b obtain vs ws where "tl ?ds = vs @ y # ws"
    by (auto simp: before_def in_set_conv_decomp)
  ultimately show "\<exists>us vs ws. xs = us @ x # vs @ y # ws" by metis
next
  assume "\<exists>us vs ws. xs = us @ x # vs @ y # ws"
  then obtain us vs ws where xs: "xs = us @ x # vs @ y # ws" by blast
  have "y \<in> set (tl (dropWhile (\<lambda>z. z \<noteq> x) (us @ x # vs @ y # ws)))"
    by (induction us) auto
  with xs show "before xs x y" by (simp add: before_def)
qed

lemma before_rev: "before xs x y \<Longrightarrow> before (rev xs) y x"
proof -
  assume "before xs x y"
  then obtain us vs ws where "xs = us @ x # vs @ y # ws" by (auto simp: before_iff)
  then have "rev xs = rev ws @ y # rev vs @ x # rev us" by simp
  then show ?thesis unfolding before_iff by blast
qed

lemma before_concat:
  assumes "before ks a b" "x \<in> set (f a)" "y \<in> set (f b)"
  shows "before (concat (map f ks)) x y"
proof -
  from assms(1) obtain us vs ws where ks: "ks = us @ a # vs @ b # ws" by (auto simp: before_iff)
  from assms(2,3) obtain p q r s where "f a = p @ x # q" "f b = r @ y # s"
    by (metis split_list)
  then have "concat (map f ks) =
      (concat (map f us) @ p) @ x # (q @ concat (map f vs) @ r) @ y # (s @ concat (map f ws))"
    by (simp add: ks)
  then show ?thesis unfolding before_iff by blast
qed

lemma before_append: "before xs x y \<Longrightarrow> before (xs @ zs) x y"
  unfolding before_iff by (metis append.assoc append_Cons)

lemma before_map: "before xs x y \<Longrightarrow> before (map f xs) (f x) (f y)"
  unfolding before_iff by (metis list.simps(9) map_append)

locale dependency_order =
  fixes order :: "'k list" and dep :: "'k \<Rightarrow> 'k \<Rightarrow> bool"
  assumes order_distinct: "distinct order"
    and dep_before: "dep a b \<Longrightarrow> before order b a"
begin

lemma dep_irrefl: "\<not> dep a a"
proof
  assume d: "dep a a"
  obtain us vs ws where "order = us @ a # vs @ a # ws"
    using dep_before [OF d] by (auto simp: before_iff)
  with order_distinct show False by simp
qed

lemma teardown: "dep a b \<Longrightarrow> before (rev order) a b"
  by (rule before_rev) (rule dep_before)

lemma dep_members: "dep a b \<Longrightarrow> a \<in> set order \<and> b \<in> set order"
  using dep_before unfolding before_iff by fastforce

end

text \<open>
  The dependencies between kinds that the comments of \<open>ApplyOrder\<close> and the reference checks
  of \<open>validate_refs.go\<close> name: every kind on the tenant, and each reference on its target kind.
\<close>

definition kindDep :: "resource_kind \<Rightarrow> resource_kind \<Rightarrow> bool" where
  "kindDep a b \<longleftrightarrow>
     (a, b) \<in> set
       ([(KindAgent, KindProvider), (KindSkill, KindAgent), (KindMCPServer, KindAgent),
         (KindMCPCredentials, KindMCPServer), (KindChannel, KindAgent), (KindCronJob, KindAgent),
         (KindSecureCLIGrant, KindSecureCLI), (KindSecureCLIGrant, KindAgent),
         (KindAgentTeam, KindAgent), (KindAgentLink, KindAgent), (KindWorkstation, KindAgent)]
        @ map (\<lambda>k. (k, KindTenant)) (tl ApplyOrder))"

lemma ApplyOrder_distinct: "distinct ApplyOrder"
  by (simp add: ApplyOrder_def)

lemma kindDep_before: "kindDep a b \<Longrightarrow> before ApplyOrder b a"
proof -
  have "list_all (\<lambda>(a, b). before ApplyOrder b a)
    ([(KindAgent, KindProvider), (KindSkill, KindAgent), (KindMCPServer, KindAgent),
         (KindMCPCredentials, KindMCPServer), (KindChannel, KindAgent), (KindCronJob, KindAgent),
         (KindSecureCLIGrant, KindSecureCLI), (KindSecureCLIGrant, KindAgent),
         (KindAgentTeam, KindAgent), (KindAgentLink, KindAgent), (KindWorkstation, KindAgent)]
        @ map (\<lambda>k. (k, KindTenant)) (tl ApplyOrder))"
    by (simp add: before_def ApplyOrder_def)
  then show "kindDep a b \<Longrightarrow> before ApplyOrder b a"
    unfolding kindDep_def list_all_iff by blast
qed

interpretation kinds: dependency_order ApplyOrder kindDep
  by unfold_locales (fact ApplyOrder_distinct, erule kindDep_before)

lemma DeleteOrder_rev: "DeleteOrder = rev ApplyOrder"
  by (simp add: DeleteOrder_def ApplyOrder_def numeral_eq_Suc Let_def)

section \<open>Label filters: lemmas\<close>

lemma strAt_update: "strAt (AList.update k v m) k' = (if k' = k then v else strAt m k')"
  by (simp add: strAt_def map_of_update)

lemma set_FilterByLabels:
  "r \<in> set (FilterByLabels rs sel) \<longleftrightarrow>
     r \<in> set rs \<and> (\<forall>k v. (k, v) \<in> set sel \<longrightarrow> strAt (Labels r) k = v)"
  by (auto simp: FilterByLabels_def matchesLabels_def list_all_iff)


section \<open>Properties\<close>

text \<open>
  The apply order lists every resource kind once and puts each kind after the kinds it
  depends on; the delete order is its reverse, so that a kind is torn down before what it
  depends on.
\<close>

lemma orders_respect_dependencies:
  "distinct ApplyOrder \<and> DeleteOrder = rev ApplyOrder \<and>
   (\<forall>a b. kindDep a b \<longrightarrow> before ApplyOrder b a \<and> before DeleteOrder a b)"
  using kinds.order_distinct kinds.dep_before kinds.teardown by (simp add: DeleteOrder_rev)

end
