(* ===== verification/WriteOnlyHash.thy ===== *)
theory WriteOnlyHash
  imports Manifest
begin

text \<open>
  \<open>internal/reconciler/write_only_hash.go\<close>: the hash that stands for the fields the API never
  returns. \<open>json.Marshal\<close> (\<open>None\<close> when it fails) and the hexadecimal SHA-256 digest are the
  record \<open>codec\<close>.
\<close>

record codec =
  jsonMarshal :: "gval \<Rightarrow> string option"
  sha256Hex :: "string \<Rightarrow> string"

definition WriteOnlyHashField :: string where
  "WriteOnlyHashField = ''writeOnlyHash''"

fun collectPairs :: "gomap \<Rightarrow> string list \<Rightarrow> string list \<Rightarrow> (string \<times> gval) list" where
  "collectPairs spec [] ignoreSet = []"
| "collectPairs spec (field # fs) ignoreSet =
     (if field \<in> set ignoreSet then collectPairs spec fs ignoreSet
      else case map_of spec field of
             None \<Rightarrow> collectPairs spec fs ignoreSet
           | Some val \<Rightarrow> (field, val) # collectPairs spec fs ignoreSet)"

text \<open>
  \<open>sort.Slice\<close> is not stable, but two pairs with one key are the same pair, so every sort gives
  this list.
\<close>

definition hashInput :: "(string \<times> gval) list \<Rightarrow> gval" where
  "hashInput pairs = GList (concat (map (\<lambda>(k, v). [GStr k, v]) (sort_key fst pairs)))"

definition HashWriteOnlyFields :: "codec \<Rightarrow> gomap \<Rightarrow> string list \<Rightarrow> string list \<Rightarrow> string" where
  "HashWriteOnlyFields cd spec writeOnlyFields ignoreFields =
     (let pairs = collectPairs spec writeOnlyFields ignoreFields in
      if length pairs = 0 then []
      else case jsonMarshal cd (hashInput pairs) of
             None \<Rightarrow> []
           | Some bytes \<Rightarrow> sha256Hex cd bytes)"

section \<open>Which pairs are hashed\<close>

lemma collectPairs_eq:
  "collectPairs spec fs ign =
     map (\<lambda>f. (f, the (map_of spec f))) (filter (\<lambda>f. f \<notin> set ign \<and> map_of spec f \<noteq> None) fs)"
  by (induction fs) (auto split: option.split)

lemma sort_key_map: "(\<And>x. fst (g x) = x) \<Longrightarrow> sort_key fst (map g xs) = map g (sort xs)"
proof (induction xs)
  case (Cons x xs)
  have "insort_key fst (g y) (map g ys) = map g (insort y ys)" for y ys
    by (induction ys) (simp_all add: Cons.prems)
  with Cons show ?case by simp
qed simp

lemma collectPairs_sorted:
  "sort_key fst (collectPairs spec fs ign) =
     map (\<lambda>f. (f, the (map_of spec f))) (sort (filter (\<lambda>f. f \<notin> set ign \<and> map_of spec f \<noteq> None) fs))"
  unfolding collectPairs_eq by (rule sort_key_map) simp

lemma ordered_inj:
  "concat (map (\<lambda>(k, v). [GStr k, v]) ps) = concat (map (\<lambda>(k, v). [GStr k, v]) qs) \<Longrightarrow> ps = qs"
proof (induction ps arbitrary: qs)
  case Nil
  then show ?case by (cases qs) (auto split: prod.splits)
next
  case (Cons p ps)
  then show ?case by (cases qs) (auto split: prod.splits)
qed

lemma sorted_pairs_eq_iff:
  assumes "distinct fs"
  shows "sort_key fst (collectPairs s fs ign) = sort_key fst (collectPairs t fs ign) \<longleftrightarrow>
    (\<forall>f \<in> set fs - set ign. map_of s f = map_of t f)" (is "?l \<longleftrightarrow> ?r")
proof
  assume ?l
  then have eq: "set (collectPairs s fs ign) = set (collectPairs t fs ign)" by (metis set_sort)
  have "map_of s f = map_of t f" if f: "f \<in> set fs - set ign" for f
  proof -
    have mem: "(f, v) \<in> set (collectPairs u fs ign) \<longleftrightarrow> map_of u f = Some v" for u v
      using f by (auto simp: collectPairs_eq image_iff)
    show ?thesis using eq mem [of _ s] mem [of _ t]
      by (cases "map_of s f"; cases "map_of t f") auto
  qed
  then show ?r by blast
next
  assume r: ?r
  have "collectPairs s fs ign = collectPairs t fs ign"
    using r by (auto simp: collectPairs_eq intro!: map_cong filter_cong)
  then show ?l by simp
qed


lemma hashInput_inj: "hashInput ps = hashInput qs \<longleftrightarrow> sort_key fst ps = sort_key fst qs"
  by (auto simp: hashInput_def dest: ordered_inj)

text \<open>
  A hash that is there tells the fields it was made of, as long as the digest does not collide on the inputs
  at hand: specs with that hash agree on every field that is not ignored.
\<close>

definition noCollision :: "codec \<Rightarrow> gval set \<Rightarrow> bool" where
  "noCollision cd D \<longleftrightarrow> (\<forall>u v a b. u \<in> D \<and> v \<in> D \<and> jsonMarshal cd u = Some a \<and> jsonMarshal cd v = Some b \<and>
     sha256Hex cd a = sha256Hex cd b \<longrightarrow> u = v)"

lemma hash_determines:
  assumes "distinct fs" "noCollision cd D"
    and "hashInput (collectPairs s fs ign) \<in> D" "hashInput (collectPairs t fs ign) \<in> D"
    and "HashWriteOnlyFields cd s fs ign = HashWriteOnlyFields cd t fs ign" "HashWriteOnlyFields cd s fs ign \<noteq> []"
    and "f \<in> set fs" "f \<notin> set ign"
  shows "map_of s f = map_of t f"
proof -
  from assms(5,6) have "hashInput (collectPairs s fs ign) = hashInput (collectPairs t fs ign)"
    using assms(2-4) unfolding noCollision_def
    by (auto simp: HashWriteOnlyFields_def Let_def split: if_splits option.splits)
  with sorted_pairs_eq_iff [OF assms(1), of s ign t] assms(7,8) show ?thesis by (auto simp: hashInput_inj)
qed

text \<open>A codec for evaluation: the digest only tells one input from the others.\<close>

definition demoCodec :: "gval \<Rightarrow> codec" where
  "demoCodec v0 = \<lparr>jsonMarshal = (\<lambda>v. if v = v0 then Some ''0'' else Some ''1''), sha256Hex = (\<lambda>b. CHR ''h'' # b)\<rparr>"

section \<open>Properties\<close>

text \<open>
  The hash does not depend on the order of anything: neither the order of the field table or
  of the ignore list nor the iteration order of the spec.
\<close>

lemma write_only_hash_order_independent:
  assumes "mset fs = mset gs" "map_of s = map_of t" "set ign = set ign'"
  shows "HashWriteOnlyFields cd s fs ign = HashWriteOnlyFields cd t gs ign'"
proof -
  let ?f = "filter (\<lambda>f. f \<notin> set ign \<and> map_of s f \<noteq> None)"
  have m: "mset (?f fs) = mset (?f gs)" using assms(1) by (simp add: mset_filter)
  then have "sort (?f fs) = sort (?f gs)" by (intro properties_for_sort) simp_all
  then have "hashInput (collectPairs s fs ign) = hashInput (collectPairs t gs ign')"
    using assms(2,3) by (simp add: hashInput_inj collectPairs_sorted)
  moreover have "length (collectPairs s fs ign) = length (collectPairs t gs ign')"
    using mset_eq_length [OF m] assms(2,3) by (simp add: collectPairs_eq)
  ultimately show ?thesis
    unfolding HashWriteOnlyFields_def Let_def by (metis length_0_conv)
qed

text \<open>
  C35: The hash tells two specs apart exactly when they differ in a write-only field that is not
  ignored, as long as marshalling succeeds and the digest does not collide on the two inputs.
\<close>

theorem write_only_hash_detects:
  assumes "distinct fs"
    and "\<And>v. v \<in> D \<Longrightarrow> jsonMarshal cd v \<noteq> None"
    and "inj_on (\<lambda>v. sha256Hex cd (the (jsonMarshal cd v))) D"
    and "\<And>bytes. sha256Hex cd bytes \<noteq> []"
    and "hashInput (collectPairs s fs ign) \<in> D" "hashInput (collectPairs t fs ign) \<in> D"
  shows "HashWriteOnlyFields cd s fs ign = HashWriteOnlyFields cd t fs ign \<longleftrightarrow>
    (\<forall>f. f \<in> set fs \<and> f \<notin> set ign \<longrightarrow> map_of s f = map_of t f)"
proof -
  let ?p = "collectPairs s fs ign" and ?q = "collectPairs t fs ign"
  have h: "HashWriteOnlyFields cd u fs ign =
      (if collectPairs u fs ign = [] then []
       else sha256Hex cd (the (jsonMarshal cd (hashInput (collectPairs u fs ign)))))"
    if "hashInput (collectPairs u fs ign) \<in> D" for u
    using assms(2) [OF that] by (auto simp: HashWriteOnlyFields_def)
  have "HashWriteOnlyFields cd s fs ign = HashWriteOnlyFields cd t fs ign \<longleftrightarrow> hashInput ?p = hashInput ?q"
  proof (cases "?p = [] \<or> ?q = []")
    case True
    then show ?thesis using assms(4)
      by (auto simp: h [OF assms(5)] h [OF assms(6)] hashInput_inj dest: arg_cong [where f = length])
  next
    case False
    then show ?thesis
      using assms(3,5,6) by (auto simp: h [OF assms(5)] h [OF assms(6)] dest: inj_onD)
  qed
  then show ?thesis using sorted_pairs_eq_iff [OF assms(1)] by (auto simp: hashInput_inj)
qed

theorem write_only_hash_detects_witness:
  "HashWriteOnlyFields (demoCodec (GList [GStr ''apiKey'', GStr ''old''])) [(''apiKey'', GStr ''old'')] [''apiKey''] [] \<noteq>
   HashWriteOnlyFields (demoCodec (GList [GStr ''apiKey'', GStr ''old''])) [(''apiKey'', GStr ''new'')] [''apiKey''] []"
proof -
  let ?cd = "demoCodec (GList [GStr ''apiKey'', GStr ''old''])"
    and ?s = "[(''apiKey'', GStr ''old'')]" and ?t = "[(''apiKey'', GStr ''new'')]"
    and ?D = "{GList [GStr ''apiKey'', GStr ''old''], GList [GStr ''apiKey'', GStr ''new'']}"
  have "HashWriteOnlyFields ?cd ?s [''apiKey''] [] = HashWriteOnlyFields ?cd ?t [''apiKey''] [] \<longleftrightarrow>
    (\<forall>f. f \<in> set [''apiKey''] \<and> f \<notin> set [] \<longrightarrow> map_of ?s f = map_of ?t f)"
    by (rule write_only_hash_detects [where D = ?D]) (auto simp: demoCodec_def inj_on_def hashInput_def)
  then show ?thesis by simp
qed

end
