(* ===== verification/Paths.thy ===== *)
theory Paths
  imports Prelude
begin

text \<open>
  The part of Go's \<open>path/filepath\<close> (on Unix) that the program uses: \<open>Clean\<close>, \<open>Join\<close>, \<open>IsAbs\<close>,
  \<open>Base\<close>, \<open>Dir\<close>, \<open>Ext\<close>. \<open>Clean\<close> is lexical: it works on the components between slashes.
\<close>

definition slashSplit :: "string \<Rightarrow> string list" where
  "slashSplit p = strSplit ''/'' p"

definition IsAbs :: "string \<Rightarrow> bool" where
  "IsAbs p \<longleftrightarrow> hasPrefix ''/'' p"

text \<open>One component onto the stack of kept ones (last first).\<close>

definition cleanStep :: "bool \<Rightarrow> string \<Rightarrow> string list \<Rightarrow> string list" where
  "cleanStep rooted c st =
     (if c = '''' \<or> c = ''.'' then st
      else if c = ''..'' then
        (case st of
           [] \<Rightarrow> if rooted then [] else [c]
         | t # ts \<Rightarrow> if t = ''..'' then c # st else ts)
      else c # st)"

definition cleanComps :: "bool \<Rightarrow> string list \<Rightarrow> string list" where
  "cleanComps rooted cs = rev (fold (cleanStep rooted) cs [])"

definition Clean :: "string \<Rightarrow> string" where
  "Clean p =
     (let rooted = IsAbs p; cs = cleanComps rooted (slashSplit p) in
      if rooted then ''/'' @ strJoin ''/'' cs
      else if cs = [] then ''.''
      else strJoin ''/'' cs)"

text \<open>\<open>filepath.Join\<close>: the non-empty elements joined and cleaned.\<close>

definition JoinPath :: "string list \<Rightarrow> string" where
  "JoinPath es =
     (case filter (\<lambda>e. e \<noteq> []) es of
        [] \<Rightarrow> []
      | ne \<Rightarrow> Clean (strJoin ''/'' ne))"

text \<open>\<open>filepath.Base\<close>: the last component, trailing slashes removed.\<close>

definition Base :: "string \<Rightarrow> string" where
  "Base p =
     (if p = [] then ''.''
      else let q = rev (dropWhile (\<lambda>c. c = CHR ''/'') (rev p)) in
           if q = [] then ''/'' else last (slashSplit q))"

text \<open>\<open>filepath.Ext\<close>: from the last dot of the last component.\<close>

definition Ext :: "string \<Rightarrow> string" where
  "Ext p =
     (let b = last (slashSplit p) in
      if CHR ''.'' \<in> set b then CHR ''.'' # rev (takeWhile (\<lambda>c. c \<noteq> CHR ''.'') (rev b)) else [])"

section \<open>Components\<close>

lemma slashSplit_Nil [simp]: "slashSplit [] = [[]]"
  by (simp add: slashSplit_def strSplit.simps)

lemma slashSplit_Cons:
  "slashSplit (c # cs) =
     (if c = CHR ''/'' then [] # slashSplit cs
      else (c # hd (slashSplit cs)) # tl (slashSplit cs))"
proof -
  have "strCut ''/'' (c # cs) =
    (if c = CHR ''/'' then Some ([], cs) else map_option (\<lambda>(b, a). (c # b, a)) (strCut ''/'' cs))"
    by (simp add: hasPrefix_def)
  then show ?thesis
    unfolding slashSplit_def
    by (subst strSplit.simps, subst (3 4) strSplit.simps) (auto split: option.split)
qed

lemma slashSplit_ne [simp]: "slashSplit p \<noteq> []"
  by (simp add: slashSplit_def)

lemma slashSplit_append_slash: "slashSplit (a @ CHR ''/'' # b) = slashSplit a @ slashSplit b"
  by (induction a) (auto simp: slashSplit_Cons hd_append)

lemma slashSplit_single: "CHR ''/'' \<notin> set c \<Longrightarrow> slashSplit c = [c]"
  by (induction c) (auto simp: slashSplit_Cons)

lemma slashSplit_no_slash: "c \<in> set (slashSplit p) \<Longrightarrow> CHR ''/'' \<notin> set c"
proof (induction p arbitrary: c)
  case (Cons x p)
  have "hd (slashSplit p) \<in> set (slashSplit p)" by simp
  moreover have "set (tl (slashSplit p)) \<subseteq> set (slashSplit p)" by (auto dest: list.set_sel(2) [rotated])
  ultimately show ?case using Cons by (auto simp: slashSplit_Cons split: if_splits)
qed simp

lemma slashSplit_strJoin:
  "cs \<noteq> [] \<Longrightarrow> (\<And>c. c \<in> set cs \<Longrightarrow> CHR ''/'' \<notin> set c) \<Longrightarrow> slashSplit (strJoin ''/'' cs) = cs"
  by (induction "''/''" cs rule: strJoin.induct) (auto simp: slashSplit_single slashSplit_append_slash)

text \<open>Clean components: no empty one, no dot, and the double dots only in front.\<close>

definition plainComp :: "string \<Rightarrow> bool" where
  "plainComp c \<longleftrightarrow> c \<noteq> [] \<and> c \<noteq> ''.'' \<and> c \<noteq> ''..'' \<and> CHR ''/'' \<notin> set c"

lemma cleanStep_plain [simp]: "plainComp c \<Longrightarrow> cleanStep r c st = c # st"
  by (simp add: cleanStep_def plainComp_def)

lemma fold_cleanStep_plain: "list_all plainComp cs \<Longrightarrow> fold (cleanStep r) cs st = rev cs @ st"
  by (induction cs arbitrary: st) auto

lemma cleanStep_rooted: "list_all plainComp st \<Longrightarrow> CHR ''/'' \<notin> set c \<Longrightarrow> list_all plainComp (cleanStep True c st)"
  by (auto simp: cleanStep_def plainComp_def split: list.splits)

lemma fold_cleanStep_rooted:
  "list_all plainComp st \<Longrightarrow> (\<And>c. c \<in> set cs \<Longrightarrow> CHR ''/'' \<notin> set c) \<Longrightarrow>
     list_all plainComp (fold (cleanStep True) cs st)"
  by (induction cs arbitrary: st) (auto simp: cleanStep_rooted)

lemma cleanComps_rooted: "list_all plainComp (cleanComps True (slashSplit p))"
  unfolding cleanComps_def
  by (simp add: list_all_rev fold_cleanStep_rooted slashSplit_no_slash)

lemma cleanComps_plain: "list_all plainComp cs \<Longrightarrow> cleanComps r cs = cs"
  by (simp add: cleanComps_def fold_cleanStep_plain)

lemma Clean_abs:
  "Clean (CHR ''/'' # p) = CHR ''/'' # strJoin ''/'' (cleanComps True (slashSplit p))"
proof -
  have "cleanComps True ([] # slashSplit p) = cleanComps True (slashSplit p)"
    by (simp add: cleanComps_def cleanStep_def)
  then show ?thesis by (simp add: Clean_def IsAbs_def hasPrefix_def slashSplit_Cons)
qed

lemma Clean_abs_idem: "Clean (Clean (CHR ''/'' # p)) = Clean (CHR ''/'' # p)"
proof -
  let ?cs = "cleanComps True (slashSplit p)"
  have "list_all plainComp ?cs" by (rule cleanComps_rooted)
  moreover from this have "?cs \<noteq> [] \<Longrightarrow> slashSplit (strJoin ''/'' ?cs) = ?cs"
    by (intro slashSplit_strJoin) (auto simp: list_all_iff plainComp_def)
  ultimately have "cleanComps True (slashSplit (strJoin ''/'' ?cs)) = ?cs"
    by (cases "?cs = []") (auto simp: cleanComps_plain, simp add: cleanComps_def cleanStep_def)
  then show ?thesis by (simp add: Clean_abs)
qed


section \<open>Cleaning and resolution\<close>

definition keptComp :: "string \<Rightarrow> bool" where
  "keptComp c \<longleftrightarrow> c \<noteq> [] \<and> c \<noteq> ''.''"

lemma cleanStep_kept: "list_all keptComp st \<Longrightarrow> list_all keptComp (cleanStep r c st)"
  by (auto simp: cleanStep_def keptComp_def split: list.splits)

lemma fold_cleanStep_kept: "list_all keptComp st \<Longrightarrow> list_all keptComp (fold (cleanStep r) cs st)"
  by (induction cs arbitrary: st) (auto simp: cleanStep_kept)

text \<open>Cleaning a relative path first does not change what it resolves to.\<close>

lemma fold_clean_relative:
  "fold (cleanStep True) (rev (fold (cleanStep False) cs [])) st = fold (cleanStep True) cs st"
proof (induction cs rule: rev_induct)
  case (snoc c cs)
  let ?S = "fold (cleanStep False) cs []"
  have kept: "list_all keptComp ?S" by (rule fold_cleanStep_kept) simp
  have "fold (cleanStep True) (rev (cleanStep False c ?S)) st =
      cleanStep True c (fold (cleanStep True) (rev ?S) st)"
  proof (cases ?S)
    case Nil
    then show ?thesis by (auto simp: cleanStep_def)
  next
    case (Cons t ts)
    then have t: "t \<noteq> []" "t \<noteq> ''.''" using kept by (auto simp: keptComp_def)
    show ?thesis
    proof (cases "c = ''..'' \<and> t \<noteq> ''..''")
      case True
      with Cons t show ?thesis by (simp add: cleanStep_def)
    next
      case False
      with Cons show ?thesis by (auto simp: cleanStep_def)
    qed
  qed
  with snoc show ?case by simp
qed simp

lemma fold_cleanStep_no_slash:
  "(\<And>c. c \<in> set cs \<union> set st \<Longrightarrow> CHR ''/'' \<notin> set c) \<Longrightarrow> c \<in> set (fold (cleanStep r) cs st) \<Longrightarrow> CHR ''/'' \<notin> set c"
proof (induction cs arbitrary: st)
  case (Cons x xs)
  have "set (cleanStep r x st) \<subseteq> insert x (set st)"
    by (auto simp: cleanStep_def split: list.splits if_splits)
  with Cons.prems(1) have "\<And>c. c \<in> set xs \<union> set (cleanStep r x st) \<Longrightarrow> CHR ''/'' \<notin> set c" by auto
  with Cons.IH [of "cleanStep r x st"] Cons.prems(2) show ?case by simp
qed simp

lemma cleanComps_no_slash: "c \<in> set (cleanComps r (slashSplit p)) \<Longrightarrow> CHR ''/'' \<notin> set c"
  using fold_cleanStep_no_slash [of "slashSplit p" "[]" c r] slashSplit_no_slash
  by (auto simp: cleanComps_def)

lemma IsAbs_Cons: "IsAbs p \<longleftrightarrow> (\<exists>q. p = CHR ''/'' # q)"
  by (cases p) (auto simp: IsAbs_def hasPrefix_def)

lemma slashSplit_Clean_rel:
  assumes "\<not> IsAbs p"
  shows "\<not> IsAbs (Clean p) \<and>
    slashSplit (Clean p) = (if cleanComps False (slashSplit p) = [] then [''.''] else cleanComps False (slashSplit p))"
proof (cases "cleanComps False (slashSplit p)")
  case Nil
  with assms have "Clean p = ''.''" by (simp add: Clean_def Let_def)
  with Nil show ?thesis by (simp add: IsAbs_Cons slashSplit_Cons)
next
  case (Cons c cs)
  have "list_all keptComp (cleanComps False (slashSplit p))"
    by (simp add: cleanComps_def list_all_rev fold_cleanStep_kept)
  with Cons have c: "c \<noteq> []" by (simp add: keptComp_def)
  have ns: "\<And>x. x \<in> set (c # cs) \<Longrightarrow> CHR ''/'' \<notin> set x"
    using cleanComps_no_slash [of _ False p] Cons by simp
  have cl: "Clean p = strJoin ''/'' (c # cs)" using assms Cons by (simp add: Clean_def Let_def)
  have "slashSplit (strJoin ''/'' (c # cs)) = c # cs" using ns by (intro slashSplit_strJoin) auto
  moreover have "\<not> IsAbs (strJoin ''/'' (c # cs))"
    using c ns [of c] by (cases c; cases cs) (auto simp: IsAbs_Cons)
  ultimately show ?thesis using cl Cons by simp
qed

lemma cleanComps_snoc_plain:
  "list_all plainComp cs \<Longrightarrow> cleanComps r (xs @ cs) = cleanComps r xs @ cs"
  by (simp add: cleanComps_def fold_cleanStep_plain)

end
