(* ===== verification/Secrets.thy ===== *)
theory Secrets
  imports Paths
begin

text \<open>
  \<open>internal/secrets/resolver.go\<close>: \<open>${ENV_VAR}\<close> substitution and \<open>file://\<close> references. What the
  operating system answers (environment, files) is the record \<open>oscalls\<close>.
\<close>

record oscalls =
  LookupEnv :: "string \<Rightarrow> string option"
  ReadFile :: "string \<Rightarrow> string result"

section \<open>Environment variables\<close>

definition envStart :: "char \<Rightarrow> bool" where
  "envStart c \<longleftrightarrow> isUpper c \<or> c = CHR ''_''"

definition envChar :: "char \<Rightarrow> bool" where
  "envChar c \<longleftrightarrow> isUpper c \<or> isDigit c \<or> c = CHR ''_''"

text \<open>
  A match of \<open>envVarRe\<close> at the front of a string: the captured name and what follows the
  closing brace. The brace is not a name character, so the greedy match is the only one.
\<close>

definition matchEnvVar :: "string \<Rightarrow> (string \<times> string) option" where
  "matchEnvVar s =
     (case s of
        d # b # c # rest \<Rightarrow>
          if d = CHR ''$'' \<and> b = CHR ''{'' \<and> envStart c then
            (case dropWhile envChar rest of
               e # after \<Rightarrow>
                 if e = CHR ''}'' then Some (c # takeWhile envChar rest, after) else None
             | [] \<Rightarrow> None)
          else None
      | _ \<Rightarrow> None)"

lemma matchEnvVar_length: "matchEnvVar s = Some (key, after) \<Longrightarrow> length after < length s"
  unfolding matchEnvVar_def
  by (auto split: list.splits if_splits dest!: arg_cong [where f = length])
     (metis Suc_le_lessD add.commute le_add1 length_append length_Cons less_SucI plus_1_eq_Suc
        takeWhile_dropWhile_id)

text \<open>
  \<open>ReplaceAllStringFunc\<close> with the closure of \<open>ResolveEnvVars\<close>: the replaced text and the names
  appended to \<open>missing\<close>.
\<close>

function replaceEnvVars :: "oscalls \<Rightarrow> string \<Rightarrow> string \<times> string list" where
  "replaceEnvVars os s =
     (case matchEnvVar s of
        Some (key, after) \<Rightarrow>
          (case (LookupEnv os key, replaceEnvVars os after) of
             (None, (r, missing)) \<Rightarrow> (''${'' @ key @ ''}'' @ r, key # missing)
           | (Some val, (r, missing)) \<Rightarrow> (val @ r, missing))
      | None \<Rightarrow>
          (case s of
             [] \<Rightarrow> ([], [])
           | c # cs \<Rightarrow> (case replaceEnvVars os cs of (r, missing) \<Rightarrow> (c # r, missing))))"
  by pat_completeness auto
termination
  by (relation "measure (\<lambda>(os, s). length s)") (auto dest!: matchEnvVar_length)

declare replaceEnvVars.simps [simp del]

text \<open>The Go function returns the text also with an error; no caller reads it then.\<close>

definition ResolveEnvVars :: "oscalls \<Rightarrow> string \<Rightarrow> string result" where
  "ResolveEnvVars os s =
     (let (result, missing) = replaceEnvVars os s in
      if length missing > 0
      then Inl (errorf (''unresolved env vars: '' @ strJoin '', '' missing))
      else Inr result)"

section \<open>Files\<close>

definition cutPrefix :: "string \<Rightarrow> string \<Rightarrow> string option" where
  "cutPrefix s p = (if hasPrefix p s then Some (drop (length p) s) else None)"

definition ResolveFileRef :: "oscalls \<Rightarrow> string \<Rightarrow> string result" where
  "ResolveFileRef os s =
     (case cutPrefix s ''file://'' of
        None \<Rightarrow> Inr s
      | Some path \<Rightarrow>
          let cleaned = Clean path in
          if strContains cleaned ''..''
          then Inl (errorf (''secret file path '' @ goQuote path @ '' contains path traversal''))
          else (case ReadFile os cleaned of
                  Inl err \<Rightarrow> Inl (wrapf (''read secret file '' @ cleaned @ '': '') err)
                | Inr bytes \<Rightarrow> Inr (trimSpace bytes)))"

definition Resolve :: "oscalls \<Rightarrow> string \<Rightarrow> string result" where
  "Resolve os s =
     (case cutPrefix s ''file://'' of
        Some _ \<Rightarrow> ResolveFileRef os s
      | None \<Rightarrow> ResolveEnvVars os s)"

section \<open>Templates\<close>

text \<open>The reading of a string as literal text and variable references.\<close>

datatype tok = Lit string | Var string

definition envName :: "string \<Rightarrow> bool" where
  "envName k \<longleftrightarrow> (case k of [] \<Rightarrow> False | c # cs \<Rightarrow> envStart c \<and> list_all envChar cs)"

fun tokOk :: "tok \<Rightarrow> bool" where
  "tokOk (Lit s) = (CHR ''$'' \<notin> set s)"
| "tokOk (Var k) = envName k"

fun render :: "tok list \<Rightarrow> string" where
  "render [] = []"
| "render (Lit s # ts) = s @ render ts"
| "render (Var k # ts) = ''${'' @ k @ ''}'' @ render ts"

fun expand :: "oscalls \<Rightarrow> tok list \<Rightarrow> string" where
  "expand os [] = []"
| "expand os (Lit s # ts) = s @ expand os ts"
| "expand os (Var k # ts) =
     (case LookupEnv os k of None \<Rightarrow> ''${'' @ k @ ''}'' | Some v \<Rightarrow> v) @ expand os ts"

fun unset :: "oscalls \<Rightarrow> tok list \<Rightarrow> string list" where
  "unset os [] = []"
| "unset os (Lit s # ts) = unset os ts"
| "unset os (Var k # ts) = (if LookupEnv os k = None then [k] else []) @ unset os ts"

lemma matchEnvVar_no_dollar: "c \<noteq> CHR ''$'' \<Longrightarrow> matchEnvVar (c # s) = None"
  by (auto simp: matchEnvVar_def split: list.split)

lemma matchEnvVar_Nil [simp]: "matchEnvVar [] = None"
  by (simp add: matchEnvVar_def)

lemma envChar_brace [simp]: "\<not> envChar (CHR ''}'')"
  by (simp add: envChar_def isUpper_def isDigit_def)

lemma matchEnvVar_ref: "envName k \<Longrightarrow> matchEnvVar (''${'' @ k @ ''}'' @ s) = Some (k, s)"
proof -
  assume "envName k"
  then obtain c cs where k: "k = c # cs" "envStart c" "list_all envChar cs"
    by (auto simp: envName_def split: list.splits)
  have "dropWhile envChar (cs @ CHR ''}'' # s) = CHR ''}'' # s"
       "takeWhile envChar (cs @ CHR ''}'' # s) = cs"
    using k(3) by (auto simp: list_all_iff dropWhile_append2 takeWhile_append2)
  with k show ?thesis by (simp add: matchEnvVar_def)
qed

lemma replaceEnvVars_lit:
  "CHR ''$'' \<notin> set s \<Longrightarrow>
     replaceEnvVars os (s @ t) = (s @ fst (replaceEnvVars os t), snd (replaceEnvVars os t))"
  by (induction s)
     (auto simp: replaceEnvVars.simps [of os "_ # _"] matchEnvVar_no_dollar split: prod.splits)

lemma replaceEnvVars_render:
  "list_all tokOk ts \<Longrightarrow> replaceEnvVars os (render ts) = (expand os ts, unset os ts)"
proof (induction ts rule: render.induct)
  case 1
  then show ?case by (simp add: replaceEnvVars.simps)
next
  case (2 s ts)
  then show ?case by (simp add: replaceEnvVars_lit)
next
  case (3 k ts)
  then have "matchEnvVar (render (Var k # ts)) = Some (k, render ts)"
    using matchEnvVar_ref [of k "render ts"] by simp
  with 3 show ?case
    by (subst replaceEnvVars.simps) (simp split: option.split)
qed

section \<open>Properties\<close>

text \<open>
  C37: Substitution is exact and single-pass: for a template of literal text and references, the
  result is the text with each reference replaced by the variable's value, never scanned again;
  if variables are unset, the result is the error naming exactly those, in order.
\<close>

theorem ResolveEnvVars_template:
  assumes "list_all tokOk ts"
  shows "ResolveEnvVars os (render ts) =
    (if unset os ts = [] then Inr (expand os ts)
     else Inl (errorf (''unresolved env vars: '' @ strJoin '', '' (unset os ts))))"
  using assms by (simp add: ResolveEnvVars_def replaceEnvVars_render)

theorem ResolveEnvVars_template_witness:
  "ResolveEnvVars \<lparr>LookupEnv = (\<lambda>k. if k = ''A_1'' then Some ''${B}'' else None), ReadFile = (\<lambda>p. Inr [])\<rparr>
     ''x=${A_1};'' = Inr ''x=${B};''"
  using ResolveEnvVars_template [of "[Lit ''x='', Var ''A_1'', Lit '';'']"
    "\<lparr>LookupEnv = (\<lambda>k. if k = ''A_1'' then Some ''${B}'' else None), ReadFile = (\<lambda>p. Inr [])\<rparr>"]
  by (simp add: envName_def envStart_def envChar_def isUpper_def isDigit_def)

text \<open>
  The path check of \<open>file://\<close> references looks at the cleaned path, so an absolute reference
  that climbs with \<open>..\<close> is not rejected: \<open>file:///a/../b\<close> reads \<open>/b\<close>.
\<close>

lemma file_ref_climbs:
  assumes "plainComp a" "plainComp b" "\<not> strContains b ''..''"
  shows "ResolveFileRef os (''file:///'' @ a @ ''/../'' @ b) =
    (case ReadFile os (CHR ''/'' # b) of
       Inl err \<Rightarrow> Inl (wrapf (''read secret file '' @ (CHR ''/'' # b) @ '': '') err)
     | Inr bytes \<Rightarrow> Inr (trimSpace bytes))"
proof -
  have "slashSplit (a @ ''/../'' @ b) = [a, ''..'', b]"
    using assms by (simp add: slashSplit_append_slash slashSplit_single plainComp_def slashSplit_Cons)
  then have "Clean (CHR ''/'' # a @ ''/../'' @ b) = CHR ''/'' # b"
    using assms by (simp add: Clean_abs cleanComps_def) (simp add: cleanStep_def plainComp_def)
  moreover have "\<not> strContains (CHR ''/'' # b) ''..''"
    using assms by (auto simp: strContains_iff Cons_eq_append_conv)
  ultimately show ?thesis
    by (simp add: ResolveFileRef_def cutPrefix_def hasPrefix_def Let_def)
qed

end
