(* ===== verification/Engine.thy ===== *)
theory Engine
  imports Compare WriteOnlyHash Secrets
begin

text \<open>
  \<open>internal/reconciler/engine.go\<close> and \<open>types.go\<close>: the Observe, Compare, Act engine. The outside
  world (the GoClaw server behind the provider, the process environment, the scheduler) is a
  state of an arbitrary type \<open>'w\<close> that every provider call receives and returns; a record
  \<open>provider_ops\<close> is the Go interface \<open>ProviderInterface\<close>.
\<close>

section \<open>Types\<close>

datatype action = ActionUnset | ActionCreate | ActionUpdate | ActionNoop | ActionDelete

record change =
  chKind :: resource_kind
  chName :: string
  Action :: action
  Diff :: diffs
  Error :: string
  Forced :: bool
  WriteOnlyHash :: string

record plan =
  Changes :: "change list"
  Creates :: nat
  Updates :: nat
  Deletes :: nat
  Noops :: nat
  planErrors :: "string list"

record reconcile_opts =
  DryRun :: bool
  Prune :: bool
  Force :: bool
  Concurrency :: int

record apply_result =
  Applied :: nat
  Failed :: nat
  resErrors :: "string list"

record resource_info =
  infoKind :: resource_kind
  infoName :: string
  CreatedBy :: string
  Source :: string
  IsSystem :: bool

record 'w provider_ops =
  Observe :: "resource_kind \<Rightarrow> string \<Rightarrow> 'w \<Rightarrow> gomap option result \<times> 'w"
  Create :: "resource_kind \<Rightarrow> string \<Rightarrow> gomap \<Rightarrow> 'w \<Rightarrow> goerr option \<times> 'w"
  Update :: "resource_kind \<Rightarrow> string \<Rightarrow> gomap \<Rightarrow> 'w \<Rightarrow> goerr option \<times> 'w"
  Delete :: "resource_kind \<Rightarrow> string \<Rightarrow> 'w \<Rightarrow> goerr option \<times> 'w"
  ListAll :: "resource_kind \<Rightarrow> 'w \<Rightarrow> resource_info list result \<times> 'w"

text \<open>
  The engine with what it calls: the provider, the operating system as it answers in a state of
  the world, the codec of the hash, and the order \<open>sched w c n\<close> in which an errgroup with limit
  \<open>c\<close> runs \<open>n\<close> jobs.
\<close>

record 'w engine =
  provider :: "'w provider_ops"
  os :: "'w \<Rightarrow> oscalls"
  codec_of :: codec
  sched :: "'w \<Rightarrow> nat \<Rightarrow> nat \<Rightarrow> nat list"

text \<open>The zero value of \<open>Change\<close>, which \<open>make([]Change, n)\<close> fills in.\<close>

definition zeroChange :: change where
  "zeroChange = \<lparr>chKind = [], chName = [], Action = ActionUnset, Diff = [], Error = [],
     Forced = False, WriteOnlyHash = []\<rparr>"

definition emptyPlan :: plan where
  "emptyPlan = \<lparr>Changes = [], Creates = 0, Updates = 0, Deletes = 0, Noops = 0, planErrors = []\<rparr>"

definition emptyResult :: apply_result where
  "emptyResult = \<lparr>Applied = 0, Failed = 0, resErrors = []\<rparr>"

section \<open>Secret resolution over a spec\<close>

fun resolveValue :: "oscalls \<Rightarrow> gval \<Rightarrow> gval" where
  "resolveValue o' (GStr val) =
     (case Resolve o' val of Inl _ \<Rightarrow> GStr val | Inr resolved \<Rightarrow> GStr resolved)"
| "resolveValue o' (GMap m) = GMap (map (\<lambda>(k, v). (k, resolveValue o' v)) m)"
| "resolveValue o' (GList vs) = GList (map (resolveValue o') vs)"
| "resolveValue o' v = v"

definition resolveSpecSecrets :: "oscalls \<Rightarrow> gomap \<Rightarrow> gomap" where
  "resolveSpecSecrets o' spec = map (\<lambda>(k, v). (k, resolveValue o' v)) spec"

section \<open>The pipeline of one resource\<close>

text \<open>\<open>warned\<close> collects the fields that \<open>warnBlindNoop\<close> logs.\<close>

record reconcile_context =
  rcResource :: resource
  rcSpec :: gomap
  rcCurrent :: "gomap option"
  rcChange :: change
  rcForce :: bool
  warned :: "string list"

definition stepResolveSecrets ::
  "'w engine \<Rightarrow> reconcile_context \<Rightarrow> 'w \<Rightarrow> (goerr option \<times> reconcile_context) \<times> 'w"
where
  "stepResolveSecrets e rc w =
     ((None, rc\<lparr>rcSpec := resolveSpecSecrets (os e w) (specMap (rcResource rc))\<rparr>), w)"

definition stepObserve ::
  "'w engine \<Rightarrow> reconcile_context \<Rightarrow> 'w \<Rightarrow> (goerr option \<times> reconcile_context) \<times> 'w"
where
  "stepObserve e rc w =
     (case Observe (provider e) (resKind (rcResource rc)) (resName (rcResource rc)) w of
        (Inl err, w') \<Rightarrow>
          ((Some err,
            rc\<lparr>rcChange := (rcChange rc)\<lparr>Action := ActionNoop,
                 Error := ''observe failed: '' @ errText err\<rparr>\<rparr>), w')
      | (Inr current, w') \<Rightarrow> ((None, rc\<lparr>rcCurrent := current\<rparr>), w'))"

fun trivialVal :: "gval \<Rightarrow> bool" where
  "trivialVal GNil = True"
| "trivialVal (GMap v) = (length v = 0)"
| "trivialVal (GList v) = (length v = 0)"
| "trivialVal (GStr v) = (v = [])"
| "trivialVal _ = False"

definition warnBlindNoop :: "reconcile_context \<Rightarrow> string \<Rightarrow> string \<Rightarrow> string list" where
  "warnBlindNoop rc desiredHash observedHash =
     (if desiredHash \<noteq> [] \<and> observedHash \<noteq> [] then []
      else filter (\<lambda>field. case map_of (rcSpec rc) field of
                             None \<Rightarrow> False
                           | Some val \<Rightarrow> \<not> trivialVal val)
             (WriteOnlyFields (resKind (rcResource rc))))"

definition stepCompare ::
  "'w engine \<Rightarrow> reconcile_context \<Rightarrow> 'w \<Rightarrow> (goerr option \<times> reconcile_context) \<times> 'w"
where
  "stepCompare e rc w =
     (let res = rcResource rc; ann = Annotations res in
      if strAt ann AnnotationSyncPolicy = SyncPolicyIgnore
      then ((None, rc\<lparr>rcChange := (rcChange rc)\<lparr>Action := ActionNoop\<rparr>\<rparr>), w)
      else
        let rc = (if strAt ann AnnotationIgnoreWriteOnly \<noteq> ''true''
                  then rc\<lparr>rcChange := (rcChange rc)\<lparr>WriteOnlyHash :=
                         HashWriteOnlyFields (codec_of e) (rcSpec rc)
                           (WriteOnlyFields (resKind res)) (ParseIgnoreFields ann)\<rparr>\<rparr>
                  else rc)
        in case rcCurrent rc of
             None \<Rightarrow> ((None, rc\<lparr>rcChange := (rcChange rc)\<lparr>Action := ActionCreate\<rparr>\<rparr>), w)
           | Some current \<Rightarrow>
               let ds = CompareSpecExcluding (rcSpec rc) current (WriteOnlyFields (resKind res));
                   desiredHash = WriteOnlyHash (rcChange rc);
                   observedHash = strOr (map_of current WriteOnlyHashField);
                   hashesDiffer = (desiredHash \<noteq> [] \<and> desiredHash \<noteq> observedHash);
                   canAutoHeal = (observedHash = [] \<and> SupportsWriteOnlyHash (resKind res));
                   ds = (if hashesDiffer \<and> (observedHash \<noteq> [] \<or> canAutoHeal)
                         then AList.update WriteOnlyHashField
                                \<lparr>Old = GStr observedHash, New = GStr desiredHash\<rparr> ds
                         else ds)
               in if length ds = 0 then
                    (if rcForce rc
                     then ((None, rc\<lparr>rcChange := (rcChange rc)\<lparr>Action := ActionUpdate, Forced := True\<rparr>\<rparr>), w)
                     else ((None, rc\<lparr>rcChange := (rcChange rc)\<lparr>Action := ActionNoop\<rparr>,
                                     warned := warnBlindNoop rc desiredHash observedHash\<rparr>), w))
                  else ((None, rc\<lparr>rcChange := (rcChange rc)\<lparr>Action := ActionUpdate, Diff := ds\<rparr>\<rparr>), w))"

fun runSteps ::
  "(reconcile_context \<Rightarrow> 'w \<Rightarrow> (goerr option \<times> reconcile_context) \<times> 'w) list \<Rightarrow>
   reconcile_context \<Rightarrow> 'w \<Rightarrow> reconcile_context \<times> 'w"
where
  "runSteps [] rc w = (rc, w)"
| "runSteps (step # steps) rc w =
     (case step rc w of
        ((Some err, rc), w) \<Rightarrow> (rc, w)
      | ((None, rc), w) \<Rightarrow> runSteps steps rc w)"

definition newContext :: "resource \<Rightarrow> bool \<Rightarrow> reconcile_context" where
  "newContext res force =
     \<lparr>rcResource = res, rcSpec = [], rcCurrent = None,
      rcChange = zeroChange\<lparr>chKind := resKind res, chName := resName res\<rparr>,
      rcForce = force, warned = []\<rparr>"

definition reconcileOne :: "'w engine \<Rightarrow> resource \<Rightarrow> bool \<Rightarrow> 'w \<Rightarrow> change \<times> 'w" where
  "reconcileOne e res force w =
     (case runSteps [stepResolveSecrets e, stepObserve e, stepCompare e] (newContext res force) w of
        (rc, w') \<Rightarrow> (rcChange rc, w'))"

definition execute :: "'w engine \<Rightarrow> change \<Rightarrow> resource \<Rightarrow> 'w \<Rightarrow> goerr option \<times> 'w" where
  "execute e ch res w =
     (let spec = resolveSpecSecrets (os e w) (specMap res);
          spec = (if WriteOnlyHash ch \<noteq> []
                  then AList.update WriteOnlyHashField (GStr (WriteOnlyHash ch)) spec else spec)
      in case Action ch of
           ActionCreate \<Rightarrow> Create (provider e) (resKind res) (resName res) spec w
         | ActionUpdate \<Rightarrow> Update (provider e) (resKind res) (resName res) spec w
         | _ \<Rightarrow> (None, w))"

section \<open>The phases of one kind\<close>

text \<open>
  The jobs of one errgroup, run in the given order; job \<open>i\<close> writes \<open>changes[i]\<close>. The sequential
  loop is the order \<open>0, 1, \<dots>\<close>.
\<close>

fun observeIn ::
  "'w engine \<Rightarrow> resource list \<Rightarrow> bool \<Rightarrow> nat list \<Rightarrow> change list \<Rightarrow> 'w \<Rightarrow> change list \<times> 'w"
where
  "observeIn e resources force [] changes w = (changes, w)"
| "observeIn e resources force (i # is) changes w =
     (case reconcileOne e (resources ! i) force w of
        (c, w') \<Rightarrow> observeIn e resources force is (changes[i := c]) w')"

definition reconcileKind ::
  "'w engine \<Rightarrow> resource list \<Rightarrow> bool \<Rightarrow> int \<Rightarrow> 'w \<Rightarrow> change list \<times> 'w"
where
  "reconcileKind e resources force concurrency w =
     (let n = length resources; changes = replicate n zeroChange in
      if concurrency \<le> 1 then observeIn e resources force [0..<n] changes w
      else observeIn e resources force (sched e w (nat concurrency) n) changes w)"

definition skipChange :: "change \<Rightarrow> bool" where
  "skipChange c \<longleftrightarrow> Action c = ActionNoop \<or> Error c \<noteq> []"

definition failureText :: "resource_kind \<Rightarrow> string \<Rightarrow> string \<Rightarrow> string" where
  "failureText kind name msg = kind @ ''/'' @ name @ '': '' @ msg"

fun executeIn ::
  "'w engine \<Rightarrow> change list \<Rightarrow> resource list \<Rightarrow> nat list \<Rightarrow> apply_result \<Rightarrow> 'w \<Rightarrow> apply_result \<times> 'w"
where
  "executeIn e changes resources [] result w = (result, w)"
| "executeIn e changes resources (i # is) result w =
     (let c = changes ! i in
      case execute e c (resources ! i) w of
        (Some err, w') \<Rightarrow>
          executeIn e changes resources is
            (result\<lparr>Failed := Suc (Failed result),
                    resErrors := resErrors result @ [failureText (chKind c) (chName c) (errText err)]\<rparr>) w'
      | (None, w') \<Rightarrow>
          executeIn e changes resources is (result\<lparr>Applied := Suc (Applied result)\<rparr>) w')"

definition executeChanges ::
  "'w engine \<Rightarrow> change list \<Rightarrow> resource list \<Rightarrow> int \<Rightarrow> 'w \<Rightarrow> apply_result \<times> 'w"
where
  "executeChanges e changes resources concurrency w =
     (let jobs = filter (\<lambda>i. \<not> skipChange (changes ! i)) [0..<length changes] in
      if concurrency \<le> 1 then executeIn e changes resources jobs emptyResult w
      else executeIn e changes resources
             (map (\<lambda>j. jobs ! j) (sched e w (nat concurrency) (length jobs))) emptyResult w)"

section \<open>Pruning\<close>

definition notPruned :: "resource_kind \<Rightarrow> bool" where
  "notPruned kind \<longleftrightarrow>
     kind = KindSkill \<or> kind = KindBuiltinToolConfig \<or> kind = KindSkillConfig \<or>
     kind = KindSystemConfig \<or> kind = KindMCPCredentials \<or> kind = KindSecureCLIGrant"

definition inManifest :: "resource list \<Rightarrow> resource_kind \<Rightarrow> string \<Rightarrow> bool" where
  "inManifest rs kind name = list_ex (\<lambda>r. resKind r = kind \<and> resName r = name) rs"

fun pruneRemotes ::
  "'w engine \<Rightarrow> resource list \<Rightarrow> bool \<Rightarrow> resource_kind \<Rightarrow> resource_info list \<Rightarrow>
   change list \<Rightarrow> apply_result \<Rightarrow> 'w \<Rightarrow> (change list \<times> apply_result) \<times> 'w"
where
  "pruneRemotes e rs dryRun kind [] changes result w = ((changes, result), w)"
| "pruneRemotes e rs dryRun kind (remote # remotes) changes result w =
     (if CreatedBy remote \<noteq> ''gcplane''
      then pruneRemotes e rs dryRun kind remotes changes result w
      else if inManifest rs kind (infoName remote)
      then pruneRemotes e rs dryRun kind remotes changes result w
      else
        let changes = changes @ [zeroChange\<lparr>chKind := kind, chName := infoName remote, Action := ActionDelete\<rparr>] in
        if dryRun then pruneRemotes e rs dryRun kind remotes changes result w
        else case Delete (provider e) kind (infoName remote) w of
               (Some err, w') \<Rightarrow>
                 pruneRemotes e rs dryRun kind remotes changes
                   (result\<lparr>Failed := Suc (Failed result),
                     resErrors := resErrors result @ [failureText kind (infoName remote) (errText err)]\<rparr>) w'
             | (None, w') \<Rightarrow>
                 pruneRemotes e rs dryRun kind remotes changes
                   (result\<lparr>Applied := Suc (Applied result)\<rparr>) w')"

fun pruneKinds ::
  "'w engine \<Rightarrow> resource list \<Rightarrow> bool \<Rightarrow> resource_kind list \<Rightarrow>
   change list \<Rightarrow> apply_result \<Rightarrow> 'w \<Rightarrow> (change list \<times> apply_result) \<times> 'w"
where
  "pruneKinds e rs dryRun [] changes result w = ((changes, result), w)"
| "pruneKinds e rs dryRun (kind # kinds) changes result w =
     (if notPruned kind then pruneKinds e rs dryRun kinds changes result w
      else case ListAll (provider e) kind w of
             (Inl err, w') \<Rightarrow> pruneKinds e rs dryRun kinds changes result w'
           | (Inr remotes, w') \<Rightarrow>
               (case pruneRemotes e rs dryRun kind remotes changes result w' of
                  ((changes, result), w'') \<Rightarrow> pruneKinds e rs dryRun kinds changes result w''))"

definition detectAndExecutePrunes ::
  "'w engine \<Rightarrow> manifest \<Rightarrow> bool \<Rightarrow> 'w \<Rightarrow> (change list \<times> apply_result) \<times> 'w"
where
  "detectAndExecutePrunes e m dryRun w =
     pruneKinds e (Resources m) dryRun DeleteOrder [] emptyResult w"

section \<open>Reconcile\<close>

definition addChange :: "resource \<Rightarrow> change \<Rightarrow> plan \<Rightarrow> plan" where
  "addChange res c p =
     (let p = p\<lparr>Changes := Changes p @ [c]\<rparr>;
          p = (case Action c of
                 ActionCreate \<Rightarrow> p\<lparr>Creates := Suc (Creates p)\<rparr>
               | ActionUpdate \<Rightarrow> p\<lparr>Updates := Suc (Updates p)\<rparr>
               | ActionNoop \<Rightarrow> p\<lparr>Noops := Suc (Noops p)\<rparr>
               | _ \<Rightarrow> p)
      in if Error c \<noteq> []
         then p\<lparr>planErrors := planErrors p @ [failureText (resKind res) (resName res) (Error c)]\<rparr>
         else p)"

fun addChanges :: "resource list \<Rightarrow> change list \<Rightarrow> plan \<Rightarrow> plan" where
  "addChanges (r # rs) (c # cs) p = addChanges rs cs (addChange r c p)"
| "addChanges _ _ p = p"

definition addResult :: "apply_result \<Rightarrow> apply_result \<Rightarrow> apply_result" where
  "addResult a b = \<lparr>Applied = Applied a + Applied b, Failed = Failed a + Failed b,
     resErrors = resErrors a @ resErrors b\<rparr>"

text \<open>\<open>byKind[kind]\<close>: the resources of a kind in manifest order.\<close>

definition byKind :: "resource list \<Rightarrow> resource_kind \<Rightarrow> resource list" where
  "byKind rs kind = filter (\<lambda>r. resKind r = kind) rs"

fun reconcileKinds ::
  "'w engine \<Rightarrow> resource list \<Rightarrow> reconcile_opts \<Rightarrow> resource_kind list \<Rightarrow>
   plan \<Rightarrow> apply_result \<Rightarrow> 'w \<Rightarrow> (plan \<times> apply_result) \<times> 'w"
where
  "reconcileKinds e rs opts [] p result w = ((p, result), w)"
| "reconcileKinds e rs opts (kind # kinds) p result w =
     (let resources = byKind rs kind in
      if resources = [] then reconcileKinds e rs opts kinds p result w
      else case reconcileKind e resources (Force opts) (Concurrency opts) w of
             (changes, w) \<Rightarrow>
               let p = addChanges resources changes p in
               if \<not> DryRun opts then
                 (case executeChanges e changes resources (Concurrency opts) w of
                    (kindResult, w) \<Rightarrow>
                      reconcileKinds e rs opts kinds p (addResult result kindResult) w)
               else reconcileKinds e rs opts kinds p result w)"

definition Reconcile ::
  "'w engine \<Rightarrow> manifest \<Rightarrow> reconcile_opts \<Rightarrow> 'w \<Rightarrow> (plan \<times> apply_result) \<times> 'w"
where
  "Reconcile e m opts w =
     (case reconcileKinds e (Resources m) opts ApplyOrder emptyPlan emptyResult w of
        ((p, result), w) \<Rightarrow>
          if Prune opts then
            (case detectAndExecutePrunes e m (DryRun opts) w of
               ((pruneChanges, pruneResult), w) \<Rightarrow>
                 ((p\<lparr>Changes := Changes p @ pruneChanges,
                     Deletes := Deletes p + length (filter (\<lambda>c. Action c = ActionDelete) pruneChanges)\<rparr>,
                   addResult result pruneResult), w))
          else ((p, result), w))"

end
