(* ===== verification/EngineFacts.thy ===== *)
theory EngineFacts
  imports Engine
begin

text \<open>
  What the reconciliation engine guarantees: the decision taken for one resource, the layout of
  the plan, the effects a run can have on the world, and convergence.
\<close>

section \<open>One resource\<close>

text \<open>The desired spec with its secrets resolved, and the hash of its write-only fields.\<close>

definition desiredSpec :: "'w engine \<Rightarrow> resource \<Rightarrow> 'w \<Rightarrow> gomap" where
  "desiredSpec e r w = resolveSpecSecrets (os e w) (specMap r)"

definition ignored :: "resource \<Rightarrow> bool" where
  "ignored r \<longleftrightarrow> strAt (Annotations r) AnnotationSyncPolicy = SyncPolicyIgnore"

definition desiredHashOf :: "codec \<Rightarrow> resource \<Rightarrow> gomap \<Rightarrow> string" where
  "desiredHashOf cd r spec =
     (if strAt (Annotations r) AnnotationIgnoreWriteOnly = ''true'' then []
      else HashWriteOnlyFields cd spec (WriteOnlyFields (resKind r)) (ParseIgnoreFields (Annotations r)))"

text \<open>
  Drift of the unobservable fields: both hashes present and different, or none observed on a
  kind whose server side stores one.
\<close>

definition hashDrift :: "resource_kind \<Rightarrow> string \<Rightarrow> string \<Rightarrow> bool" where
  "hashDrift kind desired observed \<longleftrightarrow>
     desired \<noteq> [] \<and> desired \<noteq> observed \<and> (observed \<noteq> [] \<or> SupportsWriteOnlyHash kind)"

definition drifted :: "codec \<Rightarrow> resource \<Rightarrow> gomap \<Rightarrow> gomap \<Rightarrow> bool" where
  "drifted cd r spec current \<longleftrightarrow>
     \<not> conforms (WriteOnlyFields (resKind r)) [] spec current \<or>
     hashDrift (resKind r) (desiredHashOf cd r spec) (strOr (map_of current WriteOnlyHashField))"

text \<open>The specification of the decision: the action, and whether it is a forced update.\<close>

fun decide :: "codec \<Rightarrow> resource \<Rightarrow> bool \<Rightarrow> gomap \<Rightarrow> gomap option result \<Rightarrow> action \<times> bool" where
  "decide cd r force spec (Inl err) = (ActionNoop, False)"
| "decide cd r force spec (Inr None) = (if ignored r then ActionNoop else ActionCreate, False)"
| "decide cd r force spec (Inr (Some current)) =
     (if ignored r then (ActionNoop, False)
      else if drifted cd r spec current then (ActionUpdate, False)
      else if force then (ActionUpdate, True) else (ActionNoop, False))"

definition observeErr :: "gomap option result \<Rightarrow> string" where
  "observeErr obs = (case obs of Inl err \<Rightarrow> ''observe failed: '' @ errText err | Inr _ \<Rightarrow> [])"

lemma runSteps_eq:
  "runSteps [stepResolveSecrets e, stepObserve e, stepCompare e] (newContext r force) w =
     (case stepObserve e ((newContext r force)\<lparr>rcSpec := desiredSpec e r w\<rparr>) w of
        ((Some err, rc), w') \<Rightarrow> (rc, w')
      | ((None, rc), w') \<Rightarrow> (snd (fst (stepCompare e rc w')), snd (stepCompare e rc w')))"
  by (simp add: stepResolveSecrets_def desiredSpec_def newContext_def
      split: prod.split option.split)

lemma stepCompare_world [simp]: "snd (stepCompare e rc w) = w"
  by (auto simp: stepCompare_def Let_def split: option.split)

lemma stepCompare_no_error [simp]: "fst (fst (stepCompare e rc w)) = None"
  by (auto simp: stepCompare_def Let_def split: option.split)

lemma stepCompare_change:
  fixes rc :: reconcile_context
  defines "r \<equiv> rcResource rc" and "c \<equiv> rcChange rc"
  assumes "Error c = []" "Forced c = False" "WriteOnlyHash c = []" "Diff c = []"
  shows "rcChange (snd (fst (stepCompare e rc w))) =
    c\<lparr>Action := fst (decide (codec_of e) r (rcForce rc) (rcSpec rc) (Inr (rcCurrent rc))),
      Diff := Diff (rcChange (snd (fst (stepCompare e rc w)))),
      Forced := snd (decide (codec_of e) r (rcForce rc) (rcSpec rc) (Inr (rcCurrent rc))),
      WriteOnlyHash := (if ignored r then [] else desiredHashOf (codec_of e) r (rcSpec rc))\<rparr>"
  using assms
  by (cases "rcCurrent rc")
     (auto simp: stepCompare_def Let_def ignored_def desiredHashOf_def drifted_def hashDrift_def
        CompareSpecExcluding_empty)


lemma stepCompare_diff:
  assumes "Diff (rcChange rc) = []" "WriteOnlyHash (rcChange rc) = []"
  shows "Diff (rcChange (snd (fst (stepCompare e rc w)))) \<noteq> [] \<longleftrightarrow>
    decide (codec_of e) (rcResource rc) (rcForce rc) (rcSpec rc) (Inr (rcCurrent rc)) = (ActionUpdate, False)"
  using assms
  by (cases "rcCurrent rc")
     (auto simp: stepCompare_def Let_def ignored_def desiredHashOf_def drifted_def hashDrift_def
        CompareSpecExcluding_empty split: if_splits)

lemma reconcileOne_spec:
  fixes e :: "'w engine" and r :: resource and w :: 'w and force :: bool
  assumes obs: "Observe (provider e) (resKind r) (resName r) w = (obs, w')"
  defines "d \<equiv> decide (codec_of e) r force (desiredSpec e r w) obs"
  shows "\<exists>df. reconcileOne e r force w =
    (\<lparr>chKind = resKind r, chName = resName r, Action = fst d, Diff = df, Error = observeErr obs,
      Forced = snd d,
      WriteOnlyHash = (if isl obs \<or> ignored r then [] else desiredHashOf (codec_of e) r (desiredSpec e r w))\<rparr>, w')
    \<and> (df \<noteq> [] \<longleftrightarrow> d = (ActionUpdate, False))"
proof (cases obs)
  case (Inl err)
  with obs show ?thesis
    by (simp add: reconcileOne_def stepResolveSecrets_def stepObserve_def newContext_def
        zeroChange_def observeErr_def d_def)
next
  case (Inr current)
  let ?rc = "(newContext r force)\<lparr>rcSpec := desiredSpec e r w, rcCurrent := current\<rparr>"
  let ?c = "rcChange (snd (fst (stepCompare e ?rc w')))"
  have rc: "rcResource ?rc = r" "rcSpec ?rc = desiredSpec e r w" "rcCurrent ?rc = current"
    "rcForce ?rc = force" "Error (rcChange ?rc) = []" "Forced (rcChange ?rc) = False"
    "WriteOnlyHash (rcChange ?rc) = []" "Diff (rcChange ?rc) = []"
    by (simp_all add: newContext_def zeroChange_def)
  have run: "reconcileOne e r force w = (?c, w')"
    unfolding reconcileOne_def runSteps_eq
    using obs Inr by (simp add: stepObserve_def newContext_def)
  have "?c = (rcChange ?rc)\<lparr>Action := fst d, Diff := Diff ?c, Forced := snd d,
      WriteOnlyHash := (if ignored r then [] else desiredHashOf (codec_of e) r (desiredSpec e r w))\<rparr>"
    using stepCompare_change [of ?rc e w'] unfolding rc by (simp add: d_def Inr)
  moreover have "Diff ?c \<noteq> [] \<longleftrightarrow> d = (ActionUpdate, False)"
    using stepCompare_diff [of ?rc e w'] unfolding rc by (simp add: d_def Inr)
  ultimately show ?thesis
    using run Inr by (auto simp: newContext_def zeroChange_def observeErr_def)
qed

lemma decide_actions:
  "fst (decide cd r force spec obs) \<in> {ActionCreate, ActionUpdate, ActionNoop}"
  by (cases "(cd, r, force, spec, obs)" rule: decide.cases) auto

text \<open>What every change of the observe phase says of its resource.\<close>

definition changeFor :: "resource \<Rightarrow> change \<Rightarrow> bool" where
  "changeFor r c \<longleftrightarrow> chKind c = resKind r \<and> chName c = resName r \<and>
     Action c \<in> {ActionCreate, ActionUpdate, ActionNoop} \<and> (Error c \<noteq> [] \<longrightarrow> Action c = ActionNoop)"

lemma reconcileOne_changeFor: "changeFor r (fst (reconcileOne e r force w))"
proof -
  obtain obs w' where o: "Observe (provider e) (resKind r) (resName r) w = (obs, w')" by fastforce
  from reconcileOne_spec [OF o, of force]
    decide_actions [of "codec_of e" r force "desiredSpec e r w" obs]
  show ?thesis by (cases obs) (auto simp: changeFor_def observeErr_def)
qed

section \<open>The phases\<close>

definition schedOk :: "'w engine \<Rightarrow> bool" where
  "schedOk e \<longleftrightarrow> (\<forall>w c n. mset (sched e w c n) = mset [0..<n])"

lemma schedOk_set: "schedOk e \<Longrightarrow> set (sched e w c n) = {..<n}"
  unfolding schedOk_def by (metis atLeast_upt mset_eq_setD)

lemma observeIn_length: "length (fst (observeIn e rs force is cs w)) = length cs"
  by (induction e rs force "is" cs w rule: observeIn.induct) (auto split: prod.split)

lemma observeIn_inv:
  assumes "\<And>r w. I w \<Longrightarrow> Q r (fst (reconcileOne e r force w)) \<and> I (snd (reconcileOne e r force w))"
    and "I w" "\<forall>i<length cs. i \<notin> set js \<longrightarrow> Q (rs ! i) (cs ! i)"
  shows "(\<forall>i<length cs. Q (rs ! i) (fst (observeIn e rs force js cs w) ! i)) \<and>
    I (snd (observeIn e rs force js cs w))"
  using assms(2,3)
proof (induction js arbitrary: cs w)
  case Nil
  then show ?case by simp
next
  case (Cons j js)
  obtain c w' where c: "reconcileOne e (rs ! j) force w = (c, w')" by fastforce
  have Q: "Q (rs ! j) c" and I: "I w'" using assms(1) [OF Cons.prems(1), of "rs ! j"] c by auto
  then have "\<forall>i<length (cs[j := c]). i \<notin> set js \<longrightarrow> Q (rs ! i) (cs[j := c] ! i)"
    using Cons.prems by (metis length_list_update nth_list_update_eq nth_list_update_neq set_ConsD)
  with Cons.IH [OF I] c show ?case by simp
qed

lemma reconcileKind_inv:
  assumes "schedOk e" "I w"
    and "\<And>r w. I w \<Longrightarrow> Q r (fst (reconcileOne e r force w)) \<and> I (snd (reconcileOne e r force w))"
  shows "list_all2 Q rs (fst (reconcileKind e rs force conc w)) \<and> I (snd (reconcileKind e rs force conc w))"
proof -
  have *: "list_all2 Q rs (fst (observeIn e rs force js (replicate (length rs) zeroChange) w)) \<and>
    I (snd (observeIn e rs force js (replicate (length rs) zeroChange) w))"
    if "set js = {..<length rs}" for js
    using observeIn_inv [where I = I and Q = Q, OF assms(3) assms(2), of "replicate (length rs) zeroChange" js rs] that
    by (auto simp: list_all2_conv_all_nth observeIn_length)
  show ?thesis
    using * [of "[0..<length rs]"] * [OF schedOk_set [OF assms(1)]]
    by (auto simp: reconcileKind_def Let_def atLeast_upt)
qed

lemma reconcileKind_changeFor:
  "schedOk e \<Longrightarrow> list_all2 changeFor rs (fst (reconcileKind e rs force conc w))"
  using reconcileKind_inv [where I = "\<lambda>_. True" and Q = changeFor] by (simp add: reconcileOne_changeFor)

section \<open>The plan\<close>

text \<open>The counters of a plan agree with its list of changes.\<close>

definition countAction :: "action \<Rightarrow> change list \<Rightarrow> nat" where
  "countAction a cs = length (filter (\<lambda>c. Action c = a) cs)"

definition tallied :: "plan \<Rightarrow> bool" where
  "tallied p \<longleftrightarrow>
     Creates p = countAction ActionCreate (Changes p) \<and> Updates p = countAction ActionUpdate (Changes p) \<and>
     Noops p = countAction ActionNoop (Changes p) \<and> Deletes p = countAction ActionDelete (Changes p) \<and>
     Creates p + Updates p + Noops p + Deletes p = length (Changes p)"

definition identC :: "change \<Rightarrow> resource_kind \<times> string" where
  "identC c = (chKind c, chName c)"

lemma tallied_empty [simp]: "tallied emptyPlan"
  by (simp add: tallied_def emptyPlan_def countAction_def)

lemma addChange_facts:
  assumes "changeFor r c"
  shows "tallied p \<Longrightarrow> tallied (addChange r c p)"
    and "Changes (addChange r c p) = Changes p @ [c]"
    and "planErrors (addChange r c p) =
      planErrors p @ (if Error c = [] then [] else [failureText (resKind r) (resName r) (Error c)])"
  using assms
  by (auto simp: addChange_def changeFor_def tallied_def countAction_def Let_def split: action.split)

lemma addChanges_facts:
  "list_all2 changeFor rs cs \<Longrightarrow>
     (tallied p \<longrightarrow> tallied (addChanges rs cs p)) \<and> Changes (addChanges rs cs p) = Changes p @ cs"
  by (induction rs cs arbitrary: p rule: list_all2_induct) (auto simp: addChange_facts)

lemma map_identC: "list_all2 changeFor rs cs \<Longrightarrow> map identC cs = map ident rs"
  by (induction rs cs rule: list_all2_induct) (auto simp: changeFor_def ident_def identC_def)

text \<open>The resources of the manifest in the order the engine visits them.\<close>

definition visitOrder :: "resource list \<Rightarrow> resource list" where
  "visitOrder rs = concat (map (byKind rs) ApplyOrder)"

lemma reconcileKinds_plan:
  assumes "schedOk e" "tallied p" "reconcileKinds e rs opts kinds p res w = ((p', res'), w')"
  shows "tallied p' \<and> (\<exists>cs. Changes p' = Changes p @ cs \<and>
      list_all2 changeFor (concat (map (byKind rs) kinds)) cs)"
  using assms(2,3)
proof (induction kinds arbitrary: p res w)
  case Nil
  then show ?case by auto
next
  case (Cons kind kinds)
  show ?case
  proof (cases "byKind rs kind = []")
    case True
    with Cons show ?thesis by simp
  next
    case False
    obtain cs w1 where cs: "reconcileKind e (byKind rs kind) (Force opts) (Concurrency opts) w = (cs, w1)"
      by fastforce
    with reconcileKind_changeFor [OF assms(1), of "byKind rs kind"] have
      all: "list_all2 changeFor (byKind rs kind) cs" by (metis fst_conv)
    let ?p = "addChanges (byKind rs kind) cs p"
    have t: "tallied ?p" and ch: "Changes ?p = Changes p @ cs"
      using addChanges_facts [OF all] Cons.prems by auto
    obtain res1 w2 where "reconcileKinds e rs opts kinds ?p res1 w2 = ((p', res'), w')"
      using Cons.prems(2) False cs by (auto simp: Let_def split: prod.splits if_splits)
    with Cons.IH [OF t] ch obtain ds where
      "tallied p'" "Changes p' = Changes p @ (cs @ ds)" "list_all2 changeFor (concat (map (byKind rs) kinds)) ds"
      by auto
    with list_all2_appendI [OF all] show ?thesis by auto
  qed
qed

section \<open>Pruning\<close>

text \<open>The changes that pruning adds: deletions, and those it deletes, given what was listed.\<close>

definition orphan :: "resource list \<Rightarrow> resource_kind \<Rightarrow> resource_info \<Rightarrow> bool" where
  "orphan rs kind info \<longleftrightarrow> CreatedBy info = ''gcplane'' \<and> (kind, infoName info) \<notin> ident ` set rs"

definition prunableKind :: "resource_kind \<Rightarrow> bool" where
  "prunableKind kind \<longleftrightarrow>
     kind \<notin> set [KindSkill, KindBuiltinToolConfig, KindSkillConfig, KindSystemConfig, KindMCPCredentials, KindSecureCLIGrant]"

lemma inManifest_iff: "inManifest rs kind name \<longleftrightarrow> (kind, name) \<in> ident ` set rs"
  by (auto simp: inManifest_def list_ex_iff ident_def)

lemma orphan_iff: "orphan rs kind info \<longleftrightarrow> CreatedBy info = ''gcplane'' \<and> \<not> inManifest rs kind (infoName info)"
  by (simp add: orphan_def inManifest_iff)

lemma notPruned_iff: "notPruned kind \<longleftrightarrow> \<not> prunableKind kind"
  by (auto simp: notPruned_def prunableKind_def)

definition deletion :: "resource_kind \<Rightarrow> resource_info \<Rightarrow> change" where
  "deletion kind info = zeroChange\<lparr>chKind := kind, chName := infoName info, Action := ActionDelete\<rparr>"

lemma pruneRemotes_changes:
  "fst (fst (pruneRemotes e rs dry kind infos cs res w)) =
     cs @ map (deletion kind) (filter (orphan rs kind) infos)"
  by (induction e rs dry kind infos cs res w rule: pruneRemotes.induct)
     (auto simp: orphan_iff deletion_def Let_def split: prod.split option.split)

text \<open>A deletion that goes back to a listing of one of the kinds.\<close>

definition listedOrphan :: "'w engine \<Rightarrow> resource list \<Rightarrow> resource_kind list \<Rightarrow> change \<Rightarrow> bool" where
  "listedOrphan e rs kinds c \<longleftrightarrow>
     (\<exists>kind infos info w. kind \<in> set kinds \<and> \<not> notPruned kind \<and>
        fst (ListAll (provider e) kind w) = Inr infos \<and> info \<in> set infos \<and>
        orphan rs kind info \<and> c = deletion kind info)"

lemma listedOrphan_mono: "listedOrphan e rs kinds c \<Longrightarrow> listedOrphan e rs (k # kinds) c"
  unfolding listedOrphan_def by (metis list.set_intros(2))

lemma listedOrphan_here:
  assumes "ListAll (provider e) kind w = (Inr infos, w')" "\<not> notPruned kind"
  shows "list_all (listedOrphan e rs (kind # kinds)) (map (deletion kind) (filter (orphan rs kind) infos))"
proof (clarsimp simp: list_all_iff)
  fix info assume "info \<in> set infos" "orphan rs kind info"
  with assms show "listedOrphan e rs (kind # kinds) (deletion kind info)"
    unfolding listedOrphan_def by (metis fst_conv list.set_intros(1))
qed

lemma pruneKinds_changes:
  assumes "pruneKinds e rs dry kinds cs res w = ((cs', res'), w')"
  shows "\<exists>ds. cs' = cs @ ds \<and> list_all (listedOrphan e rs kinds) ds"
  using assms
proof (induction kinds arbitrary: cs res w)
  case Nil
  then show ?case by auto
next
  case (Cons kind kinds)
  have ih: "\<exists>ds. cs' = cs @ ds \<and> list_all (listedOrphan e rs (kind # kinds)) ds"
    if "pruneKinds e rs dry kinds cs res w = ((cs', res'), w')" for cs res w
    using Cons.IH [OF that] by (auto simp: list_all_iff listedOrphan_mono)
  show ?case
  proof (cases "notPruned kind")
    case True
    with Cons.prems ih show ?thesis by simp
  next
    case False
    obtain r w1 where l: "ListAll (provider e) kind w = (r, w1)" by fastforce
    show ?thesis
    proof (cases r)
      case (Inl err)
      with Cons.prems False l ih show ?thesis by simp
    next
      case (Inr infos)
      obtain res1 w2 where p: "pruneRemotes e rs dry kind infos cs res w1 =
          ((cs @ map (deletion kind) (filter (orphan rs kind) infos), res1), w2)"
        using pruneRemotes_changes [of e rs dry kind infos cs res w1] by (metis prod.collapse)
      with Cons.prems False l Inr have
        "pruneKinds e rs dry kinds (cs @ map (deletion kind) (filter (orphan rs kind) infos)) res1 w2 =
           ((cs', res'), w')" by simp
      from ih [OF this] listedOrphan_here [of e kind w infos w1 rs kinds] l Inr False
      show ?thesis by (auto simp: list_all_append)
    qed
  qed
qed


section \<open>Blind no-ops\<close>

lemma warnBlindNoop_set:
  "f \<in> set (warnBlindNoop rc d ob) \<longleftrightarrow> (d = [] \<or> ob = []) \<and> f \<in> set (WriteOnlyFields (resKind (rcResource rc))) \<and>
     (\<exists>v. map_of (rcSpec rc) f = Some v \<and> \<not> trivialVal v)"
  by (auto simp: warnBlindNoop_def split: option.splits)

section \<open>An in-memory provider\<close>

text \<open>
  A provider that stores specs in a map, for evaluating the engine: it owns everything it
  stores, and its scheduler runs the jobs of an errgroup backwards.
\<close>

type_synonym mem = "((resource_kind \<times> string) \<times> gomap) list"

definition memProvider :: "mem provider_ops" where
  "memProvider =
     \<lparr>Observe = (\<lambda>k n w. (Inr (map_of w (k, n)), w)),
      Create = (\<lambda>k n s w. (None, AList.update (k, n) s w)),
      Update = (\<lambda>k n s w. (None, AList.update (k, n) s w)),
      Delete = (\<lambda>k n w. (None, AList.delete (k, n) w)),
      ListAll = (\<lambda>k w. (Inr (map (\<lambda>((k', n), s). \<lparr>infoKind = k, infoName = n,
                   CreatedBy = ''gcplane'', Source = [], IsSystem = False\<rparr>)
                 (filter (\<lambda>((k', n), s). k' = k) w)), w))\<rparr>"

definition memOS :: oscalls where
  "memOS = \<lparr>LookupEnv = (\<lambda>k. None), ReadFile = (\<lambda>p. Inl (errorf ''no such file''))\<rparr>"

definition memEngine :: "mem engine" where
  "memEngine = \<lparr>provider = memProvider, os = (\<lambda>w. memOS), codec_of = demoCodec GNil,
     sched = (\<lambda>w c n. rev [0..<n])\<rparr>"

definition demoResource :: "resource_kind \<Rightarrow> string \<Rightarrow> gomap \<Rightarrow> resource" where
  "demoResource k n s = \<lparr>resKind = k, resName = n, Labels = [], Annotations = [], Spec = Some s\<rparr>"

definition demoManifest :: "resource list \<Rightarrow> manifest" where
  "demoManifest rs =
     \<lparr>APIVersion = ''gcplane.io/v1'', manKind = ''Manifest'', Metadata = \<lparr>metaName = ''m'', Environment = []\<rparr>,
      Connection = \<lparr>Endpoint = ''http://h'', Token = ''t'', TenantID = [], UserID = []\<rparr>, Resources = rs\<rparr>"

definition demoOpts :: "bool \<Rightarrow> bool \<Rightarrow> int \<Rightarrow> reconcile_opts" where
  "demoOpts dry prune conc = \<lparr>DryRun = dry, Prune = prune, Force = False, Concurrency = conc\<rparr>"

definition demoM :: manifest where
  "demoM = demoManifest [demoResource KindAgent ''a'' [(''model'', GStr ''m'')],
     demoResource KindProvider ''p'' [(''enabled'', GBool True)]]"

definition demoW :: mem where
  "demoW = [((KindAgent, ''old''), []), ((KindProvider, ''p''), [(''enabled'', GBool False)])]"

lemma schedOk_mem: "schedOk memEngine"
  by (simp add: schedOk_def memEngine_def)

section \<open>Properties\<close>

text \<open>
  C25: The decision for one resource: an observation error is a no-op that carries the error; an
  absent resource is created; an existing one is updated exactly when its observable fields do
  not conform or its write-only hash has drifted, or when forced; a resource with sync policy
  Ignore is left alone. A diff is attached exactly to the updates that are not merely forced. (A
  resource with sync policy Ignore whose observation fails is not covered, see \<open>ignored_observe_error\<close>.)
\<close>

theorem reconcileOne_decision:
  assumes "Observe (provider e) (resKind r) (resName r) w = (obs, w')"
    and "reconcileOne e r force w = (c, w2)" "\<not> (ignored r \<and> isl obs)"
  shows "w2 = w' \<and> chKind c = resKind r \<and> chName c = resName r \<and> Error c = observeErr obs \<and>
    (Action c, Forced c) = decide (codec_of e) r force (desiredSpec e r w) obs \<and>
    (Diff c \<noteq> [] \<longleftrightarrow> Action c = ActionUpdate \<and> \<not> Forced c) \<and>
    WriteOnlyHash c = (if isl obs \<or> ignored r then []
                       else desiredHashOf (codec_of e) r (desiredSpec e r w))"
  using reconcileOne_spec [OF assms(1), of force] assms(2) by (auto simp: prod_eq_iff)

theorem reconcileOne_decision_witness:
  "Action (fst (reconcileOne memEngine (demoResource KindProvider ''p'' [(''enabled'', GBool True)]) False demoW)) = ActionUpdate"
proof -
  let ?r = "demoResource KindProvider ''p'' [(''enabled'', GBool True)]"
  obtain c w2 where c: "reconcileOne memEngine ?r False demoW = (c, w2)" by fastforce
  have o: "Observe (provider memEngine) (resKind ?r) (resName ?r) demoW =
      (Inr (Some [(''enabled'', GBool False)]), demoW)" by code_simp
  have "CompareSpecExcluding (desiredSpec memEngine ?r demoW) [(''enabled'', GBool False)]
      (WriteOnlyFields (resKind ?r)) \<noteq> []" by code_simp
  then have "drifted (codec_of memEngine) ?r (desiredSpec memEngine ?r demoW) [(''enabled'', GBool False)]"
    by (simp add: drifted_def CompareSpecExcluding_empty)
  moreover have "\<not> ignored ?r" by code_simp
  ultimately show ?thesis using reconcileOne_decision [OF o c] c by simp
qed

text \<open>
  The sync policy is read after the observation: the change of an ignored resource that cannot be observed
  carries the error, and its run counts as one with errors.
\<close>

lemma ignored_observe_error:
  assumes "Observe (provider e) (resKind r) (resName r) w = (Inl err, w')" "ignored r"
  shows "Error (fst (reconcileOne e r force w)) = ''observe failed: '' @ errText err"
  using reconcileOne_spec [OF assms(1), of force] by (simp add: observeErr_def)

text \<open>
  A hash vouches for the value of a field when, among the inputs of a set \<open>D\<close>, only specs with that value
  have it.
\<close>

definition vouches :: "codec \<Rightarrow> resource \<Rightarrow> gval set \<Rightarrow> string \<Rightarrow> string \<Rightarrow> gval \<Rightarrow> bool" where
  "vouches cd r D h f v \<longleftrightarrow>
     (\<forall>spec. hashInput (collectPairs spec (WriteOnlyFields (resKind r)) (ParseIgnoreFields (Annotations r))) \<in> D \<and>
        HashWriteOnlyFields cd spec (WriteOnlyFields (resKind r)) (ParseIgnoreFields (Annotations r)) = h \<longrightarrow>
        map_of spec f = Some v)"

lemma distinct_WriteOnlyFields: "distinct (WriteOnlyFields kind)"
  by (auto simp: WriteOnlyFields_def writeOnlyTable_def)

lemma desiredHashOf_vouches:
  assumes "noCollision cd D" "desiredHashOf cd r spec = h" "h \<noteq> []"
    and "hashInput (collectPairs spec (WriteOnlyFields (resKind r)) (ParseIgnoreFields (Annotations r))) \<in> D"
    and "f \<in> set (WriteOnlyFields (resKind r))" "f \<notin> set (ParseIgnoreFields (Annotations r))" "map_of spec f = Some v"
  shows "vouches cd r D h f v"
  using hash_determines [OF distinct_WriteOnlyFields assms(1,4) _ _ _ assms(5,6)] assms(2,3,7)
  by (fastforce simp: vouches_def desiredHashOf_def split: if_splits)

text \<open>
  C28: No silent blind spot: when the pipeline ends in an unforced no-op on an existing resource
  that is not ignored, every non-trivial write-only field of the desired spec, unless the manifest excludes it
  from tracking, is either in the warning or vouched for: the server returned a hash that, as far as the
  digest does not collide, only a spec with this value of this field can have.
\<close>

theorem blind_noop_is_warned:
  assumes "rcCurrent rc = Some cur" "\<not> ignored (rcResource rc)" "rcForce rc = False"
    and "WriteOnlyHash (rcChange rc) = []"
    and "stepCompare e rc w = ((None, rc'), w')" "Action (rcChange rc') = ActionNoop"
    and "f \<in> set (WriteOnlyFields (resKind (rcResource rc)))" "map_of (rcSpec rc) f = Some v" "\<not> trivialVal v"
    and "f \<notin> set (ParseIgnoreFields (Annotations (rcResource rc)))" "noCollision (codec_of e) D"
    and "hashInput (collectPairs (rcSpec rc) (WriteOnlyFields (resKind (rcResource rc)))
           (ParseIgnoreFields (Annotations (rcResource rc)))) \<in> D"
  shows "f \<in> set (warned rc') \<or>
    (\<exists>h. h \<noteq> [] \<and> map_of cur WriteOnlyHashField = Some (GStr h) \<and> vouches (codec_of e) (rcResource rc) D h f v)"
proof -
  let ?h = "desiredHashOf (codec_of e) (rcResource rc) (rcSpec rc)"
  have "f \<in> set (warned rc') \<or> (?h \<noteq> [] \<and> map_of cur WriteOnlyHashField = Some (GStr ?h))"
    using assms(1-9)
    by (auto simp: stepCompare_def Let_def ignored_def desiredHashOf_def warnBlindNoop_set strOr_nonempty
        split: if_splits)
  with desiredHashOf_vouches [OF assms(11) refl _ assms(12,7,10,8)] show ?thesis by blast
qed

theorem blind_noop_is_warned_witness:
  "''headers'' \<in> set (warned (snd (fst (stepCompare memEngine
     ((newContext (demoResource KindMCPServer ''s'' []) False)\<lparr>rcSpec := [(''headers'', GMap [(''X'', GStr ''y'')])],
       rcCurrent := Some []\<rparr>) []))))"
proof -
  let ?rc = "(newContext (demoResource KindMCPServer ''s'' []) False)\<lparr>rcSpec := [(''headers'', GMap [(''X'', GStr ''y'')])],
       rcCurrent := Some []\<rparr>"
  obtain rc' w' where s: "stepCompare memEngine ?rc [] = ((None, rc'), w')"
    using stepCompare_no_error [of memEngine ?rc "[]"] by (metis prod.collapse)
  have "Action (rcChange (snd (fst (stepCompare memEngine ?rc [])))) = ActionNoop" by code_simp
  with s have n: "Action (rcChange rc') = ActionNoop" by simp
  have i: "\<not> ignored (rcResource ?rc)" "WriteOnlyHash (rcChange ?rc) = []"
    "''headers'' \<in> set (WriteOnlyFields (resKind (rcResource ?rc)))"
    "''headers'' \<notin> set (ParseIgnoreFields (Annotations (rcResource ?rc)))" by code_simp+
  show ?thesis
    using blind_noop_is_warned [of ?rc "[]", OF _ i(1) _ i(2) s n i(3), of "GMap [(''X'', GStr ''y'')]"
        "{hashInput (collectPairs (rcSpec ?rc) (WriteOnlyFields (resKind (rcResource ?rc)))
           (ParseIgnoreFields (Annotations (rcResource ?rc))))}"] s i(4)
    by (simp add: newContext_def noCollision_def)
qed

end
