(* ===== verification/EngineTrace.thy ===== *)
theory EngineTrace
  imports EngineFacts
begin

text \<open>
  Runs of the engine against two providers: if every call of one commutes with an abstraction to
  the other, so does the whole run (the locale \<open>engine_refinement\<close>). Its interpretation on
  \<open>traced\<close>, which records the writing calls of a run, justifies reading the properties below
  about recorded calls as properties of the run itself.
\<close>

section \<open>Refinement of the world\<close>

locale engine_refinement =
  fixes c :: "'w engine" and a :: "'v engine" and abs :: "'w \<Rightarrow> 'v"
  assumes observe: "Observe (provider a) k n (abs w) = map_prod id abs (Observe (provider c) k n w)"
    and create: "Create (provider a) k n s (abs w) = map_prod id abs (Create (provider c) k n s w)"
    and update: "Update (provider a) k n s (abs w) = map_prod id abs (Update (provider c) k n s w)"
    and delete: "Delete (provider a) k n (abs w) = map_prod id abs (Delete (provider c) k n w)"
    and list_all: "ListAll (provider a) k (abs w) = map_prod id abs (ListAll (provider c) k w)"
    and os_abs: "os a (abs w) = os c w"
    and codec_abs: "codec_of a = codec_of c"
    and sched_abs: "sched a (abs w) = sched c w"
begin

lemma stepObserve_abs: "stepObserve a rc (abs w) = map_prod id abs (stepObserve c rc w)"
  by (auto simp: stepObserve_def observe split: prod.split sum.split)

lemma stepCompare_abs: "stepCompare a rc (abs w) = map_prod id abs (stepCompare c rc w)"
  by (auto simp: stepCompare_def codec_abs Let_def split: option.split)

lemma reconcileOne_abs: "reconcileOne a r force (abs w) = map_prod id abs (reconcileOne c r force w)"
  by (auto simp: reconcileOne_def stepResolveSecrets_def os_abs stepObserve_abs stepCompare_abs
      split: prod.split option.split)

lemma execute_abs: "execute a ch r (abs w) = map_prod id abs (execute c ch r w)"
  by (auto simp: execute_def os_abs create update Let_def split: action.split)

lemma observeIn_abs: "observeIn a rs force is cs (abs w) = map_prod id abs (observeIn c rs force is cs w)"
  by (induction "is" arbitrary: cs w) (auto simp: reconcileOne_abs split: prod.split)

lemma reconcileKind_abs:
  "reconcileKind a rs force conc (abs w) = map_prod id abs (reconcileKind c rs force conc w)"
  by (simp add: reconcileKind_def observeIn_abs sched_abs Let_def)

lemma executeIn_abs: "executeIn a cs rs is res (abs w) = map_prod id abs (executeIn c cs rs is res w)"
  by (induction "is" arbitrary: res w) (auto simp: execute_abs Let_def split: prod.split option.split)

lemma executeChanges_abs:
  "executeChanges a cs rs conc (abs w) = map_prod id abs (executeChanges c cs rs conc w)"
  by (simp add: executeChanges_def executeIn_abs sched_abs Let_def)

lemma reconcileKinds_abs:
  "reconcileKinds a rs opts kinds p res (abs w) = map_prod id abs (reconcileKinds c rs opts kinds p res w)"
  by (induction kinds arbitrary: p res w)
     (auto simp: reconcileKind_abs executeChanges_abs Let_def split: prod.split)

lemma pruneRemotes_abs:
  "pruneRemotes a rs dry kind infos cs res (abs w) = map_prod id abs (pruneRemotes c rs dry kind infos cs res w)"
  by (induction infos arbitrary: cs res w) (auto simp: delete Let_def split: prod.split option.split)

lemma pruneKinds_abs:
  "pruneKinds a rs dry kinds cs res (abs w) = map_prod id abs (pruneKinds c rs dry kinds cs res w)"
  by (induction kinds arbitrary: cs res w)
     (auto simp: list_all pruneRemotes_abs split: prod.split sum.split)

lemma Reconcile_abs: "Reconcile a m opts (abs w) = map_prod id abs (Reconcile c m opts w)"
  by (auto simp: Reconcile_def reconcileKinds_abs detectAndExecutePrunes_def pruneKinds_abs
      split: prod.split)

end

section \<open>Recording the writing calls\<close>

type_synonym wcall = "action \<times> resource_kind \<times> string"

definition logged :: "wcall \<Rightarrow> ('w \<Rightarrow> 'r \<times> 'w) \<Rightarrow> 'w \<times> wcall list \<Rightarrow> 'r \<times> ('w \<times> wcall list)" where
  "logged call f s = (case f (fst s) of (r, w) \<Rightarrow> (r, (w, snd s @ [call])))"

definition unlogged :: "('w \<Rightarrow> 'r \<times> 'w) \<Rightarrow> 'w \<times> wcall list \<Rightarrow> 'r \<times> ('w \<times> wcall list)" where
  "unlogged f s = (case f (fst s) of (r, w) \<Rightarrow> (r, (w, snd s)))"

definition traced :: "'w engine \<Rightarrow> ('w \<times> wcall list) engine" where
  "traced e =
     \<lparr>provider =
        \<lparr>Observe = (\<lambda>k n. unlogged (Observe (provider e) k n)),
         Create = (\<lambda>k n s. logged (ActionCreate, k, n) (Create (provider e) k n s)),
         Update = (\<lambda>k n s. logged (ActionUpdate, k, n) (Update (provider e) k n s)),
         Delete = (\<lambda>k n. logged (ActionDelete, k, n) (Delete (provider e) k n)),
         ListAll = (\<lambda>k. unlogged (ListAll (provider e) k))\<rparr>,
      os = (\<lambda>s. os e (fst s)), codec_of = codec_of e, sched = (\<lambda>s. sched e (fst s))\<rparr>"

lemma fst_logged: "map_prod id fst (logged call f s) = f (fst s)"
  by (simp add: logged_def split: prod.split)

lemma fst_unlogged: "map_prod id fst (unlogged f s) = f (fst s)"
  by (simp add: unlogged_def split: prod.split)

interpretation tr: engine_refinement "traced e" e fst
  for e :: "'w engine"
  by unfold_locales (simp_all add: traced_def fst_logged fst_unlogged)

lemma traced_simps [simp]:
  "snd (snd (Observe (provider (traced e)) k n s)) = snd s"
  "snd (snd (ListAll (provider (traced e)) k s)) = snd s"
  "snd (snd (Create (provider (traced e)) k n sp s)) = snd s @ [(ActionCreate, k, n)]"
  "snd (snd (Update (provider (traced e)) k n sp s)) = snd s @ [(ActionUpdate, k, n)]"
  "snd (snd (Delete (provider (traced e)) k n s)) = snd s @ [(ActionDelete, k, n)]"
  by (simp_all add: traced_def logged_def unlogged_def split: prod.split)

lemma schedOk_traced [simp]: "schedOk (traced e) = schedOk e"
  by (auto simp: schedOk_def traced_def)

text \<open>The call a change stands for.\<close>

definition callOf :: "change \<Rightarrow> wcall" where
  "callOf c = (Action c, chKind c, chName c)"

lemma reconcileOne_world: "snd (reconcileOne e r force w) = snd (Observe (provider e) (resKind r) (resName r) w)"
proof -
  obtain obs w' where o: "Observe (provider e) (resKind r) (resName r) w = (obs, w')" by fastforce
  from reconcileOne_spec [OF o, of force] o show ?thesis by auto
qed

lemma observeIn_frame:
  assumes "\<And>k n w. f (snd (Observe (provider e) k n w)) = f w"
  shows "f (snd (observeIn e rs force is cs w)) = f w"
proof (induction "is" arbitrary: cs w)
  case (Cons i "is")
  have "f (snd (reconcileOne e (rs ! i) force w)) = f w" by (simp add: reconcileOne_world assms)
  with Cons show ?case by (auto split: prod.split)
qed simp

lemma reconcileKind_frame:
  assumes "\<And>k n w. f (snd (Observe (provider e) k n w)) = f w"
  shows "f (snd (reconcileKind e rs force conc w)) = f w"
  by (simp add: reconcileKind_def Let_def observeIn_frame [of f, OF assms])

lemma execute_call:
  assumes "changeFor r c" "\<not> skipChange c"
  shows "snd (snd (execute (traced e) c r s)) = snd s @ [callOf c]"
  using assms by (auto simp: execute_def changeFor_def skipChange_def callOf_def Let_def)

lemma executeIn_calls:
  assumes "list_all2 changeFor rs cs" "\<And>i. i \<in> set js \<Longrightarrow> i < length cs \<and> \<not> skipChange (cs ! i)"
  shows "case executeIn (traced e) cs rs js res s of (res', s') \<Rightarrow>
    snd s' = snd s @ map (\<lambda>i. callOf (cs ! i)) js \<and>
    Applied res' + Failed res' = Applied res + Failed res + length js \<and>
    length (resErrors res') + Failed res = length (resErrors res) + Failed res'"
  using assms(2)
proof (induction js arbitrary: res s)
  case (Cons i js)
  have "changeFor (rs ! i) (cs ! i)"
    using assms(1) Cons.prems by (simp add: list_all2_conv_all_nth)
  then have "snd (snd (execute (traced e) (cs ! i) (rs ! i) s)) = snd s @ [callOf (cs ! i)]"
    using Cons.prems by (simp add: execute_call)
  moreover obtain err s' where x: "execute (traced e) (cs ! i) (rs ! i) s = (err, s')"
    by (metis surj_pair)
  ultimately have s': "snd s' = snd s @ [callOf (cs ! i)]" by simp
  show ?case
  proof (cases err)
    case None
    with Cons.IH [where res = "res\<lparr>Applied := Suc (Applied res)\<rparr>" and s = s'] Cons.prems x s' show ?thesis
      by (auto simp: Let_def split: prod.splits)
  next
    case (Some er)
    with Cons.IH [where res = "res\<lparr>Failed := Suc (Failed res), resErrors := resErrors res @
        [failureText (chKind (cs ! i)) (chName (cs ! i)) (errText er)]\<rparr>" and s = s'] Cons.prems x s' show ?thesis
      by (auto simp: Let_def split: prod.splits)
  qed
qed simp


text \<open>The changes that are carried out, and the calls of a kind's execute phase.\<close>

definition effective :: "change list \<Rightarrow> change list" where
  "effective cs = filter (\<lambda>c. \<not> skipChange c) cs"

lemma effective_append [simp]: "effective (xs @ ys) = effective xs @ effective ys"
  by (simp add: effective_def)

lemma map_jobs:
  "map (\<lambda>i. f (xs ! i)) (filter (\<lambda>i. P (xs ! i)) [0..<length xs]) = map f (filter P xs)"
proof -
  have "filter P xs = filter P (map ((!) xs) [0..<length xs])" by (simp add: map_nth)
  then show ?thesis by (simp add: filter_map comp_def)
qed

lemma mset_map_nth: "mset is = mset [0..<length xs] \<Longrightarrow> mset (map ((!) xs) is) = mset xs"
  by (metis map_nth mset_map)

definition callsOf :: "reconcile_opts \<Rightarrow> change list \<Rightarrow> wcall list \<Rightarrow> bool" where
  "callsOf opts cs calls \<longleftrightarrow>
     mset calls = mset (map callOf (effective cs)) \<and>
     (Concurrency opts \<le> 1 \<longrightarrow> calls = map callOf (effective cs))"

lemma callsOf_append:
  "callsOf opts cs calls \<Longrightarrow> callsOf opts ds calls' \<Longrightarrow> callsOf opts (cs @ ds) (calls @ calls')"
  by (auto simp: callsOf_def)

lemma callsOf_Nil [simp]: "callsOf opts [] []"
  by (simp add: callsOf_def effective_def)

lemma executeChanges_calls:
  assumes "schedOk e" "list_all2 changeFor rs cs"
    and "executeChanges (traced e) cs rs (Concurrency opts) s = (res, s')"
  shows "\<exists>calls. snd s' = snd s @ calls \<and> callsOf opts cs calls \<and>
    Applied res + Failed res = length calls \<and> length (resErrors res) = Failed res"
proof -
  let ?jobs = "filter (\<lambda>i. \<not> skipChange (cs ! i)) [0..<length cs]"
  define js where "js = (if Concurrency opts \<le> 1 then ?jobs
    else map (\<lambda>j. ?jobs ! j) (sched (traced e) s (nat (Concurrency opts)) (length ?jobs)))"
  have "mset (sched (traced e) s (nat (Concurrency opts)) (length ?jobs)) = mset [0..<length ?jobs]"
    using assms(1) unfolding schedOk_def traced_def by simp
  from mset_map_nth [OF this] have m: "mset js = mset ?jobs" unfolding js_def by presburger
  then have "set js = set ?jobs" by (rule mset_eq_setD)
  then have job: "\<And>i. i \<in> set js \<Longrightarrow> i < length cs \<and> \<not> skipChange (cs ! i)" by auto
  have x: "executeIn (traced e) cs rs js emptyResult s = (res, s')"
    using assms(3) by (simp add: executeChanges_def Let_def js_def split: if_splits)
  have "snd s' = snd s @ map (\<lambda>i. callOf (cs ! i)) js \<and> Applied res + Failed res = length js \<and>
    length (resErrors res) = Failed res"
    using executeIn_calls [OF assms(2), of js, where e = e and res = emptyResult and s = s, OF job] x
    by (simp add: emptyResult_def)
  moreover have "map callOf (effective cs) = map (\<lambda>i. callOf (cs ! i)) ?jobs"
    by (simp only: effective_def map_jobs [of callOf cs "\<lambda>c. \<not> skipChange c"])
  then have "callsOf opts cs (map (\<lambda>i. callOf (cs ! i)) js)"
    using m unfolding callsOf_def by (simp add: js_def)
  ultimately show ?thesis by auto
qed

lemma reconcileKinds_calls:
  assumes "schedOk e" "reconcileKinds (traced e) rs opts kinds p res s = ((p', res'), s')"
  shows "\<exists>cs. Changes p' = Changes p @ cs \<and>
    (if DryRun opts then snd s' = snd s \<and> res' = res
     else \<exists>calls. snd s' = snd s @ calls \<and> callsOf opts cs calls \<and>
            Applied res' + Failed res' = Applied res + Failed res + length calls \<and>
            length (resErrors res') + Failed res = length (resErrors res) + Failed res')"
  using assms(2)
proof (induction kinds arbitrary: p res s)
  case Nil
  then show ?case by auto
next
  case (Cons kind kinds)
  show ?case
  proof (cases "byKind rs kind = []")
    case True
    with Cons show ?thesis by simp
  next
    case False
    let ?rs = "byKind rs kind"
    obtain cs s1 where cs: "reconcileKind (traced e) ?rs (Force opts) (Concurrency opts) s = (cs, s1)"
      by (metis surj_pair)
    then have all: "list_all2 changeFor ?rs cs"
      using reconcileKind_changeFor [of "traced e" ?rs] assms(1) by (metis fst_conv schedOk_traced)
    have s1: "snd s1 = snd s"
      using reconcileKind_frame [of snd "traced e" ?rs "Force opts" "Concurrency opts" s] cs by simp
    let ?p = "addChanges ?rs cs p"
    have ch: "Changes ?p = Changes p @ cs" using addChanges_facts [OF all] by simp
    show ?thesis
    proof (cases "DryRun opts")
      case True
      with Cons.prems False cs have "reconcileKinds (traced e) rs opts kinds ?p res s1 = ((p', res'), s')"
        by (simp add: Let_def)
      from Cons.IH [OF this] True s1 ch show ?thesis by auto
    next
      case act: False
      obtain kr s2 where x: "executeChanges (traced e) cs ?rs (Concurrency opts) s1 = (kr, s2)"
        by (metis surj_pair)
      from executeChanges_calls [OF assms(1) all x] s1 obtain calls where
        calls: "snd s2 = snd s @ calls" "callsOf opts cs calls"
        "Applied kr + Failed kr = length calls" "length (resErrors kr) = Failed kr" by auto
      from Cons.prems False act cs x have
        "reconcileKinds (traced e) rs opts kinds ?p (addResult res kr) s2 = ((p', res'), s')"
        by (simp add: Let_def)
      from Cons.IH [OF this] act ch obtain ds calls' where
        "Changes p' = Changes p @ (cs @ ds)" "snd s' = snd s2 @ calls'" "callsOf opts ds calls'"
        "Applied res' + Failed res' = Applied res + Failed res + length calls + length calls'"
        "length (resErrors res') + Failed res = length (resErrors res) + Failed res'"
        using calls by (auto simp: addResult_def)
      with calls act callsOf_append [of opts cs calls ds calls'] show ?thesis
        by (auto intro!: exI [of _ "calls @ calls'"])
    qed
  qed
qed

lemma deletion_effective [simp]: "\<not> skipChange (deletion kind info)"
  by (simp add: skipChange_def deletion_def zeroChange_def)

lemma callOf_deletion: "callOf (deletion kind info) = (ActionDelete, kind, infoName info)"
  by (simp add: callOf_def deletion_def)

text \<open>What a prune pass over remotes or kinds has done when it ends.\<close>

definition pruned ::
  "bool \<Rightarrow> change list \<Rightarrow> apply_result \<Rightarrow> wcall list \<Rightarrow> change list \<Rightarrow> apply_result \<Rightarrow> wcall list \<Rightarrow> bool"
where
  "pruned dry cs res t cs' res' t' \<longleftrightarrow>
     (\<exists>ds. cs' = cs @ ds \<and>
       (if dry then t' = t \<and> res' = res
        else t' = t @ map callOf ds \<and>
          Applied res' + Failed res' = Applied res + Failed res + length ds \<and>
          length (resErrors res') + Failed res = length (resErrors res) + Failed res'))"

lemma pruned_refl: "pruned dry cs res t cs res t"
  by (simp add: pruned_def)

lemma pruned_trans:
  "pruned dry cs res t cs1 res1 t1 \<Longrightarrow> pruned dry cs1 res1 t1 cs2 res2 t2 \<Longrightarrow> pruned dry cs res t cs2 res2 t2"
  unfolding pruned_def by (elim exE conjE) (cases dry; simp)

lemma pruneRemotes_calls:
  "pruneRemotes (traced e) rs dry kind infos cs res s = ((cs', res'), s') \<Longrightarrow>
     pruned dry cs res (snd s) cs' res' (snd s')"
proof (induction infos arbitrary: cs res s)
  case Nil
  then show ?case by (simp add: pruned_refl)
next
  case (Cons info infos)
  show ?case
  proof (cases "orphan rs kind info")
    case False
    with Cons show ?thesis by (auto simp: orphan_iff split: if_splits)
  next
    case True
    let ?cs = "cs @ [deletion kind info]"
    show ?thesis
    proof (cases dry)
      case dry: True
      with True Cons.prems have "pruneRemotes (traced e) rs dry kind infos ?cs res s = ((cs', res'), s')"
        by (simp add: orphan_iff deletion_def)
      moreover have "pruned dry cs res (snd s) ?cs res (snd s)"
        using dry by (simp add: pruned_def)
      ultimately show ?thesis using Cons.IH pruned_trans by blast
    next
      case act: False
      obtain err s1 where d: "Delete (provider (traced e)) kind (infoName info) s = (err, s1)"
        by (metis surj_pair)
      then have s1: "snd s1 = snd s @ [callOf (deletion kind info)]"
        using traced_simps(5) [of e kind "infoName info" s] by (simp add: callOf_deletion)
      define res1 where "res1 = (case err of None \<Rightarrow> res\<lparr>Applied := Suc (Applied res)\<rparr>
        | Some er \<Rightarrow> res\<lparr>Failed := Suc (Failed res),
            resErrors := resErrors res @ [failureText kind (infoName info) (errText er)]\<rparr>)"
      from True act d Cons.prems have
        "pruneRemotes (traced e) rs dry kind infos ?cs res1 s1 = ((cs', res'), s')"
        by (auto simp: orphan_iff deletion_def res1_def split: option.splits)
      moreover have "pruned dry cs res (snd s) ?cs res1 (snd s1)"
        using act s1 by (auto simp: pruned_def res1_def split: option.splits)
      ultimately show ?thesis using Cons.IH pruned_trans by blast
    qed
  qed
qed

lemma pruneKinds_calls:
  "pruneKinds (traced e) rs dry kinds cs res s = ((cs', res'), s') \<Longrightarrow>
     pruned dry cs res (snd s) cs' res' (snd s')"
proof (induction kinds arbitrary: cs res s)
  case Nil
  then show ?case by (simp add: pruned_refl)
next
  case (Cons kind kinds)
  show ?case
  proof (cases "notPruned kind")
    case True
    with Cons show ?thesis by simp
  next
    case False
    obtain r s1 where l: "ListAll (provider (traced e)) kind s = (r, s1)" by (metis surj_pair)
    then have s1: "snd s1 = snd s" using traced_simps(2) [of e kind s] by simp
    show ?thesis
    proof (cases r)
      case (Inl err)
      with Cons.IH [of cs res s1] Cons.prems False l s1 show ?thesis by simp
    next
      case (Inr infos)
      obtain cs1 res1 s2 where p: "pruneRemotes (traced e) rs dry kind infos cs res s1 = ((cs1, res1), s2)"
        by (metis surj_pair)
      with Cons.prems False l Inr have "pruneKinds (traced e) rs dry kinds cs1 res1 s2 = ((cs', res'), s')"
        by simp
      from Cons.IH [OF this] pruneRemotes_calls [OF p] s1 show ?thesis by (metis pruned_trans)
    qed
  qed
qed

lemma effective_deletions: "list_all (listedOrphan e rs kinds) ds \<Longrightarrow> effective ds = ds"
  by (auto simp: effective_def list_all_iff listedOrphan_def intro!: filter_True)


section \<open>Whole runs\<close>

lemma Reconcile_traced:
  assumes "schedOk e" "Reconcile (traced e) m opts (w, []) = ((p, res), (w', t))"
  shows "Reconcile e m opts w = ((p, res), w') \<and>
    (if DryRun opts then t = [] \<and> res = emptyResult
     else callsOf opts (Changes p) t \<and> Applied res + Failed res = length t \<and>
       length (resErrors res) = Failed res)"
proof -
  have sim: "Reconcile e m opts w = ((p, res), w')"
    using tr.Reconcile_abs [of e m opts "(w, [])"] assms(2) by simp
  obtain p1 res1 s1 where k: "reconcileKinds (traced e) (Resources m) opts ApplyOrder emptyPlan emptyResult (w, []) =
    ((p1, res1), s1)" by (metis surj_pair)
  note kc = reconcileKinds_calls [OF assms(1) k]
  show ?thesis
  proof (cases "Prune opts")
    case False
    with assms(2) k have "p = p1" "res = res1" "s1 = (w', t)" by (auto simp: Reconcile_def)
    with kc sim show ?thesis by (auto simp: emptyPlan_def emptyResult_def split: if_splits)
  next
    case True
    obtain cs res2 s2 where d: "detectAndExecutePrunes (traced e) m (DryRun opts) s1 = ((cs, res2), s2)"
      by (metis surj_pair)
    then have pk: "pruneKinds (traced e) (Resources m) (DryRun opts) DeleteOrder [] emptyResult s1 = ((cs, res2), s2)"
      by (simp add: detectAndExecutePrunes_def)
    from pruneKinds_changes [OF pk] have eff: "effective cs = cs"
      by (auto dest: effective_deletions)
    from pruneKinds_calls [OF pk] have pr: "pruned (DryRun opts) [] emptyResult (snd s1) cs res2 (snd s2)" .
    from assms(2) k d True have out: "Changes p = Changes p1 @ cs" "res = addResult res1 res2" "s2 = (w', t)"
      by (auto simp: Reconcile_def)
    show ?thesis
      using kc pr out sim eff
      by (cases "DryRun opts")
         (auto simp: pruned_def callsOf_def addResult_def emptyPlan_def emptyResult_def)
  qed
qed

lemma Reconcile_layout:
  assumes "schedOk e" "Reconcile e m opts w = ((p, res), w')"
  shows "tallied p \<and> (\<exists>cs ds. Changes p = cs @ ds \<and> list_all2 changeFor (visitOrder (Resources m)) cs \<and>
    list_all (listedOrphan e (Resources m) DeleteOrder) ds \<and> (\<not> Prune opts \<longrightarrow> ds = []))"
proof -
  obtain p1 res1 w1 where k: "reconcileKinds e (Resources m) opts ApplyOrder emptyPlan emptyResult w =
    ((p1, res1), w1)" by (metis surj_pair)
  from reconcileKinds_plan [OF assms(1) tallied_empty k] obtain cs where
    cs: "tallied p1" "Changes p1 = cs" "list_all2 changeFor (visitOrder (Resources m)) cs"
    by (auto simp: emptyPlan_def visitOrder_def)
  show ?thesis
  proof (cases "Prune opts")
    case False
    with assms(2) k have "p = p1" by (simp add: Reconcile_def)
    with cs False show ?thesis by auto
  next
    case True
    obtain ds res2 w2 where d: "detectAndExecutePrunes e m (DryRun opts) w1 = ((ds, res2), w2)"
      by (metis surj_pair)
    then obtain ds' where ds': "ds = ds'" "list_all (listedOrphan e (Resources m) DeleteOrder) ds'"
      using pruneKinds_changes by (fastforce simp: detectAndExecutePrunes_def)
    have p: "p = p1\<lparr>Changes := Changes p1 @ ds,
        Deletes := Deletes p1 + length (filter (\<lambda>c. Action c = ActionDelete) ds)\<rparr>"
      using assms(2) k d True by (simp add: Reconcile_def)
    have del: "Action c = ActionDelete" if "c \<in> set ds" for c
      using ds' that by (auto simp: list_all_iff listedOrphan_def deletion_def)
    then have "tallied p"
      using cs(1) unfolding p tallied_def countAction_def
      by (auto simp: filter_empty_conv)
    with p cs ds' True show ?thesis by auto
  qed
qed

lemma pruneKinds_dry:
  assumes "\<And>k. snd (ListAll (provider e) k w) = w"
  shows "pruneKinds e rs True kinds cs res w =
    ((cs @ concat (map (\<lambda>k. case fst (ListAll (provider e) k w) of
          Inl _ \<Rightarrow> [] | Inr infos \<Rightarrow> map (deletion k) (filter (orphan rs k) infos))
        (filter (\<lambda>k. \<not> notPruned k) kinds)), res), w)"
proof (induction kinds arbitrary: cs)
  case (Cons kind kinds)
  have r: "pruneRemotes e rs True kind infos cs res w =
      ((cs @ map (deletion kind) (filter (orphan rs kind) infos), res), w)" for infos cs
    by (induction infos arbitrary: cs) (auto simp: orphan_iff deletion_def)
  obtain l where l: "ListAll (provider e) kind w = (l, w)" using assms by (metis prod.collapse)
  then show ?case using Cons by (cases l) (auto simp: r)
qed simp

section \<open>Dry runs\<close>

lemma pruneRemotes_dry_world: "snd (pruneRemotes e rs True kind infos cs res w) = w"
  by (induction infos arbitrary: cs res) (auto simp: Let_def split: prod.split)

lemma pruneKinds_dry_frame:
  assumes "\<And>k w. f (snd (ListAll (provider e) k w)) = f w"
  shows "f (snd (pruneKinds e rs True kinds cs res w)) = f w"
proof (induction kinds arbitrary: cs res w)
  case (Cons k kinds)
  obtain r w1 where l: "ListAll (provider e) k w = (r, w1)" by fastforce
  with assms [of k w] have "f w1 = f w" by simp
  with Cons l show ?case
    by (auto split: sum.split prod.split)
      (metis pruneRemotes_dry_world snd_conv)+
qed simp

lemma reconcileKinds_dry_frame:
  assumes "DryRun opts" "\<And>k n w. f (snd (Observe (provider e) k n w)) = f w"
  shows "f (snd (reconcileKinds e rs opts kinds p res w)) = f w"
proof (induction kinds arbitrary: p res w)
  case (Cons k kinds)
  with assms(1) reconcileKind_frame [of f e, OF assms(2)] show ?case
    by (auto simp: Let_def split: prod.split) (metis snd_conv)+
qed simp

lemma Reconcile_dry_frame:
  assumes "DryRun opts" "\<And>k n w. f (snd (Observe (provider e) k n w)) = f w"
    and "\<And>k w. f (snd (ListAll (provider e) k w)) = f w"
  shows "f (snd (Reconcile e m opts w)) = f w"
  using assms(1) reconcileKinds_dry_frame [of opts f e, OF assms(1,2)] pruneKinds_dry_frame [of f e, OF assms(3)]
  by (auto simp: Reconcile_def detectAndExecutePrunes_def split: prod.split) (metis snd_conv)+

section \<open>Properties\<close>

text \<open>
  C3: A dry run writes nothing: whatever the provider answers, no Create, Update or Delete call is
  made, and the apply result stays empty. (The recorded run is the run itself.)
\<close>

theorem dry_run_writes_nothing:
  assumes "schedOk e" "DryRun opts" "Reconcile (traced e) m opts (w, []) = ((p, res), (w', t))"
  shows "Reconcile e m opts w = ((p, res), w') \<and> t = [] \<and> res = emptyResult"
  using Reconcile_traced [OF assms(1,3)] assms(2) by simp

theorem dry_run_writes_nothing_witness:
  "snd (snd (Reconcile (traced memEngine) demoM (demoOpts True True 0) (demoW, []))) = []"
proof -
  obtain p res w' t where r: "Reconcile (traced memEngine) demoM (demoOpts True True 0) (demoW, []) =
    ((p, res), (w', t))" by (metis surj_pair)
  with dry_run_writes_nothing [OF schedOk_mem _ r] show ?thesis by (simp add: demoOpts_def)
qed

text \<open>
  C2: A run that is not a dry run makes exactly the writing calls its plan shows: one Create,
  Update or Delete for each change that is neither a no-op nor an error, in plan order when the
  engine is sequential and as a permutation within the run otherwise; the result counts every
  call as applied or failed, with one error text for each failure.
\<close>

theorem apply_executes_exactly_the_plan:
  assumes "schedOk e" "\<not> DryRun opts" "Reconcile (traced e) m opts (w, []) = ((p, res), (w', t))"
  shows "Reconcile e m opts w = ((p, res), w') \<and>
    mset t = mset (map callOf (filter (\<lambda>c. \<not> skipChange c) (Changes p))) \<and>
    (Concurrency opts \<le> 1 \<longrightarrow> t = map callOf (filter (\<lambda>c. \<not> skipChange c) (Changes p))) \<and>
    Applied res + Failed res = length t \<and> length (resErrors res) = Failed res"
  using Reconcile_traced [OF assms(1,3)] assms(2) by (simp add: callsOf_def effective_def)

theorem apply_executes_exactly_the_plan_witness:
  "\<exists>p res w' t. Reconcile (traced memEngine) demoM (demoOpts False True 0) (demoW, []) = ((p, res), (w', t)) \<and>
     map callOf (filter (\<lambda>c. \<not> skipChange c) (Changes p)) = t \<and>
     t = [(ActionUpdate, KindProvider, ''p''), (ActionCreate, KindAgent, ''a''), (ActionDelete, KindAgent, ''old'')]"
proof -
  obtain p res w' t where r: "Reconcile (traced memEngine) demoM (demoOpts False True 0) (demoW, []) =
    ((p, res), (w', t))" by (metis surj_pair)
  have "snd (snd (Reconcile (traced memEngine) demoM (demoOpts False True 0) (demoW, []))) =
    [(ActionUpdate, KindProvider, ''p''), (ActionCreate, KindAgent, ''a''), (ActionDelete, KindAgent, ''old'')]"
    by code_simp
  with r apply_executes_exactly_the_plan [OF schedOk_mem _ r] show ?thesis by (simp add: demoOpts_def)
qed

text \<open>
  C26: The plan lists every manifest resource of a known kind exactly once, in dependency order and
  within a kind in manifest order, followed by the deletions of pruning if it is enabled; the
  counters add up.
\<close>

theorem plan_lists_every_resource:
  assumes "schedOk e" "Reconcile e m opts w = ((p, res), w')"
  shows "\<exists>cs ds. Changes p = cs @ ds \<and>
    map identC cs = map ident (concat (map (byKind (Resources m)) ApplyOrder)) \<and>
    (\<not> Prune opts \<longrightarrow> ds = []) \<and>
    Creates p = countAction ActionCreate cs \<and> Updates p = countAction ActionUpdate cs \<and>
    Noops p = countAction ActionNoop cs \<and> Deletes p = length ds \<and>
    Creates p + Updates p + Noops p + Deletes p = length (Changes p)"
proof -
  from Reconcile_layout [OF assms] obtain cs ds where
    t: "tallied p" and c: "Changes p = cs @ ds" "list_all2 changeFor (visitOrder (Resources m)) cs"
      "list_all (listedOrphan e (Resources m) DeleteOrder) ds" "\<not> Prune opts \<longrightarrow> ds = []" by blast
  have del: "Action x = ActionDelete" if "x \<in> set ds" for x
    using c(3) that by (auto simp: list_all_iff listedOrphan_def deletion_def)
  have nodel: "Action x \<noteq> ActionDelete" if "x \<in> set cs" for x
    using c(2) that by (auto simp: list_all2_conv_all_nth changeFor_def in_set_conv_nth)
  have "countAction a (cs @ ds) = countAction a cs" if "a \<noteq> ActionDelete" for a
    using del that by (auto simp: countAction_def filter_empty_conv)
  moreover have "countAction ActionDelete (cs @ ds) = length ds"
    using del nodel by (auto simp: countAction_def filter_empty_conv)
  ultimately show ?thesis
    using t c map_identC [OF c(2)] by (auto simp: tallied_def visitOrder_def)
qed

theorem plan_lists_every_resource_witness:
  "\<exists>p res w' cs ds. Reconcile memEngine demoM (demoOpts True True 0) demoW = ((p, res), w') \<and>
     Changes p = cs @ ds \<and>
     map identC cs = map ident (concat (map (byKind (Resources demoM)) ApplyOrder))"
proof -
  obtain p res w' where r: "Reconcile memEngine demoM (demoOpts True True 0) demoW = ((p, res), w')"
    by (metis surj_pair)
  with plan_lists_every_resource [OF schedOk_mem r] show ?thesis by blast
qed

text \<open>
  C4: Pruning is safe: every deletion of a plan goes back to a resource that the provider listed
  as created by gcplane, of a kind that pruning covers, and that the manifest does not contain.
\<close>

theorem prune_deletes_only_owned_orphans:
  assumes "schedOk e" "Reconcile e m opts w = ((p, res), w')"
    and "c \<in> set (Changes p)" "Action c = ActionDelete"
  shows "Prune opts \<and> prunableKind (chKind c) \<and> (chKind c, chName c) \<notin> ident ` set (Resources m) \<and>
    (\<exists>w1 infos info. fst (ListAll (provider e) (chKind c) w1) = Inr infos \<and> info \<in> set infos \<and>
       infoName info = chName c \<and> CreatedBy info = ''gcplane'')"
proof -
  from Reconcile_layout [OF assms(1,2)] obtain cs ds where
    c: "Changes p = cs @ ds" "list_all2 changeFor (visitOrder (Resources m)) cs"
      "list_all (listedOrphan e (Resources m) DeleteOrder) ds" "\<not> Prune opts \<longrightarrow> ds = []" by blast
  have "c \<notin> set cs"
    using c(2) assms(4) by (auto simp: list_all2_conv_all_nth changeFor_def in_set_conv_nth)
  with c(1) assms(3) have mem: "c \<in> set ds" by simp
  then have "listedOrphan e (Resources m) DeleteOrder c" using c(3) by (simp add: list_all_iff)
  then have "prunableKind (chKind c) \<and> (chKind c, chName c) \<notin> ident ` set (Resources m) \<and>
    (\<exists>w1 infos info. fst (ListAll (provider e) (chKind c) w1) = Inr infos \<and> info \<in> set infos \<and>
       infoName info = chName c \<and> CreatedBy info = ''gcplane'')"
    unfolding listedOrphan_def orphan_def notPruned_iff by (auto simp: deletion_def)
  with c(4) mem show ?thesis by auto
qed

theorem prune_deletes_only_owned_orphans_witness:
  "\<exists>p res w' c. Reconcile memEngine demoM (demoOpts True True 0) demoW = ((p, res), w') \<and>
     c \<in> set (Changes p) \<and> Action c = ActionDelete \<and> (chKind c, chName c) \<notin> ident ` set (Resources demoM)"
proof -
  obtain p res w' where r: "Reconcile memEngine demoM (demoOpts True True 0) demoW = ((p, res), w')"
    by (metis surj_pair)
  have "list_ex (\<lambda>c. Action c = ActionDelete)
      (Changes (fst (fst (Reconcile memEngine demoM (demoOpts True True 0) demoW))))" by code_simp
  with r obtain c where "c \<in> set (Changes p)" "Action c = ActionDelete" by (auto simp: list_ex_iff)
  with prune_deletes_only_owned_orphans [OF schedOk_mem r] r show ?thesis by blast
qed

text \<open>
  C9: Pruning is complete and ordered: in a dry run against a provider whose listings leave the
  world alone, the planned deletions are exactly the owned orphans of every prunable kind whose
  listing succeeds, dependents before what they depend on.
\<close>

theorem prune_plan_is_complete:
  assumes "\<And>k. snd (ListAll (provider e) k w) = w"
  shows "detectAndExecutePrunes e m True w =
    ((concat (map (\<lambda>k. case fst (ListAll (provider e) k w) of
          Inl _ \<Rightarrow> []
        | Inr infos \<Rightarrow> map (deletion k) (filter (orphan (Resources m) k) infos))
      (filter prunableKind (rev ApplyOrder))), emptyResult), w)"
  using pruneKinds_dry [of e w "Resources m" DeleteOrder "[]" emptyResult] assms
  by (simp add: detectAndExecutePrunes_def DeleteOrder_rev notPruned_iff)

theorem prune_plan_is_complete_witness:
  "fst (fst (detectAndExecutePrunes memEngine demoM True demoW)) =
     concat (map (\<lambda>k. case fst (ListAll (provider memEngine) k demoW) of
          Inl _ \<Rightarrow> []
        | Inr infos \<Rightarrow> map (deletion k) (filter (orphan (Resources demoM) k) infos))
      (filter prunableKind (rev ApplyOrder))) \<and>
   map identC (fst (fst (detectAndExecutePrunes memEngine demoM True demoW))) = [(KindAgent, ''old'')]"
proof -
  have "\<And>k. snd (ListAll (provider memEngine) k demoW) = demoW"
    by (simp add: memEngine_def memProvider_def)
  from prune_plan_is_complete [of memEngine demoW demoM, OF this]
  have "fst (fst (detectAndExecutePrunes memEngine demoM True demoW)) =
     concat (map (\<lambda>k. case fst (ListAll (provider memEngine) k demoW) of
          Inl _ \<Rightarrow> []
        | Inr infos \<Rightarrow> map (deletion k) (filter (orphan (Resources demoM) k) infos))
      (filter prunableKind (rev ApplyOrder)))" by simp
  moreover have "map identC (fst (fst (detectAndExecutePrunes memEngine demoM True demoW))) = [(KindAgent, ''old'')]"
    by code_simp
  ultimately show ?thesis by blast
qed

end
