(* ===== verification/Skillpkg.thy ===== *)
theory Skillpkg
  imports Paths
begin

text \<open>
  \<open>internal/skillpkg\<close>: packing a skill directory into a deterministic archive (\<open>skillpkg.go\<close>) and
  unpacking server files into a directory (\<open>unpack.go\<close>). \<open>PackDir\<close> reads a file tree; \<open>UnpackTo\<close>
  changes the disk, so it threads an arbitrary world through the file-system calls it makes.
  The ZIP encoding and SHA-256 are parameters.
\<close>

section \<open>File trees\<close>

text \<open>
  A regular file (its contents, \<open>None\<close> when it cannot be read), a directory, a directory that
  cannot be listed, and anything else (a symbolic link, a device) with what reading it gives.
\<close>

datatype fsnode =
    FFile "string option"
  | FDir "(string \<times> fsnode) list"
  | FDenied
  | FSpecial "string option"

fun fsize :: "fsnode \<Rightarrow> nat" where
  "fsize (FDir es) = Suc (sum_list (map (\<lambda>(k, n). Suc (fsize n)) es))"
| "fsize _ = 1"

definition esize :: "(string \<times> fsnode) list \<Rightarrow> nat" where
  "esize es = sum_list (map (\<lambda>(k, n). Suc (fsize n)) es)"

lemma fsize_FDir [simp]: "fsize (FDir es) = Suc (esize es)"
  by (simp add: esize_def)

declare fsize.simps(1) [simp del]

lemma esize_simps [simp]: "esize [] = 0" "esize ((k, n) # es) = Suc (fsize n) + esize es"
  by (simp_all add: esize_def)

fun nodeIn :: "fsnode \<Rightarrow> string list \<Rightarrow> fsnode option" where
  "nodeIn n [] = Some n"
| "nodeIn (FDir es) (c # cs) = (case map_of es c of None \<Rightarrow> None | Some n \<Rightarrow> nodeIn n cs)"
| "nodeIn _ (c # cs) = None"

record disk =
  rootNode :: fsnode
  cwd :: "string list"

definition pathComps :: "disk \<Rightarrow> string \<Rightarrow> string list" where
  "pathComps d p = cleanComps True (if IsAbs p then slashSplit p else cwd d @ slashSplit p)"

definition nodeAt :: "disk \<Rightarrow> string \<Rightarrow> fsnode option" where
  "nodeAt d p = nodeIn (rootNode d) (pathComps d p)"

fun nodeBytes :: "string \<Rightarrow> fsnode option \<Rightarrow> string result" where
  "nodeBytes p (Some (FFile (Some b))) = Inr b"
| "nodeBytes p (Some (FSpecial (Some b))) = Inr b"
| "nodeBytes p None = Inl (GoErr (Some ErrNotExist) (''open '' @ p @ '': no such file or directory''))"
| "nodeBytes p (Some (FDir es)) = Inl (errorf (''read '' @ p @ '': is a directory''))"
| "nodeBytes p _ = Inl (errorf (''open '' @ p @ '': permission denied''))"

definition diskRead :: "disk \<Rightarrow> string \<Rightarrow> string result" where
  "diskRead d p = nodeBytes p (nodeAt d p)"

section \<open>Packing\<close>

record packer =
  zipArchive :: "(string \<times> string) list \<Rightarrow> string"
  packHash :: "string \<Rightarrow> string"

record pack_result =
  ZIP :: string
  ContentHash :: string
  SkillMD :: string

definition SkillFilename :: string where
  "SkillFilename = ''SKILL.md''"

definition MaxFileSize :: int where
  "MaxFileSize = 4194304"

definition isSkippedDir :: "string \<Rightarrow> bool" where
  "isSkippedDir name \<longleftrightarrow>
     name = ''.git'' \<or> name = ''.github'' \<or> name = ''node_modules'' \<or> name = ''__pycache__'' \<or>
     name = ''.venv'' \<or> name = ''venv'' \<or> hasPrefix ''.'' name"

definition isSkippedFile :: "string \<Rightarrow> bool" where
  "isSkippedFile name \<longleftrightarrow>
     name = ''.DS_Store'' \<or> name = ''Thumbs.db'' \<or> name = ''.gitkeep'' \<or> name = ''.gitignore'' \<or>
     hasPrefix ''.'' name"

text \<open>\<open>filepath.WalkDir\<close> below the root with the closure of \<open>collectFiles\<close>; paths relative to the root.\<close>

function walkEntries :: "string list \<Rightarrow> (string \<times> fsnode) list \<Rightarrow> string list result" where
  "walkEntries pre [] = Inr []"
| "walkEntries pre ((name, n) # es) =
     (case (case n of
              FDir sub \<Rightarrow> if isSkippedDir name then Inr [] else walkEntries (pre @ [name]) sub
            | FDenied \<Rightarrow> if isSkippedDir name then Inr [] else
                Inl (errorf (''open '' @ strJoin ''/'' (pre @ [name]) @ '': permission denied''))
            | FFile _ \<Rightarrow> if isSkippedFile name then Inr [] else Inr [strJoin ''/'' (pre @ [name])]
            | FSpecial _ \<Rightarrow> Inr []) of
        Inl err \<Rightarrow> Inl err
      | Inr out \<Rightarrow>
          (case walkEntries pre es of Inl err \<Rightarrow> Inl err | Inr rest \<Rightarrow> Inr (out @ rest)))"
  by pat_completeness auto
termination
  by (relation "measure (\<lambda>(pre, es). esize es)") auto

definition collectFiles :: "disk \<Rightarrow> string \<Rightarrow> string list result" where
  "collectFiles d root =
     (case (case nodeAt d root of
              None \<Rightarrow> Inl (GoErr (Some ErrNotExist) (''lstat '' @ root @ '': no such file or directory''))
            | Some (FDir es) \<Rightarrow> walkEntries [] es
            | Some FDenied \<Rightarrow> Inl (errorf (''open '' @ root @ '': permission denied''))
            | Some (FFile _) \<Rightarrow> if isSkippedFile (Base root) then Inr [] else Inr [''.'']
            | Some (FSpecial _) \<Rightarrow> Inr []) of
        Inl err \<Rightarrow> Inl (wrapf (''walk '' @ root @ '': '') err)
      | Inr out \<Rightarrow> Inr out)"

fun packLoop :: "disk \<Rightarrow> string \<Rightarrow> string list \<Rightarrow> (string \<times> string) list result" where
  "packLoop d dir [] = Inr []"
| "packLoop d dir (rel # rels) =
     (case diskRead d (JoinPath [dir, rel]) of
        Inl err \<Rightarrow> Inl (wrapf (''read '' @ rel @ '': '') err)
      | Inr bytes \<Rightarrow>
          if int (length bytes) > MaxFileSize then Inl (errorf (rel @ '' exceeds 4194304 bytes''))
          else (case packLoop d dir rels of
                  Inl err \<Rightarrow> Inl err
                | Inr rest \<Rightarrow> Inr ((rel, bytes) # rest)))"

definition PackDir :: "packer \<Rightarrow> disk \<Rightarrow> string \<Rightarrow> pack_result result" where
  "PackDir pk d dir =
     (case diskRead d (JoinPath [dir, SkillFilename]) of
        Inl err \<Rightarrow> Inl (wrapf (''read '' @ SkillFilename @ '': '') err)
      | Inr skillBytes \<Rightarrow>
          (case collectFiles d dir of
             Inl err \<Rightarrow> Inl err
           | Inr files \<Rightarrow>
               (case packLoop d dir (sort files) of
                  Inl err \<Rightarrow> Inl err
                | Inr entries \<Rightarrow>
                    let buf = zipArchive pk entries in
                    Inr \<lparr>ZIP = buf, ContentHash = packHash pk buf, SkillMD = skillBytes\<rparr>)))"

section \<open>Unpacking\<close>

text \<open>The file-system calls \<open>UnpackTo\<close> makes; \<open>WalkFiles\<close> lists the files below a directory.\<close>

record 'w fsops =
  fsRead :: "string \<Rightarrow> 'w \<Rightarrow> string result"
  fsMkdirAll :: "string \<Rightarrow> 'w \<Rightarrow> goerr option \<times> 'w"
  fsWrite :: "string \<Rightarrow> string \<Rightarrow> 'w \<Rightarrow> goerr option \<times> 'w"
  fsRemove :: "string \<Rightarrow> 'w \<Rightarrow> goerr option \<times> 'w"
  fsWalkFiles :: "string \<Rightarrow> 'w \<Rightarrow> string list \<times> goerr option"

record skill_file =
  Path :: string
  Data :: string

text \<open>Equal digests stand for equal contents (\<open>sha256.Sum256\<close> is a parameter).\<close>

definition needsWrite :: "(string \<Rightarrow> string) \<Rightarrow> 'w fsops \<Rightarrow> string \<Rightarrow> string \<Rightarrow> 'w \<Rightarrow> bool" where
  "needsWrite digest ops absp bytes w =
     (case fsRead ops absp w of Inl _ \<Rightarrow> True | Inr existing \<Rightarrow> digest bytes \<noteq> digest existing)"

text \<open>\<open>filepath.Dir\<close>: everything up to the last slash, cleaned.\<close>

definition DirOf :: "string \<Rightarrow> string" where
  "DirOf p = Clean (rev (dropWhile (\<lambda>c. c \<noteq> CHR ''/'') (rev p)))"

fun unpackLoop ::
  "(string \<Rightarrow> string) \<Rightarrow> 'w fsops \<Rightarrow> string \<Rightarrow> skill_file list \<Rightarrow> string list \<Rightarrow> string list \<Rightarrow>
   'w \<Rightarrow> (string list \<times> string list) result \<times> 'w"
where
  "unpackLoop digest ops outDir [] written changed w = (Inr (written, changed), w)"
| "unpackLoop digest ops outDir (f # fs) written changed w =
     (let rel = Path f in
      if IsAbs rel \<or> strContains rel ''..''
      then (Inl (errorf (''rejected unsafe path '' @ goQuote (Path f))), w)
      else if isSkippedFile (Base rel) \<or> isSkippedDir (hd (slashSplit rel))
      then unpackLoop digest ops outDir fs written changed w
      else if int (length (Data f)) > MaxFileSize
      then (Inl (errorf (''file '' @ goQuote (Path f) @ '' exceeds max size 4194304 bytes'')), w)
      else
        let absp = JoinPath [outDir, rel] in
        if \<not> hasPrefix (outDir @ ''/'') absp \<and> absp \<noteq> outDir
        then (Inl (errorf (''rejected path escaping outDir: '' @ goQuote (Path f))), w)
        else if \<not> needsWrite digest ops absp (Data f) w
        then unpackLoop digest ops outDir fs (List.insert rel written) changed w
        else (case fsMkdirAll ops (DirOf absp) w of
                (Some err, w) \<Rightarrow> (Inl (wrapf (''mkdir '' @ DirOf absp @ '': '') err), w)
              | (None, w) \<Rightarrow>
                  (case fsWrite ops absp (Data f) w of
                     (Some err, w) \<Rightarrow> (Inl (wrapf (''write '' @ rel @ '': '') err), w)
                   | (None, w) \<Rightarrow>
                       unpackLoop digest ops outDir fs (List.insert rel written) (changed @ [rel]) w)))"

text \<open>\<open>pruneLocal\<close>: the paths of \<open>fsWalkFiles\<close> are relative to \<open>outDir\<close>.\<close>

fun pruneLoop ::
  "'w fsops \<Rightarrow> string \<Rightarrow> string list \<Rightarrow> string list \<Rightarrow> string list \<Rightarrow> 'w \<Rightarrow> string list result \<times> 'w"
where
  "pruneLoop ops outDir keep [] deleted w = (Inr deleted, w)"
| "pruneLoop ops outDir keep (rel # rels) deleted w =
     (if rel \<in> set keep then pruneLoop ops outDir keep rels deleted w
      else case fsRemove ops (JoinPath [outDir, rel]) w of
             (Some err, w) \<Rightarrow>
               if \<not> errorsIs err ErrNotExist then (Inl (wrapf (''prune '' @ rel @ '': '') err), w)
               else pruneLoop ops outDir keep rels (deleted @ [rel]) w
           | (None, w) \<Rightarrow> pruneLoop ops outDir keep rels (deleted @ [rel]) w)"

definition pruneLocal :: "'w fsops \<Rightarrow> string \<Rightarrow> string list \<Rightarrow> 'w \<Rightarrow> string list result \<times> 'w" where
  "pruneLocal ops outDir keep w =
     (case fsWalkFiles ops outDir w of
        (rels, walkErr) \<Rightarrow>
          (case pruneLoop ops outDir keep rels [] w of
             (Inl err, w) \<Rightarrow> (Inl err, w)
           | (Inr deleted, w) \<Rightarrow>
               (case walkErr of Some err \<Rightarrow> (Inl err, w) | None \<Rightarrow> (Inr deleted, w))))"

definition UnpackTo ::
  "(string \<Rightarrow> string) \<Rightarrow> 'w fsops \<Rightarrow> string \<Rightarrow> skill_file list \<Rightarrow> bool \<Rightarrow> 'w \<Rightarrow> string list result \<times> 'w"
where
  "UnpackTo digest ops outDir files prune w =
     (if outDir = [] then (Inl (errorf ''outDir must not be empty''), w)
      else case unpackLoop digest ops outDir files [] [] w of
             (Inl err, w) \<Rightarrow> (Inl err, w)
           | (Inr (written, changed), w) \<Rightarrow>
               if prune then
                 (case pruneLocal ops outDir written w of
                    (Inl err, w) \<Rightarrow> (Inl err, w)
                  | (Inr pruned, w) \<Rightarrow> (Inr (changed @ pruned), w))
               else (Inr changed, w))"


section \<open>What a pack contains\<close>

text \<open>A regular file that no rule skips, by its components below the root.\<close>

fun visible :: "fsnode \<Rightarrow> string list \<Rightarrow> bool" where
  "visible (FDir es) [f] = (\<not> isSkippedFile f \<and> (case map_of es f of Some (FFile _) \<Rightarrow> True | _ \<Rightarrow> False))"
| "visible (FDir es) (d # c # cs) =
     (\<not> isSkippedDir d \<and> (case map_of es d of Some n \<Rightarrow> visible n (c # cs) | None \<Rightarrow> False))"
| "visible _ _ = False"

fun wfNode :: "fsnode \<Rightarrow> bool" where
  "wfNode (FDir es) = (distinct (map fst es) \<and> list_all (\<lambda>(k, n). plainComp k \<and> wfNode n) es)"
| "wfNode _ = True"

lemma visible_Cons:
  "visible n (c # cs) \<longleftrightarrow>
     (\<exists>es. n = FDir es \<and>
       (if cs = [] then \<not> isSkippedFile c \<and> (\<exists>b. map_of es c = Some (FFile b))
        else \<not> isSkippedDir c \<and> (\<exists>m. map_of es c = Some m \<and> visible m cs)))"
  by (cases n; cases cs) (auto split: option.splits fsnode.splits)

lemma visible_Nil [simp]: "\<not> visible n []"
  by (cases n) auto

lemma visible_entry:
  "visible (FDir [(name, n)]) cs \<longleftrightarrow>
     (\<exists>cs'. cs = name # cs' \<and>
       (case n of
          FDir sub \<Rightarrow> \<not> isSkippedDir name \<and> visible n cs'
        | FFile b \<Rightarrow> \<not> isSkippedFile name \<and> cs' = []
        | _ \<Rightarrow> False))"
  by (cases cs) (auto simp: visible_Cons neq_Nil_conv split: fsnode.splits)

lemma visible_split:
  assumes "name \<notin> fst ` set es"
  shows "visible (FDir ((name, n) # es)) cs \<longleftrightarrow> visible (FDir [(name, n)]) cs \<or> visible (FDir es) cs"
proof (cases cs)
  case (Cons c cs')
  have "map_of es name = None" using assms by (simp add: map_of_eq_None_iff)
  then show ?thesis by (auto simp: Cons visible_Cons)
qed simp

lemma walkEntries_mem:
  "walkEntries pre es = Inr out \<Longrightarrow> wfNode (FDir es) \<Longrightarrow>
     set out = {strJoin ''/'' (pre @ cs) |cs. visible (FDir es) cs}"
proof (induction pre es arbitrary: out rule: walkEntries.induct)
  case (1 pre)
  then show ?case by (auto simp: visible_Cons neq_Nil_conv elim: visible.elims)
next
  case (2 pre name n es)
  obtain out1 rest where out: "out = out1 @ rest" and rest: "walkEntries pre es = Inr rest"
    and out1: "(case n of
              FDir sub \<Rightarrow> if isSkippedDir name then Inr [] else walkEntries (pre @ [name]) sub
            | FDenied \<Rightarrow> if isSkippedDir name then Inr [] else
                Inl (errorf (''open '' @ strJoin ''/'' (pre @ [name]) @ '': permission denied''))
            | FFile _ \<Rightarrow> if isSkippedFile name then Inr [] else Inr [strJoin ''/'' (pre @ [name])]
            | FSpecial _ \<Rightarrow> Inr []) = Inr out1"
    using "2.prems"(1) by (auto split: sum.splits)
  have wf: "wfNode n" "wfNode (FDir es)" "name \<notin> fst ` set es"
    using "2.prems"(2) by auto
  from "2.IH"(2) [OF out1 rest wf(2)] have r: "set rest = {strJoin ''/'' (pre @ cs) |cs. visible (FDir es) cs}" .
  have o: "set out1 = {strJoin ''/'' (pre @ cs) |cs. visible (FDir [(name, n)]) cs}"
  proof (cases n)
    case (FDir sub)
    show ?thesis
    proof (cases "isSkippedDir name")
      case True
      with FDir out1 show ?thesis by (simp add: visible_entry)
    next
      case False
      with FDir out1 have "walkEntries (pre @ [name]) sub = Inr out1" by simp
      from "2.IH"(1) [OF FDir False this] wf(1) FDir False show ?thesis
        by (auto simp: visible_entry)
    qed
  qed (use out1 in \<open>auto simp: visible_entry split: if_splits\<close>)
  show ?case unfolding out using r o by (auto simp: visible_split [OF wf(3)])
qed

text \<open>The collected paths are different from each other.\<close>

lemma strJoin_plain_inj:
  assumes "list_all plainComp as" "list_all plainComp bs" "strJoin ''/'' as = strJoin ''/'' bs"
  shows "as = bs"
proof (cases "as = [] \<or> bs = []")
  case True
  have "strJoin ''/'' cs = [] \<Longrightarrow> list_all plainComp cs \<Longrightarrow> cs = []" for cs
    by (induction "''/''" cs rule: strJoin.induct) (auto simp: plainComp_def)
  with True assms show ?thesis by (metis strJoin.simps(1))
next
  case False
  with assms show ?thesis
    by (metis (no_types, lifting) list_all_iff plainComp_def slashSplit_strJoin)
qed

lemma visible_plain: "visible n cs \<Longrightarrow> wfNode n \<Longrightarrow> list_all plainComp cs"
proof (induction cs arbitrary: n)
  case (Cons c cs)
  then obtain es where n: "n = FDir es" by (auto simp: visible_Cons)
  then obtain m where m: "map_of es c = Some m" and v: "cs \<noteq> [] \<Longrightarrow> visible m cs"
    using Cons.prems by (auto simp: visible_Cons split: if_splits)
  then have "(c, m) \<in> set es" by (simp add: map_of_SomeD)
  with n Cons.prems have "plainComp c" "wfNode m" by (auto simp: list_all_iff)
  with v Cons.IH show ?case by (cases "cs = []") auto
qed simp

lemma walkEntries_distinct:
  "walkEntries pre es = Inr out \<Longrightarrow> wfNode (FDir es) \<Longrightarrow> list_all plainComp pre \<Longrightarrow> distinct out"
proof (induction pre es arbitrary: out rule: walkEntries.induct)
  case (1 pre)
  then show ?case by simp
next
  case (2 pre name n es)
  obtain out1 rest where out: "out = out1 @ rest" and rest: "walkEntries pre es = Inr rest"
    and out1: "(case n of
              FDir sub \<Rightarrow> if isSkippedDir name then Inr [] else walkEntries (pre @ [name]) sub
            | FDenied \<Rightarrow> if isSkippedDir name then Inr [] else
                Inl (errorf (''open '' @ strJoin ''/'' (pre @ [name]) @ '': permission denied''))
            | FFile _ \<Rightarrow> if isSkippedFile name then Inr [] else Inr [strJoin ''/'' (pre @ [name])]
            | FSpecial _ \<Rightarrow> Inr []) = Inr out1"
    using "2.prems"(1) by (auto split: sum.splits)
  have wf: "wfNode n" "wfNode (FDir es)" "name \<notin> fst ` set es" "plainComp name"
    using "2.prems"(2) by auto
  have "distinct rest" using "2.IH"(2) [OF out1 rest wf(2) "2.prems"(3)] .
  moreover have "distinct out1"
  proof (cases n)
    case (FDir sub)
    show ?thesis
    proof (cases "isSkippedDir name")
      case False
      with FDir out1 have "walkEntries (pre @ [name]) sub = Inr out1" by simp
      from "2.IH"(1) [OF FDir False this] wf FDir "2.prems"(3) show ?thesis by simp
    qed (use FDir out1 in simp)
  qed (use out1 in \<open>auto split: if_splits\<close>)
  moreover have "set out1 \<inter> set rest = {}"
  proof -
    have s: "set (out1 @ []) = {strJoin ''/'' (pre @ cs) |cs. visible (FDir [(name, n)]) cs}"
      by (rule walkEntries_mem) (use out1 wf in simp_all)
    have "cs \<noteq> ds" if "visible (FDir [(name, n)]) cs" "visible (FDir es) ds" for cs ds
      using that wf(3) by (auto simp: visible_entry visible_Cons split: if_splits dest!: map_of_SomeD) force+
    moreover have "pre @ cs = pre @ ds" if "visible (FDir [(name, n)]) cs" "visible (FDir es) ds"
      "strJoin ''/'' (pre @ cs) = strJoin ''/'' (pre @ ds)" for cs ds
      using that visible_plain [OF that(1)] visible_plain [OF that(2)] wf "2.prems"(3)
      by (intro strJoin_plain_inj) auto
    ultimately show ?thesis using s walkEntries_mem [OF rest wf(2)] by auto
  qed
  ultimately show ?case by (simp add: out)
qed


section \<open>Path resolution\<close>

lemma pathComps_Clean: "pathComps d (Clean p) = pathComps d p"
proof (cases "IsAbs p")
  case True
  then obtain q where q: "p = CHR ''/'' # q" by (auto simp: IsAbs_Cons)
  have "Clean (Clean p) = Clean p" unfolding q by (rule Clean_abs_idem)
  moreover have "IsAbs (Clean p)" unfolding q Clean_abs by (simp add: IsAbs_Cons)
  then obtain q' where q': "Clean p = CHR ''/'' # q'" by (auto simp: IsAbs_Cons)
  have plain: "list_all plainComp (cleanComps True (slashSplit x))" for x by (rule cleanComps_rooted)
  have "cleanComps True (slashSplit (CHR ''/'' # x)) = cleanComps True (slashSplit x)" for x
    by (simp add: slashSplit_Cons cleanComps_def cleanStep_def)
  ultimately have "strJoin ''/'' (cleanComps True (slashSplit (Clean p))) = strJoin ''/'' (cleanComps True (slashSplit p))"
    using q q' by (metis Clean_abs list.inject)
  then have "cleanComps True (slashSplit (Clean p)) = cleanComps True (slashSplit p)"
    by (rule strJoin_plain_inj [OF plain plain])
  with True \<open>IsAbs (Clean p)\<close> show ?thesis by (simp add: pathComps_def)
next
  case False
  note sp = slashSplit_Clean_rel [OF False]
  have dot: "fold (cleanStep True) [''.''] st = st" for st by (simp add: cleanStep_def)
  have "fold (cleanStep True) (slashSplit (Clean p)) st = fold (cleanStep True) (slashSplit p) st" for st
    using fold_clean_relative [of "slashSplit p" st] sp dot [of st]
    by (simp add: cleanComps_def split: if_splits)
  with False sp show ?thesis by (simp add: pathComps_def cleanComps_def)
qed

lemma pathComps_Join:
  assumes "list_all plainComp cs" "cs \<noteq> []"
  shows "pathComps d (JoinPath [dir, strJoin ''/'' cs]) = pathComps d dir @ cs"
proof -
  let ?rel = "strJoin ''/'' cs"
  obtain c cs' where cs: "cs = c # cs'" using assms(2) by (cases cs) auto
  then obtain x xs where c: "c = x # xs" "x \<noteq> CHR ''/''" using assms(1) by (cases c) (auto simp: plainComp_def)
  have ne: "?rel \<noteq> []" and rel: "\<not> IsAbs ?rel" using cs c by (cases cs'; simp add: IsAbs_Cons)+
  have sp: "slashSplit ?rel = cs"
    using assms by (intro slashSplit_strJoin) (auto simp: list_all_iff plainComp_def)
  show ?thesis
  proof (cases "dir = []")
    case True
    with ne have "JoinPath [dir, ?rel] = Clean ?rel" by (simp add: JoinPath_def)
    moreover have "cleanComps True (cwd d @ [[]]) = cleanComps True (cwd d)"
      by (simp add: cleanComps_def cleanStep_def)
    ultimately show ?thesis
      using rel True assms(1) by (simp add: pathComps_Clean) (simp add: pathComps_def sp cleanComps_snoc_plain IsAbs_Cons)
  next
    case False
    with ne have j: "JoinPath [dir, ?rel] = Clean (dir @ CHR ''/'' # ?rel)" by (simp add: JoinPath_def)
    have "IsAbs (dir @ CHR ''/'' # ?rel) = IsAbs dir" using False by (cases dir) (auto simp: IsAbs_Cons)
    then show ?thesis unfolding j pathComps_Clean
      using assms(1) by (simp add: pathComps_def slashSplit_append_slash sp cleanComps_snoc_plain flip: append_assoc)
  qed
qed

lemma nodeIn_append: "nodeIn n (as @ bs) = (case nodeIn n as of None \<Rightarrow> None | Some m \<Rightarrow> nodeIn m bs)"
  by (induction n as rule: nodeIn.induct) (auto split: option.split)

lemma diskRead_below:
  assumes "nodeAt d dir = Some n" "visible n cs" "wfNode n"
  shows "diskRead d (JoinPath [dir, strJoin ''/'' cs]) = nodeBytes (JoinPath [dir, strJoin ''/'' cs]) (nodeIn n cs)"
proof -
  have "cs \<noteq> []" using assms(2) by auto
  with visible_plain [OF assms(2,3)] assms(1) show ?thesis
    by (simp add: diskRead_def nodeAt_def pathComps_Join nodeIn_append)
qed


lemma packLoop_entries:
  "packLoop d dir rels = Inr entries \<Longrightarrow>
     map fst entries = rels \<and>
     (\<forall>(rel, b) \<in> set entries. diskRead d (JoinPath [dir, rel]) = Inr b \<and> int (length b) \<le> MaxFileSize)"
  by (induction rels arbitrary: entries) (auto split: sum.splits if_splits)

lemma visible_file: "visible n cs \<Longrightarrow> \<exists>b. nodeIn n cs = Some (FFile b)"
proof (induction cs arbitrary: n)
  case (Cons c cs)
  then show ?case by (cases "cs = []") (fastforce simp: visible_Cons)+
qed simp

text \<open>The entries of a successful pack: every visible file with its contents, sorted by path.\<close>

lemma PackDir_entries:
  assumes "PackDir pk d dir = Inr r" "nodeAt d dir = Some n" "n = FDir es" "wfNode n"
  shows "\<exists>entries. ZIP r = zipArchive pk entries \<and> ContentHash r = packHash pk (ZIP r) \<and>
    sorted (map fst entries) \<and> distinct (map fst entries) \<and>
    set entries = {(strJoin ''/'' cs, b) |cs b. visible n cs \<and> nodeIn n cs = Some (FFile (Some b))} \<and>
    fst ` set entries = {strJoin ''/'' cs |cs. visible n cs} \<and>
    (\<forall>(p, b) \<in> set entries. int (length b) \<le> MaxFileSize)"
proof -
  from assms(1) obtain files entries where f: "collectFiles d dir = Inr files"
    and e: "packLoop d dir (sort files) = Inr entries"
    and r: "ZIP r = zipArchive pk entries" "ContentHash r = packHash pk (ZIP r)"
    by (auto simp: PackDir_def Let_def split: sum.splits)
  from f assms(2,3) have w: "walkEntries [] es = Inr files" by (simp add: collectFiles_def split: sum.splits)
  note pe = packLoop_entries [OF e]
  have files: "set files = {strJoin ''/'' cs |cs. visible n cs}"
    using walkEntries_mem [OF w] assms(3,4) by simp
  have dist: "distinct files" using walkEntries_distinct [OF w] assms(3,4) by simp
  have fe: "fst ` set entries = {strJoin ''/'' cs |cs. visible n cs}"
    using pe files by (metis set_map set_sort)
  have bytes: "b = b'" if "(strJoin ''/'' cs, b) \<in> set entries" "visible n cs" "nodeIn n cs = Some (FFile (Some b'))" for cs b b'
    using pe that diskRead_below [OF assms(2) that(2) assms(4)] by fastforce
  have ok: "\<exists>b'. nodeIn n cs = Some (FFile (Some b'))" if m: "(strJoin ''/'' cs, b) \<in> set entries" and v: "visible n cs" for cs b
  proof -
    obtain c where c: "nodeIn n cs = Some (FFile c)" using visible_file [OF v] by blast
    have "diskRead d (JoinPath [dir, strJoin ''/'' cs]) = Inr b" using pe m by fastforce
    with diskRead_below [OF assms(2) v assms(4)] c show ?thesis by (cases c) auto
  qed
  have "set entries = {(strJoin ''/'' cs, b) |cs b. visible n cs \<and> nodeIn n cs = Some (FFile (Some b))}"
  proof (intro set_eqI iffI)
    fix x assume x: "x \<in> set entries"
    obtain p b where pb: "x = (p, b)" by (cases x)
    with x have "p \<in> fst ` set entries" by force
    then obtain cs where cs: "p = strJoin ''/'' cs" "visible n cs" using fe by auto
    from ok [of cs b] bytes [of cs b] x pb cs show "x \<in> {(strJoin ''/'' cs, b) |cs b. visible n cs \<and> nodeIn n cs = Some (FFile (Some b))}"
      by auto
  next
    fix x assume "x \<in> {(strJoin ''/'' cs, b) |cs b. visible n cs \<and> nodeIn n cs = Some (FFile (Some b))}"
    then obtain cs b where x: "x = (strJoin ''/'' cs, b)" "visible n cs" "nodeIn n cs = Some (FFile (Some b))" by auto
    then have "strJoin ''/'' cs \<in> fst ` set entries" using fe by auto
    then obtain b' where "(strJoin ''/'' cs, b') \<in> set entries" by auto
    with bytes x show "x \<in> set entries" by blast
  qed
  moreover have "sorted (map fst entries)" "distinct (map fst entries)" using pe dist by auto
  ultimately show ?thesis using r fe pe by blast
qed

section \<open>Properties\<close>

text \<open>
  The archive of a skill is a function of its visible contents: two directories, wherever
  they are and in whatever order their entries are listed, with the same visible regular files
  and the same bytes in them pack to the same ZIP and the same content hash.
\<close>

lemma pack_is_content_addressed:
  assumes "nodeAt d1 dir1 = Some (FDir es1)" "nodeAt d2 dir2 = Some (FDir es2)"
    and "wfNode (FDir es1)" "wfNode (FDir es2)"
    and "\<And>cs. visible (FDir es1) cs \<longleftrightarrow> visible (FDir es2) cs"
    and "\<And>cs. visible (FDir es1) cs \<Longrightarrow> nodeIn (FDir es1) cs = nodeIn (FDir es2) cs"
    and "PackDir pk d1 dir1 = Inr r1" "PackDir pk d2 dir2 = Inr r2"
  shows "ZIP r1 = ZIP r2 \<and> ContentHash r1 = ContentHash r2"
proof -
  obtain e1 where e1: "ZIP r1 = zipArchive pk e1" "ContentHash r1 = packHash pk (ZIP r1)"
    "sorted (map fst e1)" "distinct (map fst e1)"
    "set e1 = {(strJoin ''/'' cs, b) |cs b. visible (FDir es1) cs \<and> nodeIn (FDir es1) cs = Some (FFile (Some b))}"
    using PackDir_entries [OF assms(7,1) refl assms(3)] by auto
  obtain e2 where e2: "ZIP r2 = zipArchive pk e2" "ContentHash r2 = packHash pk (ZIP r2)"
    "sorted (map fst e2)" "distinct (map fst e2)"
    "set e2 = {(strJoin ''/'' cs, b) |cs b. visible (FDir es2) cs \<and> nodeIn (FDir es2) cs = Some (FFile (Some b))}"
    using PackDir_entries [OF assms(8,2) refl assms(4)] by auto
  have "visible (FDir es1) cs \<and> nodeIn (FDir es1) cs = x \<longleftrightarrow> visible (FDir es2) cs \<and> nodeIn (FDir es2) cs = x" for cs x
    using assms(5,6) by metis
  then have s: "set e1 = set e2" unfolding e1(5) e2(5) by simp
  then have "inj_on fst (set e1 \<union> set e2)" using e1(4) by (simp add: distinct_map)
  then have "e1 = e2" using e1(3,4) e2(3,4) s by (rule map_sorted_distinct_set_unique)
  with e1(1,2) e2(1,2) show ?thesis by simp
qed

definition demoPacker :: packer where
  "demoPacker = \<lparr>zipArchive = (\<lambda>es. concat (map (\<lambda>(n, b). n @ b) es)), packHash = (\<lambda>b. b)\<rparr>"

definition demoDisk :: "(string \<times> fsnode) list \<Rightarrow> disk" where
  "demoDisk es = \<lparr>rootNode = FDir [(''s'', FDir es)], cwd = []\<rparr>"

definition tracedFs :: "'w fsops \<Rightarrow> ('w \<times> (string \<times> string) list) fsops" where
  "tracedFs ops =
     \<lparr>fsRead = (\<lambda>p s. fsRead ops p (fst s)),
      fsMkdirAll = (\<lambda>p s. case fsMkdirAll ops p (fst s) of (r, w) \<Rightarrow> (r, (w, snd s))),
      fsWrite = (\<lambda>p b s. case fsWrite ops p b (fst s) of (r, w) \<Rightarrow> (r, (w, snd s @ [(p, b)]))),
      fsRemove = (\<lambda>p s. case fsRemove ops p (fst s) of (r, w) \<Rightarrow> (r, (w, snd s))),
      fsWalkFiles = (\<lambda>p s. fsWalkFiles ops p (fst s))\<rparr>"


lemma tracedFs_simps [simp]:
  "snd (snd (fsMkdirAll (tracedFs ops) p s)) = snd s"
  "snd (snd (fsWrite (tracedFs ops) p b s)) = snd s @ [(p, b)]"
  "snd (snd (fsRemove (tracedFs ops) p s)) = snd s"
  by (simp_all add: tracedFs_def split: prod.split)

text \<open>A write that unpacking may make.\<close>

definition safeWrite :: "string \<Rightarrow> skill_file list \<Rightarrow> string \<times> string \<Rightarrow> bool" where
  "safeWrite outDir files pb \<longleftrightarrow>
     (\<exists>f \<in> set files. snd pb = Data f \<and> fst pb = JoinPath [outDir, Path f] \<and> Path f \<noteq> [] \<and>
        \<not> IsAbs (Path f) \<and> \<not> strContains (Path f) ''..'' \<and> int (length (Data f)) \<le> MaxFileSize)"

lemma unpackLoop_writes:
  "unpackLoop digest (tracedFs ops) outDir fs written changed s = (r, s') \<Longrightarrow>
     \<exists>ws. snd s' = snd s @ ws \<and> list_all (safeWrite outDir fs) ws"
proof (induction fs arbitrary: written changed s)
  case Nil
  then show ?case by auto
next
  case (Cons f fs)
  have mono: "safeWrite outDir fs x \<Longrightarrow> safeWrite outDir (f # fs) x" for x by (auto simp: safeWrite_def)
  have rest: "\<exists>ws. snd s' = snd s1 @ ws \<and> list_all (safeWrite outDir (f # fs)) ws"
    if "unpackLoop digest (tracedFs ops) outDir fs written1 changed1 s1 = (r, s')" for written1 changed1 s1
    using Cons.IH [OF that] mono by (auto simp: list_all_iff)
  let ?rel = "Path f" let ?abs = "JoinPath [outDir, ?rel]"
  have empty: "isSkippedFile (Base [])" by (simp add: Base_def isSkippedFile_def hasPrefix_def)
  consider "s' = s" | written1 changed1 where "unpackLoop digest (tracedFs ops) outDir fs written1 changed1 s = (r, s')"
    | "\<not> IsAbs ?rel" "\<not> strContains ?rel ''..''" "?rel \<noteq> []" "int (length (Data f)) \<le> MaxFileSize"
      "(case fsMkdirAll (tracedFs ops) (DirOf ?abs) s of
                (Some err, w) \<Rightarrow> (Inl (wrapf (''mkdir '' @ DirOf ?abs @ '': '') err), w)
              | (None, w) \<Rightarrow>
                  (case fsWrite (tracedFs ops) ?abs (Data f) w of
                     (Some err, w) \<Rightarrow> (Inl (wrapf (''write '' @ ?rel @ '': '') err), w)
                   | (None, w) \<Rightarrow>
                       unpackLoop digest (tracedFs ops) outDir fs (List.insert ?rel written) (changed @ [?rel]) w)) = (r, s')"
    using Cons.prems empty by (cases "?rel = []") (auto simp: Let_def not_less split: if_splits)
  then show ?case
  proof cases
    case 1
    then show ?thesis by auto
  next
    case 2
    then show ?thesis using rest by blast
  next
    case 3
    obtain e1 s1 where m: "fsMkdirAll (tracedFs ops) (DirOf ?abs) s = (e1, s1)" by (metis surj_pair)
    then have s1: "snd s1 = snd s" using tracedFs_simps(1) by (metis snd_conv)
    obtain e2 s2 where w: "fsWrite (tracedFs ops) ?abs (Data f) s1 = (e2, s2)" by (metis surj_pair)
    then have s2: "snd s2 = snd s @ [(?abs, Data f)]" using tracedFs_simps(2) s1 by (metis snd_conv)
    have safe: "safeWrite outDir (f # fs) (?abs, Data f)" using 3 by (auto simp: safeWrite_def)
    consider "s' = s1" | "s' = s2" |
      "unpackLoop digest (tracedFs ops) outDir fs (List.insert ?rel written) (changed @ [?rel]) s2 = (r, s')"
      using 3(5) m w by (auto split: option.splits)
    then show ?thesis
    proof cases
      case 1 then show ?thesis using s1 by auto
    next
      case 2 then show ?thesis using s2 safe by auto
    next
      case 3
      from rest [OF this] s2 safe show ?thesis by auto
    qed
  qed
qed

lemma pruneLoop_writes: "snd (snd (pruneLoop (tracedFs ops) outDir keep rels deleted s)) = snd s"
proof (induction rels arbitrary: deleted s)
  case (Cons rel rels)
  obtain e s1 where m: "fsRemove (tracedFs ops) (JoinPath [outDir, rel]) s = (e, s1)" by (metis surj_pair)
  then have "snd s1 = snd s" using tracedFs_simps(3) by (metis snd_conv)
  with Cons m show ?case by (auto split: option.split)
qed simp

lemma UnpackTo_writes:
  assumes "UnpackTo digest (tracedFs ops) outDir files prune (w, []) = (r, (w', log))"
  shows "list_all (safeWrite outDir files) log"
proof (cases "outDir = []")
  case True
  with assms show ?thesis by (simp add: UnpackTo_def)
next
  case False
  obtain r1 s1 where u: "unpackLoop digest (tracedFs ops) outDir files [] [] (w, []) = (r1, s1)" by (metis surj_pair)
  from unpackLoop_writes [OF u] have "list_all (safeWrite outDir files) (snd s1)" by auto
  moreover have "log = snd s1"
  proof (cases "prune \<and> \<not> isl r1")
    case True
    then obtain written changed where r1: "r1 = Inr (written, changed)" by (cases r1) auto
    have "snd (snd (pruneLocal (tracedFs ops) outDir written s1)) = snd s1"
      using pruneLoop_writes [of ops outDir written "fst (fsWalkFiles (tracedFs ops) outDir s1)" "[]" s1]
      by (auto simp: pruneLocal_def split: prod.split sum.split option.split)
    then show ?thesis
      using assms False u True r1 by (auto simp: UnpackTo_def split: prod.splits sum.splits)
  next
    case no: False
    with assms False u show ?thesis by (cases r1) (auto simp: UnpackTo_def split: if_splits)
  qed
  ultimately show ?thesis by simp
qed

lemma slashSplit_no_dotdot: "\<not> strContains rel ''..'' \<Longrightarrow> c \<in> set (slashSplit rel) \<Longrightarrow> c \<noteq> ''..''"
proof
  assume nc: "\<not> strContains rel ''..''" and c: "c \<in> set (slashSplit rel)" "c = ''..''"
  have "\<exists>b a. strJoin ''/'' xs = b @ c @ a" if "c \<in> set xs" for xs
    using that
  proof (induction "''/''" xs rule: strJoin.induct)
    case (3 s t ts)
    show ?case
    proof (cases "c = s")
      case True
      then show ?thesis by (metis append_Nil strJoin.simps(3))
    next
      case False
      with 3 obtain b a where "strJoin ''/'' (t # ts) = b @ c @ a" by auto
      then have "strJoin ''/'' (s # t # ts) = (s @ ''/'' @ b) @ c @ a" by simp
      then show ?thesis by blast
    qed
  qed (auto, metis append_Nil append_Nil2)
  from this [OF c(1)] have "\<exists>b a. rel = b @ ''..'' @ a"
    using c(2) strJoin_strSplit [of "''/''" rel] by (simp add: slashSplit_def)
  with nc show False by (auto simp: strContains_iff)
qed

lemma fold_cleanStep_no_dotdot:
  "''..'' \<notin> set cs \<Longrightarrow> \<exists>ext. fold (cleanStep True) cs st = ext @ st"
proof (induction cs arbitrary: st)
  case (Cons c cs)
  have "\<exists>e. cleanStep True c st = e @ st" using Cons.prems by (auto simp: cleanStep_def)
  then obtain e where e: "cleanStep True c st = e @ st" by blast
  from Cons.IH [of "e @ st"] Cons.prems obtain ext where "fold (cleanStep True) cs (e @ st) = ext @ e @ st" by auto
  with e have "fold (cleanStep True) (c # cs) st = (ext @ e) @ st" by simp
  then show ?case by blast
qed simp

lemma safe_resolves_inside:
  assumes "\<not> strContains rel ''..''" "\<not> IsAbs rel" "rel \<noteq> []" "dir \<noteq> []"
  shows "\<exists>ext. pathComps d (JoinPath [dir, rel]) = pathComps d dir @ ext"
proof -
  have j: "JoinPath [dir, rel] = Clean (dir @ CHR ''/'' # rel)" using assms(3,4) by (simp add: JoinPath_def)
  have a: "IsAbs (dir @ CHR ''/'' # rel) = IsAbs dir" using assms(4) by (cases dir) (auto simp: IsAbs_Cons)
  have "''..'' \<notin> set (slashSplit rel)" using slashSplit_no_dotdot [OF assms(1)] by blast
  then have "\<exists>ext. cleanComps True (xs @ slashSplit rel) = cleanComps True xs @ ext" for xs
    using fold_cleanStep_no_dotdot [of "slashSplit rel" "fold (cleanStep True) xs []"]
    by (auto simp: cleanComps_def)
  then show ?thesis
    unfolding j pathComps_Clean by (simp add: pathComps_def a slashSplit_append_slash flip: append_assoc)
qed

text \<open>
  C30: Unpacking never leaves the output directory: whatever paths the server sends and whatever the
  file system answers, each file written is one that was received, at most 4 MiB, and resolves to a
  location strictly or weakly below the resolved output directory.
\<close>

theorem unpack_stays_inside:
  assumes "UnpackTo digest (tracedFs ops) outDir files prune (w, []) = (r, (w', log))"
    and "outDir \<noteq> []" "(p, bytes) \<in> set log"
  shows "(\<exists>f \<in> set files. p = JoinPath [outDir, Path f] \<and> bytes = Data f) \<and>
    int (length bytes) \<le> MaxFileSize \<and> (\<exists>ext. pathComps d p = pathComps d outDir @ ext)"
proof -
  from UnpackTo_writes [OF assms(1)] assms(3) obtain f where
    f: "f \<in> set files" "bytes = Data f" "p = JoinPath [outDir, Path f]" "Path f \<noteq> []" "\<not> IsAbs (Path f)"
      "\<not> strContains (Path f) ''..''" "int (length (Data f)) \<le> MaxFileSize"
    by (auto simp: list_all_iff safeWrite_def)
  with safe_resolves_inside [OF f(6,5,4) assms(2), of d] show ?thesis by blast
qed

definition demoFs :: "unit fsops" where
  "demoFs = \<lparr>fsRead = (\<lambda>p w. Inl (errorf [])), fsMkdirAll = (\<lambda>p w. (None, w)), fsWrite = (\<lambda>p b w. (None, w)),
     fsRemove = (\<lambda>p w. (None, w)), fsWalkFiles = (\<lambda>p w. ([], None))\<rparr>"

theorem unpack_stays_inside_witness:
  "\<exists>r w' log. UnpackTo (\<lambda>b. b) (tracedFs demoFs) ''/out'' [\<lparr>Path = ''a/b.md'', Data = ''x''\<rparr>] False ((), []) = (r, (w', log)) \<and>
     log \<noteq> [] \<and> (\<forall>(p, b) \<in> set log. \<exists>ext. pathComps (demoDisk []) p = pathComps (demoDisk []) ''/out'' @ ext)"
proof -
  let ?run = "UnpackTo (\<lambda>b. b) (tracedFs demoFs) ''/out'' [\<lparr>Path = ''a/b.md'', Data = ''x''\<rparr>] False ((), [])"
  obtain r w' log where r: "?run = (r, (w', log))" by (metis surj_pair)
  have "snd (snd ?run) = [(''/out/a/b.md'', ''x'')]" by code_simp
  with r have "log \<noteq> []" by simp
  with r unpack_stays_inside [OF r, of _ _ "demoDisk []"] show ?thesis by (auto simp: r)
qed

end
