(* ===== verification/Validate.thy ===== *)
theory Validate
  imports Manifest Skillpkg
begin

text \<open>
  \<open>internal/manifest/validate.go\<close> and \<open>validate_refs.go\<close>: the structural checks of a manifest and
  the cross-resource references. \<open>valid_manifest\<close> is the declarative reading of a manifest that
  passes. The semantic-version functions of \<open>golang.org/x/mod\<close> are a parameter, and so is the
  packer used for \<open>sourceDir\<close>.
\<close>

record semver =
  svIsValid :: "string \<Rightarrow> bool"
  svCompare :: "string \<Rightarrow> string \<Rightarrow> int"

record valid_env =
  veSemver :: semver
  vePacker :: packer
  veDisk :: disk

section \<open>Names\<close>

definition kebabC :: "char \<Rightarrow> bool" where
  "kebabC c \<longleftrightarrow> isLower c \<or> isDigit c \<or> c = CHR ''-''"

definition keyEnd :: "char \<Rightarrow> bool" where
  "keyEnd c \<longleftrightarrow> isLower c \<or> isDigit c"

text \<open>\<open>^[a-z0-9]([a-z0-9-]*[a-z0-9])?$\<close>: the optional group is the rest of the string, if any.\<close>

definition keyRe :: "string \<Rightarrow> bool" where
  "keyRe s =
     (case s of
        [] \<Rightarrow> False
      | c # cs \<Rightarrow> keyEnd c \<and> (cs = [] \<or> (list_all kebabC (butlast cs) \<and> keyEnd (last cs))))"

definition sysConfigC :: "char \<Rightarrow> bool" where
  "sysConfigC c \<longleftrightarrow> isLower c \<or> isUpper c \<or> isDigit c \<or> c = CHR ''.'' \<or> c = CHR ''_'' \<or> c = CHR ''-''"

definition sysConfigKeyRe :: "string \<Rightarrow> bool" where
  "sysConfigKeyRe s \<longleftrightarrow> list_all sysConfigC s \<and> 1 \<le> length s \<and> length s \<le> 100"

definition validKinds :: "resource_kind list" where
  "validKinds =
     [KindTenant, KindProvider, KindAgent, KindChannel, KindCronJob, KindMCPServer, KindSkill,
      KindAgentTeam, KindBuiltinToolConfig, KindSkillConfig, KindSystemConfig, KindMCPCredentials,
      KindSecureCLI, KindSecureCLIGrant, KindAgentLink, KindWorkstation]"

section \<open>Skill specs\<close>

definition skillVisibilityValues :: "string list" where
  "skillVisibilityValues = [''private'', ''internal'', ''public'', ''tenant'']"

definition skillStatusValues :: "string list" where
  "skillStatusValues = [''active'', ''archived'', ''deleted'', ''draft'']"

definition containsAny :: "string \<Rightarrow> string \<Rightarrow> bool" where
  "containsAny s chars = list_ex (\<lambda>c. c \<in> set chars) s"

definition normalizeSemver :: "string \<Rightarrow> string" where
  "normalizeSemver s =
     (let s = trimSpace s in
      case s of
        [] \<Rightarrow> []
      | c # _ \<Rightarrow> if c = CHR ''v'' \<or> c = CHR ''V'' then s else CHR ''v'' # s)"

definition unsupportedShape :: "string \<Rightarrow> goerr" where
  "unsupportedShape s =
     errorf (''unsupported constraint shape '' @ goQuote s @ ''; only >=X.Y supported in this release'')"

definition validateCliConstraintShape :: "semver \<Rightarrow> string \<Rightarrow> goerr option" where
  "validateCliConstraintShape sv s0 =
     (let s = trimSpace s0 in
      if s = [] then Some (errorf ''constraint must not be empty'')
      else if containsAny s ''^~'' then Some (unsupportedShape s)
      else if containsAny s '','' then Some (unsupportedShape s)
      else if \<not> hasPrefix ''>='' s then Some (unsupportedShape s)
      else
        let rest = trimSpace (trimPrefix ''>='' s) in
        if rest = [] then Some (errorf (''missing version after >= in '' @ goQuote s))
        else if \<not> svIsValid sv (normalizeSemver rest)
        then Some (errorf (''invalid semver '' @ goQuote rest @ '' after >=''))
        else None)"

fun tagErrors :: "string \<Rightarrow> nat \<Rightarrow> gval list \<Rightarrow> string list \<Rightarrow> goerr list" where
  "tagErrors pre i [] seen = []"
| "tagErrors pre i (t # ts) seen =
     (case asStr (Some t) of
        None \<Rightarrow>
          errorf (pre @ '': spec.tags['' @ showNat i @ ''] must be a string'') # tagErrors pre (Suc i) ts seen
      | Some s \<Rightarrow>
          (if s \<in> set seen then [errorf (pre @ '': spec.tags duplicate '' @ goQuote s)] else [])
          @ tagErrors pre (Suc i) ts (s # seen))"

definition cliErrors :: "semver \<Rightarrow> string \<Rightarrow> gomap \<Rightarrow> goerr list" where
  "cliErrors sv pre cli =
     concat (map (\<lambda>(binary, raw).
       case asStr (Some raw) of
         None \<Rightarrow> [errorf (pre @ '': spec.requires.cli.'' @ binary @ '' must be a string'')]
       | Some constraint \<Rightarrow>
           (case validateCliConstraintShape sv constraint of
              None \<Rightarrow> []
            | Some err \<Rightarrow> [wrapf (pre @ '': spec.requires.cli.'' @ binary @ '': '') err])) cli)"

definition validateSkillSpec :: "valid_env \<Rightarrow> string \<Rightarrow> gomap option \<Rightarrow> goerr list" where
  "validateSkillSpec env pre spec0 =
     (case spec0 of
        None \<Rightarrow> []
      | Some spec \<Rightarrow>
          (case asStr (map_of spec ''visibility'') of
             Some v \<Rightarrow>
               if v \<noteq> [] \<and> v \<notin> set skillVisibilityValues
               then [errorf (pre @ '': spec.visibility '' @ goQuote v @
                       '' must be one of [private internal public tenant]'')] else []
           | None \<Rightarrow> [])
          @ (case asStr (map_of spec ''status'') of
               Some s \<Rightarrow>
                 if s \<noteq> [] \<and> s \<notin> set skillStatusValues
                 then [errorf (pre @ '': spec.status '' @ goQuote s @
                         '' must be one of [active archived deleted draft]'')] else []
             | None \<Rightarrow> [])
          @ (case map_of spec ''tags'' of
               None \<Rightarrow> []
             | Some GNil \<Rightarrow> []
             | Some (GList ts) \<Rightarrow> tagErrors pre 0 ts []
             | Some _ \<Rightarrow> [errorf (pre @ '': spec.tags must be a list of strings'')])
          @ (case asStr (map_of spec ''sourceDir'') of
               Some src \<Rightarrow>
                 if src \<noteq> [] then
                   (case PackDir (vePacker env) (veDisk env) src of
                      Inl err \<Rightarrow> [wrapf (pre @ '': spec.sourceDir '' @ goQuote src @ '': '') err]
                    | Inr _ \<Rightarrow> [])
                 else []
             | None \<Rightarrow> [])
          @ (case asMap (map_of spec ''requires'') of
               Some reqs \<Rightarrow>
                 (case asMap (map_of reqs ''cli'') of
                    Some cli \<Rightarrow> cliErrors (veSemver env) pre cli
                  | None \<Rightarrow> [])
             | None \<Rightarrow> []))"

text \<open>
  \<open>CrossCheckRequiresCli\<close>: the warnings so far, and the error that stops the loop. The Go
  function returns the warnings with the error too.
\<close>

definition emDash :: string where
  "emDash = map char_of [226, 128, 148 :: nat]"

fun crossCheckLoop ::
  "semver \<Rightarrow> strmap \<Rightarrow> gomap \<Rightarrow> string list \<Rightarrow> string list \<times> goerr option"
where
  "crossCheckLoop sv installed [] warnings = (warnings, None)"
| "crossCheckLoop sv installed ((binary, raw) # cli) warnings =
     (case asStr (Some raw) of
        None \<Rightarrow> (warnings, Some (errorf (''requires.cli.'' @ binary @ '' must be a string'')))
      | Some constraint \<Rightarrow>
          (case validateCliConstraintShape sv constraint of
             Some err \<Rightarrow> (warnings, Some (wrapf (''requires.cli.'' @ binary @ '': '') err))
           | None \<Rightarrow>
               let want = normalizeSemver (trimSpace (trimPrefix ''>='' (trimSpace constraint))) in
               (case map_of installed binary of
                  None \<Rightarrow>
                    crossCheckLoop sv installed cli
                      (warnings @ [''requires.cli.'' @ binary @
                         '': binary not registered on server '' @ emDash @ '' skipping version check''])
                | Some got \<Rightarrow>
                    if svCompare sv (normalizeSemver got) want < 0
                    then (warnings, Some (errorf (''requires.cli.'' @ binary @ '': installed '' @ got @
                            '' does not satisfy '' @ constraint)))
                    else crossCheckLoop sv installed cli warnings)))"

definition CrossCheckRequiresCli :: "semver \<Rightarrow> gomap option \<Rightarrow> strmap \<Rightarrow> string list \<times> goerr option" where
  "CrossCheckRequiresCli sv spec0 installed =
     (case spec0 of
        None \<Rightarrow> ([], None)
      | Some spec \<Rightarrow>
          (case asMap (map_of spec ''requires'') of
             None \<Rightarrow> ([], None)
           | Some reqs \<Rightarrow>
               (case asMap (map_of reqs ''cli'') of
                  None \<Rightarrow> ([], None)
                | Some cli \<Rightarrow> crossCheckLoop sv installed cli [])))"

section \<open>References\<close>

definition splitAgentLinkName :: "string \<Rightarrow> (string \<times> string) result" where
  "splitAgentLinkName name =
     (case strSplit ''--'' name of
        [a, b] \<Rightarrow>
          if a = [] \<or> b = []
          then Inl (errorf (''invalid AgentLink name '' @ goQuote name @ '': expected format sourceAgent--targetAgent''))
          else Inr (a, b)
      | _ \<Rightarrow> Inl (errorf (''invalid AgentLink name '' @ goQuote name @ '': expected format sourceAgent--targetAgent'')))"

definition specStr :: "gomap \<Rightarrow> string \<Rightarrow> string" where
  "specStr spec key = strOr (map_of spec key)"

fun strItems :: "gval list \<Rightarrow> string list" where
  "strItems [] = []"
| "strItems (v # vs) = (case asStr (Some v) of Some s \<Rightarrow> s # strItems vs | None \<Rightarrow> strItems vs)"

definition specStrSlice :: "gomap \<Rightarrow> string \<Rightarrow> string list" where
  "specStrSlice spec key = (case asList (map_of spec key) of None \<Rightarrow> [] | Some arr \<Rightarrow> strItems arr)"

definition declaredIn :: "resource list \<Rightarrow> resource_kind \<Rightarrow> string \<Rightarrow> bool" where
  "declaredIn rs kind name = list_ex (\<lambda>r. resKind r = kind \<and> resName r = name) rs"

definition refErr :: "resource list \<Rightarrow> string \<Rightarrow> string \<Rightarrow> resource_kind \<Rightarrow> string \<Rightarrow> goerr list" where
  "refErr rs pre how kind ref =
     (if declaredIn rs kind ref then []
      else [errorf (pre @ '': '' @ how @ ''references '' @ kind @ '' '' @ goQuote ref @ '' which is not declared'')])"

definition optRefErr :: "resource list \<Rightarrow> string \<Rightarrow> string \<Rightarrow> resource_kind \<Rightarrow> string \<Rightarrow> goerr list" where
  "optRefErr rs pre how kind ref = (if ref \<noteq> [] then refErr rs pre how kind ref else [])"

definition referenceErrors :: "resource list \<Rightarrow> nat \<Rightarrow> resource \<Rightarrow> goerr list" where
  "referenceErrors rs i r =
     (let pre = ''resources['' @ showNat i @ ''] '' @ resKind r @ ''/'' @ resName r;
          spec = specMap r; k = resKind r
      in if k = KindAgent then optRefErr rs pre [] KindProvider (specStr spec ''provider'')
         else if k = KindChannel \<or> k = KindCronJob then
           optRefErr rs pre [] KindAgent (specStr spec ''agentKey'')
         else if k = KindMCPServer then
           (case asMap (map_of spec ''grants'') of
              None \<Rightarrow> []
            | Some grants \<Rightarrow>
                concat (map (refErr rs pre ''grants '' KindAgent) (specStrSlice grants ''agents'')))
         else if k = KindSecureCLIGrant then
           optRefErr rs pre [] KindAgent (specStr spec ''agentKey'')
           @ optRefErr rs pre [] KindSecureCLI (specStr spec ''binaryName'')
         else if k = KindAgentTeam then
           optRefErr rs pre ''lead '' KindAgent (specStr spec ''lead'')
           @ concat (map (refErr rs pre ''member '' KindAgent) (specStrSlice spec ''members''))
         else if k = KindAgentLink then
           (case splitAgentLinkName (resName r) of
              Inl err \<Rightarrow> [errorf (pre @ '': '' @ errText err)]
            | Inr (nameSrc, nameTgt) \<Rightarrow>
                let specSrc = specStr spec ''sourceAgent''; specTgt = specStr spec ''targetAgent'' in
                (if specSrc \<noteq> [] \<and> specSrc \<noteq> nameSrc
                 then [errorf (pre @ '': spec.sourceAgent '' @ goQuote specSrc @ '' must match name prefix '' @ goQuote nameSrc)]
                 else [])
                @ (if specTgt \<noteq> [] \<and> specTgt \<noteq> nameTgt
                   then [errorf (pre @ '': spec.targetAgent '' @ goQuote specTgt @ '' must match name suffix '' @ goQuote nameTgt)]
                   else [])
                @ refErr rs pre ''sourceAgent '' KindAgent nameSrc
                @ refErr rs pre ''targetAgent '' KindAgent nameTgt)
         else [])"

fun referenceLoop :: "resource list \<Rightarrow> nat \<Rightarrow> resource list \<Rightarrow> goerr list" where
  "referenceLoop rs i [] = []"
| "referenceLoop rs i (r # rest) = referenceErrors rs i r @ referenceLoop rs (Suc i) rest"

definition validateReferences :: "manifest \<Rightarrow> goerr list" where
  "validateReferences m = referenceLoop (Resources m) 0 (Resources m)"

section \<open>Validate\<close>

definition uidOf :: "resource \<Rightarrow> string" where
  "uidOf r = resKind r @ ''/'' @ resName r"

fun resourceLoop :: "valid_env \<Rightarrow> nat \<Rightarrow> resource list \<Rightarrow> string list \<Rightarrow> goerr list" where
  "resourceLoop env i [] seen = []"
| "resourceLoop env i (r # rs) seen =
     (let pre = ''resources['' @ showNat i @ '']''; uid = uidOf r in
      (if resKind r \<notin> set validKinds
       then [errorf (pre @ '': unknown kind '' @ goQuote (resKind r))] else [])
      @ (if resName r = [] then [errorf (pre @ '': name is required'')]
         else if resKind r = KindSystemConfig then
           (if \<not> sysConfigKeyRe (resName r)
            then [errorf (pre @ '': name '' @ goQuote (resName r) @ '' must match [a-zA-Z0-9._-]{1,100}'')]
            else [])
         else if \<not> keyRe (resName r)
         then [errorf (pre @ '': name '' @ goQuote (resName r) @ '' must be kebab-case (a-z0-9, hyphens)'')]
         else [])
      @ (if uid \<in> set seen then [errorf (pre @ '': duplicate resource '' @ uid)] else [])
      @ (if Spec r = None then [errorf (pre @ '': spec is required for '' @ uid)] else [])
      @ (if resKind r = KindSkill then validateSkillSpec env pre (Spec r) else [])
      @ resourceLoop env (Suc i) rs (uid # seen))"

definition ValidateM :: "valid_env \<Rightarrow> manifest \<Rightarrow> goerr list" where
  "ValidateM env m =
     (if APIVersion m \<noteq> ''gcplane.io/v1''
      then [errorf (''unsupported apiVersion '' @ goQuote (APIVersion m) @ '', expected gcplane.io/v1'')] else [])
     @ (if manKind m \<noteq> ''Manifest''
        then [errorf (''unsupported kind '' @ goQuote (manKind m) @ '', expected Manifest'')] else [])
     @ resourceLoop env 0 (Resources m) []
     @ validateReferences m"


section \<open>Valid manifests\<close>

lemma keyRe_iff:
  "keyRe s \<longleftrightarrow> s \<noteq> [] \<and> list_all kebabC s \<and> keyEnd (hd s) \<and> keyEnd (last s)"
proof (cases s)
  case (Cons c cs)
  have "list_all kebabC cs \<longleftrightarrow> cs = [] \<or> (list_all kebabC (butlast cs) \<and> kebabC (last cs))"
    by (induction cs) auto
  moreover have "keyEnd x \<Longrightarrow> kebabC x" for x by (auto simp: keyEnd_def kebabC_def)
  ultimately show ?thesis by (auto simp: Cons keyRe_def)
qed (simp add: keyRe_def)

definition validName :: "resource \<Rightarrow> bool" where
  "validName r \<longleftrightarrow> resName r \<noteq> [] \<and>
     (if resKind r = KindSystemConfig then list_all sysConfigC (resName r) \<and> length (resName r) \<le> 100
      else list_all kebabC (resName r) \<and> keyEnd (hd (resName r)) \<and> keyEnd (last (resName r)))"

definition validConstraint :: "semver \<Rightarrow> string \<Rightarrow> bool" where
  "validConstraint sv c \<longleftrightarrow>
     (\<exists>v. trimSpace c = ''>='' @ v \<and> set (trimSpace c) \<inter> set ''^~,'' = {} \<and> trimSpace v \<noteq> [] \<and>
        svIsValid sv (normalizeSemver (trimSpace v)))"

definition validSkill :: "valid_env \<Rightarrow> gomap \<Rightarrow> bool" where
  "validSkill env spec \<longleftrightarrow>
     (\<forall>v. map_of spec ''visibility'' = Some (GStr v) \<longrightarrow> v = [] \<or> v \<in> set skillVisibilityValues) \<and>
     (\<forall>v. map_of spec ''status'' = Some (GStr v) \<longrightarrow> v = [] \<or> v \<in> set skillStatusValues) \<and>
     (\<forall>v. map_of spec ''tags'' = Some v \<longrightarrow> v = GNil \<or> (\<exists>ts. v = GList (map GStr ts) \<and> distinct ts)) \<and>
     (\<forall>src. map_of spec ''sourceDir'' = Some (GStr src) \<longrightarrow> src = [] \<or>
        (\<exists>pkg. PackDir (vePacker env) (veDisk env) src = Inr pkg)) \<and>
     (\<forall>reqs cli. map_of spec ''requires'' = Some (GMap reqs) \<longrightarrow> map_of reqs ''cli'' = Some (GMap cli) \<longrightarrow>
        (\<forall>b raw. (b, raw) \<in> set cli \<longrightarrow> (\<exists>c. raw = GStr c \<and> validConstraint (veSemver env) c)))"

text \<open>The references of a resource: kind and name of what must be declared.\<close>

definition optRef :: "resource_kind \<Rightarrow> string \<Rightarrow> (resource_kind \<times> string) list" where
  "optRef kind ref = (if ref \<noteq> [] then [(kind, ref)] else [])"

definition refsOf :: "resource \<Rightarrow> (resource_kind \<times> string) list" where
  "refsOf r =
     (let spec = specMap r; k = resKind r in
      if k = KindAgent then optRef KindProvider (specStr spec ''provider'')
      else if k = KindChannel \<or> k = KindCronJob then optRef KindAgent (specStr spec ''agentKey'')
      else if k = KindMCPServer then
        (case asMap (map_of spec ''grants'') of
           None \<Rightarrow> []
         | Some grants \<Rightarrow> map (Pair KindAgent) (specStrSlice grants ''agents''))
      else if k = KindSecureCLIGrant then
        optRef KindAgent (specStr spec ''agentKey'') @ optRef KindSecureCLI (specStr spec ''binaryName'')
      else if k = KindAgentTeam then
        optRef KindAgent (specStr spec ''lead'') @ map (Pair KindAgent) (specStrSlice spec ''members'')
      else if k = KindAgentLink then
        (case splitAgentLinkName (resName r) of
           Inl _ \<Rightarrow> []
         | Inr (src, tgt) \<Rightarrow> [(KindAgent, src), (KindAgent, tgt)])
      else [])"

text \<open>An agent link is named after its two ends, and its spec does not contradict the name.\<close>

definition linkOk :: "resource \<Rightarrow> bool" where
  "linkOk r \<longleftrightarrow>
     (resKind r = KindAgentLink \<longrightarrow>
        (\<exists>src tgt. splitAgentLinkName (resName r) = Inr (src, tgt) \<and>
           specStr (specMap r) ''sourceAgent'' \<in> {[], src} \<and> specStr (specMap r) ''targetAgent'' \<in> {[], tgt}))"

definition valid_manifest :: "valid_env \<Rightarrow> manifest \<Rightarrow> bool" where
  "valid_manifest env m \<longleftrightarrow>
     APIVersion m = ''gcplane.io/v1'' \<and> manKind m = ''Manifest'' \<and>
     distinct (map ident (Resources m)) \<and>
     (\<forall>r \<in> set (Resources m).
        resKind r \<in> set ApplyOrder \<and> validName r \<and> Spec r \<noteq> None \<and>
        (resKind r = KindSkill \<longrightarrow> validSkill env (specMap r)) \<and> linkOk r \<and>
        (\<forall>ref \<in> set (refsOf r). ref \<in> ident ` set (Resources m)))"

section \<open>Each check decides its part\<close>

lemma declaredIn_iff: "declaredIn rs kind name \<longleftrightarrow> (kind, name) \<in> ident ` set rs"
  by (auto simp: declaredIn_def list_ex_iff ident_def)

lemma refErr_empty [simp]: "refErr rs pre how kind ref = [] \<longleftrightarrow> (kind, ref) \<in> ident ` set rs"
  by (simp add: refErr_def declaredIn_iff)

lemma optRefErr_empty [simp]:
  "optRefErr rs pre how kind ref = [] \<longleftrightarrow> (\<forall>x \<in> set (optRef kind ref). x \<in> ident ` set rs)"
  by (simp add: optRefErr_def optRef_def)

lemma referenceErrors_empty:
  "referenceErrors rs i r = [] \<longleftrightarrow> linkOk r \<and> (\<forall>ref \<in> set (refsOf r). ref \<in> ident ` set rs)"
proof (cases "resKind r = KindAgentLink")
  case True
  then show ?thesis
    by (cases "splitAgentLinkName (resName r)")
       (auto simp: referenceErrors_def linkOk_def refsOf_def Let_def split: if_splits)
next
  case False
  then have "linkOk r" by (simp add: linkOk_def)
  with False show ?thesis
    by (auto simp: referenceErrors_def refsOf_def Let_def split: option.split)
qed

lemma referenceLoop_empty:
  "referenceLoop rs i rest = [] \<longleftrightarrow>
     (\<forall>r \<in> set rest. linkOk r \<and> (\<forall>ref \<in> set (refsOf r). ref \<in> ident ` set rs))"
  by (induction rest arbitrary: i) (auto simp: referenceErrors_empty)

lemma tagErrors_empty:
  "tagErrors pre i ts seen = [] \<longleftrightarrow>
     (\<exists>ss. ts = map GStr ss \<and> distinct ss \<and> set ss \<inter> set seen = {})"
proof (induction pre i ts seen rule: tagErrors.induct)
  case (2 pre i t ts seen)
  show ?case
  proof (cases "asStr (Some t)")
    case None
    then have "\<nexists>s. t = GStr s" by (cases t) auto
    with None show ?thesis by auto
  next
    case (Some s)
    then have "(\<exists>ss. t # ts = map GStr ss \<and> P ss) \<longleftrightarrow> (\<exists>ss. ts = map GStr ss \<and> P (s # ss))" for P
      by (auto simp: Cons_eq_map_conv)
    with 2 Some show ?thesis by auto
  qed
qed simp

lemma validateCliConstraintShape_None:
  "validateCliConstraintShape sv c = None \<longleftrightarrow> validConstraint sv c"
proof -
  have any: "containsAny s chars \<longleftrightarrow> set s \<inter> set chars \<noteq> {}" for s chars
    by (auto simp: containsAny_def list_ex_iff)
  show ?thesis
    by (auto simp: validateCliConstraintShape_def validConstraint_def Let_def any hasPrefix_iff trimPrefix_def)
qed

lemma cliErrors_empty:
  "cliErrors sv pre cli = [] \<longleftrightarrow>
     (\<forall>b raw. (b, raw) \<in> set cli \<longrightarrow> (\<exists>c. raw = GStr c \<and> validConstraint sv c))"
proof -
  have "(case asStr (Some raw) of
         None \<Rightarrow> [errorf (pre @ '': spec.requires.cli.'' @ b @ '' must be a string'')]
       | Some constraint \<Rightarrow>
           (case validateCliConstraintShape sv constraint of
              None \<Rightarrow> []
            | Some err \<Rightarrow> [wrapf (pre @ '': spec.requires.cli.'' @ b @ '': '') err])) = []
     \<longleftrightarrow> (\<exists>c. raw = GStr c \<and> validConstraint sv c)" for b raw
    by (cases raw) (auto simp: validateCliConstraintShape_None [symmetric] split: option.split)
  then show ?thesis by (auto simp: cliErrors_def)
qed

lemma validateSkillSpec_empty:
  "validateSkillSpec env pre (Some spec) = [] \<longleftrightarrow> validSkill env spec"
proof -
  have tags: "(case map_of spec ''tags'' of
               None \<Rightarrow> []
             | Some GNil \<Rightarrow> []
             | Some (GList ts) \<Rightarrow> tagErrors pre 0 ts []
             | Some _ \<Rightarrow> [errorf (pre @ '': spec.tags must be a list of strings'')]) = []
     \<longleftrightarrow> (\<forall>v. map_of spec ''tags'' = Some v \<longrightarrow> v = GNil \<or> (\<exists>ts. v = GList (map GStr ts) \<and> distinct ts))"
    by (auto simp: tagErrors_empty split: option.split gval.split)
  have str: "(case asStr x of Some v \<Rightarrow> if P v then [e v] else [] | None \<Rightarrow> []) = []
      \<longleftrightarrow> (\<forall>v. x = Some (GStr v) \<longrightarrow> \<not> P v)" for x P and e :: "string \<Rightarrow> goerr"
    by (auto split: option.split)
  have src: "(case asStr x of Some src \<Rightarrow>
                 if src \<noteq> [] then
                   (case PackDir (vePacker env) (veDisk env) src of
                      Inl err \<Rightarrow> [wrapf (pre @ '': spec.sourceDir '' @ goQuote src @ '': '') err]
                    | Inr _ \<Rightarrow> [])
                 else []
             | None \<Rightarrow> []) = []
      \<longleftrightarrow> (\<forall>src. x = Some (GStr src) \<longrightarrow> src = [] \<or> (\<exists>pkg. PackDir (vePacker env) (veDisk env) src = Inr pkg))" for x
    by (auto split: option.split sum.split)
  have req: "(case asMap x of Some reqs \<Rightarrow>
                 (case asMap (map_of reqs ''cli'') of
                    Some cli \<Rightarrow> cliErrors (veSemver env) pre cli
                  | None \<Rightarrow> [])
             | None \<Rightarrow> []) = []
      \<longleftrightarrow> (\<forall>reqs cli. x = Some (GMap reqs) \<longrightarrow> map_of reqs ''cli'' = Some (GMap cli) \<longrightarrow>
        (\<forall>b raw. (b, raw) \<in> set cli \<longrightarrow> (\<exists>c. raw = GStr c \<and> validConstraint (veSemver env) c)))" for x
    by (auto simp: cliErrors_empty split: option.split)
  show ?thesis
    unfolding validateSkillSpec_def validSkill_def option.case append_is_Nil_conv tags str src req
    by auto
qed


lemma separator_inj:
  "x \<notin> set a \<Longrightarrow> x \<notin> set c \<Longrightarrow> a @ x # b = c @ x # d \<Longrightarrow> a = c \<and> b = d"
proof (induction a arbitrary: c)
  case Nil
  then show ?case by (cases c) auto
next
  case (Cons y a)
  then show ?case by (cases c) auto
qed

lemma uidOf_inj:
  assumes "resKind r \<in> set ApplyOrder" "resKind q \<in> set ApplyOrder"
  shows "uidOf r = uidOf q \<longleftrightarrow> ident r = ident q"
proof -
  have "list_all (\<lambda>k. CHR ''/'' \<notin> set k) ApplyOrder" by code_simp
  then have "CHR ''/'' \<notin> set (resKind r)" "CHR ''/'' \<notin> set (resKind q)"
    using assms by (simp_all add: list_all_iff)
  from separator_inj [OF this, of "resName r" "resName q"]
  have "resKind r @ ''/'' @ resName r = resKind q @ ''/'' @ resName q \<longrightarrow> ident r = ident q"
    by (simp add: ident_def)
  moreover have "ident r = ident q \<longrightarrow> uidOf r = uidOf q" by (simp add: ident_def uidOf_def)
  ultimately show ?thesis unfolding uidOf_def by blast
qed

lemma validKinds_ApplyOrder: "set validKinds = set ApplyOrder"
proof -
  have "list_all (\<lambda>k. k \<in> set ApplyOrder) validKinds" "list_all (\<lambda>k. k \<in> set validKinds) ApplyOrder"
    by code_simp+
  then show ?thesis by (auto simp: list_all_iff)
qed

definition resourceOk :: "valid_env \<Rightarrow> resource \<Rightarrow> bool" where
  "resourceOk env r \<longleftrightarrow> resKind r \<in> set ApplyOrder \<and> validName r \<and> Spec r \<noteq> None \<and>
     (resKind r = KindSkill \<longrightarrow> validSkill env (specMap r))"

lemma resourceLoop_empty:
  "resourceLoop env i rs seen = [] \<longleftrightarrow>
     (\<forall>r \<in> set rs. resourceOk env r) \<and> distinct (map uidOf rs) \<and> set (map uidOf rs) \<inter> set seen = {}"
proof (induction env i rs seen rule: resourceLoop.induct)
  case (1 env i seen)
  then show ?case by simp
next
  case (2 env i r rs seen)
  let ?pre = "''resources['' @ showNat i @ '']''"
  have "resourceLoop env i (r # rs) seen = [] \<longleftrightarrow>
      resKind r \<in> set ApplyOrder \<and> validName r \<and> uidOf r \<notin> set seen \<and> Spec r \<noteq> None \<and>
      (resKind r = KindSkill \<longrightarrow> validateSkillSpec env ?pre (Spec r) = []) \<and>
      resourceLoop env (Suc i) rs (uidOf r # seen) = []"
    by (auto simp: Let_def validKinds_ApplyOrder validName_def keyRe_iff sysConfigKeyRe_def Suc_le_eq
        simp del: append.simps split: if_splits)
  also have "\<dots> \<longleftrightarrow> resourceOk env r \<and> uidOf r \<notin> set seen \<and> resourceLoop env (Suc i) rs (uidOf r # seen) = []"
    by (cases "Spec r") (auto simp: resourceOk_def validateSkillSpec_empty specMap_def)
  finally show ?case using 2 by auto
qed

section \<open>Properties\<close>

lemma ValidateM_iff:
  "ValidateM env m = [] \<longleftrightarrow> valid_manifest env m"
proof -
  have d: "distinct (map uidOf rs) \<longleftrightarrow> distinct (map ident rs)" if "\<forall>r \<in> set rs. resourceOk env r" for rs
  proof -
    have "inj_on uidOf (set rs) \<longleftrightarrow> inj_on ident (set rs)"
      using that uidOf_inj by (auto simp: inj_on_def resourceOk_def)
    then show ?thesis by (simp add: distinct_map)
  qed
  show ?thesis
    using d [of "Resources m"]
    by (auto simp: ValidateM_def valid_manifest_def validateReferences_def resourceLoop_empty
        referenceLoop_empty resourceOk_def)
qed

text \<open>
  C29: \<open>Validate\<close> reports no error exactly for the valid manifests: supported version and kind,
  every resource of a known kind with a well-formed name and a spec, no two resources with one
  kind and name, skill specs within their enumerations and packable, and every reference between
  resources resolved in the manifest.
\<close>

theorem validate_accepts_exactly_valid:
  "ValidateM env m = [] \<longleftrightarrow> valid_manifest env m"
  by (rule ValidateM_iff)


lemma strCut_first: "strCut sep x = Some (b, a) \<Longrightarrow> sep \<noteq> [] \<Longrightarrow> \<not> strContains b sep"
proof (induction sep x arbitrary: b rule: strCut.induct)
  case (2 sep c cs)
  show ?case
  proof (cases "hasPrefix sep (c # cs)")
    case True
    with 2 show ?thesis by (auto simp: strContains_iff)
  next
    case False
    with "2.prems" obtain b' where b': "strCut sep cs = Some (b', a)" "b = c # b'" by auto
    with "2.IH" [OF False] "2.prems" have nb: "\<not> strContains b' sep" by simp
    show ?thesis
    proof
      assume "strContains b sep"
      then obtain u v where uv: "c # b' = u @ sep @ v" using b' by (auto simp: strContains_iff)
      show False
      proof (cases u)
        case Nil
        with uv strCut_Some [OF b'(1)] have "hasPrefix sep (c # cs)"
          by (auto simp: hasPrefix_iff) (metis append.assoc append_Cons)
        with False show False by simp
      next
        case (Cons x u')
        with uv nb show False by (auto simp: strContains_iff)
      qed
    qed
  qed
qed auto

lemma strContains_Cons: "strContains s sub \<Longrightarrow> strContains (c # s) sub"
  by (auto simp: strContains_iff) (metis append_Cons)

lemma strCut_dashes:
  "\<not> strContains s ''--'' \<Longrightarrow> (s \<noteq> [] \<Longrightarrow> last s \<noteq> CHR ''-'') \<Longrightarrow> strCut ''--'' (s @ ''--'' @ t) = Some (s, t)"
proof (induction s)
  case Nil
  then show ?case by (simp add: hasPrefix_def)
next
  case (Cons c s)
  have "\<not> hasPrefix ''--'' ((c # s) @ ''--'' @ t)"
  proof
    assume p: "hasPrefix ''--'' ((c # s) @ ''--'' @ t)"
    show False
    proof (cases s)
      case Nil
      with p Cons.prems(2) show False by (simp add: hasPrefix_def)
    next
      case (Cons d s')
      with p have "c # s = [] @ ''--'' @ s'" by (simp add: hasPrefix_def)
      with Cons.prems(1) show False by (auto simp: strContains_iff)
    qed
  qed
  moreover have "strCut ''--'' (s @ ''--'' @ t) = Some (s, t)"
    using Cons.prems strContains_Cons by (intro Cons.IH) auto
  ultimately show ?case by simp
qed

lemma strSplit_None: "\<not> strContains s ''--'' \<Longrightarrow> strSplit ''--'' s = [s]"
  by (subst strSplit.simps) (auto simp: strContains_def split: option.split)

lemma splitAgentLinkName_Inr:
  "splitAgentLinkName n = Inr (s, t) \<Longrightarrow> n = s @ ''--'' @ t \<and> strSplit ''--'' n = [s, t] \<and> s \<noteq> [] \<and> t \<noteq> []"
  using strJoin_strSplit [of "''--''" n]
  by (auto simp: splitAgentLinkName_def split: list.splits if_splits)

text \<open>
  The composite name of an agent link and its two agent keys determine each other, as long as
  the keys themselves do not contain the separator: joining two such keys and splitting gives them
  back. The name rule alone does not guarantee that: \<open>a--b\<close> passes it, and no link can name an
  agent called so.
\<close>

lemma agent_link_name_roundtrip:
  "(\<forall>s t. keyRe s \<and> keyRe t \<and> \<not> strContains s ''--'' \<and> \<not> strContains t ''--'' \<longrightarrow>
      splitAgentLinkName (s @ ''--'' @ t) = Inr (s, t)) \<and>
   (\<forall>n s t. splitAgentLinkName n = Inr (s, t) \<longrightarrow> n = s @ ''--'' @ t \<and> \<not> strContains s ''--'' \<and> \<not> strContains t ''--'') \<and>
   keyRe ''a--b''"
proof (intro conjI allI impI)
  fix s t assume k: "keyRe s \<and> keyRe t \<and> \<not> strContains s ''--'' \<and> \<not> strContains t ''--''"
  then have "last s \<noteq> CHR ''-''" by (auto simp: keyRe_iff keyEnd_def isLower_def isDigit_def)
  with k have "strCut ''--'' (s @ ''--'' @ t) = Some (s, t)" by (intro strCut_dashes) auto
  then have "strSplit ''--'' (s @ ''--'' @ t) = [s, t]"
    using k by (subst strSplit.simps) (simp add: strSplit_None)
  with k show "splitAgentLinkName (s @ ''--'' @ t) = Inr (s, t)" by (simp add: splitAgentLinkName_def keyRe_iff)
next
  fix n s t assume n: "splitAgentLinkName n = Inr (s, t)"
  note sp = splitAgentLinkName_Inr [OF n]
  then show "n = s @ ''--'' @ t" by simp
  from sp have "strSplit ''--'' n = [s, t]" by blast
  then obtain a where cut: "strCut ''--'' n = Some (s, a)" "strSplit ''--'' a = [t]"
    by (subst (asm) strSplit.simps) (auto split: option.splits)
  from strCut_first [OF cut(1)] show "\<not> strContains s ''--''" by simp
  have "strCut ''--'' a = None" "a = t"
    using cut(2) by (subst (asm) strSplit.simps, auto split: option.splits)+
  then show "\<not> strContains t ''--''" by (simp add: strContains_def)
next
  show "keyRe ''a--b''" by code_simp
qed

end
