(* ===== verification/Api.thy ===== *)
theory Api
  imports Keyconv EngineTrace Validate
begin

text \<open>
  \<open>internal/provider/goclaw/http_client.go\<close>, \<open>helpers.go\<close> and the state of \<open>provider.go\<close>: how the
  GoClaw provider talks to the server. Everything beyond the process is a state \<open>'s\<close>: \<open>net/http\<close>
  delivers a request to it, the WebSocket client is three calls on it. \<open>encoding/json\<close> between
  bytes and dynamic values is a pair of functions of the record \<open>goclaw\<close>; decoding into the
  structs of the source is defined here. The record also holds the tar and multipart encoders, the
  semver library with the disk of skill sources (\<open>venv\<close>), and the order \<open>rangeOrder\<close> in which Go
  ranges over a map with the given keys.
\<close>

section \<open>Fallible calls\<close>

type_synonym ('w, 'a) api = "'w \<Rightarrow> 'a result \<times> 'w"

definition retA :: "'a \<Rightarrow> ('w, 'a) api" where
  "retA x = (\<lambda>w. (Inr x, w))"

definition failA :: "goerr \<Rightarrow> ('w, 'a) api" where
  "failA err = (\<lambda>w. (Inl err, w))"

definition tryA :: "('w \<Rightarrow> 'a \<times> 'w) \<Rightarrow> ('a \<Rightarrow> 'w \<Rightarrow> 'b \<times> 'w) \<Rightarrow> 'w \<Rightarrow> 'b \<times> 'w" where
  "tryA m f = (\<lambda>w. case m w of (r, w') \<Rightarrow> f r w')"

definition bindA :: "('w, 'a) api \<Rightarrow> ('a \<Rightarrow> ('w, 'b) api) \<Rightarrow> ('w, 'b) api" where
  "bindA m f = tryA m (\<lambda>r. case r of Inl err \<Rightarrow> failA err | Inr x \<Rightarrow> f x)"

definition wrapA :: "string \<Rightarrow> ('w, 'a) api \<Rightarrow> ('w, 'a) api" where
  "wrapA pre m = tryA m (\<lambda>r. case r of Inl err \<Rightarrow> failA (wrapf pre err) | Inr x \<Rightarrow> retA x)"

definition liftR :: "'a result \<Rightarrow> ('w, 'a) api" where
  "liftR r = (\<lambda>w. (r, w))"

fun forA :: "('a \<Rightarrow> ('w, unit) api) \<Rightarrow> 'a list \<Rightarrow> ('w, unit) api" where
  "forA f [] = retA ()"
| "forA f (x # xs) = bindA (f x) (\<lambda>_. forA f xs)"

fun mapA :: "('a \<Rightarrow> ('w, 'b) api) \<Rightarrow> 'a list \<Rightarrow> ('w, 'b list) api" where
  "mapA f [] = retA []"
| "mapA f (x # xs) = bindA (f x) (\<lambda>y. bindA (mapA f xs) (\<lambda>ys. retA (y # ys)))"

fun errOf :: "unit result \<times> 'w \<Rightarrow> goerr option \<times> 'w" where
  "errOf (Inl err, w) = (Some err, w)"
| "errOf (Inr u, w) = (None, w)"

section \<open>The provider and what it calls\<close>

record http_request =
  rqMethod :: string
  rqURL :: string
  rqHeaders :: strmap
  rqBody :: "string option"

record http_response =
  rsStatus :: int
  rsRead :: "string result"

record http_client =
  baseURL :: string
  clientToken :: string
  headers :: strmap

record 's goclaw =
  endpoint :: string
  token :: string
  tenantID :: string
  http :: http_client
  httpDo :: "http_request \<Rightarrow> 's \<Rightarrow> http_response result \<times> 's"
  badRequest :: "string \<Rightarrow> string \<Rightarrow> goerr option"
  IsConnected :: "'s \<Rightarrow> bool"
  wsConnect :: "'s \<Rightarrow> unit result \<times> 's"
  wsSend :: "string \<Rightarrow> gval \<Rightarrow> 's \<Rightarrow> string result \<times> 's"
  jsonMarshal :: "gval \<Rightarrow> string result"
  jsonParse :: "string \<Rightarrow> gval result"
  rangeOrder :: "string list \<Rightarrow> string list"
  tarGz :: "(string \<times> string) list \<Rightarrow> string result"
  multipartForm :: "(string \<times> string \<times> string) list \<Rightarrow> (string \<times> string) result"
  venv :: valid_env

text \<open>The mutable part: the server side, the result of \<open>tenantOnce\<close>, and the warnings logged.\<close>

record 's gworld =
  net :: 's
  tenantOnce :: "(string \<times> goerr option) option"
  warnings :: "string list"

definition onNet :: "('s \<Rightarrow> 'a \<times> 's) \<Rightarrow> 's gworld \<Rightarrow> 'a \<times> 's gworld" where
  "onNet f w = (case f (net w) of (r, s) \<Rightarrow> (r, w\<lparr>net := s\<rparr>))"

definition warn :: "string \<Rightarrow> ('s gworld, unit) api" where
  "warn msg = (\<lambda>w. (Inr (), w\<lparr>warnings := warnings w @ [msg]\<rparr>))"

definition NewHTTPClient :: "string \<Rightarrow> string \<Rightarrow> string \<Rightarrow> string \<Rightarrow> http_client" where
  "NewHTTPClient url tok tenant user =
     (let user = (if user = [] then ''gcplane'' else user); hs = [(''X-GoClaw-User-Id'', user)]
      in \<lparr>baseURL = url, clientToken = tok,
          headers = (if tenant \<noteq> [] then AList.update ''X-GoClaw-Tenant-Id'' tenant hs else hs)\<rparr>)"

section \<open>HTTP\<close>

definition maxResponseSize :: int where
  "maxResponseSize = 10485760"

definition wrapSentinel :: "sentinel \<Rightarrow> string \<Rightarrow> string \<Rightarrow> goerr" where
  "wrapSentinel s text msg = GoErr (Some s) (text @ '': '' @ msg)"

definition classifyStatus :: "int \<Rightarrow> string \<Rightarrow> goerr option" where
  "classifyStatus status body =
     (if status \<ge> 200 \<and> status < 300 then None
      else if status = 401 \<or> status = 403 then Some (wrapSentinel ErrUnauthorized ''unauthorized'' body)
      else if status = 404 then Some (wrapSentinel ErrNotFound ''resource not found'' body)
      else if status = 400 \<or> status = 422 then Some (wrapSentinel ErrInvalidRequest ''invalid request'' body)
      else if status \<ge> 500 then Some (wrapSentinel ErrServerError ''server error'' body)
      else Some (errorf (''unexpected status '' @ showInt status @ '': '' @ body)))"

fun setAll :: "strmap \<Rightarrow> strmap \<Rightarrow> strmap" where
  "setAll [] hs = hs"
| "setAll ((k, v) # kvs) hs = setAll kvs (AList.update k v hs)"

definition rawRequest :: "'s goclaw \<Rightarrow> string \<Rightarrow> string \<Rightarrow> string option \<Rightarrow> string \<Rightarrow> http_request" where
  "rawRequest gc method path body contentType =
     (let c = http gc;
          hs = [(''Authorization'', ''Bearer '' @ clientToken c)];
          hs = (if contentType \<noteq> [] then AList.update ''Content-Type'' contentType hs else hs);
          hs = AList.update ''Accept'' ''application/json'' hs
      in \<lparr>rqMethod = method, rqURL = baseURL c @ path, rqHeaders = setAll (headers c) hs, rqBody = body\<rparr>)"

lemma rawRequest_simps [simp]:
  "rqMethod (rawRequest gc method path body ct) = method"
  "rqURL (rawRequest gc method path body ct) = baseURL (http gc) @ path"
  "rqBody (rawRequest gc method path body ct) = body"
  by (simp_all add: rawRequest_def Let_def)

text \<open>What is read of an answer.\<close>

definition readBody :: "http_response \<Rightarrow> string result" where
  "readBody resp =
     (case rsRead resp of
        Inl err \<Rightarrow> Inl (wrapf ''read response body: '' err)
      | Inr b \<Rightarrow>
          let respBody = takeI maxResponseSize b in
          (case classifyStatus (rsStatus resp) respBody of Some err \<Rightarrow> Inl err | None \<Rightarrow> Inr respBody))"

text \<open>\<open>doRaw\<close>, of which \<open>do\<close> is the instance that always sends a JSON content type.\<close>

definition doRaw :: "'s goclaw \<Rightarrow> string \<Rightarrow> string \<Rightarrow> string option \<Rightarrow> string \<Rightarrow> ('s gworld, string) api" where
  "doRaw gc method path body contentType =
     (case badRequest gc method (baseURL (http gc) @ path) of
        Some err \<Rightarrow> failA (wrapf ''create request: '' err)
      | None \<Rightarrow>
          bindA (wrapA (''http '' @ method @ '' '' @ path @ '': '')
                   (onNet (httpDo gc (rawRequest gc method path body contentType)))) (\<lambda>resp.
            liftR (readBody resp)))"

definition doReq :: "'s goclaw \<Rightarrow> string \<Rightarrow> string \<Rightarrow> string option \<Rightarrow> ('s gworld, string) api" where
  "doReq gc method path body = doRaw gc method path body ''application/json''"

definition doJSON :: "'s goclaw \<Rightarrow> string \<Rightarrow> string \<Rightarrow> gval \<Rightarrow> ('s gworld, string) api" where
  "doJSON gc method path body =
     (case jsonMarshal gc body of
        Inl err \<Rightarrow> failA (wrapf ''marshal request body: '' err)
      | Inr data \<Rightarrow> doReq gc method path (Some data))"

definition httpGet :: "'s goclaw \<Rightarrow> string \<Rightarrow> ('s gworld, string) api" where
  "httpGet gc path = doReq gc ''GET'' path None"

definition httpPost :: "'s goclaw \<Rightarrow> string \<Rightarrow> gval \<Rightarrow> ('s gworld, string) api" where
  "httpPost gc path body = doJSON gc ''POST'' path body"

definition httpPut :: "'s goclaw \<Rightarrow> string \<Rightarrow> gval \<Rightarrow> ('s gworld, string) api" where
  "httpPut gc path body = doJSON gc ''PUT'' path body"

definition httpPatch :: "'s goclaw \<Rightarrow> string \<Rightarrow> gval \<Rightarrow> ('s gworld, string) api" where
  "httpPatch gc path body = doJSON gc ''PATCH'' path body"

definition httpDelete :: "'s goclaw \<Rightarrow> string \<Rightarrow> ('s gworld, unit) api" where
  "httpDelete gc path = bindA (doReq gc ''DELETE'' path None) (\<lambda>_. retA ())"

definition GetRaw :: "'s goclaw \<Rightarrow> string \<Rightarrow> ('s gworld, string) api" where
  "GetRaw gc path = doRaw gc ''GET'' path None []"

definition PostMultipart :: "'s goclaw \<Rightarrow> string \<Rightarrow> string \<Rightarrow> string \<Rightarrow> ('s gworld, string) api" where
  "PostMultipart gc path body contentType = doRaw gc ''POST'' path (Some body) contentType"

section \<open>WebSocket RPC\<close>

definition ensureWS :: "'s goclaw \<Rightarrow> ('s gworld, unit) api" where
  "ensureWS gc = (\<lambda>w. if IsConnected gc (net w) then (Inr (), w) else onNet (wsConnect gc) w)"

definition wsCall :: "'s goclaw \<Rightarrow> string \<Rightarrow> gval \<Rightarrow> ('s gworld, string) api" where
  "wsCall gc method params = onNet (wsSend gc method params)"

section \<open>Decoding responses\<close>

text \<open>A struct field matches a key up to case; the last matching key of the object wins.\<close>

definition jsonField :: "string \<Rightarrow> gomap \<Rightarrow> gval option" where
  "jsonField name m =
     map_option snd (find (\<lambda>(k, v). map toLowerC k = map toLowerC name) (rev m))"

fun rowOf :: "gval \<Rightarrow> gomap result" where
  "rowOf GNil = Inr []"
| "rowOf (GMap m) = Inr m"
| "rowOf _ = Inl (errorf ''json: cannot unmarshal into Go value of type map[string]interface {}'')"

fun rowsOf :: "gval list \<Rightarrow> gomap list result" where
  "rowsOf [] = Inr []"
| "rowsOf (v # vs) =
     (case rowOf v of
        Inl err \<Rightarrow> Inl err
      | Inr m \<Rightarrow> (case rowsOf vs of Inl err \<Rightarrow> Inl err | Inr ms \<Rightarrow> Inr (m # ms)))"

text \<open>\<open>json.Unmarshal\<close> into a struct with one field of type \<open>[]map[string]any\<close>.\<close>

definition decodeRows :: "'s goclaw \<Rightarrow> string \<Rightarrow> string \<Rightarrow> gomap list result" where
  "decodeRows gc field data =
     (case jsonParse gc data of
        Inl err \<Rightarrow> Inl err
      | Inr GNil \<Rightarrow> Inr []
      | Inr (GMap m) \<Rightarrow>
          (case jsonField field m of
             None \<Rightarrow> Inr []
           | Some GNil \<Rightarrow> Inr []
           | Some (GList vs) \<Rightarrow> rowsOf vs
           | Some _ \<Rightarrow> Inl (errorf ''json: cannot unmarshal into Go struct field of type []map[string]interface {}''))
      | Inr _ \<Rightarrow> Inl (errorf ''json: cannot unmarshal into Go value of type struct''))"

text \<open>A GET or a list call followed by that decoding, with the two wrapped errors of every caller.\<close>

definition getRows :: "'s goclaw \<Rightarrow> string \<Rightarrow> string \<Rightarrow> string \<Rightarrow> string \<Rightarrow> ('s gworld, gomap list) api" where
  "getRows gc path listErr field parseErr =
     bindA (wrapA listErr (httpGet gc path)) (\<lambda>data. wrapA parseErr (liftR (decodeRows gc field data)))"

definition callRows ::
  "'s goclaw \<Rightarrow> string \<Rightarrow> gval \<Rightarrow> string \<Rightarrow> string \<Rightarrow> string \<Rightarrow> ('s gworld, gomap list) api"
where
  "callRows gc method params listErr field parseErr =
     bindA (wrapA listErr (wsCall gc method params)) (\<lambda>data. wrapA parseErr (liftR (decodeRows gc field data)))"

section \<open>Helpers\<close>

definition translateSpec :: "gomap \<Rightarrow> gomap" where
  "translateSpec spec = CamelToSnake spec"

definition translateResult :: "gomap \<Rightarrow> gomap" where
  "translateResult r = SnakeToCamel r"

definition strVal :: "gomap \<Rightarrow> string \<Rightarrow> string" where
  "strVal m key = (case map_of m key of Some (GStr s) \<Rightarrow> s | _ \<Rightarrow> [])"

definition boolVal :: "gomap \<Rightarrow> string \<Rightarrow> bool" where
  "boolVal m key = (case map_of m key of Some (GBool b) \<Rightarrow> b | _ \<Rightarrow> False)"

definition internalFields :: "string list" where
  "internalFields =
     [''created_at'', ''updated_at'', ''created_by'', ''owner_id'',
      ''tenant_id'', ''tenant_name'', ''tenant_slug'',
      ''restrict_to_workspace'', ''workspace'',
      ''tools_config'', ''sandbox_config'', ''subagents_config'',
      ''memory_config'', ''compaction_config'', ''context_pruning'', ''other_config'',
      ''reasoning_config'', ''workspace_sharing'', ''chatgpt_oauth_routing'',
      ''shell_deny_groups'', ''kg_dedup_config'',
      ''frontmatter'',
      ''agent_count'', ''has_credentials'', ''credentials'',
      ''file_path'', ''file_size'', ''file_hash'', ''path'', ''baseDir'', ''source'',
      ''missing_deps'', ''deps'', ''is_system'', ''author'',
      ''tenant_enabled'']"

definition deleteKeys :: "string list \<Rightarrow> gomap \<Rightarrow> gomap" where
  "deleteKeys ks m = fold AList.delete ks m"

definition stripInternal :: "gomap \<Rightarrow> gomap" where
  "stripInternal m = deleteKeys internalFields m"

fun rowWith :: "string \<Rightarrow> string \<Rightarrow> gomap list \<Rightarrow> string option" where
  "rowWith field key [] = None"
| "rowWith field key (a # as) =
     (if strVal a field = key \<and> strVal a ''id'' \<noteq> [] then Some (strVal a ''id'') else rowWith field key as)"

definition resolveAgentID :: "'s goclaw \<Rightarrow> string \<Rightarrow> ('s gworld, string) api" where
  "resolveAgentID gc agentKey =
     bindA (getRows gc ''/v1/agents'' ''list agents: '' ''agents'' ''parse agents response: '') (\<lambda>agents.
       case rowWith ''agent_key'' agentKey agents of
         Some i \<Rightarrow> retA i
       | None \<Rightarrow> failA (errorf (''agent '' @ goQuote agentKey @ '' not found'')))"

text \<open>The first row that satisfies \<open>p\<close> and then the stateful test \<open>t\<close>.\<close>

fun findRow :: "(gomap \<Rightarrow> bool) \<Rightarrow> (gomap \<Rightarrow> 'w \<Rightarrow> bool \<times> 'w) \<Rightarrow> gomap list \<Rightarrow> ('w, gomap option) api" where
  "findRow p t [] w = (Inr None, w)"
| "findRow p t (x # xs) w =
     (if p x then (case t x w of (b, w') \<Rightarrow> if b then (Inr (Some x), w') else findRow p t xs w')
      else findRow p t xs w)"

definition observeTenant :: "'s goclaw \<Rightarrow> string \<Rightarrow> ('s gworld, gomap option) api" where
  "observeTenant gc key =
     bindA (getRows gc ''/v1/tenants'' ''list tenants: '' ''tenants'' ''parse tenants response: '') (\<lambda>ts.
       retA (map_option (\<lambda>t. translateResult (stripInternal t)) (find (\<lambda>t. strVal t ''slug'' = key) ts)))"

definition resolveTenantOnce :: "'s goclaw \<Rightarrow> 's gworld \<Rightarrow> (string \<times> goerr option) \<times> 's gworld" where
  "resolveTenantOnce gc =
     tryA (observeTenant gc (tenantID gc)) (\<lambda>r w.
       (case r of
          Inl err \<Rightarrow> ([], Some (wrapf (''resolve tenant UUID for '' @ goQuote (tenantID gc) @ '': '') err))
        | Inr None \<Rightarrow> ([], Some (errorf (''tenant '' @ goQuote (tenantID gc) @ '' not found'')))
        | Inr (Some tenant) \<Rightarrow>
            (case map_of tenant ''id'' of
               Some (GStr i) \<Rightarrow> (i, None)
             | _ \<Rightarrow> ([], Some (errorf (''tenant '' @ goQuote (tenantID gc) @ '': missing id''))))
       , w))"

definition resolveTenantUUID :: "'s goclaw \<Rightarrow> 's gworld \<Rightarrow> (string \<times> goerr option) \<times> 's gworld" where
  "resolveTenantUUID gc w =
     (if tenantID gc = [] then (([], None), w)
      else case tenantOnce w of
             Some memo \<Rightarrow> (memo, w)
           | None \<Rightarrow> (case resolveTenantOnce gc w of (memo, w') \<Rightarrow> (memo, w'\<lparr>tenantOnce := Some memo\<rparr>)))"

definition matchesTenant :: "'s goclaw \<Rightarrow> gomap \<Rightarrow> 's gworld \<Rightarrow> bool \<times> 's gworld" where
  "matchesTenant gc resource w =
     (if tenantID gc = [] then (True, w)
      else let tid = strVal resource ''tenant_id'' in
           if tid = [] then (True, w)
           else case resolveTenantUUID gc w of
                  ((uuid, err), w') \<Rightarrow>
                    if err \<noteq> None \<or> uuid = [] then (True, w') else (tid = uuid, w'))"

text \<open>\<open>current["id"].(string)\<close>.\<close>

definition idOf :: "gomap \<Rightarrow> string option" where
  "idOf current = (case map_of current ''id'' of Some (GStr i) \<Rightarrow> Some i | _ \<Rightarrow> None)"

section \<open>What a call leaves alone\<close>

text \<open>A call keeps \<open>f\<close> of the world; what is true of all parts is true of their composition.\<close>

definition keeps :: "('w \<Rightarrow> 'b) \<Rightarrow> ('w \<Rightarrow> 'a \<times> 'w) \<Rightarrow> bool" where
  "keeps f m \<longleftrightarrow> (\<forall>w. f (snd (m w)) = f w)"

named_theorems keeps_intros

lemma keeps_retA [keeps_intros]: "keeps f (retA x)" and keeps_failA [keeps_intros]: "keeps f (failA err)"
  and keeps_liftR [keeps_intros]: "keeps f (liftR r)"
  by (simp_all add: keeps_def retA_def failA_def liftR_def)

lemma keeps_tryA [keeps_intros]: "keeps f m \<Longrightarrow> (\<And>r. keeps f (g r)) \<Longrightarrow> keeps f (tryA m g)"
  by (simp add: keeps_def tryA_def split: prod.split) (metis snd_conv)

lemma keeps_bindA [keeps_intros]: "keeps f m \<Longrightarrow> (\<And>x. keeps f (g x)) \<Longrightarrow> keeps f (bindA m g)"
  unfolding bindA_def by (intro keeps_tryA) (auto split: sum.split intro: keeps_intros)

lemma keeps_wrapA [keeps_intros]: "keeps f m \<Longrightarrow> keeps f (wrapA pre m)"
  unfolding wrapA_def by (intro keeps_tryA) (auto split: sum.split intro: keeps_intros)

lemma keeps_forA [keeps_intros]: "(\<And>x. x \<in> set xs \<Longrightarrow> keeps f (g x)) \<Longrightarrow> keeps f (forA g xs)"
  by (induction xs) (auto intro!: keeps_intros)

lemma keeps_mapA [keeps_intros]: "(\<And>x. x \<in> set xs \<Longrightarrow> keeps f (g x)) \<Longrightarrow> keeps f (mapA g xs)"
  by (induction xs) (auto intro!: keeps_intros)

lemma keeps_findRow [keeps_intros]: "(\<And>x. keeps f (t x)) \<Longrightarrow> keeps f (findRow p t xs)"
proof (induction xs)
  case (Cons x xs)
  have "f w' = f w" if "t x w = (b, w')" for w w' b
    using Cons.prems [of x] that by (metis keeps_def snd_conv)
  with Cons show ?case by (auto simp: keeps_def split: prod.split)
qed (simp add: keeps_def)

lemma keeps_if [keeps_intros]: "(b \<Longrightarrow> keeps f m) \<Longrightarrow> (\<not> b \<Longrightarrow> keeps f n) \<Longrightarrow> keeps f (if b then m else n)"
  by simp

lemma keeps_option [keeps_intros]:
  "keeps f m \<Longrightarrow> (\<And>x. keeps f (g x)) \<Longrightarrow> keeps f (case v of None \<Rightarrow> m | Some x \<Rightarrow> g x)"
  by (cases v) auto

lemma keeps_sum [keeps_intros]:
  "(\<And>x. keeps f (m x)) \<Longrightarrow> (\<And>x. keeps f (g x)) \<Longrightarrow> keeps f (case v of Inl x \<Rightarrow> m x | Inr x \<Rightarrow> g x)"
  by (cases v) auto

lemma keeps_prod [keeps_intros]: "(\<And>x y. keeps f (m x y)) \<Longrightarrow> keeps f (case v of (x, y) \<Rightarrow> m x y)"
  by (cases v) auto

end
