(* ===== verification/Goclaw.thy ===== *)
theory Goclaw
  imports Api
begin

text \<open>
  \<open>internal/provider/goclaw\<close>: observing, creating, updating and deleting each resource kind. One
  definition per method of \<open>Provider\<close>, in the calls it makes and the errors it wraps.
\<close>

section \<open>Shared shapes\<close>

text \<open>The list endpoints, each with the error prefixes every method uses for it.\<close>

definition providerRows :: "'s goclaw \<Rightarrow> ('s gworld, gomap list) api" where
  "providerRows gc = getRows gc ''/v1/providers'' ''list providers: '' ''providers'' ''parse providers response: ''"

definition agentRows :: "'s goclaw \<Rightarrow> ('s gworld, gomap list) api" where
  "agentRows gc = getRows gc ''/v1/agents'' ''list agents: '' ''agents'' ''parse agents response: ''"

definition channelRows :: "'s goclaw \<Rightarrow> ('s gworld, gomap list) api" where
  "channelRows gc = getRows gc ''/v1/channels/instances'' ''list channel instances: '' ''instances'' ''parse channel instances response: ''"

definition serverRows :: "'s goclaw \<Rightarrow> ('s gworld, gomap list) api" where
  "serverRows gc = getRows gc ''/v1/mcp/servers'' ''list mcp servers: '' ''servers'' ''parse mcp servers response: ''"

definition skillRows :: "'s goclaw \<Rightarrow> ('s gworld, gomap list) api" where
  "skillRows gc = getRows gc ''/v1/skills'' ''list skills: '' ''skills'' ''parse skills response: ''"

definition cliRows :: "'s goclaw \<Rightarrow> ('s gworld, gomap list) api" where
  "cliRows gc = getRows gc ''/v1/cli-credentials'' ''list cli-credentials: '' ''items'' ''parse cli-credentials response: ''"

definition teamRows :: "'s goclaw \<Rightarrow> ('s gworld, gomap list) api" where
  "teamRows gc =
     bindA (wrapA ''ws connect for teams: '' (ensureWS gc)) (\<lambda>_.
       callRows gc ''teams.list'' GNil ''teams.list: '' ''teams'' ''parse teams.list response: '')"

definition cronRows :: "'s goclaw \<Rightarrow> ('s gworld, gomap list) api" where
  "cronRows gc =
     bindA (wrapA ''ws connect for cron: '' (ensureWS gc)) (\<lambda>_.
       callRows gc ''cron.list'' (GMap [(''includeDisabled'', GBool True)]) ''cron.list: '' ''jobs''
         ''parse cron.list response: '')"

definition workstationRows :: "'s goclaw \<Rightarrow> ('s gworld, gomap list) api" where
  "workstationRows gc =
     bindA (wrapA ''ws connect for workstations: '' (ensureWS gc)) (\<lambda>_.
       callRows gc ''workstations.list'' GNil ''workstations.list: '' ''workstations''
         ''parse workstations.list response: '')"

text \<open>The first row of this tenant whose key field has the name, as the reconciler sees it.\<close>

definition observeRow ::
  "'s goclaw \<Rightarrow> ('s gworld, gomap list) api \<Rightarrow> (gomap \<Rightarrow> bool) \<Rightarrow> (gomap \<Rightarrow> gomap) \<Rightarrow> ('s gworld, gomap option) api"
where
  "observeRow gc rows p present =
     bindA rows (\<lambda>rs. bindA (findRow p (matchesTenant gc) rs) (\<lambda>r. retA (map_option present r)))"

definition presentRow :: "gomap \<Rightarrow> gomap" where
  "presentRow row = translateResult (stripInternal row)"

text \<open>Observe, fail when absent, and go on with the id of what was found.\<close>

definition withCurrent ::
  "('s gworld, gomap option) api \<Rightarrow> ('s gworld, 'a) api \<Rightarrow> (gomap \<Rightarrow> ('s gworld, 'a) api) \<Rightarrow> ('s gworld, 'a) api"
where
  "withCurrent obs absent present =
     bindA obs (\<lambda>current. case current of None \<Rightarrow> absent | Some cur \<Rightarrow> present cur)"

definition withId :: "string \<Rightarrow> gomap \<Rightarrow> (string \<Rightarrow> ('s gworld, 'a) api) \<Rightarrow> ('s gworld, 'a) api" where
  "withId missing current f = (case idOf current of None \<Rightarrow> failA (errorf missing) | Some i \<Rightarrow> f i)"

text \<open>\<open>errors.Is(err, ErrNotFound)\<close> gets a prefix, any other error passes.\<close>

definition notFoundAs :: "string \<Rightarrow> ('s gworld, 'a) api \<Rightarrow> ('s gworld, unit) api" where
  "notFoundAs pre m =
     tryA m (\<lambda>r. case r of
       Inl err \<Rightarrow> failA (if errorsIs err ErrNotFound then wrapf pre err else err)
     | Inr _ \<Rightarrow> retA ())"

definition ignoreResult :: "('s gworld, 'a) api \<Rightarrow> ('s gworld, unit) api" where
  "ignoreResult m = bindA m (\<lambda>_. retA ())"

section \<open>Tenants\<close>

definition createTenant :: "'s goclaw \<Rightarrow> string \<Rightarrow> gomap \<Rightarrow> ('s gworld, unit) api" where
  "createTenant gc key spec =
     ignoreResult (wrapA (''create tenant '' @ key @ '': '')
       (httpPost gc ''/v1/tenants'' (GMap (AList.update ''slug'' (GStr key) (translateSpec spec)))))"

definition updateTenant :: "'s goclaw \<Rightarrow> string \<Rightarrow> gomap \<Rightarrow> ('s gworld, unit) api" where
  "updateTenant gc key spec =
     withCurrent (observeTenant gc key) (failA (errorf (''tenant '' @ key @ '' not found for update''))) (\<lambda>current.
     withId (''tenant '' @ key @ '': missing id'') current (\<lambda>i.
       notFoundAs (''tenant '' @ key @ '' (id='' @ i @ '') not found: '')
         (httpPut gc (''/v1/tenants/'' @ i) (GMap (translateSpec spec)))))"

definition deleteTenant :: "'s goclaw \<Rightarrow> string \<Rightarrow> ('s gworld, unit) api" where
  "deleteTenant gc key =
     withCurrent (observeTenant gc key) (retA ()) (\<lambda>current.
     withId (''tenant '' @ key @ '': missing id for delete'') current (\<lambda>i. httpDelete gc (''/v1/tenants/'' @ i)))"

section \<open>Providers\<close>

definition observeProvider :: "'s goclaw \<Rightarrow> string \<Rightarrow> ('s gworld, gomap option) api" where
  "observeProvider gc key = observeRow gc (providerRows gc) (\<lambda>prov. strVal prov ''name'' = key) presentRow"

definition createProvider :: "'s goclaw \<Rightarrow> string \<Rightarrow> gomap \<Rightarrow> ('s gworld, unit) api" where
  "createProvider gc key spec =
     ignoreResult (wrapA (''create provider '' @ key @ '': '')
       (httpPost gc ''/v1/providers'' (GMap (AList.update ''name'' (GStr key) (translateSpec spec)))))"

definition updateProvider :: "'s goclaw \<Rightarrow> string \<Rightarrow> gomap \<Rightarrow> ('s gworld, unit) api" where
  "updateProvider gc key spec =
     withCurrent (observeProvider gc key) (failA (errorf (''provider '' @ key @ '' not found for update''))) (\<lambda>current.
     withId (''provider '' @ key @ '': missing id'') current (\<lambda>i.
       notFoundAs (''provider '' @ key @ '' (id='' @ i @ '') not found: '')
         (httpPut gc (''/v1/providers/'' @ i) (GMap (AList.update ''name'' (GStr key) (translateSpec spec))))))"

definition deleteProvider :: "'s goclaw \<Rightarrow> string \<Rightarrow> ('s gworld, unit) api" where
  "deleteProvider gc key =
     withCurrent (observeProvider gc key) (retA ()) (\<lambda>current.
     withId (''provider '' @ key @ '': missing id'') current (\<lambda>i. httpDelete gc (''/v1/providers/'' @ i)))"

definition VerifyProvider :: "'s goclaw \<Rightarrow> string \<Rightarrow> ('s gworld, unit) api" where
  "VerifyProvider gc key =
     withCurrent (wrapA (''verify provider '' @ key @ '': '') (observeProvider gc key))
       (failA (GoErr (Some ErrNotFound) (''verify provider '' @ key @ '': resource not found''))) (\<lambda>current.
     withId (''verify provider '' @ key @ '': missing id'') current (\<lambda>i.
       ignoreResult (httpPost gc (''/v1/providers/'' @ i @ ''/verify'') GNil)))"

section \<open>Agents and context files\<close>

definition observeAgent :: "'s goclaw \<Rightarrow> string \<Rightarrow> ('s gworld, gomap option) api" where
  "observeAgent gc key = observeRow gc (agentRows gc) (\<lambda>a. strVal a ''agent_key'' = key) presentRow"

fun archiveEntries :: "gval list \<Rightarrow> (string \<times> string) list" where
  "archiveEntries [] = []"
| "archiveEntries (f # fs) =
     (case asMap (Some f) of
        None \<Rightarrow> archiveEntries fs
      | Some fm \<Rightarrow>
          let name = strOr (map_of fm ''name''); content = strOr (map_of fm ''content'') in
          if name = [] then archiveEntries fs
          else (''context_files/'' @ name, content) # archiveEntries fs)"

definition buildContextFilesArchive :: "'s goclaw \<Rightarrow> gval list \<Rightarrow> string result" where
  "buildContextFilesArchive gc fs = tarGz gc (archiveEntries fs)"

definition importReq :: "'s goclaw \<Rightarrow> string \<Rightarrow> string \<Rightarrow> string \<Rightarrow> http_request" where
  "importReq gc agentID body contentType =
     \<lparr>rqMethod = ''POST'', rqURL = endpoint gc @ ''/v1/agents/'' @ agentID @ ''/import?include=context_files'',
      rqHeaders = setAll (headers (http gc))
        [(''Content-Type'', contentType), (''Authorization'', ''Bearer '' @ token gc)],
      rqBody = Some body\<rparr>"

definition syncContextFiles :: "'s goclaw \<Rightarrow> string \<Rightarrow> gval list \<Rightarrow> ('s gworld, unit) api" where
  "syncContextFiles gc agentID fs =
     (if length fs = 0 then retA ()
      else
        bindA (wrapA ''build context files archive: '' (liftR (buildContextFilesArchive gc fs))) (\<lambda>archive.
        bindA (wrapA ''write archive to form: ''
                 (liftR (multipartForm gc [(''file'', ''context-files.tar.gz'', archive)]))) (\<lambda>(body, contentType).
          let req = importReq gc agentID body contentType in
          case badRequest gc (rqMethod req) (rqURL req) of
            Some err \<Rightarrow> failA (wrapf ''create import request: '' err)
          | None \<Rightarrow>
              bindA (wrapA ''import context files: '' (onNet (httpDo gc req))) (\<lambda>resp.
                if rsStatus resp < 200 \<or> rsStatus resp \<ge> 300
                then failA (errorf (''import context files: status '' @ showInt (rsStatus resp) @ '': '' @
                       (case rsRead resp of Inl _ \<Rightarrow> [] | Inr b \<Rightarrow> takeI 1024 b)))
                else retA ()))))"

definition syncAgentContextFiles :: "'s goclaw \<Rightarrow> string \<Rightarrow> gval list \<Rightarrow> ('s gworld, unit) api" where
  "syncAgentContextFiles gc key fs =
     withCurrent (observeAgent gc key) (failA (errorf (''agent '' @ key @ '' not found''))) (\<lambda>current.
     withId (''agent '' @ key @ '': missing id'') current (\<lambda>i. syncContextFiles gc i fs))"

definition syncOrWarn :: "string \<Rightarrow> 's goclaw \<Rightarrow> string \<Rightarrow> gomap \<Rightarrow> ('s gworld, unit) api" where
  "syncOrWarn msg gc key spec =
     (case asList (map_of spec ''contextFiles'') of
        None \<Rightarrow> retA ()
      | Some contextFiles \<Rightarrow>
          if length contextFiles > 0
          then tryA (syncAgentContextFiles gc key contextFiles)
                 (\<lambda>r. case r of Inl err \<Rightarrow> warn msg | Inr _ \<Rightarrow> retA ())
          else retA ())"

definition createAgent :: "'s goclaw \<Rightarrow> string \<Rightarrow> gomap \<Rightarrow> ('s gworld, unit) api" where
  "createAgent gc key spec =
     (let body = AList.delete ''context_files'' (AList.update ''agent_key'' (GStr key) (translateSpec spec)) in
      bindA (wrapA (''create agent '' @ key @ '': '') (httpPost gc ''/v1/agents'' (GMap body))) (\<lambda>_.
        syncOrWarn ''sync context files after create'' gc key spec))"

definition updateAgent :: "'s goclaw \<Rightarrow> string \<Rightarrow> gomap \<Rightarrow> ('s gworld, unit) api" where
  "updateAgent gc key spec =
     withCurrent (observeAgent gc key) (failA (errorf (''agent '' @ key @ '' not found for update''))) (\<lambda>current.
     withId (''agent '' @ key @ '': missing id'') current (\<lambda>i.
       bindA (notFoundAs (''agent '' @ key @ '' (id='' @ i @ '') not found: '')
                (httpPut gc (''/v1/agents/'' @ i) (GMap (AList.delete ''context_files'' (translateSpec spec))))) (\<lambda>_.
         syncOrWarn ''sync context files after update'' gc key spec)))"

definition deleteAgent :: "'s goclaw \<Rightarrow> string \<Rightarrow> ('s gworld, unit) api" where
  "deleteAgent gc key =
     withCurrent (observeAgent gc key) (retA ()) (\<lambda>current.
     withId (''agent '' @ key @ '': missing id'') current (\<lambda>i. httpDelete gc (''/v1/agents/'' @ i)))"

section \<open>Channels\<close>

definition observeChannelInstance :: "'s goclaw \<Rightarrow> string \<Rightarrow> ('s gworld, gomap option) api" where
  "observeChannelInstance gc key =
     observeRow gc (channelRows gc) (\<lambda>inst. strVal inst ''name'' = key)
       (\<lambda>inst. presentRow (AList.delete ''agent_id'' inst))"

text \<open>Replace the agent key of a body by the agent's id.\<close>

definition resolveAgentIn :: "'s goclaw \<Rightarrow> string \<Rightarrow> string \<Rightarrow> string \<Rightarrow> gomap \<Rightarrow> ('s gworld, gomap) api" where
  "resolveAgentIn gc errPre keyField idField body =
     (case asStr (map_of body keyField) of
        None \<Rightarrow> retA body
      | Some agentKey \<Rightarrow>
          bindA (wrapA errPre (resolveAgentID gc agentKey)) (\<lambda>agentID.
            retA (AList.delete keyField (AList.update idField (GStr agentID) body))))"

definition createChannelInstance :: "'s goclaw \<Rightarrow> string \<Rightarrow> gomap \<Rightarrow> ('s gworld, unit) api" where
  "createChannelInstance gc key spec =
     bindA (resolveAgentIn gc (''channel '' @ key @ '': '') ''agent_key'' ''agent_id''
              (AList.update ''name'' (GStr key) (translateSpec spec))) (\<lambda>body.
       ignoreResult (wrapA (''create channel instance '' @ key @ '': '')
         (httpPost gc ''/v1/channels/instances'' (GMap body))))"

definition updateChannelInstance :: "'s goclaw \<Rightarrow> string \<Rightarrow> gomap \<Rightarrow> ('s gworld, unit) api" where
  "updateChannelInstance gc key spec =
     withCurrent (observeChannelInstance gc key) (failA (errorf (''channel instance '' @ key @ '' not found for update''))) (\<lambda>current.
     withId (''channel instance '' @ key @ '': missing id'') current (\<lambda>i.
       bindA (resolveAgentIn gc (''channel '' @ key @ '': '') ''agent_key'' ''agent_id'' (translateSpec spec)) (\<lambda>body.
         notFoundAs (''channel instance '' @ key @ '' (id='' @ i @ '') not found: '')
           (httpPut gc (''/v1/channels/instances/'' @ i) (GMap body)))))"

definition deleteChannelInstance :: "'s goclaw \<Rightarrow> string \<Rightarrow> ('s gworld, unit) api" where
  "deleteChannelInstance gc key =
     withCurrent (observeChannelInstance gc key) (retA ()) (\<lambda>current.
     withId (''channel instance '' @ key @ '': missing id'') current (\<lambda>i. httpDelete gc (''/v1/channels/instances/'' @ i)))"

section \<open>MCP servers and their grants\<close>

definition listMCPGrants :: "'s goclaw \<Rightarrow> string \<Rightarrow> ('s gworld, gomap list) api" where
  "listMCPGrants gc serverID =
     getRows gc (''/v1/mcp/servers/'' @ serverID @ ''/grants'') (''list mcp grants for server '' @ serverID @ '': '')
       ''grants'' ''parse mcp grants response: ''"

fun idToKey :: "gomap list \<Rightarrow> strmap \<Rightarrow> strmap" where
  "idToKey [] m = m"
| "idToKey (a # as) m =
     idToKey as (if strVal a ''id'' \<noteq> [] then AList.update (strVal a ''id'') (strVal a ''agent_key'') m else m)"

definition grantKeys :: "gomap list \<Rightarrow> gomap list \<Rightarrow> string list" where
  "grantKeys agents grants =
     concat (map (\<lambda>g. case map_of (idToKey agents []) (strVal g ''agent_id'') of
                        Some key \<Rightarrow> if key \<noteq> [] then [key] else []
                      | None \<Rightarrow> []) grants)"

definition listMCPGrantAgentKeys :: "'s goclaw \<Rightarrow> string \<Rightarrow> ('s gworld, string list) api" where
  "listMCPGrantAgentKeys gc serverID =
     bindA (listMCPGrants gc serverID) (\<lambda>grants.
       if length grants = 0 then retA []
       else bindA (getRows gc ''/v1/agents'' ''list agents for grant resolution: '' ''agents'' ''parse agents response: '')
              (\<lambda>agents. retA (grantKeys agents grants)))"

text \<open>The live grant list of a server or skill, folded into what was observed when it can be read.\<close>

definition withGrants ::
  "(string \<Rightarrow> ('s gworld, string list) api) \<Rightarrow> gomap option \<Rightarrow> ('s gworld, gomap option) api"
where
  "withGrants listKeys row =
     (case row of
        None \<Rightarrow> retA None
      | Some s \<Rightarrow>
          let rowID = strVal s ''id''; shown = presentRow s in
          if rowID \<noteq> []
          then tryA (listKeys rowID) (\<lambda>r. case r of
                 Inl err \<Rightarrow> retA (Some shown)
               | Inr agentKeys \<Rightarrow> retA (Some (AList.update ''grants'' (GMap [(''agents'', GStrs agentKeys)]) shown)))
          else retA (Some shown))"

definition observeMCPServer :: "'s goclaw \<Rightarrow> string \<Rightarrow> ('s gworld, gomap option) api" where
  "observeMCPServer gc key =
     bindA (serverRows gc) (\<lambda>rs.
     bindA (findRow (\<lambda>s. strVal s ''name'' = key) (matchesTenant gc) rs) (\<lambda>row.
       withGrants (listMCPGrantAgentKeys gc) row))"

definition resolveMCPServerID :: "'s goclaw \<Rightarrow> string \<Rightarrow> ('s gworld, string) api" where
  "resolveMCPServerID gc name =
     bindA (serverRows gc) (\<lambda>rs.
       case rowWith ''name'' name rs of
         Some i \<Rightarrow> retA i
       | None \<Rightarrow> failA (errorf (''mcp server '' @ goQuote name @ '' not found'')))"

definition extractGrantAgents :: "gomap \<Rightarrow> string list" where
  "extractGrantAgents spec =
     (case asMap (map_of spec ''grants'') of
        None \<Rightarrow> []
      | Some grants \<Rightarrow>
          (case map_of grants ''agents'' of
             Some (GStrs v) \<Rightarrow> v
           | Some (GList v) \<Rightarrow> strItems v
           | _ \<Rightarrow> []))"

text \<open>Ids in the order they were first added to a Go map.\<close>

fun addKeys :: "string list \<Rightarrow> string list \<Rightarrow> string list" where
  "addKeys [] acc = acc"
| "addKeys (k # ks) acc = addKeys ks (if k \<in> set acc then acc else acc @ [k])"

definition grantIds :: "gomap list \<Rightarrow> string list" where
  "grantIds grants = addKeys (filter (\<lambda>i. i \<noteq> []) (map (\<lambda>g. strVal g ''agent_id'') grants)) []"

definition addGrants :: "'s goclaw \<Rightarrow> string \<Rightarrow> string \<Rightarrow> string list \<Rightarrow> string list \<Rightarrow> ('s gworld, unit) api" where
  "addGrants gc serverID serverName desiredIDs currentIDs =
     forA (\<lambda>agentID.
       if agentID \<in> set currentIDs then retA ()
       else ignoreResult (wrapA (''grant agent '' @ agentID @ '' to mcp server '' @ serverName @ '': '')
              (httpPost gc (''/v1/mcp/servers/'' @ serverID @ ''/grants/agent'') (GMap [(''agent_id'', GStr agentID)]))))
       (rangeOrder gc desiredIDs)"

text \<open>A grant that is already gone counts as revoked.\<close>

definition revoke :: "'s goclaw \<Rightarrow> string \<Rightarrow> string \<Rightarrow> ('s gworld, unit) api" where
  "revoke gc errPre path =
     tryA (httpDelete gc path) (\<lambda>r. case r of
       Inl err \<Rightarrow> if errorsIs err ErrNotFound then retA () else failA (wrapf errPre err)
     | Inr _ \<Rightarrow> retA ())"

definition removeGrants :: "'s goclaw \<Rightarrow> string \<Rightarrow> string \<Rightarrow> string list \<Rightarrow> string list \<Rightarrow> ('s gworld, unit) api" where
  "removeGrants gc serverID serverName desiredIDs currentIDs =
     forA (\<lambda>agentID.
       if agentID \<in> set desiredIDs then retA ()
       else revoke gc (''revoke agent '' @ agentID @ '' from mcp server '' @ serverName @ '': '')
              (''/v1/mcp/servers/'' @ serverID @ ''/grants/agent/'' @ agentID))
       (rangeOrder gc currentIDs)"

definition applyMCPGrants :: "'s goclaw \<Rightarrow> string \<Rightarrow> string list \<Rightarrow> ('s gworld, unit) api" where
  "applyMCPGrants gc serverName desiredAgents =
     bindA (resolveMCPServerID gc serverName) (\<lambda>serverID.
     bindA (listMCPGrants gc serverID) (\<lambda>currentGrants.
     bindA (mapA (\<lambda>agentKey. wrapA (''resolve agent '' @ goQuote agentKey @ '': '') (resolveAgentID gc agentKey)) desiredAgents) (\<lambda>ids.
       let currentIDs = grantIds currentGrants; desiredIDs = addKeys ids [] in
       bindA (addGrants gc serverID serverName desiredIDs currentIDs) (\<lambda>_.
         removeGrants gc serverID serverName desiredIDs currentIDs))))"

definition createMCPServer :: "'s goclaw \<Rightarrow> string \<Rightarrow> gomap \<Rightarrow> ('s gworld, unit) api" where
  "createMCPServer gc key spec =
     (let body = AList.delete ''grants'' (AList.update ''name'' (GStr key) (translateSpec spec)) in
      bindA (wrapA (''create mcp server '' @ key @ '': '') (httpPost gc ''/v1/mcp/servers'' (GMap body))) (\<lambda>_.
        let agents = extractGrantAgents spec in
        if length agents > 0
        then wrapA (''apply grants for mcp server '' @ key @ '': '') (applyMCPGrants gc key agents)
        else retA ()))"

definition updateMCPServer :: "'s goclaw \<Rightarrow> string \<Rightarrow> gomap \<Rightarrow> ('s gworld, unit) api" where
  "updateMCPServer gc key spec =
     withCurrent (observeMCPServer gc key) (failA (errorf (''mcp server '' @ key @ '' not found for update''))) (\<lambda>current.
     withId (''mcp server '' @ key @ '': missing id'') current (\<lambda>i.
       bindA (notFoundAs (''mcp server '' @ key @ '' (id='' @ i @ '') not found: '')
                (httpPut gc (''/v1/mcp/servers/'' @ i) (GMap (AList.delete ''grants'' (translateSpec spec))))) (\<lambda>_.
         applyMCPGrants gc key (extractGrantAgents spec))))"

definition deleteMCPServer :: "'s goclaw \<Rightarrow> string \<Rightarrow> ('s gworld, unit) api" where
  "deleteMCPServer gc key =
     withCurrent (observeMCPServer gc key) (retA ()) (\<lambda>current.
     withId (''mcp server '' @ key @ '': missing id'') current (\<lambda>i. httpDelete gc (''/v1/mcp/servers/'' @ i)))"

definition credentialsPath :: "string \<Rightarrow> string" where
  "credentialsPath i = ''/v1/mcp/servers/'' @ i @ ''/user-credentials''"

definition observeMCPCredentials :: "'s goclaw \<Rightarrow> string \<Rightarrow> ('s gworld, gomap option) api" where
  "observeMCPCredentials gc key =
     tryA (resolveMCPServerID gc key) (\<lambda>r. case r of
       Inl err \<Rightarrow> retA None
     | Inr i \<Rightarrow> retA (Some [(''serverName'', GStr key)]))"

definition createMCPCredentials :: "'s goclaw \<Rightarrow> string \<Rightarrow> gomap \<Rightarrow> ('s gworld, unit) api" where
  "createMCPCredentials gc key spec =
     bindA (resolveMCPServerID gc key) (\<lambda>i.
       ignoreResult (wrapA (''set mcp credentials '' @ key @ '': '')
         (httpPut gc (credentialsPath i) (GMap (translateSpec spec)))))"

definition updateMCPCredentials :: "'s goclaw \<Rightarrow> string \<Rightarrow> gomap \<Rightarrow> ('s gworld, unit) api" where
  "updateMCPCredentials gc key spec = createMCPCredentials gc key spec"

definition deleteMCPCredentials :: "'s goclaw \<Rightarrow> string \<Rightarrow> ('s gworld, unit) api" where
  "deleteMCPCredentials gc key = bindA (resolveMCPServerID gc key) (\<lambda>i. httpDelete gc (credentialsPath i))"

end
