(* ===== verification/GoclawKinds.thy ===== *)
theory GoclawKinds
  imports Goclaw
begin

text \<open>
  \<open>internal/provider/goclaw\<close>, continued: skills, per-tenant configurations, teams, cron jobs, secure
  command lines with their grants, agent links and workstations.
\<close>

section \<open>Skills\<close>

definition skillWritableFields :: "string list" where
  "skillWritableFields = [''description'', ''visibility'', ''status'', ''tags'', ''version'', ''name'']"

definition matchSkillKey :: "gomap \<Rightarrow> string \<Rightarrow> bool" where
  "matchSkillKey row key \<longleftrightarrow> strVal row ''slug'' = key \<or> strVal row ''key'' = key"

fun grantedIn :: "string \<Rightarrow> gomap list \<Rightarrow> bool" where
  "grantedIn skillID [] = False"
| "grantedIn skillID (s # ss) =
     (if strVal s ''id'' \<noteq> skillID then grantedIn skillID ss else boolVal s ''granted'')"

definition agentHasSkillGrant :: "'s goclaw \<Rightarrow> string \<Rightarrow> string \<Rightarrow> ('s gworld, bool) api" where
  "agentHasSkillGrant gc agentID skillID =
     bindA (getRows gc (''/v1/agents/'' @ agentID @ ''/skills'') (''list skills for agent '' @ agentID @ '': '')
              ''skills'' ''parse agent skills response: '') (\<lambda>ss. retA (grantedIn skillID ss))"

fun grantedAgents :: "'s goclaw \<Rightarrow> string \<Rightarrow> gomap list \<Rightarrow> string list \<Rightarrow> ('s gworld, string list) api" where
  "grantedAgents gc skillID [] keys = retA keys"
| "grantedAgents gc skillID (a # as) keys =
     tryA (matchesTenant gc a) (\<lambda>own.
       if \<not> own \<or> strVal a ''id'' = [] \<or> strVal a ''agent_key'' = [] then grantedAgents gc skillID as keys
       else bindA (agentHasSkillGrant gc (strVal a ''id'') skillID) (\<lambda>granted.
              grantedAgents gc skillID as (if granted then keys @ [strVal a ''agent_key''] else keys)))"

definition listSkillGrantAgentKeys :: "'s goclaw \<Rightarrow> string \<Rightarrow> ('s gworld, string list) api" where
  "listSkillGrantAgentKeys gc skillID =
     bindA (getRows gc ''/v1/agents'' ''list agents for skill-grant resolution: '' ''agents'' ''parse agents response: '')
       (\<lambda>agents. grantedAgents gc skillID agents [])"

definition observeSkill :: "'s goclaw \<Rightarrow> string \<Rightarrow> ('s gworld, gomap option) api" where
  "observeSkill gc key =
     bindA (skillRows gc) (\<lambda>rs.
     bindA (findRow (\<lambda>s. matchSkillKey s key) (matchesTenant gc) rs) (\<lambda>row.
       withGrants (listSkillGrantAgentKeys gc) row))"

fun strFields :: "gomap \<Rightarrow> strmap result" where
  "strFields [] = Inr []"
| "strFields ((k, v) # m) =
     (case strFields m of
        Inl err \<Rightarrow> Inl err
      | Inr rest \<Rightarrow>
          (case v of
             GStr s \<Rightarrow> Inr ((k, s) # rest)
           | GNil \<Rightarrow> Inr ((k, []) # rest)
           | _ \<Rightarrow> Inl (errorf ''json: cannot unmarshal into Go value of type string'')))"

text \<open>\<open>json.Unmarshal\<close> into a struct with the field \<open>Versions map[string]string\<close>.\<close>

definition decodeVersions :: "'s goclaw \<Rightarrow> string \<Rightarrow> strmap result" where
  "decodeVersions gc data =
     (case jsonParse gc data of
        Inl err \<Rightarrow> Inl err
      | Inr GNil \<Rightarrow> Inr []
      | Inr (GMap m) \<Rightarrow>
          (case jsonField ''versions'' m of
             None \<Rightarrow> Inr []
           | Some GNil \<Rightarrow> Inr []
           | Some (GMap vs) \<Rightarrow> strFields vs
           | Some _ \<Rightarrow> Inl (errorf ''json: cannot unmarshal into Go struct field of type map[string]string''))
      | Inr _ \<Rightarrow> Inl (errorf ''json: cannot unmarshal into Go value of type struct''))"

definition GetCLIVersions :: "'s goclaw \<Rightarrow> ('s gworld, strmap) api" where
  "GetCLIVersions gc =
     bindA (wrapA ''get cli-versions: '' (httpGet gc ''/v1/system/cli-versions'')) (\<lambda>data.
       wrapA ''parse cli-versions response: '' (liftR (decodeVersions gc data)))"

definition isSystemSourceDir :: "string \<Rightarrow> bool" where
  "isSystemSourceDir sourceDir =
     (let clean = Clean sourceDir in
      clean = ''_system'' \<or> hasPrefix ''_system/'' clean \<or> strContains clean ''/_system/'')"

fun setValue :: "gval option \<Rightarrow> bool" where
  "setValue None = False"
| "setValue (Some GNil) = False"
| "setValue (Some (GStr s)) = (s \<noteq> [])"
| "setValue (Some _) = True"

definition hasOverlay :: "gomap \<Rightarrow> bool" where
  "hasOverlay spec = list_ex (\<lambda>k. setValue (map_of spec k)) skillWritableFields"

definition putSkillFields :: "'s goclaw \<Rightarrow> string \<Rightarrow> gomap \<Rightarrow> ('s gworld, unit) api" where
  "putSkillFields gc key spec =
     withCurrent (observeSkill gc key) (failA (errorf (''skill '' @ key @ '' not found for update''))) (\<lambda>current.
     withId (''skill '' @ key @ '': missing id'') current (\<lambda>i.
       ignoreResult (httpPut gc (''/v1/skills/'' @ i)
         (GMap (translateSpec (filter (\<lambda>(k, v). k \<in> set skillWritableFields) spec))))))"

definition resolveSkillIDFromList :: "'s goclaw \<Rightarrow> string \<Rightarrow> ('s gworld, string) api" where
  "resolveSkillIDFromList gc slug =
     bindA (skillRows gc) (\<lambda>rs.
     bindA (findRow (\<lambda>s. strVal s ''slug'' = slug)
              (\<lambda>s. tryA (matchesTenant gc s) (\<lambda>own w. (own \<and> strVal s ''id'' \<noteq> [], w))) rs) (\<lambda>row.
       case row of
         Some s \<Rightarrow> retA (strVal s ''id'')
       | None \<Rightarrow> failA (errorf (''skill '' @ goQuote slug @ '' not found''))))"

text \<open>The two maps from agent key to agent id that \<open>applySkillGrants\<close> builds.\<close>

fun resolveAgents :: "'s goclaw \<Rightarrow> string \<Rightarrow> string list \<Rightarrow> strmap \<Rightarrow> ('s gworld, strmap) api" where
  "resolveAgents gc what [] m = retA m"
| "resolveAgents gc what (agentKey # ks) m =
     bindA (wrapA (''resolve '' @ what @ '' grant agent '' @ goQuote agentKey @ '': '') (resolveAgentID gc agentKey)) (\<lambda>agentID.
       resolveAgents gc what ks (AList.update agentKey agentID m))"

definition idIn :: "strmap \<Rightarrow> string \<Rightarrow> string" where
  "idIn m k = (case map_of m k of Some i \<Rightarrow> i | None \<Rightarrow> [])"

definition applySkillGrants :: "'s goclaw \<Rightarrow> string \<Rightarrow> string list \<Rightarrow> ('s gworld, unit) api" where
  "applySkillGrants gc slug desiredAgents =
     bindA (resolveSkillIDFromList gc slug) (\<lambda>skillID.
     bindA (wrapA (''list current grants for skill '' @ slug @ '': '') (listSkillGrantAgentKeys gc skillID)) (\<lambda>currentAgents.
     bindA (resolveAgents gc ''current'' currentAgents []) (\<lambda>currentIDs.
     bindA (resolveAgents gc ''desired'' desiredAgents []) (\<lambda>desiredIDs.
     bindA (forA (\<lambda>agentKey.
              if agentKey \<in> set (map fst currentIDs) then retA ()
              else ignoreResult (wrapA (''grant skill '' @ slug @ '' to agent '' @ agentKey @ '': '')
                     (httpPost gc (''/v1/skills/'' @ skillID @ ''/grants/agent'')
                       (GMap [(''agent_id'', GStr (idIn desiredIDs agentKey))]))))
              (rangeOrder gc (map fst desiredIDs))) (\<lambda>_.
       forA (\<lambda>agentKey.
         if agentKey \<in> set (map fst desiredIDs) then retA ()
         else revoke gc (''revoke skill '' @ slug @ '' from agent '' @ agentKey @ '': '')
                (''/v1/skills/'' @ skillID @ ''/grants/agent/'' @ idIn currentIDs agentKey))
         (rangeOrder gc (map fst currentIDs)))))))"

text \<open>The version check before an upload; a failed lookup only warns.\<close>

definition checkRequires :: "'s goclaw \<Rightarrow> string \<Rightarrow> gomap \<Rightarrow> ('s gworld, unit) api" where
  "checkRequires gc key spec =
     tryA (GetCLIVersions gc) (\<lambda>r. case r of
       Inl err \<Rightarrow> warn ''skill.requires_cli_lookup_failed''
     | Inr installed \<Rightarrow>
         (case CrossCheckRequiresCli (veSemver (venv gc)) (Some spec) installed of
            (ws, mismatch) \<Rightarrow>
              bindA (forA (\<lambda>_. warn ''skill.requires_cli_warning'') ws) (\<lambda>_.
                case mismatch of
                  Some err \<Rightarrow> failA (wrapf (''skill '' @ key @ '': '') err)
                | None \<Rightarrow> retA ())))"

definition skillForm :: "string \<Rightarrow> string \<Rightarrow> string \<Rightarrow> (string \<times> string \<times> string) list" where
  "skillForm key sourceDir zip' =
     [(''file'', key @ ''.zip'', zip'), (''source'', [], ''gcplane'')] @
     (if isSystemSourceDir sourceDir then [(''is_system'', [], ''true'')] else [])"

definition createSkill :: "'s goclaw \<Rightarrow> string \<Rightarrow> gomap \<Rightarrow> ('s gworld, unit) api" where
  "createSkill gc key spec =
     (let sourceDir = strOr (map_of spec ''sourceDir'') in
      if sourceDir = []
      then failA (GoErr (Some ErrSkillSourceMissing) (''skill '' @ key @ '': KindSkill spec must include sourceDir (path to a directory containing SKILL.md)''))
      else
        bindA (checkRequires gc key spec) (\<lambda>_.
        bindA (wrapA (''pack skill '' @ key @ '': '')
                 (liftR (PackDir (vePacker (venv gc)) (veDisk (venv gc)) sourceDir))) (\<lambda>pkg.
        bindA (wrapA ''multipart write: '' (liftR (multipartForm gc (skillForm key sourceDir (ZIP pkg))))) (\<lambda>(body, contentType).
        bindA (wrapA (''upload skill '' @ key @ '': '') (PostMultipart gc ''/v1/skills/upload'' body contentType)) (\<lambda>_.
        bindA (if hasOverlay spec
               then wrapA (''apply overlay to skill '' @ key @ '' after upload: '') (putSkillFields gc key spec)
               else retA ()) (\<lambda>_.
          let agents = extractGrantAgents spec in
          if length agents > 0
          then wrapA (''apply grants for skill '' @ key @ '': '') (applySkillGrants gc key agents)
          else retA ()))))))"

definition updateSkill :: "'s goclaw \<Rightarrow> string \<Rightarrow> gomap \<Rightarrow> ('s gworld, unit) api" where
  "updateSkill gc key spec =
     (if strOr (map_of spec ''sourceDir'') \<noteq> [] then createSkill gc key spec
      else bindA (putSkillFields gc key spec) (\<lambda>_. applySkillGrants gc key (extractGrantAgents spec)))"

definition deleteSkill :: "'s goclaw \<Rightarrow> string \<Rightarrow> ('s gworld, unit) api" where
  "deleteSkill gc key =
     withCurrent (observeSkill gc key) (retA ()) (\<lambda>current.
       case idOf current of
         None \<Rightarrow> failA (errorf (''skill '' @ key @ '': missing id in observed result''))
       | Some i \<Rightarrow>
           if i = [] then failA (errorf (''skill '' @ key @ '': missing id in observed result''))
           else httpDelete gc (''/v1/skills/'' @ i))"

section \<open>Skill configurations, builtin tools, system configurations\<close>

text \<open>The \<open>%T\<close> of a decoded JSON value.\<close>

fun typeName :: "gval \<Rightarrow> string" where
  "typeName (GStr _) = ''string''"
| "typeName (GF64 _) = ''float64''"
| "typeName (GList _) = ''[]interface {}''"
| "typeName (GMap _) = ''map[string]interface {}''"
| "typeName _ = ''?''"

definition observeSkillConfig :: "'s goclaw \<Rightarrow> string \<Rightarrow> ('s gworld, gomap option) api" where
  "observeSkillConfig gc key =
     bindA (skillRows gc) (\<lambda>rs.
       case find (\<lambda>s. strVal s ''slug'' = key) rs of
         None \<Rightarrow> retA None
       | Some s \<Rightarrow>
           (case map_of s ''tenant_enabled'' of
              None \<Rightarrow> retA None
            | Some GNil \<Rightarrow> retA None
            | Some (GBool enabled) \<Rightarrow> retA (Some (translateResult [(''enabled'', GBool enabled)]))
            | Some raw \<Rightarrow> failA (errorf (''skill '' @ goQuote key @ '': tenant_enabled has unexpected type '' @ typeName raw))))"

definition resolveSkillID :: "'s goclaw \<Rightarrow> string \<Rightarrow> ('s gworld, string) api" where
  "resolveSkillID gc slug =
     bindA (skillRows gc) (\<lambda>rs.
       case rowWith ''slug'' slug rs of
         Some i \<Rightarrow> retA i
       | None \<Rightarrow> failA (errorf (''skill '' @ goQuote slug @ '' not found'')))"

definition skillConfigPath :: "string \<Rightarrow> string" where
  "skillConfigPath i = ''/v1/skills/'' @ i @ ''/tenant-config''"

definition createSkillConfig :: "'s goclaw \<Rightarrow> string \<Rightarrow> gomap \<Rightarrow> ('s gworld, unit) api" where
  "createSkillConfig gc key spec =
     bindA (resolveSkillID gc key) (\<lambda>i.
       ignoreResult (wrapA (''set skill config '' @ key @ '': '')
         (httpPut gc (skillConfigPath i) (GMap (translateSpec spec)))))"

definition updateSkillConfig :: "'s goclaw \<Rightarrow> string \<Rightarrow> gomap \<Rightarrow> ('s gworld, unit) api" where
  "updateSkillConfig gc key spec = createSkillConfig gc key spec"

definition deleteSkillConfig :: "'s goclaw \<Rightarrow> string \<Rightarrow> ('s gworld, unit) api" where
  "deleteSkillConfig gc key = bindA (resolveSkillID gc key) (\<lambda>i. httpDelete gc (skillConfigPath i))"

definition toolName :: "string \<Rightarrow> string" where
  "toolName key = map (\<lambda>c. if c = CHR ''-'' then CHR ''_'' else c) key"

definition toolConfigPath :: "string \<Rightarrow> string" where
  "toolConfigPath key = ''/v1/tools/builtin/'' @ toolName key @ ''/tenant-config''"

definition observeBuiltinToolConfig :: "'s goclaw \<Rightarrow> string \<Rightarrow> ('s gworld, gomap option) api" where
  "observeBuiltinToolConfig gc key =
     bindA (getRows gc ''/v1/tools/builtin'' ''list builtin tools: '' ''tools'' ''parse builtin tools response: '') (\<lambda>rs.
       retA (case find (\<lambda>t. strVal t ''name'' = toolName key) rs of
               None \<Rightarrow> None
             | Some t \<Rightarrow>
                 (case map_of t ''tenant_enabled'' of
                    None \<Rightarrow> None
                  | Some te \<Rightarrow>
                      (case map_of t ''tenant_settings'' of
                         None \<Rightarrow> Some [(''enabled'', te)]
                       | Some GNil \<Rightarrow> Some [(''enabled'', te)]
                       | Some ts \<Rightarrow> Some [(''enabled'', te), (''settings'', ts)]))))"

definition createBuiltinToolConfig :: "'s goclaw \<Rightarrow> string \<Rightarrow> gomap \<Rightarrow> ('s gworld, unit) api" where
  "createBuiltinToolConfig gc key spec =
     ignoreResult (wrapA (''set builtin tool config '' @ key @ '': '')
       (httpPut gc (toolConfigPath key) (GMap (translateSpec spec))))"

definition updateBuiltinToolConfig :: "'s goclaw \<Rightarrow> string \<Rightarrow> gomap \<Rightarrow> ('s gworld, unit) api" where
  "updateBuiltinToolConfig gc key spec = createBuiltinToolConfig gc key spec"

definition deleteBuiltinToolConfig :: "'s goclaw \<Rightarrow> string \<Rightarrow> ('s gworld, unit) api" where
  "deleteBuiltinToolConfig gc key = httpDelete gc (toolConfigPath key)"

text \<open>\<open>url.PathEscape\<close>: everything but the unreserved bytes and \<open>$&+=:@\<close> as upper-case percent codes.\<close>

definition pathSafe :: "char \<Rightarrow> bool" where
  "pathSafe c \<longleftrightarrow> isUpper c \<or> isLower c \<or> isDigit c \<or> c \<in> set ''-_.~$&+=:@''"

definition upperHex :: "nat \<Rightarrow> char" where
  "upperHex n = (if n < 10 then char_of (48 + n) else char_of (55 + n))"

definition escapeC :: "char \<Rightarrow> string" where
  "escapeC c = (if pathSafe c then [c] else [CHR ''%'', upperHex (code c div 16), upperHex (code c mod 16)])"

definition pathEscape :: "string \<Rightarrow> string" where
  "pathEscape s = concat (map escapeC s)"

definition sysConfigPath :: "string \<Rightarrow> string" where
  "sysConfigPath key = ''/v1/system-configs/'' @ pathEscape key"

definition decodeMap :: "'s goclaw \<Rightarrow> string \<Rightarrow> gomap result" where
  "decodeMap gc data = (case jsonParse gc data of Inl err \<Rightarrow> Inl err | Inr v \<Rightarrow> rowOf v)"

definition valueOf :: "gomap \<Rightarrow> gval" where
  "valueOf config = (case map_of config ''value'' of Some v \<Rightarrow> v | None \<Rightarrow> GNil)"

definition observeSystemConfig :: "'s goclaw \<Rightarrow> string \<Rightarrow> ('s gworld, gomap option) api" where
  "observeSystemConfig gc key =
     tryA (httpGet gc (sysConfigPath key)) (\<lambda>r. case r of
       Inl err \<Rightarrow>
         if errorsIs err ErrNotFound then retA None
         else failA (wrapf (''observe system config '' @ goQuote key @ '': '') err)
     | Inr data \<Rightarrow>
         bindA (wrapA (''parse system config '' @ goQuote key @ '' response: '') (liftR (decodeMap gc data))) (\<lambda>config.
           retA (Some [(''value'', valueOf config)])))"

definition updateSystemConfig :: "'s goclaw \<Rightarrow> string \<Rightarrow> gomap \<Rightarrow> ('s gworld, unit) api" where
  "updateSystemConfig gc key spec =
     ignoreResult (wrapA (''update system config '' @ goQuote key @ '': '')
       (httpPut gc (sysConfigPath key) (GMap [(''value'', GStr (strOr (map_of spec ''value'')))])))"

definition createSystemConfig :: "'s goclaw \<Rightarrow> string \<Rightarrow> gomap \<Rightarrow> ('s gworld, unit) api" where
  "createSystemConfig gc key spec = updateSystemConfig gc key spec"

definition deleteSystemConfig :: "'s goclaw \<Rightarrow> string \<Rightarrow> ('s gworld, unit) api" where
  "deleteSystemConfig gc key = revoke gc (''delete system config '' @ goQuote key @ '': '') (sysConfigPath key)"

section \<open>Teams\<close>

definition observeTeam :: "'s goclaw \<Rightarrow> string \<Rightarrow> ('s gworld, gomap option) api" where
  "observeTeam gc key = observeRow gc (teamRows gc) (\<lambda>team. strVal team ''name'' = key) presentRow"

text \<open>The id of an observed team or job, or else its name.\<close>

definition idOrName :: "gomap \<Rightarrow> string" where
  "idOrName current = (if strVal current ''id'' = [] then strVal current ''name'' else strVal current ''id'')"

definition createTeam :: "'s goclaw \<Rightarrow> string \<Rightarrow> gomap \<Rightarrow> ('s gworld, unit) api" where
  "createTeam gc key spec =
     bindA (wrapA ''ws connect for teams: '' (ensureWS gc)) (\<lambda>_.
       ignoreResult (wrapA (''teams.create '' @ key @ '': '')
         (wsCall gc ''teams.create'' (GMap (AList.update ''name'' (GStr key) (translateSpec spec))))))"

definition updateTeam :: "'s goclaw \<Rightarrow> string \<Rightarrow> gomap \<Rightarrow> ('s gworld, unit) api" where
  "updateTeam gc key spec =
     bindA (wrapA ''ws connect for teams: '' (ensureWS gc)) (\<lambda>_.
     withCurrent (observeTeam gc key) (failA (errorf (''team '' @ key @ '' not found for update''))) (\<lambda>current.
       ignoreResult (wrapA (''teams.update '' @ key @ '': '')
         (wsCall gc ''teams.update'' (GMap (AList.update ''teamId'' (GStr (idOrName current)) (translateSpec spec)))))))"

definition deleteTeam :: "'s goclaw \<Rightarrow> string \<Rightarrow> ('s gworld, unit) api" where
  "deleteTeam gc key =
     bindA (ensureWS gc) (\<lambda>_.
     withCurrent (observeTeam gc key) (retA ()) (\<lambda>current.
       ignoreResult (wsCall gc ''teams.delete'' (GMap [(''teamId'', GStr (idOrName current))]))))"

section \<open>Cron jobs\<close>

definition cronInternalFields :: "string list" where
  "cronInternalFields =
     [''tenantId'', ''userId'', ''payload'', ''state'', ''createdAtMs'', ''updatedAtMs'', ''createdBy'']"

definition observeCronJob :: "'s goclaw \<Rightarrow> string \<Rightarrow> ('s gworld, gomap option) api" where
  "observeCronJob gc key =
     observeRow gc (cronRows gc) (\<lambda>job. strVal job ''name'' = key)
       (\<lambda>job. deleteKeys cronInternalFields (presentRow job))"

definition createCronJob :: "'s goclaw \<Rightarrow> string \<Rightarrow> gomap \<Rightarrow> ('s gworld, unit) api" where
  "createCronJob gc key spec =
     bindA (wrapA ''ws connect for cron: '' (ensureWS gc)) (\<lambda>_.
     bindA (resolveAgentIn gc (''cron '' @ key @ '': '') ''agentKey'' ''agentId'' (AList.update ''name'' (GStr key) spec)) (\<lambda>params.
       ignoreResult (wrapA (''cron.create '' @ key @ '': '') (wsCall gc ''cron.create'' (GMap params)))))"

definition updateCronJob :: "'s goclaw \<Rightarrow> string \<Rightarrow> gomap \<Rightarrow> ('s gworld, unit) api" where
  "updateCronJob gc key spec =
     bindA (wrapA ''ws connect for cron: '' (ensureWS gc)) (\<lambda>_.
     withCurrent (observeCronJob gc key) (failA (errorf (''cron job '' @ key @ '' not found for update''))) (\<lambda>current.
     bindA (resolveAgentIn gc (''cron '' @ key @ '': '') ''agentKey'' ''agentId'' spec) (\<lambda>patch.
       ignoreResult (wrapA (''cron.update '' @ key @ '': '')
         (wsCall gc ''cron.update'' (GMap [(''jobId'', GStr (idOrName current)), (''patch'', GMap patch)]))))))"

definition deleteCronJob :: "'s goclaw \<Rightarrow> string \<Rightarrow> ('s gworld, unit) api" where
  "deleteCronJob gc key =
     bindA (ensureWS gc) (\<lambda>_.
     withCurrent (observeCronJob gc key) (retA ()) (\<lambda>current.
       ignoreResult (wsCall gc ''cron.delete'' (GMap [(''jobId'', GStr (idOrName current))]))))"

section \<open>Secure command lines and their grants\<close>

definition observeSecureCLI :: "'s goclaw \<Rightarrow> string \<Rightarrow> ('s gworld, gomap option) api" where
  "observeSecureCLI gc key =
     observeRow gc (cliRows gc) (\<lambda>item. strVal item ''binary_name'' = key)
       (\<lambda>item. presentRow (deleteKeys [''env_keys'', ''encrypted_env''] item))"

definition createSecureCLI :: "'s goclaw \<Rightarrow> string \<Rightarrow> gomap \<Rightarrow> ('s gworld, unit) api" where
  "createSecureCLI gc key spec =
     ignoreResult (wrapA (''create cli-credential '' @ key @ '': '')
       (httpPost gc ''/v1/cli-credentials'' (GMap (AList.update ''binary_name'' (GStr key) (translateSpec spec)))))"

definition updateSecureCLI :: "'s goclaw \<Rightarrow> string \<Rightarrow> gomap \<Rightarrow> ('s gworld, unit) api" where
  "updateSecureCLI gc key spec =
     withCurrent (observeSecureCLI gc key) (failA (errorf (''cli-credential '' @ key @ '' not found for update''))) (\<lambda>current.
     withId (''cli-credential '' @ key @ '': missing id'') current (\<lambda>i.
       notFoundAs (''cli-credential '' @ key @ '' (id='' @ i @ '') not found: '')
         (httpPut gc (''/v1/cli-credentials/'' @ i) (GMap (translateSpec spec)))))"

definition deleteSecureCLI :: "'s goclaw \<Rightarrow> string \<Rightarrow> ('s gworld, unit) api" where
  "deleteSecureCLI gc key =
     withCurrent (observeSecureCLI gc key) (retA ()) (\<lambda>current.
     withId (''cli-credential '' @ key @ '': missing id'') current (\<lambda>i. httpDelete gc (''/v1/cli-credentials/'' @ i)))"

definition resolveSecureCLIID :: "'s goclaw \<Rightarrow> string \<Rightarrow> ('s gworld, string) api" where
  "resolveSecureCLIID gc binaryName =
     bindA (cliRows gc) (\<lambda>rs.
     bindA (findRow (\<lambda>item. strVal item ''binary_name'' = binaryName)
              (\<lambda>item. tryA (matchesTenant gc item) (\<lambda>own w. (own \<and> strVal item ''id'' \<noteq> [], w))) rs) (\<lambda>row.
       case row of
         Some item \<Rightarrow> retA (strVal item ''id'')
       | None \<Rightarrow> failA (errorf (''cli-credential '' @ goQuote binaryName @ '' not found''))))"

definition parseGrantName :: "string \<Rightarrow> (string \<times> string) result" where
  "parseGrantName name =
     (case strCut ''--'' name of
        Some (binaryName, agentKey) \<Rightarrow>
          if binaryName = [] \<or> agentKey = []
          then Inl (errorf (''invalid grant name '' @ goQuote name @ '': expected format binaryName--agentKey''))
          else Inr (binaryName, agentKey)
      | None \<Rightarrow> Inl (errorf (''invalid grant name '' @ goQuote name @ '': expected format binaryName--agentKey'')))"

definition grantsPath :: "string \<Rightarrow> string" where
  "grantsPath binaryID = ''/v1/cli-credentials/'' @ binaryID @ ''/agent-grants''"

definition observeSecureCLIGrant :: "'s goclaw \<Rightarrow> string \<Rightarrow> ('s gworld, gomap option) api" where
  "observeSecureCLIGrant gc key =
     bindA (liftR (parseGrantName key)) (\<lambda>(binaryName, agentKey).
     bindA (wrapA (''grant '' @ key @ '': '') (resolveSecureCLIID gc binaryName)) (\<lambda>binaryID.
     bindA (wrapA (''grant '' @ key @ '': '') (resolveAgentID gc agentKey)) (\<lambda>agentID.
     bindA (getRows gc (grantsPath binaryID) (''list grants for '' @ binaryName @ '': '') ''grants'' ''parse grants response: '') (\<lambda>gs.
       retA (map_option (\<lambda>g. presentRow (deleteKeys [''binary_id'', ''agent_id''] g))
               (find (\<lambda>g. strVal g ''agent_id'' = agentID) gs))))))"

definition createSecureCLIGrant :: "'s goclaw \<Rightarrow> string \<Rightarrow> gomap \<Rightarrow> ('s gworld, unit) api" where
  "createSecureCLIGrant gc key spec =
     bindA (liftR (parseGrantName key)) (\<lambda>(binaryName, agentKey).
     bindA (wrapA (''grant '' @ key @ '': '') (resolveSecureCLIID gc binaryName)) (\<lambda>binaryID.
     bindA (wrapA (''grant '' @ key @ '': '') (resolveAgentID gc agentKey)) (\<lambda>agentID.
       ignoreResult (wrapA (''create grant '' @ key @ '': '')
         (httpPost gc (grantsPath binaryID)
           (GMap (AList.update ''agent_id'' (GStr agentID) (deleteKeys [''binary_name'', ''agent_key''] (translateSpec spec)))))))))"

definition updateSecureCLIGrant :: "'s goclaw \<Rightarrow> string \<Rightarrow> gomap \<Rightarrow> ('s gworld, unit) api" where
  "updateSecureCLIGrant gc key spec =
     bindA (liftR (parseGrantName key)) (\<lambda>(binaryName, _).
     bindA (wrapA (''grant '' @ key @ '': '') (resolveSecureCLIID gc binaryName)) (\<lambda>binaryID.
     withCurrent (observeSecureCLIGrant gc key) (failA (errorf (''grant '' @ key @ '' not found for update''))) (\<lambda>current.
     withId (''grant '' @ key @ '': missing id'') current (\<lambda>grantID.
       ignoreResult (httpPut gc (grantsPath binaryID @ ''/'' @ grantID)
         (GMap (deleteKeys [''binary_name'', ''agent_key''] (translateSpec spec))))))))"

definition deleteSecureCLIGrant :: "'s goclaw \<Rightarrow> string \<Rightarrow> ('s gworld, unit) api" where
  "deleteSecureCLIGrant gc key =
     bindA (liftR (parseGrantName key)) (\<lambda>(binaryName, _).
     tryA (resolveSecureCLIID gc binaryName) (\<lambda>r. case r of
       Inl err \<Rightarrow> retA ()
     | Inr binaryID \<Rightarrow>
         withCurrent (observeSecureCLIGrant gc key) (retA ()) (\<lambda>current.
         withId (''grant '' @ key @ '': missing id'') current (\<lambda>grantID.
           httpDelete gc (grantsPath binaryID @ ''/'' @ grantID)))))"

section \<open>Agent links\<close>

definition agentLinkInternalFields :: "string list" where
  "agentLinkInternalFields =
     [''sourceAgentId'', ''targetAgentId'',
      ''sourceAgentKey'', ''sourceDisplayName'', ''sourceEmoji'',
      ''targetAgentKey'', ''targetDisplayName'', ''targetEmoji'', ''targetDescription'',
      ''teamId'', ''teamName'', ''targetIsTeamLead'', ''targetTeamName'']"

definition parseAgentLinkName :: "string \<Rightarrow> (string \<times> string) result" where
  "parseAgentLinkName name =
     (case strSplit ''--'' name of
        [s, t] \<Rightarrow>
          if s = [] \<or> t = []
          then Inl (errorf (''invalid agent link name '' @ goQuote name @
                 '': expected format sourceAgent--targetAgent (agent_keys may not contain '' @ goQuote ''--'' @ '')''))
          else Inr (s, t)
      | _ \<Rightarrow> Inl (errorf (''invalid agent link name '' @ goQuote name @
                 '': expected format sourceAgent--targetAgent (agent_keys may not contain '' @ goQuote ''--'' @ '')'')))"

definition linksFrom :: "'s goclaw \<Rightarrow> string \<Rightarrow> string \<Rightarrow> ('s gworld, gomap list) api" where
  "linksFrom gc sourceID listErr =
     callRows gc ''agents.links.list'' (GMap [(''agentId'', GStr sourceID), (''direction'', GStr ''from'')])
       listErr ''links'' ''parse agents.links.list response: ''"

definition observeAgentLink :: "'s goclaw \<Rightarrow> string \<Rightarrow> ('s gworld, gomap option) api" where
  "observeAgentLink gc key =
     bindA (wrapA ''ws connect for agent links: '' (ensureWS gc)) (\<lambda>_.
     bindA (liftR (parseAgentLinkName key)) (\<lambda>(sourceKey, targetKey).
     bindA (wrapA (''link '' @ key @ '': source: '') (resolveAgentID gc sourceKey)) (\<lambda>sourceID.
     bindA (wrapA (''link '' @ key @ '': target: '') (resolveAgentID gc targetKey)) (\<lambda>targetID.
     bindA (linksFrom gc sourceID ''agents.links.list: '') (\<lambda>links.
       retA (map_option (\<lambda>link. deleteKeys agentLinkInternalFields (presentRow link))
               (find (\<lambda>link. strVal (translateResult link) ''targetAgentId'' = targetID) links)))))))"

definition createAgentLink :: "'s goclaw \<Rightarrow> string \<Rightarrow> gomap \<Rightarrow> ('s gworld, unit) api" where
  "createAgentLink gc key spec =
     bindA (wrapA ''ws connect for agent links: '' (ensureWS gc)) (\<lambda>_.
     bindA (liftR (parseAgentLinkName key)) (\<lambda>(sourceKey, targetKey).
       ignoreResult (wrapA (''agents.links.create '' @ key @ '': '')
         (wsCall gc ''agents.links.create''
           (GMap (AList.update ''targetAgent'' (GStr targetKey) (AList.update ''sourceAgent'' (GStr sourceKey) spec)))))))"

definition updateAgentLink :: "'s goclaw \<Rightarrow> string \<Rightarrow> gomap \<Rightarrow> ('s gworld, unit) api" where
  "updateAgentLink gc key spec =
     bindA (wrapA ''ws connect for agent links: '' (ensureWS gc)) (\<lambda>_.
     withCurrent (observeAgentLink gc key) (failA (errorf (''agent link '' @ key @ '' not found for update''))) (\<lambda>current.
       let linkID = strVal current ''id'' in
       if linkID = [] then failA (errorf (''agent link '' @ key @ '': missing id''))
       else ignoreResult (wrapA (''agents.links.update '' @ key @ '': '')
              (wsCall gc ''agents.links.update''
                (GMap (AList.update ''linkId'' (GStr linkID) (deleteKeys [''sourceAgent'', ''targetAgent''] spec)))))))"

definition deleteAgentLink :: "'s goclaw \<Rightarrow> string \<Rightarrow> ('s gworld, unit) api" where
  "deleteAgentLink gc key =
     bindA (wrapA ''ws connect for agent links: '' (ensureWS gc)) (\<lambda>_.
     tryA (observeAgentLink gc key) (\<lambda>r. case r of
       Inl err \<Rightarrow> if strContains (errText err) ''not found'' then retA () else failA err
     | Inr None \<Rightarrow> retA ()
     | Inr (Some current) \<Rightarrow>
         let linkID = strVal current ''id'' in
         if linkID = [] then failA (errorf (''agent link '' @ key @ '': missing id''))
         else ignoreResult (wrapA (''agents.links.delete '' @ key @ '': '')
                (wsCall gc ''agents.links.delete'' (GMap [(''linkId'', GStr linkID)])))))"

end
