(* ===== verification/GoclawProvider.thy ===== *)
theory GoclawProvider
  imports GoclawKinds
begin

text \<open>
  \<open>internal/provider/goclaw\<close>, the rest: workstations, the listings used for pruning, and the
  dispatch of \<open>provider.go\<close> that makes the provider the interface the engine calls.
\<close>

section \<open>Workstations\<close>

definition workstationInternalFields :: "string list" where
  "workstationInternalFields =
     [''id'', ''tenantId'', ''createdAt'', ''updatedAt'', ''createdBy'', ''metadataSummary'']"

definition observeWorkstation :: "'s goclaw \<Rightarrow> string \<Rightarrow> ('s gworld, gomap option) api" where
  "observeWorkstation gc key =
     bindA (workstationRows gc) (\<lambda>rs.
       retA (map_option (deleteKeys workstationInternalFields) (find (\<lambda>ws. strVal ws ''workstationKey'' = key) rs)))"

definition resolveWorkstationID :: "'s goclaw \<Rightarrow> string \<Rightarrow> ('s gworld, string) api" where
  "resolveWorkstationID gc key =
     bindA (workstationRows gc) (\<lambda>rs.
       case rowWith ''workstationKey'' key rs of
         Some i \<Rightarrow> retA i
       | None \<Rightarrow> failA (errorf (''workstation '' @ goQuote key @ '' not found'')))"

record perm_entry =
  permId :: string
  permPattern :: string

text \<open>\<open>json.Unmarshal\<close> of a string field: absent or null is the empty string.\<close>

definition strField :: "string \<Rightarrow> gomap \<Rightarrow> string result" where
  "strField name m =
     (case jsonField name m of
        None \<Rightarrow> Inr []
      | Some GNil \<Rightarrow> Inr []
      | Some (GStr s) \<Rightarrow> Inr s
      | Some _ \<Rightarrow> Inl (errorf ''json: cannot unmarshal into Go struct field of type string''))"

fun permEntries :: "gomap list \<Rightarrow> perm_entry list result" where
  "permEntries [] = Inr []"
| "permEntries (m # ms) =
     (case (strField ''id'' m, strField ''pattern'' m, permEntries ms) of
        (Inr i, Inr p, Inr es) \<Rightarrow> Inr (\<lparr>permId = i, permPattern = p\<rparr> # es)
      | (Inl err, _, _) \<Rightarrow> Inl err
      | (_, Inl err, _) \<Rightarrow> Inl err
      | (_, _, Inl err) \<Rightarrow> Inl err)"

definition listWorkstationPermissions :: "'s goclaw \<Rightarrow> string \<Rightarrow> ('s gworld, perm_entry list) api" where
  "listWorkstationPermissions gc wsID =
     bindA (callRows gc ''workstations.permissions.list'' (GMap [(''workstationId'', GStr wsID)])
              ''workstations.permissions.list: '' ''permissions'' ''parse permissions.list response: '') (\<lambda>rs.
       wrapA ''parse permissions.list response: '' (liftR (permEntries rs)))"

text \<open>The map from pattern to id; a later entry with the same pattern replaces the id.\<close>

fun currentSet :: "perm_entry list \<Rightarrow> strmap \<Rightarrow> strmap" where
  "currentSet [] m = m"
| "currentSet (e # es) m = currentSet es (AList.update (permPattern e) (permId e) m)"

definition reconcileAllowlist ::
  "'s goclaw \<Rightarrow> string \<Rightarrow> perm_entry list option \<Rightarrow> string list \<Rightarrow> ('s gworld, unit) api"
where
  "reconcileAllowlist gc wsID current desired =
     (let cur = currentSet (case current of None \<Rightarrow> [] | Some es \<Rightarrow> es) [] in
      bindA (forA (\<lambda>d.
               if d \<in> set (map fst cur) then retA ()
               else ignoreResult (wrapA (''add permission '' @ goQuote d @ '': '')
                      (wsCall gc ''workstations.permissions.add''
                        (GMap [(''workstationId'', GStr wsID), (''pattern'', GStr d)])))) desired) (\<lambda>_.
        case current of
          None \<Rightarrow> retA ()
        | Some _ \<Rightarrow>
            forA (\<lambda>p.
              if p \<in> set desired then retA ()
              else ignoreResult (wrapA (''remove permission '' @ goQuote p @ '': '')
                     (wsCall gc ''workstations.permissions.remove'' (GMap [(''id'', GStr (idIn cur p))]))))
              (rangeOrder gc (map fst cur))))"

definition rightArrow :: string where
  "rightArrow = map char_of [226, 134, 146 :: nat]"

definition linkAgentCall :: "'s goclaw \<Rightarrow> string \<Rightarrow> string \<Rightarrow> ('s gworld, unit) api" where
  "linkAgentCall gc wsID agentKey =
     bindA (wrapA (''resolve agent '' @ goQuote agentKey @ '' for link: '') (resolveAgentID gc agentKey)) (\<lambda>agentID.
       ignoreResult (wrapA (''linkAgent '' @ agentKey @ '' '' @ rightArrow @ '' '' @ wsID @ '': '')
         (wsCall gc ''workstations.linkAgent''
           (GMap [(''workstationId'', GStr wsID), (''agentId'', GStr agentID), (''isDefault'', GBool False)]))))"

definition unlinkAgentCall :: "'s goclaw \<Rightarrow> string \<Rightarrow> string \<Rightarrow> ('s gworld, unit) api" where
  "unlinkAgentCall gc wsID agentKey =
     bindA (wrapA (''resolve agent '' @ goQuote agentKey @ '' for unlink: '') (resolveAgentID gc agentKey)) (\<lambda>agentID.
       ignoreResult (wrapA (''unlinkAgent '' @ agentKey @ '' '' @ rightArrow @ '' '' @ wsID @ '': '')
         (wsCall gc ''workstations.unlinkAgent''
           (GMap [(''workstationId'', GStr wsID), (''agentId'', GStr agentID)]))))"

definition reconcileWorkstationAgentLinks ::
  "'s goclaw \<Rightarrow> string \<Rightarrow> string list option \<Rightarrow> string list \<Rightarrow> ('s gworld, unit) api"
where
  "reconcileWorkstationAgentLinks gc wsID current desired =
     (let cur = (case current of None \<Rightarrow> [] | Some ks \<Rightarrow> ks) in
      bindA (forA (\<lambda>agentKey. if agentKey \<in> set cur then retA () else linkAgentCall gc wsID agentKey) desired) (\<lambda>_.
        case current of
          None \<Rightarrow> retA ()
        | Some ks \<Rightarrow> forA (\<lambda>agentKey. if agentKey \<in> set desired then retA () else unlinkAgentCall gc wsID agentKey) ks))"

definition sshMetaKeys :: "string list" where
  "sshMetaKeys = [''host'', ''port'', ''user'', ''privateKey'', ''knownHostsFingerprint'', ''connectTimeoutSec'']"

text \<open>Copy \<open>spec[from]\<close> to \<open>m[to]\<close> when it is set.\<close>

definition copyField :: "gomap \<Rightarrow> string \<Rightarrow> string \<Rightarrow> gomap \<Rightarrow> gomap" where
  "copyField spec from' to' m = (case map_of spec from' of None \<Rightarrow> m | Some v \<Rightarrow> AList.update to' v m)"

definition metaOf :: "gomap \<Rightarrow> gomap" where
  "metaOf spec = fold (\<lambda>f. copyField spec f f) sshMetaKeys []"

definition topFields :: "gomap \<Rightarrow> gomap \<Rightarrow> gomap" where
  "topFields spec m =
     (let m = copyField spec ''defaultCwd'' ''defaultCwd''
                (copyField spec ''backendType'' ''backendType'' (copyField spec ''displayName'' ''name'' m))
      in if length (metaOf spec) > 0 then AList.update ''metadata'' (GMap (metaOf spec)) m else m)"

definition buildWorkstationCreateParams :: "string \<Rightarrow> gomap \<Rightarrow> gomap" where
  "buildWorkstationCreateParams key spec =
     topFields spec [(''workstationKey'', GStr key), (''createdBy'', GStr ''gcplane'')]"

definition skipKeys :: "string list" where
  "skipKeys = [''allowlist'', ''agents'', ''displayName'', ''backendType'', ''defaultCwd'']"

fun patchRest :: "gomap \<Rightarrow> gomap \<Rightarrow> gomap" where
  "patchRest [] patch = patch"
| "patchRest ((k, v) # spec) patch =
     (if k \<in> set skipKeys \<or> k \<in> set sshMetaKeys \<or> map_of patch k \<noteq> None then patchRest spec patch
      else patchRest spec (AList.update k v patch))"

definition buildWorkstationUpdatePatch :: "gomap \<Rightarrow> gomap" where
  "buildWorkstationUpdatePatch spec = patchRest spec (topFields spec [])"

definition extractStringSlice :: "gomap \<Rightarrow> string \<Rightarrow> string list" where
  "extractStringSlice spec key = (case asList (map_of spec key) of None \<Rightarrow> [] | Some l \<Rightarrow> strItems l)"

definition createWorkstation :: "'s goclaw \<Rightarrow> string \<Rightarrow> gomap \<Rightarrow> ('s gworld, unit) api" where
  "createWorkstation gc key spec =
     bindA (wrapA ''ws connect for workstations: '' (ensureWS gc)) (\<lambda>_.
     bindA (wrapA (''workstations.create '' @ key @ '': '')
              (wsCall gc ''workstations.create'' (GMap (buildWorkstationCreateParams key spec)))) (\<lambda>_.
     bindA (wrapA (''workstation '' @ key @ '': resolve after create: '') (resolveWorkstationID gc key)) (\<lambda>wsID.
     bindA (wrapA (''workstation '' @ key @ '': reconcile allowlist: '')
              (reconcileAllowlist gc wsID None (extractStringSlice spec ''allowlist''))) (\<lambda>_.
       wrapA (''workstation '' @ key @ '': reconcile agent links: '')
         (reconcileWorkstationAgentLinks gc wsID None (extractStringSlice spec ''agents''))))))"

definition updateWorkstation :: "'s goclaw \<Rightarrow> string \<Rightarrow> gomap \<Rightarrow> ('s gworld, unit) api" where
  "updateWorkstation gc key spec =
     bindA (wrapA ''ws connect for workstations: '' (ensureWS gc)) (\<lambda>_.
     bindA (wrapA (''workstation '' @ key @ '' not found for update: '') (resolveWorkstationID gc key)) (\<lambda>wsID.
     bindA (let patch = buildWorkstationUpdatePatch spec in
            if length patch > 0
            then ignoreResult (wrapA (''workstations.update '' @ key @ '': '')
                   (wsCall gc ''workstations.update'' (GMap [(''id'', GStr wsID), (''updates'', GMap patch)])))
            else retA ()) (\<lambda>_.
     bindA (wrapA (''workstation '' @ key @ '': list permissions: '') (listWorkstationPermissions gc wsID)) (\<lambda>currentPerms.
     bindA (wrapA (''workstation '' @ key @ '': reconcile allowlist: '')
              (reconcileAllowlist gc wsID (Some currentPerms) (extractStringSlice spec ''allowlist''))) (\<lambda>_.
       wrapA (''workstation '' @ key @ '': reconcile agent links: '')
         (reconcileWorkstationAgentLinks gc wsID None (extractStringSlice spec ''agents'')))))))"

definition deleteWorkstation :: "'s goclaw \<Rightarrow> string \<Rightarrow> ('s gworld, unit) api" where
  "deleteWorkstation gc key =
     bindA (wrapA ''ws connect for workstations: '' (ensureWS gc)) (\<lambda>_.
     tryA (resolveWorkstationID gc key) (\<lambda>r. case r of
       Inl err \<Rightarrow>
         if strContains (errText err) ''not found'' then retA ()
         else failA (wrapf (''workstation '' @ key @ '': resolve for delete: '') err)
     | Inr wsID \<Rightarrow>
         ignoreResult (wrapA (''workstations.delete '' @ key @ '': '')
           (wsCall gc ''workstations.delete'' (GMap [(''id'', GStr wsID)])))))"

section \<open>Listings\<close>

definition infoOf :: "resource_kind \<Rightarrow> string \<Rightarrow> string \<Rightarrow> gomap \<Rightarrow> resource_info" where
  "infoOf kind nameField byField row =
     \<lparr>infoKind = kind, infoName = strVal row nameField, CreatedBy = strVal row byField, Source = [], IsSystem = False\<rparr>"

text \<open>The rows of this tenant.\<close>

fun ownRows :: "'s goclaw \<Rightarrow> gomap list \<Rightarrow> 's gworld \<Rightarrow> gomap list \<times> 's gworld" where
  "ownRows gc [] w = ([], w)"
| "ownRows gc (r # rs) w =
     (case matchesTenant gc r w of
        (own, w') \<Rightarrow> (case ownRows gc rs w' of (rest, w'') \<Rightarrow> (if own then r # rest else rest, w'')))"

definition listRows ::
  "'s goclaw \<Rightarrow> ('s gworld, gomap list) api \<Rightarrow> (gomap \<Rightarrow> resource_info) \<Rightarrow> ('s gworld, resource_info list) api"
where
  "listRows gc rows f = bindA rows (\<lambda>rs. tryA (ownRows gc rs) (\<lambda>own. retA (map f own)))"

definition listAllProviders :: "'s goclaw \<Rightarrow> ('s gworld, resource_info list) api" where
  "listAllProviders gc = listRows gc (providerRows gc) (infoOf KindProvider ''name'' ''created_by'')"

definition listAllAgents :: "'s goclaw \<Rightarrow> ('s gworld, resource_info list) api" where
  "listAllAgents gc = listRows gc (agentRows gc) (infoOf KindAgent ''agent_key'' ''created_by'')"

definition listAllChannels :: "'s goclaw \<Rightarrow> ('s gworld, resource_info list) api" where
  "listAllChannels gc = listRows gc (channelRows gc) (infoOf KindChannel ''name'' ''created_by'')"

definition listAllMCPServers :: "'s goclaw \<Rightarrow> ('s gworld, resource_info list) api" where
  "listAllMCPServers gc = listRows gc (serverRows gc) (infoOf KindMCPServer ''name'' ''created_by'')"

definition skillInfo :: "gomap \<Rightarrow> resource_info" where
  "skillInfo s = (infoOf KindSkill ''slug'' ''created_by'' s)\<lparr>Source := strVal s ''source'', IsSystem := boolVal s ''is_system''\<rparr>"

definition listAllSkills :: "'s goclaw \<Rightarrow> ('s gworld, resource_info list) api" where
  "listAllSkills gc = listRows gc (skillRows gc) skillInfo"

definition listAllCronJobs :: "'s goclaw \<Rightarrow> ('s gworld, resource_info list) api" where
  "listAllCronJobs gc = listRows gc (cronRows gc) (infoOf KindCronJob ''name'' ''created_by'')"

definition listAllTeams :: "'s goclaw \<Rightarrow> ('s gworld, resource_info list) api" where
  "listAllTeams gc = listRows gc (teamRows gc) (infoOf KindAgentTeam ''name'' ''created_by'')"

definition listAllSecureCLIs :: "'s goclaw \<Rightarrow> ('s gworld, resource_info list) api" where
  "listAllSecureCLIs gc = listRows gc (cliRows gc) (infoOf KindSecureCLI ''binary_name'' ''created_by'')"

definition listAllWorkstations :: "'s goclaw \<Rightarrow> ('s gworld, resource_info list) api" where
  "listAllWorkstations gc =
     bindA (workstationRows gc) (\<lambda>rs. retA (map (infoOf KindWorkstation ''workstationKey'' ''createdBy'') rs))"

definition listAllTenants :: "'s goclaw \<Rightarrow> ('s gworld, resource_info list) api" where
  "listAllTenants gc =
     bindA (getRows gc ''/v1/tenants'' ''list tenants: '' ''tenants'' ''parse tenants response: '') (\<lambda>rs.
       retA (map (infoOf KindTenant ''slug'' ''created_by'') rs))"

text \<open>The agents of this tenant that have both an id and a key, with the map from id to key.\<close>

definition usableAgent :: "gomap \<Rightarrow> bool" where
  "usableAgent a \<longleftrightarrow> strVal a ''id'' \<noteq> [] \<and> strVal a ''agent_key'' \<noteq> []"

definition keyByID :: "gomap list \<Rightarrow> strmap" where
  "keyByID agents = fold (\<lambda>a. AList.update (strVal a ''id'') (strVal a ''agent_key'')) agents []"

definition linkInfo :: "strmap \<Rightarrow> string \<Rightarrow> gomap \<Rightarrow> resource_info list" where
  "linkInfo keys sourceKey link =
     (let camel = translateResult link;
          known = idIn keys (strVal camel ''targetAgentId'');
          targetKey = (if known = [] then strVal camel ''targetAgentKey'' else known)
      in if strVal camel ''teamId'' \<noteq> [] \<or> targetKey = [] then []
         else [\<lparr>infoKind = KindAgentLink, infoName = sourceKey @ ''--'' @ targetKey,
                CreatedBy = strVal camel ''createdBy'', Source = [], IsSystem = False\<rparr>])"

definition listAllAgentLinks :: "'s goclaw \<Rightarrow> ('s gworld, resource_info list) api" where
  "listAllAgentLinks gc =
     bindA (wrapA ''ws connect for agent links: '' (ensureWS gc)) (\<lambda>_.
     bindA (agentRows gc) (\<lambda>rs.
     tryA (ownRows gc rs) (\<lambda>own.
       let sourceAgents = filter usableAgent own; keys = keyByID sourceAgents in
       bindA (mapA (\<lambda>a.
                bindA (linksFrom gc (strVal a ''id'') (''agents.links.list for '' @ strVal a ''agent_key'' @ '': '')) (\<lambda>links.
                  retA (concat (map (linkInfo keys (strVal a ''agent_key'')) links)))) sourceAgents) (\<lambda>infos.
         retA (concat infos)))))"

section \<open>Dispatch\<close>

definition ObserveG :: "'s goclaw \<Rightarrow> resource_kind \<Rightarrow> string \<Rightarrow> ('s gworld, gomap option) api" where
  "ObserveG gc kind key =
     (if kind = KindTenant then observeTenant gc key
      else if kind = KindProvider then observeProvider gc key
      else if kind = KindAgent then observeAgent gc key
      else if kind = KindChannel then observeChannelInstance gc key
      else if kind = KindMCPServer then observeMCPServer gc key
      else if kind = KindSkill then observeSkill gc key
      else if kind = KindCronJob then observeCronJob gc key
      else if kind = KindAgentTeam then observeTeam gc key
      else if kind = KindBuiltinToolConfig then observeBuiltinToolConfig gc key
      else if kind = KindSkillConfig then observeSkillConfig gc key
      else if kind = KindMCPCredentials then observeMCPCredentials gc key
      else if kind = KindSystemConfig then observeSystemConfig gc key
      else if kind = KindSecureCLI then observeSecureCLI gc key
      else if kind = KindSecureCLIGrant then observeSecureCLIGrant gc key
      else if kind = KindAgentLink then observeAgentLink gc key
      else if kind = KindWorkstation then observeWorkstation gc key
      else failA (errorf (''observe not implemented for kind '' @ kind)))"

text \<open>\<open>Create\<close> puts the tenant's id into the spec before it dispatches.\<close>

definition scopedSpec :: "'s goclaw \<Rightarrow> resource_kind \<Rightarrow> gomap \<Rightarrow> ('s gworld, gomap) api" where
  "scopedSpec gc kind spec =
     (if tenantID gc \<noteq> [] \<and> kind \<noteq> KindTenant
      then tryA (resolveTenantUUID gc) (\<lambda>(uuid, err).
             case err of Some e \<Rightarrow> failA e | None \<Rightarrow> retA (AList.update ''tenantId'' (GStr uuid) spec))
      else retA spec)"

definition createKind :: "'s goclaw \<Rightarrow> resource_kind \<Rightarrow> string \<Rightarrow> gomap \<Rightarrow> ('s gworld, unit) api" where
  "createKind gc kind key spec =
     (if kind = KindTenant then createTenant gc key spec
      else if kind = KindProvider then createProvider gc key spec
      else if kind = KindAgent then createAgent gc key spec
      else if kind = KindChannel then createChannelInstance gc key spec
      else if kind = KindMCPServer then createMCPServer gc key spec
      else if kind = KindSkill then createSkill gc key spec
      else if kind = KindCronJob then createCronJob gc key spec
      else if kind = KindAgentTeam then createTeam gc key spec
      else if kind = KindBuiltinToolConfig then createBuiltinToolConfig gc key spec
      else if kind = KindSkillConfig then createSkillConfig gc key spec
      else if kind = KindMCPCredentials then createMCPCredentials gc key spec
      else if kind = KindSystemConfig then createSystemConfig gc key spec
      else if kind = KindSecureCLI then createSecureCLI gc key spec
      else if kind = KindSecureCLIGrant then createSecureCLIGrant gc key spec
      else if kind = KindAgentLink then createAgentLink gc key spec
      else if kind = KindWorkstation then createWorkstation gc key spec
      else failA (errorf (''create not implemented for kind '' @ kind)))"

definition CreateG :: "'s goclaw \<Rightarrow> resource_kind \<Rightarrow> string \<Rightarrow> gomap \<Rightarrow> ('s gworld, unit) api" where
  "CreateG gc kind key spec = bindA (scopedSpec gc kind spec) (\<lambda>spec. createKind gc kind key spec)"

definition UpdateG :: "'s goclaw \<Rightarrow> resource_kind \<Rightarrow> string \<Rightarrow> gomap \<Rightarrow> ('s gworld, unit) api" where
  "UpdateG gc kind key spec =
     (if kind = KindTenant then updateTenant gc key spec
      else if kind = KindProvider then updateProvider gc key spec
      else if kind = KindAgent then updateAgent gc key spec
      else if kind = KindChannel then updateChannelInstance gc key spec
      else if kind = KindMCPServer then updateMCPServer gc key spec
      else if kind = KindSkill then updateSkill gc key spec
      else if kind = KindCronJob then updateCronJob gc key spec
      else if kind = KindAgentTeam then updateTeam gc key spec
      else if kind = KindBuiltinToolConfig then updateBuiltinToolConfig gc key spec
      else if kind = KindSkillConfig then updateSkillConfig gc key spec
      else if kind = KindMCPCredentials then updateMCPCredentials gc key spec
      else if kind = KindSystemConfig then updateSystemConfig gc key spec
      else if kind = KindSecureCLI then updateSecureCLI gc key spec
      else if kind = KindSecureCLIGrant then updateSecureCLIGrant gc key spec
      else if kind = KindAgentLink then updateAgentLink gc key spec
      else if kind = KindWorkstation then updateWorkstation gc key spec
      else failA (errorf (''update not implemented for kind '' @ kind)))"

definition DeleteG :: "'s goclaw \<Rightarrow> resource_kind \<Rightarrow> string \<Rightarrow> ('s gworld, unit) api" where
  "DeleteG gc kind key =
     (if kind = KindTenant then deleteTenant gc key
      else if kind = KindProvider then deleteProvider gc key
      else if kind = KindAgent then deleteAgent gc key
      else if kind = KindChannel then deleteChannelInstance gc key
      else if kind = KindMCPServer then deleteMCPServer gc key
      else if kind = KindCronJob then deleteCronJob gc key
      else if kind = KindAgentTeam then deleteTeam gc key
      else if kind = KindBuiltinToolConfig then deleteBuiltinToolConfig gc key
      else if kind = KindSkillConfig then deleteSkillConfig gc key
      else if kind = KindMCPCredentials then deleteMCPCredentials gc key
      else if kind = KindSystemConfig then deleteSystemConfig gc key
      else if kind = KindSecureCLI then deleteSecureCLI gc key
      else if kind = KindSecureCLIGrant then deleteSecureCLIGrant gc key
      else if kind = KindAgentLink then deleteAgentLink gc key
      else if kind = KindSkill then deleteSkill gc key
      else if kind = KindWorkstation then deleteWorkstation gc key
      else failA (errorf (''delete not implemented for kind '' @ kind)))"

definition ListAllG :: "'s goclaw \<Rightarrow> resource_kind \<Rightarrow> ('s gworld, resource_info list) api" where
  "ListAllG gc kind =
     (if kind = KindTenant then listAllTenants gc
      else if kind = KindProvider then listAllProviders gc
      else if kind = KindAgent then listAllAgents gc
      else if kind = KindChannel then listAllChannels gc
      else if kind = KindMCPServer then listAllMCPServers gc
      else if kind = KindSkill then listAllSkills gc
      else if kind = KindCronJob then listAllCronJobs gc
      else if kind = KindAgentTeam then listAllTeams gc
      else if kind = KindSecureCLI then listAllSecureCLIs gc
      else if kind = KindAgentLink then listAllAgentLinks gc
      else if kind = KindWorkstation then listAllWorkstations gc
      else if kind \<in> set [KindBuiltinToolConfig, KindSkillConfig, KindSystemConfig, KindMCPCredentials, KindSecureCLIGrant]
      then retA []
      else failA (errorf (''list not implemented for kind '' @ kind)))"

definition goclawOps :: "'s goclaw \<Rightarrow> 's gworld provider_ops" where
  "goclawOps gc =
     \<lparr>Observe = (\<lambda>k n. ObserveG gc k n), Create = (\<lambda>k n s w. errOf (CreateG gc k n s w)),
      Update = (\<lambda>k n s w. errOf (UpdateG gc k n s w)), Delete = (\<lambda>k n w. errOf (DeleteG gc k n w)),
      ListAll = (\<lambda>k. ListAllG gc k)\<rparr>"

end
