(* ===== verification/GoclawReads.thy ===== *)
theory GoclawReads
  imports GoclawProvider
begin

text \<open>
  What the provider's reading operations do to the server. The locale \<open>reading\<close> is the contract of
  a transport under which some view \<open>f\<close> of the other side survives GET requests, list calls and
  dialling; under it every observation and listing keeps \<open>f\<close> (its part \<open>http_reading\<close> is enough for
  what only uses HTTP). It is interpreted on the transport
  that records what is sent, with the recorded writes as the view.
\<close>

section \<open>The contract\<close>

definition readMethods :: "string list" where
  "readMethods = [''teams.list'', ''cron.list'', ''workstations.list'', ''workstations.permissions.list'', ''agents.links.list'']"

locale http_reading =
  fixes gc :: "'s goclaw" and f :: "'s \<Rightarrow> 'b"
  assumes get: "rqMethod req = ''GET'' \<Longrightarrow> f (snd (httpDo gc req s)) = f s"
begin

abbreviation view :: "'s gworld \<Rightarrow> 'b" where
  "view w \<equiv> f (net w)"

lemma keeps_onNet: "(\<And>s. f (snd (m s)) = f s) \<Longrightarrow> keeps view (onNet m)"
  by (simp add: keeps_def onNet_def split: prod.split) (metis snd_conv)

lemma keeps_warn [keeps_intros]: "keeps view (warn msg)"
  by (simp add: keeps_def warn_def)

lemma keeps_doRaw: "method = ''GET'' \<Longrightarrow> keeps view (doRaw gc method path body ct)"
  unfolding doRaw_def by (intro keeps_intros keeps_onNet get) simp

lemma keeps_httpGet [keeps_intros]: "keeps view (httpGet gc path)"
  by (simp add: httpGet_def doReq_def keeps_doRaw)

lemma keeps_getRows [keeps_intros]: "keeps view (getRows gc path l field p)"
  unfolding getRows_def by (intro keeps_intros)

lemma keeps_observeTenant [keeps_intros]: "keeps view (observeTenant gc key)"
  unfolding observeTenant_def by (intro keeps_intros)

lemma keeps_resolveTenantUUID: "keeps view (resolveTenantUUID gc)"
proof -
  have "keeps view (resolveTenantOnce gc)"
    unfolding resolveTenantOnce_def by (intro keeps_intros) (simp add: keeps_def)
  then show ?thesis by (auto simp: keeps_def resolveTenantUUID_def split: option.split prod.split) (metis snd_conv)
qed

lemma keeps_matchesTenant [keeps_intros]: "keeps view (matchesTenant gc r)"
  using keeps_resolveTenantUUID by (auto simp: keeps_def matchesTenant_def Let_def split: prod.split) (metis snd_conv)+

lemma keeps_resolveAgentID [keeps_intros]: "keeps view (resolveAgentID gc key)"
  unfolding resolveAgentID_def by (intro keeps_intros)

lemmas row_defs = providerRows_def agentRows_def channelRows_def serverRows_def skillRows_def cliRows_def

lemma keeps_httpRows [keeps_intros]:
  "keeps view (providerRows gc)" "keeps view (agentRows gc)" "keeps view (channelRows gc)"
  "keeps view (serverRows gc)" "keeps view (skillRows gc)" "keeps view (cliRows gc)"
  unfolding row_defs by (intro keeps_intros)+

lemma keeps_observeRow [keeps_intros]: "keeps view rows \<Longrightarrow> keeps view (observeRow gc rows p g)"
  unfolding observeRow_def by (intro keeps_intros)

lemma keeps_withGrants [keeps_intros]: "(\<And>i. keeps view (l i)) \<Longrightarrow> keeps view (withGrants l row)"
  unfolding withGrants_def Let_def by (intro keeps_intros)

lemma keeps_mcpGrants [keeps_intros]: "keeps view (listMCPGrants gc i)" "keeps view (listMCPGrantAgentKeys gc i)"
  unfolding listMCPGrantAgentKeys_def listMCPGrants_def by (intro keeps_intros)+

lemma keeps_resolveMCPServerID [keeps_intros]: "keeps view (resolveMCPServerID gc name)"
  unfolding resolveMCPServerID_def by (intro keeps_intros)

lemma keeps_skillGrants [keeps_intros]: "keeps view (listSkillGrantAgentKeys gc i)"
proof -
  have "keeps view (grantedAgents gc i as keys)" for as keys
    by (induction "as" arbitrary: keys) (auto simp: agentHasSkillGrant_def intro!: keeps_intros)
  then show ?thesis unfolding listSkillGrantAgentKeys_def by (intro keeps_intros)
qed

lemma keeps_idTest [keeps_intros]: "keeps view (tryA (matchesTenant gc s) (\<lambda>own w. (g own, w)))"
  by (intro keeps_intros) (simp add: keeps_def)

lemma keeps_resolveSecureCLIID [keeps_intros]: "keeps view (resolveSecureCLIID gc name)"
  unfolding resolveSecureCLIID_def by (intro keeps_intros)

end

text \<open>With list calls and dialling.\<close>

locale reading = http_reading +
  assumes list_call: "m \<in> set readMethods \<Longrightarrow> f (snd (wsSend gc m p s)) = f s"
    and dial: "f (snd (wsConnect gc s)) = f s"
begin

lemma keeps_wsCall: "m \<in> set readMethods \<Longrightarrow> keeps view (wsCall gc m p)"
  unfolding wsCall_def by (intro keeps_onNet list_call)

lemma keeps_ensureWS [keeps_intros]: "keeps view (ensureWS gc)"
  using keeps_onNet [of "wsConnect gc"] dial by (simp add: keeps_def ensureWS_def)

lemma keeps_callRows: "m \<in> set readMethods \<Longrightarrow> keeps view (callRows gc m params l field p)"
  unfolding callRows_def by (intro keeps_intros keeps_wsCall)

lemma keeps_teamRows [keeps_intros]: "keeps view (teamRows gc)"
  and keeps_cronRows [keeps_intros]: "keeps view (cronRows gc)"
  and keeps_workstationRows [keeps_intros]: "keeps view (workstationRows gc)"
  and keeps_linksFrom [keeps_intros]: "keeps view (linksFrom gc src l)"
  unfolding teamRows_def cronRows_def workstationRows_def linksFrom_def
  by (intro keeps_intros keeps_callRows; simp add: readMethods_def)+

lemmas observe_defs =
  observeProvider_def observeAgent_def observeChannelInstance_def observeMCPServer_def observeSkill_def
  observeCronJob_def observeTeam_def observeBuiltinToolConfig_def observeSkillConfig_def
  observeMCPCredentials_def observeSystemConfig_def observeSecureCLI_def observeSecureCLIGrant_def
  observeAgentLink_def observeWorkstation_def

lemma keeps_gval_cases [keeps_intros]:
  "keeps view a \<Longrightarrow> keeps view b \<Longrightarrow> (\<And>e. keeps view (c e)) \<Longrightarrow> (\<And>r. keeps view (d r)) \<Longrightarrow>
   keeps view (case v of None \<Rightarrow> a | Some GNil \<Rightarrow> b | Some (GBool e) \<Rightarrow> c e | Some r \<Rightarrow> d r)"
  by (auto split: option.split gval.split)

theorem observe_keeps: "keeps view (ObserveG gc kind key)"
  unfolding ObserveG_def observe_defs by (intro keeps_intros)

lemma keeps_ownRows [keeps_intros]: "keeps view (ownRows gc rs)"
proof (induction rs)
  case (Cons r rs)
  have "view w' = view w" if "matchesTenant gc r w = (b, w')" for w w' b
    using keeps_matchesTenant [of r] that by (metis keeps_def snd_conv)
  moreover have "view w' = view w" if "ownRows gc rs w = (b, w')" for w w' b
    using Cons that by (metis keeps_def snd_conv)
  ultimately show ?case by (auto simp: keeps_def split: prod.split)
qed (simp add: keeps_def)

lemmas list_defs =
  listAllProviders_def listAllAgents_def listAllChannels_def listAllMCPServers_def listAllSkills_def
  listAllCronJobs_def listAllTeams_def listAllSecureCLIs_def listAllWorkstations_def listAllTenants_def
  listAllAgentLinks_def

theorem list_keeps: "keeps view (ListAllG gc kind)"
  unfolding ListAllG_def list_defs listRows_def Let_def by (intro keeps_intros)

end

section \<open>Recording what is sent\<close>

datatype rpc = HttpRpc http_request | WsRpc string gval

fun isWrite :: "rpc \<Rightarrow> bool" where
  "isWrite (HttpRpc req) = (rqMethod req \<noteq> ''GET'')"
| "isWrite (WsRpc m p) = (m \<notin> set readMethods)"

definition recorded :: "'s goclaw \<Rightarrow> ('s \<times> rpc list) goclaw" where
  "recorded gc =
     \<lparr>endpoint = endpoint gc, token = token gc, tenantID = tenantID gc, http = http gc,
      httpDo = (\<lambda>req s. case httpDo gc req (fst s) of (r, s') \<Rightarrow> (r, (s', snd s @ [HttpRpc req]))),
      badRequest = badRequest gc,
      IsConnected = (\<lambda>s. IsConnected gc (fst s)),
      wsConnect = (\<lambda>s. case wsConnect gc (fst s) of (r, s') \<Rightarrow> (r, (s', snd s))),
      wsSend = (\<lambda>m p s. case wsSend gc m p (fst s) of (r, s') \<Rightarrow> (r, (s', snd s @ [WsRpc m p]))),
      jsonMarshal = jsonMarshal gc, jsonParse = jsonParse gc, rangeOrder = rangeOrder gc,
      tarGz = tarGz gc, multipartForm = multipartForm gc, venv = venv gc\<rparr>"

definition writesOf :: "'s \<times> rpc list \<Rightarrow> rpc list" where
  "writesOf s = filter isWrite (snd s)"

interpretation rec: reading "recorded gc" writesOf
  for gc :: "'s goclaw"
  by unfold_locales (auto simp: recorded_def writesOf_def split: prod.split)

section \<open>Properties\<close>

text \<open>
  C5: \<open>gcplane plan\<close> and every other dry run against GoClaw sends nothing but GET requests and list
  calls, whatever the manifest, the answers of the server, the concurrency and the scheduling.
\<close>

theorem plan_sends_only_reads:
  assumes "DryRun opts" "provider e = goclawOps (recorded gc)"
    and "Reconcile e m opts w = (r, w')" "snd (net w) = []"
  shows "list_all (\<lambda>c. \<not> isWrite c) (snd (net w'))"
proof -
  have "writesOf (net (snd (Reconcile e m opts w))) = writesOf (net w)"
    using assms(1) rec.observe_keeps [of gc] rec.list_keeps [of gc]
    by (intro Reconcile_dry_frame) (simp_all add: assms(2) goclawOps_def keeps_def)
  with assms(3,4) show ?thesis by (simp add: writesOf_def filter_empty_conv list_all_iff)
qed

end
