(* ===== verification/GoclawFacts.thy ===== *)
theory GoclawFacts
  imports GoclawReads
begin

text \<open>
  What the operations of the provider guarantee: the outcome of a request by its status, that only
  rows of the provider's own tenant are ever picked, that deleting what is absent does nothing, and
  that the grants of an MCP server end up as the manifest lists them.
\<close>

section \<open>Running composed calls\<close>

lemma bindA_Inr: "bindA m g w = (Inr y, w') \<longleftrightarrow> (\<exists>x w1. m w = (Inr x, w1) \<and> g x w1 = (Inr y, w'))"
  by (auto simp: bindA_def tryA_def failA_def split: prod.splits sum.splits)

lemma wrapA_Inr: "wrapA pre m w = (Inr y, w') \<longleftrightarrow> m w = (Inr y, w')"
  by (auto simp: wrapA_def tryA_def failA_def retA_def split: prod.splits sum.splits)

lemma retA_app [simp]: "retA x w = (Inr x, w)" and failA_app [simp]: "failA err w = (Inl err, w)"
  and liftR_app [simp]: "liftR r w = (r, w)"
  by (simp_all add: retA_def failA_def liftR_def)

lemma ignoreResult_Inr: "ignoreResult m w = (Inr u, w') \<longleftrightarrow> (\<exists>x. m w = (Inr x, w'))"
  by (auto simp: ignoreResult_def bindA_Inr)

lemmas run_simps = bindA_Inr wrapA_Inr ignoreResult_Inr

lemma withCurrent_None: "obs w = (Inr None, w') \<Longrightarrow> withCurrent obs absent present w = absent w'"
  by (simp add: withCurrent_def bindA_def tryA_def)

lemma keeps_run: "keeps f m \<Longrightarrow> m w = (r, w') \<Longrightarrow> f w' = f w"
  by (metis keeps_def snd_conv)

section \<open>Requests\<close>

lemma doRaw_app:
  "doRaw gc method path body ct w =
     (case badRequest gc method (baseURL (http gc) @ path) of
        Some err \<Rightarrow> (Inl (wrapf ''create request: '' err), w)
      | None \<Rightarrow>
          (case httpDo gc (rawRequest gc method path body ct) (net w) of
             (Inl err, s') \<Rightarrow> (Inl (wrapf (''http '' @ method @ '' '' @ path @ '': '') err), w\<lparr>net := s'\<rparr>)
           | (Inr resp, s') \<Rightarrow> (readBody resp, w\<lparr>net := s'\<rparr>)))"
  by (auto simp: doRaw_def bindA_def tryA_def wrapA_def onNet_def simp del: append.simps
      split: option.split prod.split sum.split)

lemma classifyStatus_None: "classifyStatus status body = None \<longleftrightarrow> 200 \<le> status \<and> status < 300"
  by (auto simp: classifyStatus_def)

lemma classifyStatus_sentinel:
  assumes "classifyStatus status body = Some err"
  shows "sentinel_of err =
    (if status = 401 \<or> status = 403 then Some ErrUnauthorized
     else if status = 404 then Some ErrNotFound
     else if status = 400 \<or> status = 422 then Some ErrInvalidRequest
     else if status \<ge> 500 then Some ErrServerError else None)"
  using assms by (auto simp: classifyStatus_def wrapSentinel_def errorf_def split: if_splits)

section \<open>Picking rows\<close>

lemma findRow_Some:
  "findRow p t xs w = (Inr (Some x), w') \<Longrightarrow> x \<in> set xs \<and> p x \<and> (\<exists>w1. t x w1 = (True, w'))"
  by (induction p t xs w rule: findRow.induct) (auto split: if_splits prod.splits)

lemma keeps_once_onNet [keeps_intros]: "keeps tenantOnce (onNet m)"
  by (simp add: keeps_def onNet_def split: prod.split)

lemma keeps_once_ensureWS [keeps_intros]: "keeps tenantOnce (ensureWS gc)"
  using keeps_once_onNet [of "wsConnect gc"] by (simp add: keeps_def ensureWS_def)

lemma keeps_once_rows [keeps_intros]:
  "keeps tenantOnce (getRows gc path l field p)" "keeps tenantOnce (callRows gc m params l field p)"
  unfolding getRows_def callRows_def httpGet_def doReq_def doRaw_def wsCall_def Let_def
  by (intro keeps_intros)+












lemma ObserveG_simps:
  "ObserveG gc KindTenant = observeTenant gc" "ObserveG gc KindProvider = observeProvider gc"
  "ObserveG gc KindAgent = observeAgent gc" "ObserveG gc KindChannel = observeChannelInstance gc"
  "ObserveG gc KindMCPServer = observeMCPServer gc" "ObserveG gc KindSkill = observeSkill gc"
  "ObserveG gc KindCronJob = observeCronJob gc" "ObserveG gc KindAgentTeam = observeTeam gc"
  "ObserveG gc KindSecureCLI = observeSecureCLI gc" "ObserveG gc KindAgentLink = observeAgentLink gc"
  "ObserveG gc KindWorkstation = observeWorkstation gc"
  by (rule ext, simp add: ObserveG_def)+













section \<open>Deleting what is absent\<close>

definition prunableKinds :: "resource_kind list" where
  "prunableKinds =
     [KindTenant, KindProvider, KindAgent, KindChannel, KindMCPServer, KindSkill, KindCronJob, KindAgentTeam,
      KindSecureCLI, KindAgentLink, KindWorkstation]"

lemma ensureWS_connected: "IsConnected gc (net w) \<Longrightarrow> ensureWS gc w = (Inr (), w)"
  by (simp add: ensureWS_def)

lemma bindA_first: "m w = (Inr x, w) \<Longrightarrow> bindA m g w = g x w"
  and wrapA_first: "m w = (Inr x, w) \<Longrightarrow> wrapA pre m w = (Inr x, w)"
  by (simp_all add: bindA_def wrapA_def tryA_def)

lemma rowWith_None: "find (\<lambda>r. strVal r field = key) rs = None \<Longrightarrow> rowWith field key rs = None"
  by (induction rs) (auto split: if_splits)

lemma strContains_suffix: "strContains (s @ sub) sub"
  unfolding strContains_iff by (rule exI [of _ s], rule exI [of _ "[]"]) simp

lemma DeleteG_simps:
  "DeleteG gc KindTenant = deleteTenant gc" "DeleteG gc KindProvider = deleteProvider gc"
  "DeleteG gc KindAgent = deleteAgent gc" "DeleteG gc KindChannel = deleteChannelInstance gc"
  "DeleteG gc KindMCPServer = deleteMCPServer gc" "DeleteG gc KindSkill = deleteSkill gc"
  "DeleteG gc KindCronJob = deleteCronJob gc" "DeleteG gc KindAgentTeam = deleteTeam gc"
  "DeleteG gc KindSecureCLI = deleteSecureCLI gc" "DeleteG gc KindAgentLink = deleteAgentLink gc"
  "DeleteG gc KindWorkstation = deleteWorkstation gc"
  by (rule ext, simp add: DeleteG_def)+

text \<open>The deletions that observe first: directly, or after making sure of the connection.\<close>

lemma delete_via_observe:
  assumes "obs w = (Inr None, w')"
  shows "withCurrent obs (retA ()) present w = (Inr (), w')"
    and "IsConnected gc (net w) \<Longrightarrow> bindA (ensureWS gc) (\<lambda>_. withCurrent obs (retA ()) present) w = (Inr (), w')"
  by (simp_all add: withCurrent_None [where obs = obs, OF assms] bindA_first [where m = "ensureWS gc", OF ensureWS_connected])

lemma deleteWorkstation_absent:
  assumes "IsConnected gc (net w)" "observeWorkstation gc key w = (Inr None, w')"
  shows "deleteWorkstation gc key w = (Inr (), w')"
proof -
  from assms(2) obtain rs where rs: "workstationRows gc w = (Inr rs, w')"
    and n: "find (\<lambda>ws. strVal ws ''workstationKey'' = key) rs = None"
    by (auto simp: observeWorkstation_def bindA_Inr)
  let ?err = "errorf (''workstation '' @ goQuote key @ '' not found'')"
  have "resolveWorkstationID gc key w = (Inl ?err, w')"
    using rs rowWith_None [OF n] by (simp add: resolveWorkstationID_def bindA_def tryA_def)
  moreover have "strContains (errText ?err) ''not found''"
    using strContains_suffix [of "''workstation '' @ goQuote key @ '' ''" "''not found''"] by simp
  ultimately show ?thesis
    using ensureWS_connected [OF assms(1)]
    by (simp add: deleteWorkstation_def bindA_def wrapA_def tryA_def)
qed

lemma deleteAgentLink_absent:
  assumes "IsConnected gc (net w)" "observeAgentLink gc key w = (Inr None, w')"
  shows "deleteAgentLink gc key w = (Inr (), w')"
  using assms ensureWS_connected [OF assms(1)]
  by (simp add: deleteAgentLink_def bindA_def wrapA_def tryA_def)

section \<open>Grants of an MCP server\<close>

lemma doRaw_Inr:
  assumes "doRaw gc method path body ct w = (Inr y, w')"
  obtains resp s' where "httpDo gc (rawRequest gc method path body ct) (net w) = (Inr resp, s')"
    "200 \<le> rsStatus resp \<and> rsStatus resp < 300" "w' = w\<lparr>net := s'\<rparr>"
  using assms
  by (auto simp: doRaw_app readBody_def Let_def classifyStatus_None simp del: append.simps
      split: option.split_asm prod.split_asm sum.split_asm)

text \<open>
  What GoClaw documents about the grants of the server with id \<open>sid\<close>: reading changes nothing, a
  POST that succeeds adds the agent, a DELETE that succeeds or finds nothing removes it, and the
  listing shows them. The sentinel errors are the program's own, so the transport returns none.
\<close>

definition grantServer :: "'s goclaw \<Rightarrow> string \<Rightarrow> ('s \<Rightarrow> string set) \<Rightarrow> bool" where
  "grantServer gc sid granted \<longleftrightarrow>
     (\<forall>req s. rqMethod req = ''GET'' \<longrightarrow> granted (snd (httpDo gc req s)) = granted s) \<and>
     (\<forall>req s resp s' i b. httpDo gc req s = (Inr resp, s') \<and> rqMethod req = ''POST'' \<and>
        rqURL req = baseURL (http gc) @ ''/v1/mcp/servers/'' @ sid @ ''/grants/agent'' \<and> rqBody req = Some b \<and>
        jsonMarshal gc (GMap [(''agent_id'', GStr i)]) = Inr b \<and> 200 \<le> rsStatus resp \<and> rsStatus resp < 300 \<longrightarrow>
        granted s' = insert i (granted s)) \<and>
     (\<forall>req s resp s' i. httpDo gc req s = (Inr resp, s') \<and> rqMethod req = ''DELETE'' \<and>
        rqURL req = baseURL (http gc) @ ''/v1/mcp/servers/'' @ sid @ ''/grants/agent/'' @ i \<and>
        (200 \<le> rsStatus resp \<and> rsStatus resp < 300 \<or> rsStatus resp = 404) \<longrightarrow>
        granted s' = granted s - {i}) \<and>
     (\<forall>w rows w'. listMCPGrants gc sid w = (Inr rows, w') \<longrightarrow> set (grantIds rows) = granted (net w)) \<and>
     (\<forall>m u err. badRequest gc m u = Some err \<longrightarrow> \<not> errorsIs err ErrNotFound) \<and>
     (\<forall>req s s' err. httpDo gc req s = (Inl err, s') \<longrightarrow> \<not> errorsIs err ErrNotFound) \<and>
     (\<forall>req s s' resp err. httpDo gc req s = (Inr resp, s') \<and> rsRead resp = Inl err \<longrightarrow> \<not> errorsIs err ErrNotFound) \<and>
     (\<forall>ks. set (rangeOrder gc ks) = set ks)"

lemma grantServer_post:
  assumes "grantServer gc sid granted"
    and "httpDo gc (rawRequest gc ''POST'' (''/v1/mcp/servers/'' @ sid @ ''/grants/agent'') (Some b) ct) s = (Inr resp, s')"
    and "jsonMarshal gc (GMap [(''agent_id'', GStr i)]) = Inr b" "200 \<le> rsStatus resp \<and> rsStatus resp < 300"
  shows "granted s' = insert i (granted s)"
  using assms(2-4) conjunct1 [OF conjunct2 [OF assms(1) [unfolded grantServer_def]]]
  by (metis rawRequest_simps)

lemma grantServer_delete:
  assumes "grantServer gc sid granted"
    and "httpDo gc (rawRequest gc ''DELETE'' (''/v1/mcp/servers/'' @ sid @ ''/grants/agent/'' @ i) None ct) s = (Inr resp, s')"
    and "200 \<le> rsStatus resp \<and> rsStatus resp < 300 \<or> rsStatus resp = 404"
  shows "granted s' = granted s - {i}"
  using assms(2,3) conjunct1 [OF conjunct2 [OF conjunct2 [OF assms(1) [unfolded grantServer_def]]]]
  by (metis rawRequest_simps)

lemma readBody_404:
  assumes "readBody resp = Inl err" "errorsIs err ErrNotFound" "\<And>e. rsRead resp = Inl e \<Longrightarrow> \<not> errorsIs e ErrNotFound"
  shows "rsStatus resp = 404"
proof -
  from assms obtain b where b: "rsRead resp = Inr b" by (cases "rsRead resp") (auto simp: readBody_def)
  with assms(1) have "classifyStatus (rsStatus resp) (takeI maxResponseSize b) = Some err"
    by (auto simp: readBody_def Let_def split: option.split_asm)
  from classifyStatus_sentinel [OF this] assms(2) show ?thesis by (auto simp: errorsIs_def split: if_splits)
qed

lemma doRaw_404:
  assumes "doRaw gc method path body ct w = (Inl err, w')" "errorsIs err ErrNotFound" "grantServer gc sid granted"
  obtains resp s' where "httpDo gc (rawRequest gc method path body ct) (net w) = (Inr resp, s')"
    "rsStatus resp = 404" "w' = w\<lparr>net := s'\<rparr>"
proof -
  have n: "badRequest gc method (baseURL (http gc) @ path) = None"
    using assms unfolding grantServer_def
    by (cases "badRequest gc method (baseURL (http gc) @ path)") (auto simp: doRaw_app simp del: append.simps)
  obtain r s' where h: "httpDo gc (rawRequest gc method path body ct) (net w) = (r, s')" by fastforce
  have "\<not> errorsIs e ErrNotFound" if "r = Inl e" for e
    using h that assms(3) unfolding grantServer_def by blast
  with assms(1,2) n h obtain resp where r: "r = Inr resp"
    by (cases r) (auto simp: doRaw_app simp del: append.simps)
  have "\<not> errorsIs e ErrNotFound" if "rsRead resp = Inl e" for e
    using h that r assms(3) unfolding grantServer_def by blast
  with assms(1,2) n h r readBody_404 [of resp err] have "rsStatus resp = 404" "w' = w\<lparr>net := s'\<rparr>"
    by (auto simp: doRaw_app)
  with h r that show ?thesis by blast
qed

lemma revoke_Inr:
  assumes "revoke gc pre path w = (Inr u, w')" "grantServer gc sid granted"
  obtains resp s' where "httpDo gc (rawRequest gc ''DELETE'' path None ''application/json'') (net w) = (Inr resp, s')"
    "200 \<le> rsStatus resp \<and> rsStatus resp < 300 \<or> rsStatus resp = 404" "w' = w\<lparr>net := s'\<rparr>"
proof -
  obtain r w1 where d: "doRaw gc ''DELETE'' path None ''application/json'' w = (r, w1)" by fastforce
  with assms(1) have w1: "w1 = w'" and "r = Inl err \<Longrightarrow> errorsIs err ErrNotFound" for err
    by (auto simp: revoke_def httpDelete_def doReq_def tryA_def bindA_def split: sum.split_asm if_split_asm)
  show ?thesis
  proof (cases r)
    case (Inl err)
    with d w1 have "doRaw gc ''DELETE'' path None ''application/json'' w = (Inl err, w')" by simp
    moreover have "errorsIs err ErrNotFound" using \<open>\<And>err. _ \<Longrightarrow> _\<close> Inl .
    ultimately show ?thesis using that by (elim doRaw_404 [OF _ _ assms(2)]) blast+
  next
    case (Inr y)
    with d w1 have "doRaw gc ''DELETE'' path None ''application/json'' w = (Inr y, w')" by simp
    then show ?thesis using that by (elim doRaw_Inr) blast
  qed
qed

lemma forA_effect:
  assumes "forA h xs w = (Inr u, w')"
    and "\<And>x w w' u. x \<in> set xs \<Longrightarrow> h x w = (Inr u, w') \<Longrightarrow> g w' = step x (g w)"
  shows "g w' = fold step xs (g w)"
  using assms
proof (induction xs arbitrary: w)
  case (Cons x xs)
  then obtain w1 u1 where h: "h x w = (Inr u1, w1)" and r: "forA h xs w1 = (Inr u, w')" by (auto simp: bindA_Inr)
  have "g w1 = step x (g w)" by (rule Cons.prems(2) [OF _ h]) simp
  moreover have "g w' = fold step xs (g w1)" by (rule Cons.IH [OF r]) (rule Cons.prems(2); simp)
  ultimately show ?case by simp
qed simp

lemma fold_insert_missing: "fold (\<lambda>x A. if x \<in> c then A else insert x A) xs A = A \<union> (set xs - c)"
  by (induction xs arbitrary: A) auto

lemma fold_remove_extra: "fold (\<lambda>x A. if x \<in> d then A else A - {x}) xs A = A - (set xs - d)"
  by (induction xs arbitrary: A) auto

lemma addGrants_effect:
  assumes "grantServer gc sid granted" "addGrants gc sid name des cur w = (Inr u, w')"
  shows "granted (net w') = granted (net w) \<union> (set des - set cur)"
proof -
  have "granted (net w') = fold (\<lambda>i A. if i \<in> set cur then A else insert i A) (rangeOrder gc des) (granted (net w))"
    using assms(2) unfolding addGrants_def
  proof (rule forA_effect [where g = "\<lambda>w. granted (net w)"])
    fix i w w' u
    assume "(if i \<in> set cur then retA ()
       else ignoreResult (wrapA (''grant agent '' @ i @ '' to mcp server '' @ name @ '': '')
              (httpPost gc (''/v1/mcp/servers/'' @ sid @ ''/grants/agent'') (GMap [(''agent_id'', GStr i)])))) w = (Inr u, w')"
    then show "granted (net w') = (if i \<in> set cur then granted (net w) else insert i (granted (net w)))"
    proof (cases "i \<in> set cur")
      case False
      with \<open>_ = (Inr u, w')\<close> obtain b y where b: "jsonMarshal gc (GMap [(''agent_id'', GStr i)]) = Inr b"
        and d: "doRaw gc ''POST'' (''/v1/mcp/servers/'' @ sid @ ''/grants/agent'') (Some b) ''application/json'' w = (Inr y, w')"
        by (auto simp: run_simps httpPost_def doJSON_def doReq_def split: sum.split_asm)
      from doRaw_Inr [OF d] obtain resp s' where
        "httpDo gc (rawRequest gc ''POST'' (''/v1/mcp/servers/'' @ sid @ ''/grants/agent'') (Some b) ''application/json'') (net w) = (Inr resp, s')"
        "200 \<le> rsStatus resp \<and> rsStatus resp < 300" "w' = w\<lparr>net := s'\<rparr>" .
      with grantServer_post [OF assms(1) _ b] False show ?thesis by simp
    qed simp
  qed
  with assms(1) show ?thesis by (simp add: fold_insert_missing grantServer_def)
qed

lemma removeGrants_effect:
  assumes "grantServer gc sid granted" "removeGrants gc sid name des cur w = (Inr u, w')"
  shows "granted (net w') = granted (net w) - (set cur - set des)"
proof -
  have "granted (net w') = fold (\<lambda>i A. if i \<in> set des then A else A - {i}) (rangeOrder gc cur) (granted (net w))"
    using assms(2) unfolding removeGrants_def
  proof (rule forA_effect [where g = "\<lambda>w. granted (net w)"])
    fix i w w' u
    let ?path = "''/v1/mcp/servers/'' @ sid @ ''/grants/agent/'' @ i"
    assume "(if i \<in> set des then retA ()
       else revoke gc (''revoke agent '' @ i @ '' from mcp server '' @ name @ '': '') ?path) w = (Inr u, w')"
    then show "granted (net w') = (if i \<in> set des then granted (net w) else granted (net w) - {i})"
    proof (cases "i \<in> set des")
      case False
      with \<open>_ = (Inr u, w')\<close> have "revoke gc (''revoke agent '' @ i @ '' from mcp server '' @ name @ '': '') ?path w = (Inr u, w')"
        by (simp only: if_False)
      then obtain resp s' where "httpDo gc (rawRequest gc ''DELETE'' ?path None ''application/json'') (net w) = (Inr resp, s')"
        "200 \<le> rsStatus resp \<and> rsStatus resp < 300 \<or> rsStatus resp = 404" "w' = w\<lparr>net := s'\<rparr>"
        by (rule revoke_Inr [OF _ assms(1)])
      with grantServer_delete [OF assms(1)] False show ?thesis by simp
    qed simp
  qed
  with assms(1) show ?thesis by (simp add: fold_remove_extra grantServer_def)
qed

lemma set_addKeys: "set (addKeys ks acc) = set ks \<union> set acc"
  by (induction ks acc rule: addKeys.induct) auto

lemma mapA_wrapA_Inr:
  "mapA (\<lambda>x. wrapA (pre x) (h x)) xs w = (Inr ys, w') \<longleftrightarrow> mapA h xs w = (Inr ys, w')"
  by (induction xs arbitrary: w ys) (auto simp: bindA_Inr wrapA_Inr)

section \<open>Properties\<close>

text \<open>
  C40: The outcome of a request is decided by the status of the answer: 2xx returns the body cut
  at ten megabytes; every other status is an error, which is unauthorized, not-found, invalid or a
  server error exactly for 401 and 403, 404, 400 and 422, and 500 and above.
\<close>

theorem request_outcome:
  assumes "badRequest gc method (baseURL (http gc) @ path) = None"
    and "\<And>req. rqMethod req = method \<Longrightarrow> rqURL req = baseURL (http gc) @ path \<Longrightarrow> rqBody req = body \<Longrightarrow>
           httpDo gc req (net w) = (Inr \<lparr>rsStatus = status, rsRead = Inr bytes\<rparr>, s')"
    and "doReq gc method path body w = (r, w')"
  shows "w' = w\<lparr>net := s'\<rparr> \<and>
    (if 200 \<le> status \<and> status < 300 then r = Inr (take 10485760 bytes)
     else \<exists>err. r = Inl err \<and>
       (errorsIs err ErrUnauthorized \<longleftrightarrow> status \<in> {401, 403}) \<and> (errorsIs err ErrNotFound \<longleftrightarrow> status = 404) \<and>
       (errorsIs err ErrInvalidRequest \<longleftrightarrow> status \<in> {400, 422}) \<and> (errorsIs err ErrServerError \<longleftrightarrow> 500 \<le> status))"
proof -
  have d: "doReq gc method path body w = (readBody \<lparr>rsStatus = status, rsRead = Inr bytes\<rparr>, w\<lparr>net := s'\<rparr>)"
    using assms(1,2) by (simp add: doReq_def doRaw_app)
  show ?thesis
  proof (cases "classifyStatus status (takeI maxResponseSize bytes)")
    case None
    with d assms(3) classifyStatus_None [of status] show ?thesis
      by (auto simp: readBody_def takeI_take maxResponseSize_def)
  next
    case (Some err)
    have "\<not> (200 \<le> status \<and> status < 300)" using Some classifyStatus_None [of status] by force
    with d assms(3) Some classifyStatus_sentinel [OF Some] show ?thesis by (auto simp: readBody_def errorsIs_def)
  qed
qed


text \<open>
  C8: Deleting is idempotent for every kind that pruning can list: when the resource is not
  observed, deletion succeeds and sends nothing beyond that observation.
\<close>

theorem delete_absent_is_noop:
  assumes "kind \<in> set prunableKinds" "IsConnected gc (net w)" "ObserveG gc kind key w = (Inr None, w')"
  shows "DeleteG gc kind key w = (Inr (), w')"
proof -
  note obs = assms(3)
  from assms(1) show ?thesis
    unfolding prunableKinds_def set_simps insert_iff empty_iff
  proof (elim disjE FalseE)
    assume k: "kind = KindWorkstation"
    from obs show ?thesis
      unfolding k ObserveG_simps DeleteG_simps by (rule deleteWorkstation_absent [OF assms(2)])
  next
    assume k: "kind = KindAgentLink"
    from obs show ?thesis
      unfolding k ObserveG_simps DeleteG_simps by (rule deleteAgentLink_absent [OF assms(2)])
  next
    assume k: "kind = KindCronJob"
    from obs assms(2) show ?thesis
      unfolding k ObserveG_simps DeleteG_simps deleteCronJob_def by (rule delete_via_observe)
  next
    assume k: "kind = KindAgentTeam"
    from obs assms(2) show ?thesis
      unfolding k ObserveG_simps DeleteG_simps deleteTeam_def by (rule delete_via_observe)
  qed (use obs in \<open>simp only: ObserveG_simps DeleteG_simps deleteTenant_def deleteProvider_def
        deleteAgent_def deleteChannelInstance_def deleteMCPServer_def deleteSkill_def
        deleteSecureCLI_def delete_via_observe\<close>)+
qed

text \<open>
  C7: When applying the grants of an MCP server returns without an error, the server's grants are
  exactly the agents the manifest lists, resolved to ids: missing ones added, extra ones removed,
  in whatever order Go ranges over its maps.
\<close>

theorem mcp_grants_reach_desired:
  assumes "grantServer gc sid granted" "resolveMCPServerID gc name w = (Inr sid, w0)"
    and "applyMCPGrants gc name agents w = (Inr (), w')"
  shows "\<exists>ids w1 w2. mapA (resolveAgentID gc) agents w1 = (Inr ids, w2) \<and> granted (net w') = set ids"
proof -
  have g: "granted (net w2) = granted (net w1)" if "keeps (\<lambda>w. granted (net w)) m" "m w1 = (r, w2)" for m w1 w2 r
    using keeps_run [OF that] .
  have hr: "http_reading gc granted" using assms(1) by unfold_locales (simp add: grantServer_def)
  from assms(2,3) obtain rows w1 ids w2 w3 where l: "listMCPGrants gc sid w0 = (Inr rows, w1)"
    and m: "mapA (\<lambda>k. wrapA (''resolve agent '' @ goQuote k @ '': '') (resolveAgentID gc k)) agents w1 = (Inr ids, w2)"
    and a: "addGrants gc sid name (addKeys ids []) (grantIds rows) w2 = (Inr (), w3)"
    and r: "removeGrants gc sid name (addKeys ids []) (grantIds rows) w3 = (Inr (), w')"
    by (auto simp: applyMCPGrants_def bindA_Inr Let_def)
  have cur: "set (grantIds rows) = granted (net w0)" using assms(1) l unfolding grantServer_def by blast
  have "granted (net w1) = granted (net w0)"
    by (rule g [OF http_reading.keeps_mcpGrants(1) [OF hr] l])
  moreover have "keeps (\<lambda>w. granted (net w)) (mapA (\<lambda>k. wrapA (''resolve agent '' @ goQuote k @ '': '') (resolveAgentID gc k)) agents)"
    by (intro keeps_intros http_reading.keeps_resolveAgentID [OF hr])
  note keeps_run [OF this m]
  ultimately have "granted (net w') = set ids"
    using addGrants_effect [OF assms(1) a] removeGrants_effect [OF assms(1) r] cur
    by (auto simp: set_addKeys)
  moreover have "mapA (resolveAgentID gc) agents w1 = (Inr ids, w2)" using m by (simp add: mapA_wrapA_Inr)
  ultimately show ?thesis by blast
qed

end
