(* ===== verification/GoclawDemo.thy ===== *)
theory GoclawDemo
  imports GoclawFacts
begin

text \<open>
  A small GoClaw server: two tenants, three agents, one MCP server whose grants are the state. The
  properties of the provider are applied to it, so their hypotheses hold for a server that answers.
\<close>

definition agentRow :: "string \<Rightarrow> string \<Rightarrow> string \<Rightarrow> gval" where
  "agentRow i key tenant = GMap [(''id'', GStr i), (''agent_key'', GStr key), (''tenant_id'', GStr tenant), (''model'', GStr ''m'')]"

definition demoJson :: "string \<Rightarrow> gval result" where
  "demoJson body =
     (if body = ''/v1/agents'' then
        Inr (GMap [(''agents'', GList [agentRow ''x'' ''alpha'' ''t2'', agentRow ''a'' ''alpha'' ''t1'', agentRow ''b'' ''beta'' ''t1''])])
      else if body = ''/v1/tenants'' then Inr (GMap [(''tenants'', GList [GMap [(''id'', GStr ''t1''), (''slug'', GStr ''acme'')]])])
      else if body = ''/v1/mcp/servers'' then Inr (GMap [(''servers'', GList [GMap [(''id'', GStr ''s''), (''name'', GStr ''search'')]])])
      else if hasPrefix ''G'' body then Inr (GMap [(''grants'', GList (map (\<lambda>c. GMap [(''agent_id'', GStr [c])]) (tl body)))])
      else Inr GNil)"

text \<open>Whether agent \<open>a\<close> and agent \<open>b\<close> are granted.\<close>

type_synonym demo_state = "bool \<times> bool"

definition demoBody :: "demo_state \<Rightarrow> string" where
  "demoBody s = ''G'' @ (if fst s then ''a'' else []) @ (if snd s then ''b'' else [])"

definition demoHttp :: "http_request \<Rightarrow> demo_state \<Rightarrow> http_response result \<times> demo_state" where
  "demoHttp req s =
     (let ok = (\<lambda>b. Inr \<lparr>rsStatus = 200, rsRead = Inr b\<rparr>); pre = ''/v1/mcp/servers/s/grants/agent'' in
      if rqMethod req = ''GET''
      then (ok (if rqURL req = ''/v1/mcp/servers/s/grants'' then demoBody s else rqURL req), s)
      else if rqMethod req = ''POST'' \<and> rqURL req = pre
      then (ok [], (fst s \<or> rqBody req = Some ''a'', snd s \<or> rqBody req = Some ''b''))
      else if rqMethod req = ''DELETE''
      then (Inr \<lparr>rsStatus = 204, rsRead = Inr []\<rparr>, (fst s \<and> rqURL req \<noteq> pre @ ''/a'', snd s \<and> rqURL req \<noteq> pre @ ''/b''))
      else (ok [], s))"

definition demoMarshal :: "gval \<Rightarrow> string result" where
  "demoMarshal v =
     (if v = GMap [(''agent_id'', GStr ''a'')] then Inr ''a''
      else if v = GMap [(''agent_id'', GStr ''b'')] then Inr ''b'' else Inl (errorf ''marshal''))"

definition demoGc :: "demo_state goclaw" where
  "demoGc = \<lparr>endpoint = [], token = ''k'', tenantID = ''acme'', http = NewHTTPClient [] ''k'' ''acme'' [],
     httpDo = demoHttp, badRequest = (\<lambda>m u. None), IsConnected = (\<lambda>s. True), wsConnect = (\<lambda>s. (Inr (), s)),
     wsSend = (\<lambda>m p s. (Inr m, s)), jsonMarshal = demoMarshal, jsonParse = demoJson, rangeOrder = (\<lambda>ks. ks),
     tarGz = (\<lambda>es. Inr []), multipartForm = (\<lambda>ps. Inr ([], [])),
     venv = \<lparr>veSemver = \<lparr>svIsValid = (\<lambda>v. True), svCompare = (\<lambda>a b. 0)\<rparr>, vePacker = demoPacker, veDisk = demoDisk []\<rparr>\<rparr>"

definition demoWorld :: "demo_state \<Rightarrow> demo_state gworld" where
  "demoWorld s = \<lparr>net = s, tenantOnce = None, warnings = []\<rparr>"

definition demoEngine :: "(demo_state \<times> rpc list) gworld engine" where
  "demoEngine = \<lparr>provider = goclawOps (recorded demoGc), os = (\<lambda>w. os memEngine demoW), codec_of = codec_of memEngine,
     sched = (\<lambda>w c n. [0..<n])\<rparr>"

definition demoAgents :: manifest where
  "demoAgents = \<lparr>APIVersion = ''gcplane.io/v1'', manKind = ''Manifest'', Metadata = \<lparr>metaName = [], Environment = []\<rparr>,
     Connection = \<lparr>Endpoint = [], Token = [], TenantID = [], UserID = []\<rparr>,
     Resources = [\<lparr>resKind = KindAgent, resName = ''alpha'', Labels = [], Annotations = [], Spec = Some [(''model'', GStr ''n'')]\<rparr>]\<rparr>"

theorem plan_sends_only_reads_witness:
  "\<exists>r w'. Reconcile demoEngine demoAgents (demoOpts True True 0) \<lparr>net = ((False, False), []), tenantOnce = None, warnings = []\<rparr> = (r, w') \<and>
     list_all (\<lambda>c. \<not> isWrite c) (snd (net w'))"
proof -
  obtain r w' where r: "Reconcile demoEngine demoAgents (demoOpts True True 0) \<lparr>net = ((False, False), []), tenantOnce = None, warnings = []\<rparr> = (r, w')"
    by (metis surj_pair)
  have d: "DryRun (demoOpts True True 0)" "provider demoEngine = goclawOps (recorded demoGc)"
    by (simp_all add: demoOpts_def demoEngine_def)
  from plan_sends_only_reads [OF d r] r show ?thesis by simp
qed

theorem request_outcome_witness:
  "\<exists>r w'. doReq demoGc ''GET'' ''/v1/agents'' None (demoWorld (False, False)) = (r, w') \<and> r = Inr ''/v1/agents''"
proof -
  let ?w = "demoWorld (False, False)"
  obtain r w' where r: "doReq demoGc ''GET'' ''/v1/agents'' None ?w = (r, w')" by fastforce
  have b: "badRequest demoGc ''GET'' (baseURL (http demoGc) @ ''/v1/agents'') = None" by (simp add: demoGc_def)
  have h: "httpDo demoGc req (net ?w) = (Inr \<lparr>rsStatus = 200, rsRead = Inr ''/v1/agents''\<rparr>, (False, False))"
    if "rqMethod req = ''GET''" "rqURL req = baseURL (http demoGc) @ ''/v1/agents''" for req
    using that by (simp add: demoGc_def demoHttp_def demoWorld_def NewHTTPClient_def Let_def)
  from request_outcome [OF b h r] r show ?thesis by simp
qed


theorem delete_absent_is_noop_witness:
  "\<exists>w'. ObserveG demoGc KindAgent ''gone'' (demoWorld (False, False)) = (Inr None, w') \<and>
     DeleteG demoGc KindAgent ''gone'' (demoWorld (False, False)) = (Inr (), w')"
proof -
  have "case ObserveG demoGc KindAgent ''gone'' (demoWorld (False, False)) of (Inr None, w') \<Rightarrow> True | _ \<Rightarrow> False"
    by code_simp
  then obtain w' where o: "ObserveG demoGc KindAgent ''gone'' (demoWorld (False, False)) = (Inr None, w')"
    by (auto split: prod.splits sum.splits option.splits)
  have "IsConnected demoGc (net (demoWorld (False, False)))" "KindAgent \<in> set prunableKinds"
    by (simp_all add: demoGc_def prunableKinds_def)
  from delete_absent_is_noop [OF this(2,1) o] o show ?thesis by blast
qed

section \<open>The grants of the demonstration server\<close>

definition demoGranted :: "demo_state \<Rightarrow> string set" where
  "demoGranted s = {i. i = ''a'' \<and> fst s \<or> i = ''b'' \<and> snd s}"

lemma demo_listing:
  assumes "listMCPGrants demoGc ''s'' w = (Inr rows, w')"
  shows "set (grantIds rows) = demoGranted (net w)"
proof -
  have "doRaw demoGc ''GET'' (''/v1/mcp/servers/'' @ ''s'' @ ''/grants'') None ''application/json'' w = (Inr (demoBody (net w)), w)"
    by (cases "net w") (simp add: doRaw_app demoGc_def demoHttp_def NewHTTPClient_def readBody_def classifyStatus_def
        maxResponseSize_def demoBody_def Let_def)
  with assms have "decodeRows demoGc ''grants'' (demoBody (net w)) = Inr rows"
    by (auto simp: listMCPGrants_def getRows_def run_simps httpGet_def doReq_def)
  moreover have "\<forall>a b. decodeRows demoGc ''grants'' (demoBody (a, b)) =
     Inr ((if a then [[(''agent_id'', GStr ''a'')]] else []) @ (if b then [[(''agent_id'', GStr ''b'')]] else []))"
    by code_simp
  ultimately have "rows = (if fst (net w) then [[(''agent_id'', GStr ''a'')]] else []) @
     (if snd (net w) then [[(''agent_id'', GStr ''b'')]] else [])"
    by (metis prod.collapse sum.inject(2))
  then show ?thesis by (auto simp: grantIds_def demoGranted_def strVal_def)
qed

lemma demo_grantServer: "grantServer demoGc ''s'' demoGranted"
  unfolding grantServer_def
proof (intro conjI allI impI; (elim conjE)?)
  fix w rows w' assume "listMCPGrants demoGc ''s'' w = (Inr rows, w')"
  then show "set (grantIds rows) = demoGranted (net w)" by (rule demo_listing)
qed (auto simp: demoGc_def demoHttp_def demoMarshal_def demoGranted_def NewHTTPClient_def Let_def split: if_splits)

theorem mcp_grants_reach_desired_witness:
  "\<exists>w'. applyMCPGrants demoGc ''search'' [''beta''] (demoWorld (True, False)) = (Inr (), w') \<and>
     (\<exists>ids w1 w2. mapA (resolveAgentID demoGc) [''beta''] w1 = (Inr ids, w2) \<and> demoGranted (net w') = set ids)"
proof -
  let ?w = "demoWorld (True, False)"
  have "case applyMCPGrants demoGc ''search'' [''beta''] ?w of (Inr u, w') \<Rightarrow> True | _ \<Rightarrow> False"
    "case resolveMCPServerID demoGc ''search'' ?w of (Inr i, w') \<Rightarrow> i = ''s'' | _ \<Rightarrow> False"
    by code_simp+
  then obtain w0 w' where "resolveMCPServerID demoGc ''search'' ?w = (Inr ''s'', w0)"
    and a: "applyMCPGrants demoGc ''search'' [''beta''] ?w = (Inr (), w')"
    by (auto split: prod.splits sum.splits)
  from mcp_grants_reach_desired [OF demo_grantServer this] a show ?thesis by blast
qed

end
