(* ===== verification/WSClient.thy ===== *)
theory WSClient
  imports Prelude
begin

text \<open>
  \<open>internal/provider/goclaw/ws_client.go\<close>: the RPC client over a web socket, as a step relation. Any
  number of calls, readers (one per connection that was accepted) and closers run at once; a step is one
  critical section or one operation on a channel or on the socket. What the socket and the server do is
  left open: a read may return any frame or fail, a write may succeed or fail, a dial may end in any way.
\<close>

section \<open>State\<close>

record response_frame =
  frID :: nat
  frOK :: bool
  frPayload :: string
  frError :: "string option"

text \<open>
  A \<open>Call\<close> between its steps: it has read \<open>c.conn\<close>, drawn its id, entered the pending map, written its
  frame (and waits), or failed to write; \<open>Returned\<close> holds what it received with the connection it came
  from, or its error.
\<close>

datatype call =
    CallFresh
  | HasConn nat
  | HasId nat nat
  | Pending nat nat
  | Written nat nat
  | WriteFailed nat nat string
  | Clearing nat nat string
  | Returned nat nat "nat \<times> response_frame"
  | CallFailed goerr

datatype reader =
    NoReader
  | Reading
  | Delivering response_frame nat
  | Cancelling string "(nat \<times> nat) list"
  | ReaderExited

datatype closer = CloserFresh | ClosingConn nat | CloserDone

text \<open>
  \<open>pending\<close> maps ids to calls, a call standing for the channel it made; \<open>chans\<close> is what is in that
  channel, of capacity one. \<open>openedConns\<close> counts the connections opened so far.
\<close>

record ws_state =
  wsConn :: "nat option"
  openedConns :: nat
  nextID :: nat
  pending :: "(nat \<times> nat) list"
  chans :: "nat \<Rightarrow> (nat \<times> response_frame) option"
  calls :: "nat \<Rightarrow> call"
  readers :: "nat \<Rightarrow> reader"
  closers :: "nat \<Rightarrow> closer"

definition NewWSClient :: ws_state where
  "NewWSClient = \<lparr>wsConn = None, openedConns = 0, nextID = 0, pending = [], chans = (\<lambda>k. None),
     calls = (\<lambda>k. CallFresh), readers = (\<lambda>c. NoReader), closers = (\<lambda>j. CloserFresh)\<rparr>"

definition IsConnectedWS :: "ws_state \<Rightarrow> bool" where
  "IsConnectedWS s \<longleftrightarrow> wsConn s \<noteq> None"

section \<open>Connect\<close>

datatype handshake = DialFails goerr | WriteFails goerr | ReadFails goerr | Rejected "string option" | Accepted

text \<open>\<open>Connect\<close> holds \<open>connMu\<close> to its end. A handshake that fails leaves the closed socket in \<open>c.conn\<close>.\<close>

definition ConnectWS :: "string \<Rightarrow> handshake \<Rightarrow> ws_state \<Rightarrow> goerr option \<times> ws_state" where
  "ConnectWS wsURL h s =
     (if wsConn s \<noteq> None then (None, s)
      else
        let c = openedConns s; dialled = s\<lparr>wsConn := Some c, openedConns := c + 1\<rparr> in
        case h of
          DialFails err \<Rightarrow> (Some (wrapf (''ws dial '' @ wsURL @ '': '') err), s)
        | WriteFails err \<Rightarrow> (Some (wrapf ''ws connect handshake write: '' err), dialled)
        | ReadFails err \<Rightarrow> (Some (wrapf ''ws connect handshake read: '' err), dialled)
        | Rejected msg \<Rightarrow>
            (Some (errorf (''ws connect rejected: '' @ (case msg of None \<Rightarrow> ''unknown error'' | Some m \<Rightarrow> m))), dialled)
        | Accepted \<Rightarrow> (None, dialled\<lparr>nextID := 1, readers := (readers s)(c := Reading)\<rparr>))"

section \<open>The reader\<close>

definition clearConnIfSame :: "nat \<Rightarrow> ws_state \<Rightarrow> ws_state" where
  "clearConnIfSame c s = (if wsConn s = Some c then s\<lparr>wsConn := None\<rparr> else s)"

text \<open>The critical section of \<open>deliverResponse\<close>; the send to the channel is the next step.\<close>

definition deliverResponse :: "nat \<Rightarrow> response_frame \<Rightarrow> ws_state \<Rightarrow> ws_state" where
  "deliverResponse c fr s =
     (case map_of (pending s) (frID fr) of
        None \<Rightarrow> s
      | Some k \<Rightarrow> s\<lparr>pending := AList.delete (frID fr) (pending s), readers := (readers s)(c := Delivering fr k)\<rparr>)"

text \<open>The critical section of \<open>cancelAllPending\<close>; the map is walked in the order \<open>ws\<close>.\<close>

definition cancelAllPending :: "nat \<Rightarrow> string \<Rightarrow> (nat \<times> nat) list \<Rightarrow> ws_state \<Rightarrow> ws_state" where
  "cancelAllPending c err ws s = s\<lparr>pending := [], readers := (readers s)(c := Cancelling err ws)\<rparr>"

definition errResp :: "string \<Rightarrow> nat \<Rightarrow> response_frame" where
  "errResp err rid = \<lparr>frID = rid, frOK = False, frPayload = [], frError = Some err\<rparr>"

definition sendFrame :: "nat \<Rightarrow> nat \<Rightarrow> response_frame \<Rightarrow> reader \<Rightarrow> ws_state \<Rightarrow> ws_state" where
  "sendFrame c k fr next s = s\<lparr>chans := (chans s)(k := Some (c, fr)), readers := (readers s)(c := next)\<rparr>"

section \<open>Call\<close>

definition callConn :: "nat \<Rightarrow> ws_state \<Rightarrow> ws_state" where
  "callConn k s = s\<lparr>calls := (calls s)(k :=
     (case wsConn s of None \<Rightarrow> CallFailed (errorf ''ws not connected'') | Some c \<Rightarrow> HasConn c))\<rparr>"

definition callId :: "nat \<Rightarrow> nat \<Rightarrow> ws_state \<Rightarrow> ws_state" where
  "callId k c s = s\<lparr>nextID := nextID s + 1, calls := (calls s)(k := HasId c (nextID s + 1))\<rparr>"

definition callRegister :: "nat \<Rightarrow> nat \<Rightarrow> nat \<Rightarrow> ws_state \<Rightarrow> ws_state" where
  "callRegister k c rid s = s\<lparr>pending := AList.update rid k (pending s), calls := (calls s)(k := Pending c rid)\<rparr>"

definition setCall :: "nat \<Rightarrow> call \<Rightarrow> ws_state \<Rightarrow> ws_state" where
  "setCall k pc s = s\<lparr>calls := (calls s)(k := pc)\<rparr>"

definition forget :: "nat \<Rightarrow> ws_state \<Rightarrow> ws_state" where
  "forget rid s = s\<lparr>pending := AList.delete rid (pending s)\<rparr>"

definition callReceive :: "nat \<Rightarrow> nat \<Rightarrow> nat \<Rightarrow> nat \<times> response_frame \<Rightarrow> ws_state \<Rightarrow> ws_state" where
  "callReceive k c rid cfr s = setCall k (Returned c rid cfr) (s\<lparr>chans := (chans s)(k := None)\<rparr>)"

text \<open>What \<open>Call\<close> makes of the frame it received.\<close>

definition callResult :: "string \<Rightarrow> response_frame \<Rightarrow> string result" where
  "callResult meth fr =
     (if \<not> frOK fr
      then Inl (errorf (''ws rpc '' @ meth @ '': '' @ (case frError fr of None \<Rightarrow> ''rpc error'' | Some m \<Rightarrow> m)))
      else Inr (frPayload fr))"

section \<open>Steps\<close>

inductive ws_step :: "ws_state \<Rightarrow> ws_state \<Rightarrow> bool" where
  connect: "ws_step s (snd (ConnectWS wsURL h s))"
| read: "readers s c = Reading \<Longrightarrow> ws_step s (deliverResponse c fr s)"
| deliver: "readers s c = Delivering fr k \<Longrightarrow> chans s k = None \<Longrightarrow> ws_step s (sendFrame c k fr Reading s)"
| read_fails: "readers s c = Reading \<Longrightarrow> mset ws = mset (pending s) \<Longrightarrow> ws_step s (cancelAllPending c err ws s)"
| cancel_one: "readers s c = Cancelling err ((rid, k) # ws) \<Longrightarrow> chans s k = None \<Longrightarrow>
    ws_step s (sendFrame c k (errResp err rid) (Cancelling err ws) s)"
| reader_exits: "readers s c = Cancelling err [] \<Longrightarrow>
    ws_step s ((clearConnIfSame c s)\<lparr>readers := (readers s)(c := ReaderExited)\<rparr>)"
| call_conn: "calls s k = CallFresh \<Longrightarrow> ws_step s (callConn k s)"
| call_id: "calls s k = HasConn c \<Longrightarrow> ws_step s (callId k c s)"
| call_register: "calls s k = HasId c rid \<Longrightarrow> ws_step s (callRegister k c rid s)"
| write_ok: "calls s k = Pending c rid \<Longrightarrow> ws_step s (setCall k (Written c rid) s)"
| write_fails: "calls s k = Pending c rid \<Longrightarrow> ws_step s (setCall k (WriteFailed c rid err) s)"
| write_forget: "calls s k = WriteFailed c rid err \<Longrightarrow> ws_step s (setCall k (Clearing c rid err) (forget rid s))"
| write_clear: "calls s k = Clearing c rid err \<Longrightarrow>
    ws_step s (setCall k (CallFailed (errorf err)) (clearConnIfSame c s))"
| call_receive: "calls s k = Written c rid \<Longrightarrow> chans s k = Some cfr \<Longrightarrow> ws_step s (callReceive k c rid cfr s)"
| call_cancelled: "calls s k = Written c rid \<Longrightarrow> ws_step s (setCall k (CallFailed err) (forget rid s))"
| close_start: "closers s j = CloserFresh \<Longrightarrow>
    ws_step s (s\<lparr>closers := (closers s)(j := (case wsConn s of None \<Rightarrow> CloserDone | Some c \<Rightarrow> ClosingConn c))\<rparr>)"
| close_end: "closers s j = ClosingConn c \<Longrightarrow> readers s c \<in> {ReaderExited, NoReader} \<Longrightarrow>
    ws_step s (s\<lparr>closers := (closers s)(j := CloserDone), wsConn := None\<rparr>)"

inductive ws_reach :: "ws_state \<Rightarrow> bool" where
  ws_init: "ws_reach NewWSClient"
| ws_next: "ws_reach s \<Longrightarrow> ws_step s s' \<Longrightarrow> ws_reach s'"

lemmas ws_defs = clearConnIfSame_def deliverResponse_def cancelAllPending_def sendFrame_def callConn_def callId_def
  callRegister_def setCall_def forget_def callReceive_def

section \<open>The invariant\<close>

text \<open>The deliveries a reader has taken out of the pending map and not yet made.\<close>

fun targets :: "reader \<Rightarrow> (nat \<times> nat) list" where
  "targets (Delivering fr k) = [(frID fr, k)]"
| "targets (Cancelling err ws) = ws"
| "targets _ = []"

text \<open>A call that may still be handed a frame for the id \<open>rid\<close>.\<close>

fun expects :: "call \<Rightarrow> nat \<Rightarrow> bool" where
  "expects (Pending c r) rid \<longleftrightarrow> r = rid"
| "expects (Written c r) rid \<longleftrightarrow> r = rid"
| "expects (WriteFailed c r err) rid \<longleftrightarrow> r = rid"
| "expects (Clearing c r err) rid \<longleftrightarrow> r = rid"
| "expects (CallFailed err) rid \<longleftrightarrow> True"
| "expects _ rid \<longleftrightarrow> False"

text \<open>
  What can still put a frame for the id \<open>rid\<close> into the hands of a call: an entry of the pending map, a
  delivery under way, or a frame in its channel.
\<close>

definition inMap :: "ws_state \<Rightarrow> nat \<Rightarrow> nat \<Rightarrow> bool" where
  "inMap s k rid \<longleftrightarrow> (rid, k) \<in> set (pending s)"

definition inReader :: "ws_state \<Rightarrow> nat \<Rightarrow> nat \<Rightarrow> nat \<Rightarrow> bool" where
  "inReader s c k rid \<longleftrightarrow> (rid, k) \<in> set (targets (readers s c))"

definition inChan :: "ws_state \<Rightarrow> nat \<Rightarrow> nat \<Rightarrow> bool" where
  "inChan s k rid \<longleftrightarrow> (\<exists>c fr. chans s k = Some (c, fr) \<and> frID fr = rid)"

definition coming :: "ws_state \<Rightarrow> nat \<Rightarrow> nat \<Rightarrow> bool" where
  "coming s k rid \<longleftrightarrow> inMap s k rid \<or> (\<exists>c. inReader s c k rid) \<or> inChan s k rid"

lemmas coming_defs = coming_def inMap_def inReader_def inChan_def

text \<open>At most one of them exists for a call, and it carries the id of the call.\<close>

definition ws_single :: "ws_state \<Rightarrow> bool" where
  "ws_single s \<longleftrightarrow>
     distinct (map snd (pending s)) \<and> (\<forall>c. distinct (map snd (targets (readers s c)))) \<and>
     (\<forall>k r. inMap s k r \<longrightarrow> chans s k = None \<and> (\<forall>c r'. \<not> inReader s c k r')) \<and>
     (\<forall>c k r. inReader s c k r \<longrightarrow> chans s k = None \<and> (\<forall>c' r'. inReader s c' k r' \<longrightarrow> c' = c))"

definition ws_ids :: "ws_state \<Rightarrow> bool" where
  "ws_ids s \<longleftrightarrow>
     (\<forall>k r. coming s k r \<longrightarrow> expects (calls s k) r) \<and>
     (\<forall>k c r c' fr. calls s k = Returned c r (c', fr) \<longrightarrow> frID fr = r)"

lemma set_update: "set (AList.update r k al) \<subseteq> insert (r, k) (set al)"
  by (induction al) auto

lemma distinct_snd_update:
  "distinct (map snd al) \<Longrightarrow> k \<notin> snd ` set al \<Longrightarrow> distinct (map snd (AList.update r k al))"
proof (induction al)
  case (Cons e al)
  have "snd e \<notin> snd ` set (AList.update r k al)" if "fst e \<noteq> r"
    using set_update [of r k al] Cons.prems by auto
  with Cons show ?case by (cases e) (auto simp: rev_image_eqI)
qed simp

lemma distinct_snd_delete: "distinct (map snd al) \<Longrightarrow> distinct (map snd (AList.delete r al))"
  by (induction al) (auto simp: AList.delete_eq)

lemma set_delete: "set (AList.delete r al) = {e \<in> set al. fst e \<noteq> r}"
  by (auto simp: AList.delete_eq)

lemma coming_step:
  assumes "ws_step s s'" "coming s' k r"
  shows "coming s k r \<or> (\<exists>c. calls s k = HasId c r \<and> calls s' k = Pending c r)"
  using assms
proof (cases rule: ws_step.cases)
  case (connect wsURL h)
  with assms(2) show ?thesis
    by (auto simp: coming_defs ConnectWS_def Let_def split: handshake.split_asm if_split_asm)
next
  case (read c fr)
  with assms(2) show ?thesis
    by (auto simp: coming_defs ws_defs set_delete split: option.split_asm if_split_asm dest: map_of_SomeD)
next
  case (deliver c fr k')
  with assms(2) show ?thesis by (auto simp: coming_defs ws_defs intro: exI [of _ c] split: if_split_asm)
next
  case (read_fails c ws err)
  with assms(2) show ?thesis
    by (auto simp: coming_defs ws_defs split: if_split_asm dest: mset_eq_setD)
next
  case (cancel_one c err rid k' ws)
  with assms(2) show ?thesis
    by (auto simp: coming_defs ws_defs errResp_def intro: exI [of _ c] split: if_split_asm)
next
  case (call_register k' c rid)
  with assms(2) set_update [of rid k' "pending s"] show ?thesis by (auto simp: coming_defs ws_defs)
qed (auto simp: coming_defs ws_defs set_delete split: if_split_asm)

lemma expects_step:
  assumes "ws_step s s'" "expects (calls s k) r"
  shows "expects (calls s' k) r \<or>
    (\<exists>c cfr. calls s k = Written c r \<and> chans s k = Some cfr \<and> s' = callReceive k c r cfr s)"
  using assms
  by (cases rule: ws_step.cases)
     (auto simp: ws_defs ConnectWS_def Let_def split: option.split handshake.split)

lemma ws_ids_step:
  assumes "ws_step s s'" "ws_ids s" "ws_single s"
  shows "ws_ids s'"
  unfolding ws_ids_def
proof (intro conjI allI impI)
  fix k r assume c: "coming s' k r"
  from coming_step [OF assms(1) c] show "expects (calls s' k) r"
  proof (elim disjE)
    assume "coming s k r"
    with assms(2) have "expects (calls s k) r" by (simp add: ws_ids_def)
    from expects_step [OF assms(1) this] c assms(3) show ?thesis
      by (fastforce simp: coming_defs callReceive_def setCall_def ws_single_def)
  qed auto
next
  fix k c r c' fr assume ret: "calls s' k = Returned c r (c', fr)"
  have "calls s k = Returned c r (c', fr) \<or> (calls s k = Written c r \<and> chans s k = Some (c', fr))"
    using assms(1) ret
    by (cases rule: ws_step.cases)
       (auto simp: ws_defs ConnectWS_def Let_def split: option.split_asm handshake.split_asm if_split_asm)
  moreover have "expects (calls s k) (frID fr)" if "chans s k = Some (c', fr)"
    using that assms(2) unfolding ws_ids_def coming_def inChan_def by blast
  ultimately show "frID fr = r" using assms(2) by (auto simp: ws_ids_def)
qed

lemma HasId_nothing: "ws_ids s \<Longrightarrow> calls s k = HasId c rid \<Longrightarrow> \<not> coming s k r"
  unfolding ws_ids_def by fastforce

lemma pending_step:
  assumes "ws_step s s'" "ws_ids s" "distinct (map snd (pending s))"
  shows "distinct (map snd (pending s'))"
  using assms(1)
proof (cases rule: ws_step.cases)
  case (call_register k c rid)
  with HasId_nothing [OF assms(2), of k c rid] have "k \<notin> snd ` set (pending s)" by (auto simp: coming_defs)
  with call_register assms(3) show ?thesis by (simp add: ws_defs distinct_snd_update)
qed (use assms(3) in \<open>auto simp: ws_defs ConnectWS_def Let_def distinct_snd_delete split: option.split handshake.split\<close>)

lemma targets_step:
  assumes "ws_step s s'" "ws_single s"
  shows "distinct (map snd (targets (readers s' c)))"
proof -
  have d: "distinct (map snd (targets (readers s c)))" "distinct (map snd (pending s))" for c
    using assms(2) by (auto simp: ws_single_def)
  show ?thesis
    using assms(1)
  proof (cases rule: ws_step.cases)
    case (read_fails c' ws err)
    have "distinct (map snd ws)" using d(2) mset_eq_imp_distinct_iff [of "map snd ws" "map snd (pending s)"] read_fails
      by simp
    with d read_fails show ?thesis by (simp add: ws_defs)
  next
    case (cancel_one c' err rid k ws)
    with d(1) [of c'] have "distinct (map snd ws)" by simp
    with d cancel_one show ?thesis by (simp add: ws_defs)
  qed (use d in \<open>auto simp: ws_defs ConnectWS_def Let_def split: option.split handshake.split\<close>)
qed

text \<open>The part of \<open>ws_single\<close> that speaks of one call.\<close>

definition exclusive :: "ws_state \<Rightarrow> nat \<Rightarrow> bool" where
  "exclusive s k \<longleftrightarrow>
     (\<forall>r. inMap s k r \<longrightarrow> chans s k = None \<and> (\<forall>c r'. \<not> inReader s c k r')) \<and>
     (\<forall>c r. inReader s c k r \<longrightarrow> chans s k = None \<and> (\<forall>c' r'. inReader s c' k r' \<longrightarrow> c' = c))"

lemma ws_single_alt:
  "ws_single s \<longleftrightarrow> distinct (map snd (pending s)) \<and> (\<forall>c. distinct (map snd (targets (readers s c)))) \<and> (\<forall>k. exclusive s k)"
  unfolding ws_single_def exclusive_def by blast

lemma exclusiveD:
  assumes "exclusive s k"
  shows "inMap s k r \<Longrightarrow> chans s k = None" "inMap s k r \<Longrightarrow> \<not> inReader s c k r'"
    "inReader s c k r \<Longrightarrow> chans s k = None" "inReader s c k r \<Longrightarrow> inReader s c' k r' \<Longrightarrow> c' = c"
  using assms unfolding exclusive_def by blast+

lemma exclusiveI:
  assumes "\<And>r. inMap s k r \<Longrightarrow> chans s k = None" "\<And>r c r'. inMap s k r \<Longrightarrow> \<not> inReader s c k r'"
    "\<And>c r. inReader s c k r \<Longrightarrow> chans s k = None"
    "\<And>c r c' r'. inReader s c k r \<Longrightarrow> inReader s c' k r' \<Longrightarrow> c' = c"
  shows "exclusive s k"
  using assms unfolding exclusive_def by blast

lemmas exclusive_defs = exclusive_def inMap_def inReader_def

lemma not_in_delete: "distinct (map snd al) \<Longrightarrow> (r, k) \<in> set al \<Longrightarrow> (r', k) \<notin> set (AList.delete r al)"
  by (induction al) (auto simp: AList.delete_eq rev_image_eqI)

lemma exclusive_step:
  assumes "ws_step s s'" "ws_single s" "ws_ids s"
  shows "exclusive s' k"
proof -
  have ex: "exclusive s k" and d: "distinct (map snd (pending s))" and t: "distinct (map snd (targets (readers s c)))" for c
    using assms(2) by (auto simp: ws_single_alt)
  show ?thesis
    using assms(1)
  proof (cases rule: ws_step.cases)
    case (connect wsURL h)
    with ex show ?thesis by (auto simp: exclusive_defs ConnectWS_def Let_def split: handshake.split)
  next
    case (read c fr)
    show ?thesis
    proof (cases "map_of (pending s) (frID fr)")
      case (Some k')
      then have m: "inMap s k' (frID fr)" by (auto simp: inMap_def dest: map_of_SomeD)
      with not_in_delete [OF d] Some read have nm: "\<not> inMap s' k' r" for r by (simp add: inMap_def ws_defs)
      have "chans s' k = chans s k" "\<And>r. inMap s' k r \<Longrightarrow> inMap s k r"
        "\<And>c1 r. inReader s' c1 k r \<longleftrightarrow> (if c1 = c then k = k' \<and> r = frID fr else inReader s c1 k r)"
        using Some read by (auto simp: inMap_def inReader_def ws_defs set_delete)
      note eqs = this
      show ?thesis by (rule exclusiveI) (metis nm eqs m exclusiveD [OF ex])+
    qed (use ex read in \<open>simp add: ws_defs\<close>)
  next
    case (deliver c fr k')
    then have "inMap s' = inMap s" "inReader s' = (\<lambda>c1 k r. c1 \<noteq> c \<and> inReader s c1 k r)"
      "chans s' = (chans s)(k' := Some (c, fr))" "inReader s c k' (frID fr)"
      by (auto simp: fun_eq_iff inMap_def inReader_def ws_defs)
    with ex show ?thesis by (cases "k = k'") (auto simp: exclusive_def)
  next
    case (read_fails c ws err)
    then have "set ws = set (pending s)" by (blast dest: mset_eq_setD)
    with read_fails have "inMap s' = (\<lambda>k r. False)" "chans s' = chans s"
      "inReader s' = (\<lambda>c1 k r. if c1 = c then inMap s k r else inReader s c1 k r)"
      by (auto simp: fun_eq_iff inMap_def inReader_def ws_defs)
    with ex show ?thesis by (auto simp: exclusive_def)
  next
    case (cancel_one c err rid k' ws)
    then have "inMap s' = inMap s" "chans s' = (chans s)(k' := Some (c, errResp err rid))"
      "\<And>c1 k r. inReader s' c1 k r \<Longrightarrow> inReader s c1 k r" "inReader s c k' rid"
      by (auto simp: fun_eq_iff inMap_def inReader_def ws_defs split: if_split_asm)
    moreover have "\<not> inReader s' c k' r" for r
      using t [of c] cancel_one by (auto simp: inReader_def ws_defs rev_image_eqI)
    ultimately show ?thesis using ex by (cases "k = k'") (auto simp: exclusive_def, metis+)
  next
    case (call_register k' c rid)
    then have "inReader s' = inReader s" "chans s' = chans s" "\<And>k r. inMap s' k r \<Longrightarrow> inMap s k r \<or> k = k'"
      using set_update [of rid k' "pending s"] by (auto simp: fun_eq_iff inMap_def inReader_def ws_defs)
    note eqs = this
    have no: "\<not> coming s k' r" for r using HasId_nothing [OF assms(3)] call_register by blast
    then have nr: "\<not> inReader s c1 k' r" for c1 r by (auto simp: coming_def)
    have nc: "chans s k' = None"
    proof (cases "chans s k'")
      case (Some cfr)
      with no [of "frID (snd cfr)"] show ?thesis by (cases cfr) (simp add: coming_def inChan_def)
    qed
    show ?thesis by (rule exclusiveI) (metis eqs nr nc exclusiveD [OF ex])+
  qed (use ex in \<open>auto simp: exclusive_defs ws_defs set_delete split: option.split\<close>)
qed

lemma ws_reach_inv: "ws_reach s \<Longrightarrow> ws_ids s \<and> ws_single s"
proof (induction rule: ws_reach.induct)
  case ws_init
  then show ?case by (simp add: ws_ids_def ws_single_def coming_defs NewWSClient_def)
next
  case (ws_next s s')
  then have "ws_ids s'" "ws_single s'"
    using pending_step targets_step exclusive_step ws_ids_step by (auto simp: ws_single_alt)
  then show ?case ..
qed

section \<open>Properties\<close>

text \<open>
  C13: The RPC client hands frames to the right call and its reader never blocks. In every reachable
  state, however calls, readers, reconnects and closers interleave, a reader about to send finds the
  channel of the call empty, and a call that returned a frame returned one that carries its own id.
\<close>

theorem ws_frames_reach_their_call:
  assumes "ws_reach s"
  shows "(\<forall>c fr k. readers s c = Delivering fr k \<longrightarrow> chans s k = None) \<and>
    (\<forall>c err r k ws. readers s c = Cancelling err ((r, k) # ws) \<longrightarrow> chans s k = None) \<and>
    (\<forall>k c r c' fr. calls s k = Returned c r (c', fr) \<longrightarrow> frID fr = r)"
proof (intro conjI allI impI)
  have ex: "exclusive s k" for k using ws_reach_inv [OF assms] by (auto simp: ws_single_alt)
  fix c fr k assume "readers s c = Delivering fr k"
  then have "inReader s c k (frID fr)" by (simp add: inReader_def)
  then show "chans s k = None" by (rule exclusiveD(3) [OF ex])
next
  have ex: "exclusive s k" for k using ws_reach_inv [OF assms] by (auto simp: ws_single_alt)
  fix c err r k ws assume "readers s c = Cancelling err ((r, k) # ws)"
  then have "inReader s c k r" by (simp add: inReader_def)
  then show "chans s k = None" by (rule exclusiveD(3) [OF ex])
next
  fix k c r c' fr assume "calls s k = Returned c r (c', fr)"
  then show "frID fr = r" using ws_reach_inv [OF assms] by (auto simp: ws_ids_def)
qed

text \<open>Runs to evaluate: a call from its start to the write of its frame, on the current connection.\<close>

definition runCall :: "nat \<Rightarrow> nat \<Rightarrow> nat \<Rightarrow> ws_state \<Rightarrow> ws_state" where
  "runCall k c rid s = callRegister k c rid (callId k c (callConn k s))"

lemma reach_runCall:
  assumes "ws_reach s" "calls s k = CallFresh" "wsConn s = Some c" "rid = nextID s + 1"
  shows "ws_reach (runCall k c rid s)"
proof -
  have "ws_reach (callConn k s)" by (rule ws_next [OF assms(1) call_conn]) (fact assms(2))
  then have "ws_reach (callId k c (callConn k s))"
    by (rule ws_next [OF _ call_id]) (simp add: callConn_def assms)
  then show ?thesis unfolding runCall_def
    by (rule ws_next [OF _ call_register]) (simp add: callConn_def callId_def assms)
qed

definition demoFrame :: response_frame where
  "demoFrame = \<lparr>frID = 2, frOK = True, frPayload = ''teams'', frError = None\<rparr>"

definition dialled :: "ws_state \<Rightarrow> ws_state" where
  "dialled s = snd (ConnectWS ''ws://h/ws'' Accepted s)"

lemma reach_dialled: "ws_reach s \<Longrightarrow> ws_reach (dialled s)"
  unfolding dialled_def by (rule ws_next [OF _ connect])

text \<open>The first call is written on the first connection, and the frame for its id is read there.\<close>

definition demoFirst :: ws_state where
  "demoFirst = setCall 0 (Written 0 2) (runCall 0 0 2 (dialled NewWSClient))"

lemmas demo_ws = demoFirst_def runCall_def dialled_def ConnectWS_def NewWSClient_def ws_defs Let_def demoFrame_def

lemma reach_demoFirst: "ws_reach demoFirst"
proof -
  have "ws_reach (runCall 0 0 2 (dialled NewWSClient))"
    by (rule reach_runCall [OF reach_dialled [OF ws_init]]) (simp_all add: demo_ws)
  then show ?thesis unfolding demoFirst_def
    by (rule ws_next [OF _ write_ok]) (simp add: runCall_def callRegister_def)
qed

theorem ws_frames_reach_their_call_witness:
  "\<exists>s. ws_reach s \<and> readers s 0 = Delivering demoFrame 0 \<and> chans s 0 = None"
proof -
  let ?s = "deliverResponse 0 demoFrame demoFirst"
  have "ws_reach ?s" by (rule ws_next [OF reach_demoFirst read]) (simp add: demo_ws)
  moreover have "readers ?s 0 = Delivering demoFrame 0" by (simp add: demo_ws)
  ultimately show ?thesis using ws_frames_reach_their_call [of ?s] by blast
qed

text \<open>
  The id a frame carries does not tell calls of different connections apart. Ids start again with
  every connection while the pending map is shared: after a failed write has replaced the connection
  under a call that still waits, a new call draws the same id and returns the frame that the first
  connection received for the first call.
\<close>

lemma ws_reused_id_crosses_connections:
  "\<exists>s k c r c' fr. ws_reach s \<and> calls s k = Returned c r (c', fr) \<and> c' \<noteq> c \<and>
     calls s 0 = Written c' r \<and> k \<noteq> 0"
proof -
  let ?s1 = "runCall 1 0 3 demoFirst"
  have "ws_reach ?s1" by (rule reach_runCall [OF reach_demoFirst]) (simp_all add: demo_ws)
  then have "ws_reach (setCall 1 (WriteFailed 0 3 ''broken pipe'') ?s1)"
    by (rule ws_next [OF _ write_fails]) (simp add: runCall_def callRegister_def)
  then have "ws_reach (setCall 1 (Clearing 0 3 ''broken pipe'') (forget 3 (setCall 1 (WriteFailed 0 3 ''broken pipe'') ?s1)))"
    by (rule ws_next [OF _ write_forget]) (simp add: setCall_def)
  then have "ws_reach (setCall 1 (CallFailed (errorf ''broken pipe'')) (clearConnIfSame 0
      (setCall 1 (Clearing 0 3 ''broken pipe'') (forget 3 (setCall 1 (WriteFailed 0 3 ''broken pipe'') ?s1)))))"
    (is "ws_reach ?s2") by (rule ws_next [OF _ write_clear]) (simp add: setCall_def)
  then have "ws_reach (runCall 2 1 2 (dialled ?s2))"
    by (intro reach_runCall reach_dialled) (simp_all add: demo_ws)
  then have "ws_reach (setCall 2 (Written 1 2) (runCall 2 1 2 (dialled ?s2)))"
    by (rule ws_next [OF _ write_ok]) (simp add: runCall_def callRegister_def)
  then have "ws_reach (deliverResponse 0 demoFrame (setCall 2 (Written 1 2) (runCall 2 1 2 (dialled ?s2))))"
    by (rule ws_next [OF _ read]) (simp add: demo_ws)
  then have "ws_reach (sendFrame 0 2 demoFrame Reading
      (deliverResponse 0 demoFrame (setCall 2 (Written 1 2) (runCall 2 1 2 (dialled ?s2)))))"
    by (rule ws_next [OF _ deliver]) (simp_all add: demo_ws)
  then have "ws_reach (callReceive 2 1 2 (0, demoFrame) (sendFrame 0 2 demoFrame Reading
      (deliverResponse 0 demoFrame (setCall 2 (Written 1 2) (runCall 2 1 2 (dialled ?s2))))))"
    (is "ws_reach ?s3") by (rule ws_next [OF _ call_receive]) (simp_all add: demo_ws)
  moreover have "calls ?s3 2 = Returned 1 2 (0, demoFrame)" "calls ?s3 0 = Written 0 2" by (simp_all add: demo_ws)
  ultimately show ?thesis by (metis zero_neq_one zero_neq_numeral)
qed

end
