(* ===== verification/Loader.thy ===== *)
theory Loader
  imports Validate
begin

text \<open>
  \<open>internal/manifest/composite.go\<close>, \<open>loader.go\<close> and \<open>skill_loader.go\<close>: from files to one manifest.
  YAML decoding and encoding and the template engine are the record \<open>codecs\<close>. A Go panic is an
  outcome of its own, because no caller on this path recovers from it.
\<close>

datatype 'a go = Panic string | Ret "'a result"

fun bindGo :: "'a go \<Rightarrow> ('a result \<Rightarrow> 'b go) \<Rightarrow> 'b go" where
  "bindGo (Panic msg) k = Panic msg"
| "bindGo (Ret r) k = k r"

record skill_frontmatter =
  fmName :: string
  fmDescription :: string

record skill_overlay =
  ovTags :: "string list"
  ovStatus :: string
  ovGrants :: "string list option"

record codecs =
  yamlSpec :: "string \<Rightarrow> gomap option result"
  yamlMarshal :: "gomap option \<Rightarrow> string result"
  yamlManifest :: "string \<Rightarrow> manifest result"
  yamlFrontmatter :: "string \<Rightarrow> skill_frontmatter result"
  yamlOverlay :: "string \<Rightarrow> skill_overlay result"
  yamlOverrides :: "string \<Rightarrow> (string \<times> bool) list result"
  renderTemplate :: "string \<Rightarrow> gomap \<Rightarrow> string result"

lemma bindGo_Inr:
  "bindGo g (\<lambda>r. case r of Inl err \<Rightarrow> Ret (Inl (f err)) | Inr x \<Rightarrow> k x) = Ret (Inr y) \<longleftrightarrow>
     (\<exists>x. g = Ret (Inr x) \<and> k x = Ret (Inr y))"
  by (cases g) (auto split: sum.splits)

lemmas bindGo_InrE = iffD1 [OF bindGo_Inr, THEN exE]

lemma bindGo_Panic:
  "bindGo g k = Panic msg \<longleftrightarrow> g = Panic msg \<or> (\<exists>r. g = Ret r \<and> k r = Panic msg)"
  by (cases g) auto

section \<open>Composites\<close>

record composite_definition =
  cdName :: string
  templates :: "resource list"

type_synonym composite_registry = "(string \<times> composite_definition) list"

definition plainResource :: "resource_kind \<Rightarrow> string \<Rightarrow> gomap option \<Rightarrow> resource" where
  "plainResource kind name spec = \<lparr>resKind = kind, resName = name, Labels = [], Annotations = [], Spec = spec\<rparr>"

fun parseTemplates :: "string \<Rightarrow> nat \<Rightarrow> gval list \<Rightarrow> resource list result" where
  "parseTemplates name i [] = Inr []"
| "parseTemplates name i (raw # raws) =
     (case asMap (Some raw) of
        None \<Rightarrow> Inl (errorf (''CompositeDefinition '' @ name @ '': resources['' @ showNat i @ ''] must be a map''))
      | Some resMap \<Rightarrow>
          (case parseTemplates name (Suc i) raws of
             Inl err \<Rightarrow> Inl err
           | Inr ts \<Rightarrow>
               Inr (plainResource (strOr (map_of resMap ''kind'')) (strOr (map_of resMap ''name''))
                      (asMap (map_of resMap ''spec'')) # ts)))"

definition parseDefinition :: "resource \<Rightarrow> composite_definition result" where
  "parseDefinition r =
     (case asList (map_of (specMap r) ''resources'') of
        None \<Rightarrow> Inl (errorf (''CompositeDefinition '' @ resName r @ '': spec.resources must be an array''))
      | Some rawResources \<Rightarrow>
          (case parseTemplates (resName r) 0 rawResources of
             Inl err \<Rightarrow> Inl err
           | Inr ts \<Rightarrow> Inr \<lparr>cdName = resName r, templates = ts\<rparr>))"

fun extractDefinitions ::
  "resource list \<Rightarrow> composite_registry \<Rightarrow> resource list \<Rightarrow> (composite_registry \<times> resource list) result"
where
  "extractDefinitions [] registry remaining = Inr (registry, remaining)"
| "extractDefinitions (r # rs) registry remaining =
     (if resKind r \<noteq> ''CompositeDefinition'' then extractDefinitions rs registry (remaining @ [r])
      else case parseDefinition r of
             Inl err \<Rightarrow> Inl err
           | Inr def \<Rightarrow> extractDefinitions rs (AList.update (resName r) def registry) remaining)"

fun overlaySpec :: "gomap \<Rightarrow> gomap \<Rightarrow> gomap" where
  "overlaySpec [] ctx = ctx"
| "overlaySpec ((k, v) # spec) ctx = overlaySpec spec (AList.update k v ctx)"

definition buildContext :: "resource \<Rightarrow> gomap" where
  "buildContext r = overlaySpec (specMap r) [(''name'', GStr (resName r))]"

definition expandResource :: "codecs \<Rightarrow> resource \<Rightarrow> gomap \<Rightarrow> resource result" where
  "expandResource cs tmpl ctx =
     (case renderTemplate cs (resName tmpl) ctx of
        Inl err \<Rightarrow> Inl (wrapf ''expand name: '' err)
      | Inr name \<Rightarrow>
     (case yamlMarshal cs (Spec tmpl) of
        Inl err \<Rightarrow> Inl (wrapf ''marshal spec: '' err)
      | Inr specYAML \<Rightarrow>
     (case renderTemplate cs specYAML ctx of
        Inl err \<Rightarrow> Inl (wrapf ''expand spec: '' err)
      | Inr expandedYAML \<Rightarrow>
     (case yamlSpec cs expandedYAML of
        Inl err \<Rightarrow> Inl (wrapf ''unmarshal expanded spec: '' err)
      | Inr spec \<Rightarrow> Inr (plainResource (resKind tmpl) name spec)))))"

fun expandTemplates ::
  "codecs \<Rightarrow> composite_definition \<Rightarrow> resource \<Rightarrow> resource list \<Rightarrow> resource list result"
where
  "expandTemplates cs def r [] = Inr []"
| "expandTemplates cs def r (tmpl # tmpls) =
     (case expandResource cs tmpl (buildContext r) of
        Inl err \<Rightarrow> Inl (wrapf (''expand '' @ cdName def @ ''/'' @ resName r @ '': '') err)
      | Inr res \<Rightarrow>
          let res = (if length (Labels r) > 0 then res\<lparr>Labels := Labels r\<rparr> else res) in
          (case expandTemplates cs def r tmpls of
             Inl err \<Rightarrow> Inl err
           | Inr rest \<Rightarrow> Inr (res # rest)))"

fun expandInstances :: "codecs \<Rightarrow> resource list \<Rightarrow> composite_registry \<Rightarrow> resource list result" where
  "expandInstances cs [] registry = Inr []"
| "expandInstances cs (r # rs) registry =
     (case (case map_of registry (resKind r) of
              None \<Rightarrow> Inr [r]
            | Some def \<Rightarrow> expandTemplates cs def r (templates def)) of
        Inl err \<Rightarrow> Inl err
      | Inr here \<Rightarrow>
          (case expandInstances cs rs registry of
             Inl err \<Rightarrow> Inl err
           | Inr rest \<Rightarrow> Inr (here @ rest)))"

definition ExpandComposites :: "codecs \<Rightarrow> manifest \<Rightarrow> manifest result" where
  "ExpandComposites cs m =
     (case extractDefinitions (Resources m) [] [] of
        Inl err \<Rightarrow> Inl err
      | Inr (registry, remaining) \<Rightarrow>
          if length registry = 0 then Inr m
          else (case expandInstances cs remaining registry of
                  Inl err \<Rightarrow> Inl err
                | Inr expanded \<Rightarrow> Inr (m\<lparr>Resources := expanded\<rparr>)))"

section \<open>Skills on disk\<close>

definition nl :: char where "nl = char_of (10 :: nat)"
definition cr :: char where "cr = char_of (13 :: nat)"

definition squote :: char where "squote = char_of (39 :: nat)"

definition systemTenant :: string where "systemTenant = ''_system''"
definition skillsSubdir :: string where "skillsSubdir = ''skills''"
definition skillOverridesFile :: string where "skillOverridesFile = ''skill-overrides.yaml''"

fun crlfToLf :: "string \<Rightarrow> string" where
  "crlfToLf (a # b # s) = (if a = cr \<and> b = nl then nl # crlfToLf s else a # crlfToLf (b # s))"
| "crlfToLf s = s"

definition leftTrimmed :: "char \<Rightarrow> bool" where
  "leftTrimmed c \<longleftrightarrow> c = CHR '' '' \<or> c = char_of (9 :: nat) \<or> c = cr \<or> c = nl"

definition normalizeMd :: "string \<Rightarrow> string" where
  "normalizeMd content =
     crlfToLf (dropWhile leftTrimmed (trimPrefix (map char_of [239, 187, 191 :: nat]) content))"

text \<open>The block between the fences, or where the code returns or panics before it.\<close>

definition frontmatterBlock :: "string \<Rightarrow> string go" where
  "frontmatterBlock content =
     (let normalized = normalizeMd content in
      if \<not> hasPrefix (''---'' @ [nl]) normalized \<and> normalized \<noteq> ''---''
      then Ret (Inl (errorf ''SKILL.md must start with a '---' frontmatter fence on its own line''))
      else if length normalized < 4 then Panic ''slice bounds out of range''
      else
        let rest = drop 4 normalized in
        case strCut ([nl] @ ''---'' @ [nl]) rest of
          Some (block, _) \<Rightarrow> Ret (Inr block)
        | None \<Rightarrow>
            if length rest \<ge> 4 \<and> drop (length rest - 4) rest = [nl] @ ''---''
            then Ret (Inr (take (length rest - 4) rest))
            else Ret (Inl (errorf ''SKILL.md frontmatter is missing closing '---' fence'')))"

definition parseFrontmatter :: "codecs \<Rightarrow> string \<Rightarrow> skill_frontmatter go" where
  "parseFrontmatter cs content =
     bindGo (frontmatterBlock content) (\<lambda>r.
       case r of
         Inl err \<Rightarrow> Ret (Inl err)
       | Inr block \<Rightarrow>
           (case yamlFrontmatter cs block of
              Inl err \<Rightarrow> Ret (Inl (wrapf ''parse frontmatter: '' err))
            | Inr fm \<Rightarrow> Ret (Inr fm)))"

definition applyOverlay :: "skill_overlay \<Rightarrow> gomap \<Rightarrow> gomap" where
  "applyOverlay overlay spec =
     (let spec = (if ovStatus overlay \<noteq> [] then AList.update ''status'' (GStr (ovStatus overlay)) spec else spec);
          spec = (if length (ovTags overlay) > 0
                  then AList.update ''tags'' (GList (map GStr (ovTags overlay))) spec else spec)
      in case ovGrants overlay of
           None \<Rightarrow> spec
         | Some agents \<Rightarrow>
             if length agents > 0
             then AList.update ''grants'' (GMap [(''agents'', GList (map GStr agents))]) spec
             else spec)"

definition withOverlay :: "codecs \<Rightarrow> disk \<Rightarrow> string \<Rightarrow> string \<Rightarrow> gomap \<Rightarrow> resource result" where
  "withOverlay cs d overlayPath slug spec =
     (case diskRead d overlayPath of
        Inr bytes \<Rightarrow>
          (case yamlOverlay cs bytes of
             Inl err \<Rightarrow> Inl (wrapf (overlayPath @ '': '') err)
           | Inr overlay \<Rightarrow> Inr (plainResource KindSkill slug (Some (applyOverlay overlay spec))))
      | Inl err \<Rightarrow>
          if \<not> errorsIs err ErrNotExist then Inl (wrapf (''read '' @ overlayPath @ '': '') err)
          else Inr (plainResource KindSkill slug (Some spec)))"

definition loadSkillDir :: "codecs \<Rightarrow> disk \<Rightarrow> string \<Rightarrow> string \<Rightarrow> string \<Rightarrow> resource go" where
  "loadSkillDir cs d skillDir slug scope =
     (let skillMDPath = JoinPath [skillDir, ''SKILL.md''] in
      case diskRead d skillMDPath of
        Inl err \<Rightarrow> Ret (Inl (wrapf (''read '' @ skillMDPath @ '': '') err))
      | Inr mdBytes \<Rightarrow>
          bindGo (parseFrontmatter cs mdBytes) (\<lambda>r.
            case r of
              Inl err \<Rightarrow> Ret (Inl (wrapf (skillMDPath @ '': '') err))
            | Inr fm \<Rightarrow>
                if fmName fm = []
                then Ret (Inl (errorf (skillMDPath @ '': frontmatter is missing required field '' @ [squote] @ ''name'' @ [squote])))
                else
                  let visibility = (if scope = ''global'' then ''public'' else ''internal'') in
                  Ret (withOverlay cs d (JoinPath [skillDir, ''frontmatter.yaml'']) slug
                    [(''description'', GStr (fmDescription fm)), (''visibility'', GStr visibility),
                     (''sourceDir'', GStr skillDir)])))"

fun isDirNode :: "fsnode \<Rightarrow> bool" where
  "isDirNode (FDir es) = True"
| "isDirNode FDenied = True"
| "isDirNode _ = False"

text \<open>\<open>os.ReadDir\<close>: the entries sorted by name.\<close>

definition readDir :: "disk \<Rightarrow> string \<Rightarrow> (string \<times> fsnode) list result" where
  "readDir d p =
     (case nodeAt d p of
        Some (FDir es) \<Rightarrow> Inr (sort_key fst es)
      | None \<Rightarrow> Inl (GoErr (Some ErrNotExist) (''open '' @ p @ '': no such file or directory''))
      | Some FDenied \<Rightarrow> Inl (errorf (''open '' @ p @ '': permission denied''))
      | Some _ \<Rightarrow> Inl (errorf (''readdirent '' @ p @ '': not a directory'')))"

fun skillDirs ::
  "codecs \<Rightarrow> disk \<Rightarrow> string \<Rightarrow> string \<Rightarrow> (string \<times> fsnode) list \<Rightarrow> strmap \<Rightarrow> resource list \<Rightarrow> resource list go"
where
  "skillDirs cs d skillsDir scope [] seen out = Ret (Inr out)"
| "skillDirs cs d skillsDir scope ((name, n) # es) seen out =
     (if \<not> isDirNode n \<or> hasPrefix ''.'' name then skillDirs cs d skillsDir scope es seen out
      else
        let skillDir = JoinPath [skillsDir, name] in
        bindGo (loadSkillDir cs d skillDir name scope) (\<lambda>r.
          case r of
            Inl err \<Rightarrow> Ret (Inl err)
          | Inr res \<Rightarrow>
              (case map_of seen (resName res) of
                 Some prior \<Rightarrow> Ret (Inl (errorf (''duplicate skill slug '' @ goQuote (resName res) @ '' at '' @ prior @ '' and '' @ skillDir)))
               | None \<Rightarrow>
                   skillDirs cs d skillsDir scope es (AList.update (resName res) skillDir seen) (out @ [res]))))"

text \<open>The skill directories, then the overrides file, of \<open>LoadSkillResources\<close>.\<close>

definition skillsFromDirs :: "codecs \<Rightarrow> disk \<Rightarrow> string \<Rightarrow> string \<Rightarrow> resource list go" where
  "skillsFromDirs cs d skillsDir scope =
     (case nodeAt d skillsDir of
        Some n \<Rightarrow>
          if isDirNode n then
            (case readDir d skillsDir of
               Inl err \<Rightarrow> Ret (Inl (wrapf (''readdir '' @ skillsDir @ '': '') err))
             | Inr entries \<Rightarrow> skillDirs cs d skillsDir scope entries [] [])
          else Ret (Inr [])
      | None \<Rightarrow> Ret (Inr []))"

definition skillOverrides :: "codecs \<Rightarrow> disk \<Rightarrow> string \<Rightarrow> resource list result" where
  "skillOverrides cs d overridesPath =
     (case diskRead d overridesPath of
        Inr bytes \<Rightarrow>
          (case yamlOverrides cs bytes of
             Inl err \<Rightarrow> Inl (wrapf (''parse '' @ overridesPath @ '': '') err)
           | Inr doc \<Rightarrow>
               Inr (map (\<lambda>(slug, enabled).
                 plainResource KindSkillConfig slug (Some [(''enabled'', GBool enabled)])) doc))
      | Inl err \<Rightarrow>
          if \<not> errorsIs err ErrNotExist
          then Inl (wrapf (''read '' @ overridesPath @ '': '') err)
          else Inr [])"

definition LoadSkillResources :: "codecs \<Rightarrow> disk \<Rightarrow> string \<Rightarrow> resource list go" where
  "LoadSkillResources cs d dir =
     (let scope = (if Base dir = systemTenant then ''global'' else ''tenant'')
      in bindGo (skillsFromDirs cs d (JoinPath [dir, skillsSubdir]) scope) (\<lambda>r.
           case r of
             Inl err \<Rightarrow> Ret (Inl err)
           | Inr out \<Rightarrow>
               (case skillOverrides cs d (JoinPath [dir, skillOverridesFile]) of
                  Inl err \<Rightarrow> Ret (Inl err)
                | Inr configs \<Rightarrow> Ret (Inr (out @ configs)))))"

section \<open>Manifest files\<close>

definition maxManifestFileSize :: int where
  "maxManifestFileSize = 10485760"

fun nodeSize :: "fsnode \<Rightarrow> int" where
  "nodeSize (FFile (Some b)) = int (length b)"
| "nodeSize (FSpecial (Some b)) = int (length b)"
| "nodeSize _ = 0"

definition statErr :: "string \<Rightarrow> goerr" where
  "statErr path = GoErr (Some ErrNotExist) (''stat '' @ path @ '': stat '' @ path @ '': no such file or directory'')"

text \<open>The defaults for a missing version and kind.\<close>

definition withDefaults :: "manifest \<Rightarrow> manifest" where
  "withDefaults m =
     (let m = (if APIVersion m = [] then m\<lparr>APIVersion := ''gcplane.io/v1''\<rparr> else m)
      in if manKind m = [] then m\<lparr>manKind := ''Manifest''\<rparr> else m)"

definition loadFile :: "codecs \<Rightarrow> disk \<Rightarrow> string \<Rightarrow> manifest result" where
  "loadFile cs d path =
     (case nodeAt d path of
        None \<Rightarrow> Inl (statErr path)
      | Some n \<Rightarrow>
          if nodeSize n > maxManifestFileSize
          then Inl (errorf (''manifest file '' @ path @ '' is '' @ showNat (nat (nodeSize n)) @
                 '' bytes, exceeds 10485760 byte limit''))
          else
          (case diskRead d path of
             Inl err \<Rightarrow> Inl (wrapf (''read '' @ path @ '': '') err)
           | Inr bytes \<Rightarrow>
          (case yamlManifest cs bytes of
             Inl err \<Rightarrow> Inl (wrapf (''parse '' @ path @ '': '') err)
           | Inr m \<Rightarrow>
               (case ExpandComposites cs (withDefaults m) of
                  Inl err \<Rightarrow> Inl (wrapf (''expand composites in '' @ path @ '': '') err)
                | Inr m \<Rightarrow> Inr m))))"

fun mergeResources :: "(string \<Rightarrow> goerr) \<Rightarrow> resource list \<Rightarrow> string list \<Rightarrow> resource list \<Rightarrow> (string list \<times> resource list) result" where
  "mergeResources dup [] seen out = Inr (seen, out)"
| "mergeResources dup (r # rs) seen out =
     (let key = uidOf r in
      if key \<in> set seen then Inl (dup key)
      else mergeResources dup rs (key # seen) (out @ [r]))"

definition emptyManifest :: manifest where
  "emptyManifest = \<lparr>APIVersion = ''gcplane.io/v1'', manKind = ''Manifest'', Metadata = \<lparr>metaName = [], Environment = []\<rparr>,
     Connection = \<lparr>Endpoint = [], Token = [], TenantID = [], UserID = []\<rparr>, Resources = []\<rparr>"

definition isYamlName :: "string \<Rightarrow> bool" where
  "isYamlName name \<longleftrightarrow> map toLowerC (Ext name) \<in> {''.yaml'', ''.yml''}"

text \<open>The first file with a connection, and the first with a name, wins.\<close>

definition adoptHeader :: "manifest \<Rightarrow> manifest \<Rightarrow> manifest" where
  "adoptHeader merged m =
     (let merged = (if Endpoint (Connection merged) = [] \<and> Endpoint (Connection m) \<noteq> []
                    then merged\<lparr>Connection := Connection m\<rparr> else merged)
      in if metaName (Metadata merged) = [] \<and> metaName (Metadata m) \<noteq> []
         then merged\<lparr>Metadata := Metadata m\<rparr> else merged)"

fun loadEntries ::
  "codecs \<Rightarrow> disk \<Rightarrow> string \<Rightarrow> (string \<times> fsnode) list \<Rightarrow> manifest \<Rightarrow> string list \<Rightarrow> (manifest \<times> string list) result"
where
  "loadEntries cs d dir [] merged seen = Inr (merged, seen)"
| "loadEntries cs d dir ((name, n) # es) merged seen =
     (if isDirNode n \<or> \<not> isYamlName name \<or> name = skillOverridesFile
      then loadEntries cs d dir es merged seen
      else case loadFile cs d (JoinPath [dir, name]) of
             Inl err \<Rightarrow> Inl err
           | Inr m \<Rightarrow>
               (case mergeResources (\<lambda>key. errorf (''duplicate resource '' @ key @ '' in directory '' @ dir))
                       (Resources m) seen (Resources merged) of
                  Inl err \<Rightarrow> Inl err
                | Inr (seen, out) \<Rightarrow>
                    loadEntries cs d dir es ((adoptHeader merged m)\<lparr>Resources := out\<rparr>) seen))"

definition loadDir :: "codecs \<Rightarrow> disk \<Rightarrow> string \<Rightarrow> manifest go" where
  "loadDir cs d dir =
     (case readDir d dir of
        Inl err \<Rightarrow> Ret (Inl (wrapf (''readdir '' @ dir @ '': '') err))
      | Inr entries \<Rightarrow>
     (case loadEntries cs d dir entries emptyManifest [] of
        Inl err \<Rightarrow> Ret (Inl err)
      | Inr (merged, seen) \<Rightarrow>
          bindGo (LoadSkillResources cs d dir) (\<lambda>r.
            case r of
              Inl err \<Rightarrow> Ret (Inl (wrapf (''load filesystem skills in '' @ dir @ '': '') err))
            | Inr skillRes \<Rightarrow>
                (case mergeResources (\<lambda>key. errorf (key @ '' declared both in YAML and as filesystem skill '' @ emDash @
                         '' remove one (dir: '' @ dir @ '')''))
                        skillRes seen (Resources merged) of
                   Inl err \<Rightarrow> Ret (Inl err)
                 | Inr (seen, out) \<Rightarrow>
                     (case ExpandComposites cs (merged\<lparr>Resources := out\<rparr>) of
                        Inl err \<Rightarrow> Ret (Inl (wrapf (''expand composites in '' @ dir @ '': '') err))
                      | Inr m \<Rightarrow> Ret (Inr m))))))"

definition LoadM :: "codecs \<Rightarrow> disk \<Rightarrow> string \<Rightarrow> manifest go" where
  "LoadM cs d path =
     (case nodeAt d path of
        None \<Rightarrow> Ret (Inl (statErr path))
      | Some n \<Rightarrow> if isDirNode n then loadDir cs d path else Ret (loadFile cs d path))"


section \<open>What loading guarantees\<close>

lemma mergeResources_Inr:
  "mergeResources dup rs seen out = Inr (seen', out') \<Longrightarrow>
     out' = out @ rs \<and> set seen' = uidOf ` set rs \<union> set seen \<and>
     distinct (map uidOf rs) \<and> uidOf ` set rs \<inter> set seen = {}"
proof (induction rs arbitrary: seen out)
  case (Cons r rs)
  then have ns: "uidOf r \<notin> set seen" and "mergeResources dup rs (uidOf r # seen) (out @ [r]) = Inr (seen', out')"
    by (auto simp: Let_def split: if_splits)
  from Cons.IH [OF this(2)] ns show ?case by auto
qed simp

lemma loadEntries_distinct:
  "loadEntries cs d dir es merged seen = Inr (m, seen') \<Longrightarrow>
     distinct (map uidOf (Resources merged)) \<Longrightarrow> set seen = uidOf ` set (Resources merged) \<Longrightarrow>
     distinct (map uidOf (Resources m)) \<and> set seen' = uidOf ` set (Resources m)"
proof (induction es arbitrary: merged seen)
  case (Cons e es)
  obtain name n where e: "e = (name, n)" by (cases e)
  show ?case
  proof (cases "isDirNode n \<or> \<not> isYamlName name \<or> name = skillOverridesFile")
    case True
    with Cons e show ?thesis by auto
  next
    case False
    with Cons.prems(1) e obtain m1 where m1: "loadFile cs d (JoinPath [dir, name]) = Inr m1"
      by (auto split: sum.splits)
    let ?m2 = "adoptHeader merged m1"
    from Cons.prems(1) e False m1 obtain seen1 out where
      mr: "mergeResources (\<lambda>key. errorf (''duplicate resource '' @ key @ '' in directory '' @ dir))
         (Resources m1) seen (Resources merged) = Inr (seen1, out)"
      and rest: "loadEntries cs d dir es (?m2\<lparr>Resources := out\<rparr>) seen1 = Inr (m, seen')"
      by (auto split: sum.splits)
    from mergeResources_Inr [OF mr] Cons.prems(2,3) have
      "distinct (map uidOf (Resources (?m2\<lparr>Resources := out\<rparr>)))"
      "set seen1 = uidOf ` set (Resources (?m2\<lparr>Resources := out\<rparr>))"
      by auto
    from Cons.IH [OF rest this] show ?thesis .
  qed
qed auto

text \<open>
  The specification of expansion. The definition of a kind is the last resource that defines it; its
  templates are read off its spec; the context of an instance maps \<open>name\<close> to its name unless its spec does
  (the keys of a spec are distinct, so their order is immaterial).
\<close>

definition definitionOf :: "resource list \<Rightarrow> resource_kind \<Rightarrow> resource option" where
  "definitionOf rs kind = find (\<lambda>d. resKind d = ''CompositeDefinition'' \<and> resName d = kind) (rev rs)"

definition templateOf :: "gval \<Rightarrow> resource \<Rightarrow> bool" where
  "templateOf raw t \<longleftrightarrow> (\<exists>m. raw = GMap m \<and> resKind t = strOr (map_of m ''kind'') \<and> resName t = strOr (map_of m ''name'') \<and>
     Labels t = [] \<and> Annotations t = [] \<and> Spec t = asMap (map_of m ''spec''))"

definition contextOf :: "resource \<Rightarrow> gomap \<Rightarrow> bool" where
  "contextOf r ctx \<longleftrightarrow> map_of ctx = [''name'' \<mapsto> GStr (resName r)] ++ map_of (rev (specMap r))"

definition instantiates :: "codecs \<Rightarrow> resource \<Rightarrow> resource \<Rightarrow> resource \<Rightarrow> bool" where
  "instantiates cs r tmpl x \<longleftrightarrow>
     resKind x = resKind tmpl \<and> Labels x = Labels r \<and>
     (\<exists>ctx y z. contextOf r ctx \<and> renderTemplate cs (resName tmpl) ctx = Inr (resName x) \<and>
        yamlMarshal cs (Spec tmpl) = Inr y \<and> renderTemplate cs y ctx = Inr z \<and> yamlSpec cs z = Inr (Spec x))"

definition expansionOf :: "codecs \<Rightarrow> resource list \<Rightarrow> resource \<Rightarrow> resource list \<Rightarrow> bool" where
  "expansionOf cs rs r out \<longleftrightarrow>
     (case definitionOf rs (resKind r) of
        None \<Rightarrow> out = [r]
      | Some d \<Rightarrow> (\<exists>raws ts. asList (map_of (specMap d) ''resources'') = Some raws \<and> list_all2 templateOf raws ts \<and>
          list_all2 (instantiates cs r) ts out))"

lemma overlaySpec_map: "map_of (overlaySpec spec ctx) = map_of ctx ++ map_of (rev spec)"
proof (induction spec ctx rule: overlaySpec.induct)
  case (2 k v spec ctx)
  then show ?case by (simp add: update_conv' fun_eq_iff map_add_def split: option.split)
qed simp

lemma contextOf_buildContext: "contextOf r (buildContext r)"
  by (simp add: contextOf_def buildContext_def overlaySpec_map)

lemma parseTemplates_Inr: "parseTemplates name i raws = Inr ts \<Longrightarrow> list_all2 templateOf raws ts"
  by (induction raws arbitrary: i ts)
     (auto simp: templateOf_def plainResource_def split: option.splits sum.splits)

lemma parseDefinition_Inr:
  "parseDefinition d = Inr def \<Longrightarrow>
     \<exists>raws. asList (map_of (specMap d) ''resources'') = Some raws \<and> list_all2 templateOf raws (templates def)"
  by (auto simp: parseDefinition_def dest!: parseTemplates_Inr split: option.splits sum.splits)

text \<open>A registry that holds, for every kind, what its last definition parses to.\<close>

definition registers :: "resource list \<Rightarrow> composite_registry \<Rightarrow> bool" where
  "registers rs reg \<longleftrightarrow>
     (\<forall>k. rel_option (\<lambda>d def. parseDefinition d = Inr def) (definitionOf rs k) (map_of reg k))"

lemma definitionOf_snoc:
  "definitionOf (rs @ [r]) k =
     (if resKind r = ''CompositeDefinition'' \<and> resName r = k then Some r else definitionOf rs k)"
  by (simp add: definitionOf_def)

lemma extractDefinitions_registers:
  "extractDefinitions rs reg rem = Inr (reg', rem') \<Longrightarrow> registers earlier reg \<Longrightarrow>
     rem' = rem @ filter (\<lambda>r. resKind r \<noteq> ''CompositeDefinition'') rs \<and> registers (earlier @ rs) reg'"
proof (induction rs arbitrary: reg rem earlier)
  case (Cons r rs)
  show ?case
  proof (cases "resKind r = ''CompositeDefinition''")
    case False
    then have "registers (earlier @ [r]) reg" using Cons.prems(2) by (simp add: registers_def definitionOf_snoc)
    moreover have "extractDefinitions rs reg (rem @ [r]) = Inr (reg', rem')" using Cons.prems(1) False by simp
    ultimately show ?thesis using Cons.IH [of reg "rem @ [r]" "earlier @ [r]"] False by simp
  next
    case True
    with Cons.prems(1) obtain def where def: "parseDefinition r = Inr def"
      "extractDefinitions rs (AList.update (resName r) def reg) rem = Inr (reg', rem')" by (auto split: sum.splits)
    have "registers (earlier @ [r]) (AList.update (resName r) def reg)"
      using Cons.prems(2) def(1) True
      by (simp add: registers_def definitionOf_snoc update_conv')
    from Cons.IH [OF def(2) this] True show ?thesis by simp
  qed
qed simp

lemma expandTemplates_Inr:
  "expandTemplates cs def r ts = Inr out \<Longrightarrow> list_all2 (instantiates cs r) ts out"
proof (induction ts arbitrary: out)
  case (Cons t ts)
  obtain x where x: "expandResource cs t (buildContext r) = Inr x" using Cons.prems by (auto split: sum.splits)
  let ?x = "if length (Labels r) > 0 then x\<lparr>Labels := Labels r\<rparr> else x"
  from Cons.prems x obtain rest where rest: "expandTemplates cs def r ts = Inr rest" "out = ?x # rest"
    by (auto simp: Let_def split: sum.splits)
  from x have "resKind ?x = resKind t \<and> Labels ?x = Labels r \<and>
     renderTemplate cs (resName t) (buildContext r) = Inr (resName ?x) \<and>
     (\<exists>y z. yamlMarshal cs (Spec t) = Inr y \<and> renderTemplate cs y (buildContext r) = Inr z \<and> yamlSpec cs z = Inr (Spec ?x))"
    by (auto simp: expandResource_def plainResource_def split: sum.splits)
  then have "instantiates cs r t ?x" using contextOf_buildContext [of r] unfolding instantiates_def by blast
  with Cons.IH [OF rest(1)] rest(2) show ?case by simp
qed simp

text \<open>The labels of an instance are copied to what it expands to, its annotations are not.\<close>

lemma expansion_drops_annotations:
  "expandTemplates cs def r ts = Inr out \<Longrightarrow> x \<in> set out \<Longrightarrow> Labels x = Labels r \<and> Annotations x = []"
  by (induction ts arbitrary: out)
     (auto simp: expandResource_def plainResource_def Let_def split: sum.splits if_splits)

lemma expandInstances_Inr:
  "registers all reg \<Longrightarrow> expandInstances cs rs reg = Inr out \<Longrightarrow>
     \<exists>outs. out = concat outs \<and> list_all2 (expansionOf cs all) rs outs"
proof (induction rs arbitrary: out)
  case Nil
  then show ?case by (auto intro: exI [of _ "[]"])
next
  case (Cons r rs)
  then obtain here rest where h: "(case map_of reg (resKind r) of
              None \<Rightarrow> Inr [r]
            | Some def \<Rightarrow> expandTemplates cs def r (templates def)) = Inr here"
    and rest: "expandInstances cs rs reg = Inr rest" and out: "out = here @ rest"
    by (auto split: sum.splits)
  have reg: "rel_option (\<lambda>d def. parseDefinition d = Inr def) (definitionOf all (resKind r)) (map_of reg (resKind r))"
    using Cons.prems(1) unfolding registers_def by blast
  have "expansionOf cs all r here"
  proof (cases "definitionOf all (resKind r)")
    case None
    with reg have "map_of reg (resKind r) = None" by simp
    with h None show ?thesis by (simp add: expansionOf_def)
  next
    case (Some d)
    with reg obtain def where def: "parseDefinition d = Inr def" "map_of reg (resKind r) = Some def"
      by (auto simp: option_rel_Some1)
    with h expandTemplates_Inr have "list_all2 (instantiates cs r) (templates def) here" by simp
    with Some parseDefinition_Inr [OF def(1)] show ?thesis by (auto simp: expansionOf_def)
  qed
  with Cons.IH [OF Cons.prems(1) rest] out show ?case by (metis concat.simps(2) list_all2_Cons)
qed

text \<open>Resources without definitions are their own expansion, whatever their kinds.\<close>

definition noDefinition :: "resource list \<Rightarrow> bool" where
  "noDefinition rs \<longleftrightarrow> (\<forall>r \<in> set rs. resKind r \<noteq> ''CompositeDefinition'')"

lemma extractDefinitions_none:
  "noDefinition rs \<Longrightarrow> extractDefinitions rs reg rem = Inr (reg, rem @ rs)"
  by (induction rs arbitrary: rem) (auto simp: noDefinition_def)

lemma ExpandComposites_none: "noDefinition (Resources m) \<Longrightarrow> ExpandComposites cs m = Inr m"
  by (simp add: ExpandComposites_def extractDefinitions_none)

text \<open>The files of a directory that hold manifests.\<close>

definition manifestNames :: "(string \<times> fsnode) list \<Rightarrow> string list" where
  "manifestNames es = map fst (filter (\<lambda>(name, n). \<not> isDirNode n \<and> isYamlName name \<and> name \<noteq> skillOverridesFile) es)"

text \<open>The first of the files that has a connection, or a name.\<close>

definition firstOr :: "('a \<Rightarrow> bool) \<Rightarrow> 'a list \<Rightarrow> 'a \<Rightarrow> 'a" where
  "firstOr P xs x = (case find P xs of None \<Rightarrow> x | Some y \<Rightarrow> y)"

definition hasEndpoint :: "connection \<Rightarrow> bool" where
  "hasEndpoint c \<longleftrightarrow> Endpoint c \<noteq> []"

definition hasName :: "metadata \<Rightarrow> bool" where
  "hasName md \<longleftrightarrow> metaName md \<noteq> []"

lemma firstOr_simps [simp]: "firstOr P [] x = x" "firstOr P (y # ys) x = (if P y then y else firstOr P ys x)"
  by (simp_all add: firstOr_def)

lemma adoptHeader_header:
  "Connection (adoptHeader merged m) = firstOr hasEndpoint [Connection merged, Connection m] (Connection merged)"
  "Metadata (adoptHeader merged m) = firstOr hasName [Metadata merged, Metadata m] (Metadata merged)"
  by (auto simp: adoptHeader_def Let_def hasEndpoint_def hasName_def)

lemma firstOr_adopt: "firstOr P (firstOr P [x, y] x # ys) (firstOr P [x, y] x) = firstOr P (x # y # ys) x"
  by (auto simp: firstOr_def split: option.split)

lemma loadEntries_files:
  "loadEntries cs d dir es merged seen = Inr (m, seen') \<Longrightarrow>
     \<exists>files. list_all2 (\<lambda>name f. loadFile cs d (JoinPath [dir, name]) = Inr f) (manifestNames es) files \<and>
       Resources m = Resources merged @ concat (map Resources files) \<and>
       Connection m = firstOr hasEndpoint (Connection merged # map Connection files) (Connection merged) \<and>
       Metadata m = firstOr hasName (Metadata merged # map Metadata files) (Metadata merged)"
proof (induction es arbitrary: merged seen)
  case Nil
  then show ?case by (auto simp: manifestNames_def)
next
  case (Cons e es)
  obtain name n where e: "e = (name, n)" by (cases e)
  show ?case
  proof (cases "isDirNode n \<or> \<not> isYamlName name \<or> name = skillOverridesFile")
    case True
    with Cons e show ?thesis by (auto simp: manifestNames_def)
  next
    case False
    with Cons.prems(1) e obtain f seen1 where f: "loadFile cs d (JoinPath [dir, name]) = Inr f"
      and rest: "loadEntries cs d dir es ((adoptHeader merged f)\<lparr>Resources := Resources merged @ Resources f\<rparr>) seen1 = Inr (m, seen')"
      by (auto split: sum.splits dest!: mergeResources_Inr)
    let ?m1 = "(adoptHeader merged f)\<lparr>Resources := Resources merged @ Resources f\<rparr>"
    from Cons.IH [OF rest] obtain files where
      fs: "list_all2 (\<lambda>name f. loadFile cs d (JoinPath [dir, name]) = Inr f) (manifestNames es) files"
        "Resources m = Resources ?m1 @ concat (map Resources files)"
        "Connection m = firstOr hasEndpoint (Connection ?m1 # map Connection files) (Connection ?m1)"
        "Metadata m = firstOr hasName (Metadata ?m1 # map Metadata files) (Metadata ?m1)" by blast
    have "manifestNames (e # es) = name # manifestNames es" using False e by (simp add: manifestNames_def)
    moreover have "Connection m = firstOr hasEndpoint (Connection merged # map Connection (f # files)) (Connection merged)"
      "Metadata m = firstOr hasName (Metadata merged # map Metadata (f # files)) (Metadata merged)"
      using firstOr_adopt [of hasEndpoint "Connection merged" "Connection f" "map Connection files"]
        firstOr_adopt [of hasName "Metadata merged" "Metadata f" "map Metadata files"] fs(3,4)
      by (simp_all add: adoptHeader_header del: firstOr_simps)
    ultimately show ?thesis using fs(1,2) f by (intro exI [of _ "f # files"]) simp
  qed
qed

lemma withOverlay_kind: "withOverlay cs d p slug spec = Inr r \<Longrightarrow> resKind r = KindSkill \<and> resName r = slug"
  by (auto simp: withOverlay_def plainResource_def split: sum.splits if_splits)

lemma loadSkillDir_kind: "loadSkillDir cs d skillDir slug scope = Ret (Inr r) \<Longrightarrow> resKind r = KindSkill \<and> resName r = slug"
  unfolding loadSkillDir_def Let_def
  by (auto simp: bindGo_Inr simp del: append.simps split: sum.splits if_split_asm dest!: withOverlay_kind)

lemma skillDirs_kind:
  "skillDirs cs d skillsDir scope es seen out = Ret (Inr out') \<Longrightarrow>
     (\<forall>r \<in> set out. resKind r = KindSkill) \<Longrightarrow> (\<forall>r \<in> set out'. resKind r = KindSkill)"
proof (induction es arbitrary: seen out)
  case (Cons e es)
  obtain name n where e: "e = (name, n)" by (cases e)
  show ?case
  proof (cases "\<not> isDirNode n \<or> hasPrefix ''.'' name")
    case True
    with Cons.prems(1) e have "skillDirs cs d skillsDir scope es seen out = Ret (Inr out')"
      by (simp del: bindGo.simps split: if_splits)
    from Cons.IH [OF this Cons.prems(2)] show ?thesis .
  next
    case False
    with Cons.prems(1) e have "bindGo (loadSkillDir cs d (JoinPath [skillsDir, name]) name scope) (\<lambda>r.
          case r of
            Inl err \<Rightarrow> Ret (Inl err)
          | Inr res \<Rightarrow>
              (case map_of seen (resName res) of
                 Some prior \<Rightarrow> Ret (Inl (errorf (''duplicate skill slug '' @ goQuote (resName res) @ '' at '' @ prior @
                   '' and '' @ JoinPath [skillsDir, name])))
               | None \<Rightarrow>
                   skillDirs cs d skillsDir scope es (AList.update (resName res) (JoinPath [skillsDir, name]) seen)
                     (out @ [res]))) = Ret (Inr out')"
      by (simp add: Let_def)
    then obtain res seen1 where
      l: "loadSkillDir cs d (JoinPath [skillsDir, name]) name scope = Ret (Inr res)"
      and rest: "skillDirs cs d skillsDir scope es seen1 (out @ [res]) = Ret (Inr out')"
      by (elim bindGo_InrE) (auto split: option.split_asm)
    from loadSkillDir_kind [OF l] Cons.prems(2) have "\<forall>r \<in> set (out @ [res]). resKind r = KindSkill"
      by simp
    from Cons.IH [OF rest this] show ?thesis .
  qed
qed simp

lemma skillsFromDirs_kind:
  "skillsFromDirs cs d p scope = Ret (Inr out) \<Longrightarrow> \<forall>r \<in> set out. resKind r = KindSkill"
  unfolding skillsFromDirs_def
  by (auto split: option.split_asm if_split_asm sum.split_asm dest: skillDirs_kind)

lemma skillOverrides_kind:
  "skillOverrides cs d p = Inr out \<Longrightarrow> \<forall>r \<in> set out. resKind r = KindSkillConfig"
  by (auto simp: skillOverrides_def plainResource_def split: sum.split_asm if_split_asm)

lemma LoadSkillResources_noDefinition:
  assumes "LoadSkillResources cs d dir = Ret (Inr out)"
  shows "noDefinition out"
proof -
  from assms obtain base configs scope where
    "skillsFromDirs cs d (JoinPath [dir, skillsSubdir]) scope = Ret (Inr base)"
    "skillOverrides cs d (JoinPath [dir, skillOverridesFile]) = Inr configs" "out = base @ configs"
    unfolding LoadSkillResources_def Let_def by (elim bindGo_InrE) (auto split: sum.split_asm)
  with skillsFromDirs_kind skillOverrides_kind show ?thesis by (fastforce simp: noDefinition_def)
qed

lemma loadDir_Inr:
  assumes "loadDir cs d dir = Ret (Inr m)"
  obtains entries merged seen skillRes dup seen' out where
    "readDir d dir = Inr entries" "loadEntries cs d dir entries emptyManifest [] = Inr (merged, seen)"
    "LoadSkillResources cs d dir = Ret (Inr skillRes)"
    "mergeResources dup skillRes seen (Resources merged) = Inr (seen', out)"
    "ExpandComposites cs (merged\<lparr>Resources := out\<rparr>) = Inr m"
proof -
  from assms obtain entries merged seen where
    e: "readDir d dir = Inr entries" "loadEntries cs d dir entries emptyManifest [] = Inr (merged, seen)"
    by (auto simp: loadDir_def simp del: append.simps split: sum.split_asm)
  with assms show ?thesis
    unfolding loadDir_def
    by (simp only: sum.case prod.case, elim bindGo_InrE)
       (auto simp del: append.simps split: sum.split_asm intro: that)
qed

lemma distinct_uid_ident: "distinct (map uidOf rs) \<Longrightarrow> distinct (map ident rs)"
  by (induction rs) (auto simp: uidOf_def ident_def)

lemma crlfToLf_id: "cr \<notin> set s \<Longrightarrow> crlfToLf s = s"
  by (induction s rule: crlfToLf.induct) auto

lemma normalizeMd_fenced:
  assumes "cr \<notin> set block" "cr \<notin> set body"
  shows "normalizeMd (''---'' @ [nl] @ block @ [nl] @ ''---'' @ [nl] @ body) =
    ''---'' @ [nl] @ block @ [nl] @ ''---'' @ [nl] @ body"
proof -
  have c: "cr \<noteq> nl" "cr \<noteq> CHR ''-''" "\<not> leftTrimmed (CHR ''-'')" "char_of (239 :: nat) \<noteq> CHR ''-''" by code_simp+
  then have "normalizeMd (''---'' @ [nl] @ block @ [nl] @ ''---'' @ [nl] @ body) =
     crlfToLf (''---'' @ [nl] @ block @ [nl] @ ''---'' @ [nl] @ body)"
    by (simp add: normalizeMd_def trimPrefix_def hasPrefix_def)
  with c assms show ?thesis by (subst crlfToLf_id [symmetric]) auto
qed

lemma strCut_fence:
  "\<not> strContains (block @ [nl]) ([nl] @ ''---'' @ [nl]) \<Longrightarrow>
     strCut ([nl] @ ''---'' @ [nl]) (block @ [nl] @ ''---'' @ [nl] @ body) = Some (block, body)"
proof (induction block)
  case (Cons c block)
  have d: "CHR ''-'' \<noteq> nl" by code_simp
  from Cons.prems have nc: "\<not> strContains (block @ [nl]) ([nl] @ ''---'' @ [nl])"
    by (auto simp: strContains_iff) (metis append_Cons)
  moreover have "\<not> hasPrefix ([nl] @ ''---'' @ [nl]) ((c # block) @ [nl] @ ''---'' @ [nl] @ body)"
  proof
    assume "hasPrefix ([nl] @ ''---'' @ [nl]) ((c # block) @ [nl] @ ''---'' @ [nl] @ body)"
    then have "hasPrefix ([nl] @ ''---'' @ [nl]) ((c # block) @ [nl])"
      using d by (auto simp: hasPrefix_def take_Cons' split: if_splits)
    then obtain t where "(c # block) @ [nl] = [] @ ([nl] @ ''---'' @ [nl]) @ t" by (auto simp: hasPrefix_iff)
    then have "strContains ((c # block) @ [nl]) ([nl] @ ''---'' @ [nl])" unfolding strContains_iff by blast
    with Cons.prems show False by contradiction
  qed
  ultimately show ?case using Cons.IH by simp
qed (simp add: hasPrefix_def)

section \<open>Properties\<close>

text \<open>
  C38: A directory loads as the resources of its manifest files, in the order of the file names, followed by
  its skills and overrides, no two of one kind and name, with the connection of the first file that has an
  endpoint and the metadata of the first that has a name. What is loaded is the expansion of these resources,
  which are the resources loaded when no composite definition is among them.
\<close>

theorem load_dir_has_no_duplicates:
  assumes "loadDir cs d dir = Ret (Inr m)"
  shows "\<exists>entries files skills merged. readDir d dir = Inr entries \<and>
    list_all2 (\<lambda>name f. loadFile cs d (JoinPath [dir, name]) = Inr f) (manifestNames entries) files \<and>
    LoadSkillResources cs d dir = Ret (Inr skills) \<and>
    Resources merged = concat (map Resources files) @ skills \<and> distinct (map ident (Resources merged)) \<and>
    Connection merged = firstOr hasEndpoint (map Connection files) (Connection emptyManifest) \<and>
    Metadata merged = firstOr hasName (map Metadata files) (Metadata emptyManifest) \<and>
    ExpandComposites cs merged = Inr m \<and> (noDefinition (Resources merged) \<longrightarrow> m = merged)"
proof -
  from assms obtain entries mf seen skills dup seen' out where
    r: "readDir d dir = Inr entries" and e: "loadEntries cs d dir entries emptyManifest [] = Inr (mf, seen)"
    and l: "LoadSkillResources cs d dir = Ret (Inr skills)"
    and mr: "mergeResources dup skills seen (Resources mf) = Inr (seen', out)"
    and x: "ExpandComposites cs (mf\<lparr>Resources := out\<rparr>) = Inr m"
    by (rule loadDir_Inr)
  from loadEntries_files [OF e] obtain files where
    f: "list_all2 (\<lambda>name f. loadFile cs d (JoinPath [dir, name]) = Inr f) (manifestNames entries) files"
      "Resources mf = concat (map Resources files)"
      "Connection mf = firstOr hasEndpoint (map Connection files) (Connection emptyManifest)"
      "Metadata mf = firstOr hasName (map Metadata files) (Metadata emptyManifest)"
    by (auto simp: emptyManifest_def hasEndpoint_def hasName_def)
  from loadEntries_distinct [OF e] have "distinct (map uidOf (Resources mf))" "set seen = uidOf ` set (Resources mf)"
    by (auto simp: emptyManifest_def)
  with mergeResources_Inr [OF mr] have "distinct (map uidOf out)" by auto
  then have d: "distinct (map ident out)" by (rule distinct_uid_ident)
  have out: "out = concat (map Resources files) @ skills" using mergeResources_Inr [OF mr] f(2) by simp
  have "m = mf\<lparr>Resources := out\<rparr>" if "noDefinition out"
    using ExpandComposites_none [of "mf\<lparr>Resources := out\<rparr>" cs] that x by simp
  with r f l d x out show ?thesis
    by (intro exI [of _ entries] exI [of _ files] exI [of _ skills] exI [of _ "mf\<lparr>Resources := out\<rparr>"]) simp
qed

text \<open>A manifest directory with one file, one skill and an overrides file.\<close>

definition demoCodecs :: codecs where
  "demoCodecs = \<lparr>yamlSpec = (\<lambda>y. Inr (Some [(''prompt'', GStr y)])),
     yamlMarshal = (\<lambda>sp. case sp of Some [(k, GStr s)] \<Rightarrow> Inr s | _ \<Rightarrow> Inr []),
     yamlManifest = (\<lambda>b. if b = ''A'' then Inr (emptyManifest\<lparr>Resources := [plainResource KindAgent ''bot'' None]\<rparr>)
        else Inl (errorf ''yaml'')),
     yamlFrontmatter = (\<lambda>b. Inr \<lparr>fmName = b, fmDescription = ''d''\<rparr>),
     yamlOverlay = (\<lambda>b. Inl (errorf ''yaml'')),
     yamlOverrides = (\<lambda>b. Inr [(''pdf'', False)]),
     renderTemplate = (\<lambda>t ctx. Inr (strOr (map_of ctx ''name'') @ t))\<rparr>"

definition demoTenant :: disk where
  "demoTenant = demoDisk
     [(''a.yaml'', FFile (Some ''A'')),
      (''skill-overrides.yaml'', FFile (Some ''O'')),
      (''skills'', FDir [(''pdf'', FDir [(''SKILL.md'', FFile (Some (''---'' @ [nl] @ ''pdf'' @ [nl] @ ''---'')))])])]"

theorem load_dir_has_no_duplicates_witness:
  "\<exists>m. loadDir demoCodecs demoTenant ''/s'' = Ret (Inr m) \<and> length (Resources m) = 3 \<and>
     distinct (map ident (Resources m))"
proof -
  have "case loadDir demoCodecs demoTenant ''/s'' of
      Ret (Inr m) \<Rightarrow> map resKind (Resources m) = [KindAgent, KindSkill, KindSkillConfig] | _ \<Rightarrow> False"
    by code_simp
  then obtain m where m: "loadDir demoCodecs demoTenant ''/s'' = Ret (Inr m)"
    "map resKind (Resources m) = [KindAgent, KindSkill, KindSkillConfig]" by (auto split: go.splits sum.splits)
  from load_dir_has_no_duplicates [OF m(1)] obtain entries files skills merged where
    r: "readDir demoTenant ''/s'' = Inr entries"
    and f: "list_all2 (\<lambda>name f. loadFile demoCodecs demoTenant (JoinPath [''/s'', name]) = Inr f) (manifestNames entries) files"
    and d: "distinct (map ident (Resources merged))"
    and s: "LoadSkillResources demoCodecs demoTenant ''/s'' = Ret (Inr skills)"
    and res: "Resources merged = concat (map Resources files) @ skills" and x: "noDefinition (Resources merged) \<longrightarrow> m = merged"
    by blast
  have "case readDir demoTenant ''/s'' of Inr es \<Rightarrow> manifestNames es = [''a.yaml''] | _ \<Rightarrow> False"
    "case loadFile demoCodecs demoTenant (JoinPath [''/s'', ''a.yaml'']) of Inr f \<Rightarrow> map resKind (Resources f) = [KindAgent] | _ \<Rightarrow> False"
    by code_simp+
  with r f obtain g where g: "files = [g]" "map resKind (Resources g) = [KindAgent]"
    by (auto simp: list_all2_Cons1 split: sum.splits)
  have "noDefinition rs" if "map resKind rs = [KindAgent]" for rs
    using that by (auto simp: noDefinition_def map_eq_Cons_conv)
  with g LoadSkillResources_noDefinition [OF s] have "noDefinition (Resources merged)"
    by (simp add: res noDefinition_def ball_Un)
  with x have "m = merged" by blast
  with m d show ?thesis by (metis length_map list.size(3,4) numeral_3_eq_3 One_nat_def add.right_neutral add_Suc_right)
qed

text \<open>
  C39: Expanding composites: the definitions disappear, a resource whose kind no definition of the manifest
  names stays as it is, and an instance becomes one resource per entry of the \<open>resources\<close> of the last
  definition of its kind, in their order: of the entry's kind, with the entry's name and spec rendered over
  the instance's name and spec, and with the instance's labels. The order of the manifest is kept.
\<close>

theorem composite_expansion:
  assumes "ExpandComposites cs m = Inr m'"
  shows "m' = m\<lparr>Resources := Resources m'\<rparr> \<and>
    (\<exists>outs. Resources m' = concat outs \<and>
       list_all2 (expansionOf cs (Resources m)) (filter (\<lambda>r. resKind r \<noteq> ''CompositeDefinition'') (Resources m)) outs)"
proof -
  let ?rest = "filter (\<lambda>r. resKind r \<noteq> ''CompositeDefinition'') (Resources m)"
  from assms obtain reg rem where x: "extractDefinitions (Resources m) [] [] = Inr (reg, rem)"
    by (auto simp: ExpandComposites_def split: sum.splits)
  have "registers [] []" by (simp add: registers_def definitionOf_def)
  from extractDefinitions_registers [OF x this] have rem: "rem = ?rest" and reg: "registers (Resources m) reg" by simp_all
  show ?thesis
  proof (cases "reg = []")
    case True
    with assms x have m': "m' = m" by (simp add: ExpandComposites_def)
    have none: "definitionOf (Resources m) k = None" for k
      using reg True by (simp add: registers_def)
    then have "noDefinition (Resources m)"
      by (force simp: definitionOf_def find_None_iff noDefinition_def)
    then have rest: "?rest = Resources m" by (simp add: noDefinition_def filter_id_conv)
    have "list_all2 (expansionOf cs (Resources m)) rs (map (\<lambda>r. [r]) rs)" for rs
      by (induction rs) (auto simp: expansionOf_def none)
    then show ?thesis unfolding rest using m' by (intro conjI exI [of _ "map (\<lambda>r. [r]) (Resources m)"]) simp_all
  next
    case False
    with assms x obtain out where out: "expandInstances cs rem reg = Inr out" "m' = m\<lparr>Resources := out\<rparr>"
      by (auto simp: ExpandComposites_def split: sum.splits)
    with expandInstances_Inr [OF reg out(1)] rem show ?thesis by auto
  qed
qed

definition demoComposite :: manifest where
  "demoComposite = emptyManifest\<lparr>Resources :=
     [plainResource ''CompositeDefinition'' ''Team'' (Some [(''resources'', GList
        [GMap [(''kind'', GStr ''Agent''), (''name'', GStr ''-lead''), (''spec'', GMap [(''p'', GStr ''-x'')])],
         GMap [(''kind'', GStr ''CronJob''), (''name'', GStr ''-tick'')]])]),
      (plainResource ''Team'' ''red'' None)\<lparr>Labels := [(''env'', ''dev'')], Annotations := [(''a'', ''b'')]\<rparr>]\<rparr>"

theorem composite_expansion_witness:
  "\<exists>m'. ExpandComposites demoCodecs demoComposite = Inr m' \<and>
     map ident (Resources m') = [(''Agent'', ''red-lead''), (''CronJob'', ''red-tick'')] \<and>
     (\<exists>outs. Resources m' = concat outs \<and>
        list_all2 (expansionOf demoCodecs (Resources demoComposite))
          (filter (\<lambda>r. resKind r \<noteq> ''CompositeDefinition'') (Resources demoComposite)) outs)"
proof -
  have "case ExpandComposites demoCodecs demoComposite of
      Inr m' \<Rightarrow> map ident (Resources m') = [(''Agent'', ''red-lead''), (''CronJob'', ''red-tick'')] | _ \<Rightarrow> False"
    by code_simp
  then obtain m' where m': "ExpandComposites demoCodecs demoComposite = Inr m'"
    "map ident (Resources m') = [(''Agent'', ''red-lead''), (''CronJob'', ''red-tick'')]"
    by (auto split: sum.splits)
  from composite_expansion [OF m'(1)] m' show ?thesis by (intro exI [of _ m']) blast
qed

text \<open>
  Reading a \<open>SKILL.md\<close> panics exactly when, after the byte-order mark, leading blanks and
  carriage returns are gone, the file is the opening fence and nothing else.
\<close>

lemma frontmatter_panics_iff:
  "parseFrontmatter cs content = Panic msg \<longleftrightarrow>
     normalizeMd content = ''---'' \<and> msg = ''slice bounds out of range''"
proof -
  have "frontmatterBlock content = Panic msg \<longleftrightarrow>
     normalizeMd content = ''---'' \<and> msg = ''slice bounds out of range''"
    by (auto simp: frontmatterBlock_def Let_def hasPrefix_iff split: option.splits if_splits)
  then show ?thesis
    unfolding parseFrontmatter_def bindGo_Panic by (auto split: sum.split_asm)
qed

text \<open>
  A well-formed \<open>SKILL.md\<close> is read back: between an opening fence and the next line that is
  exactly the closing fence lies the block the YAML decoder gets, and the body does not matter.
\<close>

lemma frontmatter_roundtrip:
  assumes "cr \<notin> set block" "cr \<notin> set body"
    and "\<not> strContains (block @ [nl]) ([nl] @ ''---'' @ [nl])"
  shows "frontmatterBlock (''---'' @ [nl] @ block @ [nl] @ ''---'' @ [nl] @ body) = Ret (Inr block)"
proof -
  let ?doc = "''---'' @ [nl] @ block @ [nl] @ ''---'' @ [nl] @ body"
  have "normalizeMd ?doc = ?doc" using assms(1,2) by (rule normalizeMd_fenced)
  moreover have "strCut ([nl] @ ''---'' @ [nl]) (block @ [nl] @ ''---'' @ [nl] @ body) = Some (block, body)"
    using assms(3) by (rule strCut_fence)
  ultimately show ?thesis by (simp add: frontmatterBlock_def Let_def hasPrefix_iff)
qed

end
