(* ===== verification/Display.thy ===== *)
theory Display
  imports Engine Loader
begin

text \<open>
  \<open>internal/display/plan.go\<close>: plans, results and drift reports as text. \<open>fmtV\<close> is Go's rendering
  \<open>%v\<close> of a value; a print call is the text it writes.
\<close>


definition escC :: char where "escC = char_of (27 :: nat)"

definition ansi :: "string \<Rightarrow> string" where
  "ansi n = escC # ''['' @ n @ ''m''"

definition colorReset :: string where "colorReset = ansi ''0''"
definition colorGreen :: string where "colorGreen = ansi ''32''"
definition colorYellow :: string where "colorYellow = ansi ''33''"
definition colorRed :: string where "colorRed = ansi ''31''"
definition colorDim :: string where "colorDim = ansi ''2''"
definition colorBold :: string where "colorBold = ansi ''1''"

text \<open>The arrow of a diff line, in UTF-8.\<close>

definition arrow :: string where "arrow = map char_of [226 :: nat, 134, 146]"

definition formatVal :: "(gval \<Rightarrow> string) \<Rightarrow> gval \<Rightarrow> string" where
  "formatVal fmtV v =
     (if v = GNil then ''(none)''
      else let s = fmtV v in if 80 < length s then take 77 s @ ''...'' else trimSpace s)"

definition sortedKeys :: "diffs \<Rightarrow> string list" where
  "sortedKeys d = sort (map fst d)"

definition diffLine :: "(gval \<Rightarrow> string) \<Rightarrow> diffs \<Rightarrow> string \<Rightarrow> string" where
  "diffLine fmtV ds k =
     (case map_of ds k of
        None \<Rightarrow> []
      | Some d \<Rightarrow> ''    '' @ colorDim @ k @ '':'' @ colorReset @ '' '' @ colorRed @ formatVal fmtV (Old d) @ colorReset @
          '' '' @ arrow @ '' '' @ colorGreen @ formatVal fmtV (New d) @ colorReset @ [nl])"

definition resourceLine :: "string \<Rightarrow> string \<Rightarrow> change \<Rightarrow> string \<Rightarrow> string" where
  "resourceLine color mark c note = color @ mark @ '' '' @ chKind c @ ''/'' @ chName c @ note @ colorReset @ [nl]"

definition printDelete :: "change \<Rightarrow> string" where
  "printDelete c = resourceLine colorRed ''-'' c []"

definition printCreate :: "change \<Rightarrow> string" where
  "printCreate c = resourceLine colorGreen ''+'' c []"

definition printUpdate :: "(gval \<Rightarrow> string) \<Rightarrow> change \<Rightarrow> string" where
  "printUpdate fmtV c =
     resourceLine colorYellow ''~'' c (if Forced c then '' (force)'' else []) @
     concat (map (diffLine fmtV (Diff c)) (sortedKeys (Diff c)))"

definition printNoop :: "change \<Rightarrow> string" where
  "printNoop c =
     (if Error c \<noteq> [] then resourceLine colorRed ''!'' c ('' (skipped: '' @ Error c @ '')'')
      else resourceLine colorDim ''='' c '' (no changes)'')"

definition planCounts :: "plan \<Rightarrow> string" where
  "planCounts p = showNat (Creates p) @ '' to create, '' @ showNat (Updates p) @ '' to update, '' @
     showNat (Deletes p) @ '' to delete, '' @ showNat (Noops p) @ '' unchanged''"

definition printChange :: "(gval \<Rightarrow> string) \<Rightarrow> bool \<Rightarrow> change \<Rightarrow> string" where
  "printChange fmtV verbose c =
     (case Action c of
        ActionCreate \<Rightarrow> printCreate c
      | ActionUpdate \<Rightarrow> printUpdate fmtV c
      | ActionDelete \<Rightarrow> printDelete c
      | ActionNoop \<Rightarrow> if verbose then printNoop c else []
      | ActionUnset \<Rightarrow> [])"

definition errorLines :: "string list \<Rightarrow> string" where
  "errorLines errs =
     (if errs = [] then []
      else [nl] @ colorRed @ ''Errors:'' @ colorReset @ [nl] @
        concat (map (\<lambda>e. ''  '' @ colorRed @ e @ colorReset @ [nl]) errs))"

definition PrintPlan :: "(gval \<Rightarrow> string) \<Rightarrow> plan \<Rightarrow> bool \<Rightarrow> string" where
  "PrintPlan fmtV p verbose =
     [nl] @ colorBold @ ''GCPlane Plan:'' @ colorReset @ '' '' @ planCounts p @ [nl, nl] @
     concat (map (printChange fmtV verbose) (Changes p)) @ errorLines (planErrors p) @
     [nl] @ colorBold @ ''Plan:'' @ colorReset @ '' '' @ planCounts p @ ''.'' @ [nl]"

definition PrintPruneWarning :: "nat \<Rightarrow> string" where
  "PrintPruneWarning n = [nl] @ colorBold @ colorRed @ ''Warning:'' @ colorReset @ '' Will delete '' @
     showNat n @ '' resource(s). This cannot be undone.'' @ [nl]"

definition PrintApplyResult :: "apply_result \<Rightarrow> string" where
  "PrintApplyResult r = [nl] @ colorBold @ ''Apply complete!'' @ colorReset @ '' '' @ showNat (Applied r) @
     '' applied, '' @ showNat (Failed r) @ '' failed.'' @ [nl] @ errorLines (resErrors r)"

definition diffChange :: "(gval \<Rightarrow> string) \<Rightarrow> change \<Rightarrow> string" where
  "diffChange fmtV c =
     (case Action c of
        ActionCreate \<Rightarrow> resourceLine colorGreen ''+'' c '' (missing in GoClaw)''
      | ActionUpdate \<Rightarrow> resourceLine colorYellow ''~'' c '' (drifted)'' @
          concat (map (diffLine fmtV (Diff c)) (sortedKeys (Diff c)))
      | ActionNoop \<Rightarrow> if Error c \<noteq> [] then resourceLine colorRed ''!'' c ('' ('' @ Error c @ '')'') else []
      | ActionDelete \<Rightarrow> resourceLine colorRed ''-'' c '' (orphaned in GoClaw)''
      | ActionUnset \<Rightarrow> [])"

definition PrintDiff :: "(gval \<Rightarrow> string) \<Rightarrow> plan \<Rightarrow> string" where
  "PrintDiff fmtV p =
     (if \<not> list_ex (\<lambda>c. Action c \<noteq> ActionNoop \<or> Error c \<noteq> []) (Changes p)
      then ''No drift detected. All resources in sync.'' @ [nl]
      else [nl] @ colorBold @ ''Drift Report:'' @ colorReset @ [nl, nl] @
        concat (map (diffChange fmtV) (Changes p)) @
        [nl] @ colorBold @ ''Summary:'' @ colorReset @ '' '' @ showNat (Updates p) @ '' drifted, '' @
        showNat (Creates p) @ '' missing, '' @ showNat (Noops p) @ '' in sync'' @ [nl])"

section \<open>Facts\<close>

lemma length_formatVal: "length (formatVal fmtV v) \<le> 80"
proof -
  have "length (trimSpace s) \<le> length s" for s
    by (metis length_rev length_dropWhile_le order_trans trimSpace_def)
  from this [of "fmtV v"] show ?thesis by (auto simp: formatVal_def Let_def)
qed

lemma nl_not_N: "nl \<noteq> CHR ''N''"
  by code_simp

lemma PrintDiff_clean:
  "(\<exists>rest. PrintDiff fmtV p = ''No drift'' @ rest) \<longleftrightarrow> (\<forall>c \<in> set (Changes p). Action c = ActionNoop \<and> Error c = [])"
  using nl_not_N by (auto simp: PrintDiff_def list_ex_iff)

end
