(* ===== verification/Ring.thy ===== *)
theory Ring
  imports Prelude
begin

text \<open>
  Bounded logs. The program keeps three of them: the log records of \<open>internal/tui/trace/ring_handler.go\<close>
  in a slice that is allocated at once, and the server logs and live events of \<open>internal/tui/live_store.go\<close>
  in slices that grow to their capacity. Both overwrite slot \<open>pos % size\<close> and read back in two copies. The
  interface \<open>bounded_log\<close> states what they promise: a snapshot is the latest entries, oldest first.
\<close>

section \<open>The interface\<close>

text \<open>
  \<open>push\<close> is \<open>None\<close> when the Go code panics. \<open>holds h c\<close> relates a log to everything ever written to it.
\<close>

fun pushAll :: "('a \<Rightarrow> 'c \<Rightarrow> 'c option) \<Rightarrow> 'a list \<Rightarrow> 'c \<Rightarrow> 'c option" where
  "pushAll push [] c = Some c"
| "pushAll push (e # es) c = (case push e c of None \<Rightarrow> None | Some c' \<Rightarrow> pushAll push es c')"

definition latest :: "nat \<Rightarrow> 'a list \<Rightarrow> 'a list" where
  "latest n h = drop (length h - n) h"

locale bounded_log =
  fixes push :: "'a \<Rightarrow> 'c \<Rightarrow> 'c option"
    and snapshot :: "'c \<Rightarrow> 'a list"
    and total :: "'c \<Rightarrow> nat"
    and cap :: nat
    and holds :: "'a list \<Rightarrow> 'c \<Rightarrow> bool"
  assumes push_holds: "holds h c \<Longrightarrow> \<exists>c'. push e c = Some c' \<and> holds (h @ [e]) c'"
    and snapshot_latest: "holds h c \<Longrightarrow> snapshot c = latest cap h"
    and total_length: "holds h c \<Longrightarrow> total c = length h"
begin

lemma pushAll_holds: "holds h c \<Longrightarrow> \<exists>c'. pushAll push es c = Some c' \<and> holds (h @ es) c'"
proof (induction es arbitrary: h c)
  case (Cons e es)
  from push_holds [OF Cons.prems] obtain c1 where "push e c = Some c1" "holds (h @ [e]) c1" by blast
  with Cons.IH [of "h @ [e]" c1] show ?case by auto
qed auto

lemma pushAll_snapshot:
  assumes "holds [] c"
  shows "\<exists>c'. pushAll push es c = Some c' \<and> snapshot c' = latest cap es \<and> total c' = length es"
  using pushAll_holds [OF assms, of es] by (auto simp: snapshot_latest total_length)

lemma snapshot_bounded: "holds h c \<Longrightarrow> length (snapshot c) = min cap (length h)"
  by (simp add: snapshot_latest latest_def)

lemma push_last: "holds h c \<Longrightarrow> push e c = Some c' \<Longrightarrow> 0 < cap \<Longrightarrow> last (snapshot c') = e"
  using push_holds [of h c e] by (auto simp: snapshot_latest latest_def)

end

section \<open>The ring\<close>

text \<open>\<open>copy(dst[off:], src)\<close>, and the two copies that read a ring back in order.\<close>

definition copyAt :: "nat \<Rightarrow> 'a list \<Rightarrow> 'a list \<Rightarrow> 'a list" where
  "copyAt off dst src = take off dst @ take (length dst - off) src @ drop (off + length src) dst"

definition ringSnapshot :: "'a \<Rightarrow> nat \<Rightarrow> nat \<Rightarrow> 'a list \<Rightarrow> 'a list" where
  "ringSnapshot zero sz pos entries =
     (if pos = 0 then []
      else if pos \<le> sz then take pos entries
      else let start = pos mod sz; result = replicate sz zero;
               result = copyAt 0 result (drop start entries)
           in copyAt (sz - start) result (take start entries))"

definition ring_of :: "nat \<Rightarrow> 'a list \<Rightarrow> 'a list \<Rightarrow> bool" where
  "ring_of sz h entries \<longleftrightarrow> 0 < sz \<and> (sz < length h \<longrightarrow> length entries = sz) \<and>
     (\<forall>i < length h. length h \<le> i + sz \<longrightarrow> i mod sz < length entries \<and> entries ! (i mod sz) = h ! i)"

lemma copies_rotate:
  assumes "length entries = sz" "start \<le> sz"
  shows "copyAt (sz - start) (copyAt 0 (replicate sz zero) (drop start entries)) (take start entries) =
    drop start entries @ take start entries"
  using assms by (simp add: copyAt_def)

lemma mod_once: "a < sz \<Longrightarrow> j < sz \<Longrightarrow> (a + j) mod sz = (if a + j < sz then a + j else a + j - (sz :: nat))"
  by (simp add: le_mod_geq)

lemma mod_window:
  fixes n sz j :: nat
  assumes "sz \<le> n" "j < sz"
  shows "(n - sz + j) mod sz = (if n mod sz + j < sz then n mod sz + j else n mod sz + j - sz)"
proof -
  have "(n - sz + j) mod sz = (n + j) mod sz"
    using assms(1) mod_add_self2 [of "n - sz + j" sz] by simp
  also have "\<dots> = (n mod sz + j) mod sz" by (simp add: mod_add_left_eq)
  also have "\<dots> = (if n mod sz + j < sz then n mod sz + j else n mod sz + j - sz)"
    by (rule mod_once) (use assms(2) in simp_all)
  finally show ?thesis .
qed

lemma ringSnapshot_latest:
  assumes "ring_of sz h entries" "length h \<le> length entries \<or> sz < length h"
  shows "ringSnapshot zero sz (length h) entries = latest sz h"
proof (cases "length h \<le> sz")
  case True
  have "take (length h) entries = h"
  proof (rule nth_equalityI)
    show "length (take (length h) entries) = length h" using assms(2) True by auto
    fix i assume "i < length (take (length h) entries)"
    then have "i < length h" by simp
    with True assms(1) show "take (length h) entries ! i = h ! i" by (auto simp: ring_of_def)
  qed
  with True show ?thesis by (auto simp: ringSnapshot_def latest_def)
next
  case False
  let ?n = "length h" and ?s = "length h mod sz"
  have len: "length entries = sz" and pos: "0 < sz" using assms(1) False by (auto simp: ring_of_def)
  have "drop ?s entries @ take ?s entries = latest sz h"
  proof (rule nth_equalityI)
    show "length (drop ?s entries @ take ?s entries) = length (latest sz h)"
      using len False pos by (simp add: latest_def)
    fix j assume "j < length (drop ?s entries @ take ?s entries)"
    then have j: "j < sz" using len pos by simp
    let ?i = "?n - sz + j"
    have "?i < ?n" "?n \<le> ?i + sz" using j False by auto
    with assms(1) have "entries ! (?i mod sz) = h ! ?i" by (simp add: ring_of_def)
    moreover have "(drop ?s entries @ take ?s entries) ! j = entries ! (?i mod sz)"
      using j len False mod_window [of sz ?n j] mod_less_divisor [OF pos, of ?n] by (auto simp: nth_append add.commute)
    moreover have "latest sz h ! j = h ! ?i" using False by (simp add: latest_def)
    ultimately show "(drop ?s entries @ take ?s entries) ! j = latest sz h ! j" by simp
  qed
  moreover from False have "h \<noteq> []" by auto
  ultimately show ?thesis
    using False pos len by (simp add: ringSnapshot_def Let_def copies_rotate less_imp_le)
qed

text \<open>Overwriting the slot of the next position keeps the ring.\<close>

lemma mod_neq:
  fixes i n sz :: nat
  assumes "i < n" "n < i + sz"
  shows "i mod sz \<noteq> n mod sz"
proof
  assume "i mod sz = n mod sz"
  with assms(1) have "sz dvd n - i" by (metis less_imp_le mod_eq_dvd_iff_nat)
  with assms show False by (auto dest: dvd_imp_le)
qed

lemma ring_of_overwrite:
  assumes "ring_of sz h entries" "length entries = sz"
  shows "ring_of sz (h @ [e]) (entries[length h mod sz := e])"
proof -
  have "entries[length h mod sz := e] ! (i mod sz) = (h @ [e]) ! i" if "i < Suc (length h)" "Suc (length h) \<le> i + sz" for i
  proof (cases "i = length h")
    case False
    with that have "length h mod sz \<noteq> i mod sz" using mod_neq [of i "length h" sz] by simp
    with False that assms(1) show ?thesis by (simp add: ring_of_def nth_append)
  qed (use assms in \<open>simp add: ring_of_def\<close>)
  with assms show ?thesis by (simp add: ring_of_def)
qed

lemma ring_of_append:
  assumes "ring_of sz h entries" "length h < sz" "length entries = length h"
  shows "ring_of sz (h @ [e]) (entries @ [e])"
  using assms by (auto simp: ring_of_def nth_append less_Suc_eq)

lemma ring_of_Nil: "0 < sz \<Longrightarrow> ring_of sz [] entries"
  by (simp add: ring_of_def)

end
