(* ===== verification/LiveStore.thy ===== *)
theory LiveStore
  imports Ring GoValue
begin

text \<open>
  The bounded logs of the terminal UI: the log handler of \<open>internal/tui/trace/ring_handler.go\<close> and the store
  of \<open>internal/tui/live_store.go\<close> that the web socket reader feeds with event frames. \<open>encoding/json\<close> is a
  parameter. Positions count entries and do not wrap; every method holds the mutex of its store, so a run is
  a sequence of calls.
\<close>

section \<open>The ring handler\<close>

record trace_entry =
  teTime :: int
  teLevel :: int
  teMessage :: string
  teAttrs :: "(string \<times> gval) list"

record 'u ring_core =
  rcEntries :: "trace_entry list"
  rcSize :: nat
  rcPos :: nat
  onEntry :: "(trace_entry \<Rightarrow> 'u \<Rightarrow> 'u) option"

record ring_handler =
  rhLevel :: int
  rhAttrs :: "(string \<times> gval) list"

record log_record =
  lrTime :: int
  lrLevel :: int
  lrMessage :: string
  lrAttrs :: "(string \<times> gval) list"

definition zeroEntry :: trace_entry where
  "zeroEntry = \<lparr>teTime = 0, teLevel = 0, teMessage = [], teAttrs = []\<rparr>"

definition NewRingHandler :: "nat \<Rightarrow> int \<Rightarrow> (trace_entry \<Rightarrow> 'u \<Rightarrow> 'u) option \<Rightarrow> ring_handler \<times> 'u ring_core" where
  "NewRingHandler sz level cb =
     (\<lparr>rhLevel = level, rhAttrs = []\<rparr>, \<lparr>rcEntries = replicate sz zeroEntry, rcSize = sz, rcPos = 0, onEntry = cb\<rparr>)"

definition SetOnEntry :: "(trace_entry \<Rightarrow> 'u \<Rightarrow> 'u) option \<Rightarrow> 'u ring_core \<Rightarrow> 'u ring_core" where
  "SetOnEntry cb c = c\<lparr>onEntry := cb\<rparr>"

definition EnabledAt :: "ring_handler \<Rightarrow> int \<Rightarrow> bool" where
  "EnabledAt h level \<longleftrightarrow> rhLevel h \<le> level"

definition setAttrs :: "(string \<times> gval) list \<Rightarrow> (string \<times> gval) list \<Rightarrow> (string \<times> gval) list" where
  "setAttrs new attrs = fold (\<lambda>(k, v). AList.update k v) new attrs"

definition entryOf :: "ring_handler \<Rightarrow> log_record \<Rightarrow> trace_entry" where
  "entryOf h r = \<lparr>teTime = lrTime r, teLevel = lrLevel r, teMessage = lrMessage r,
     teAttrs = setAttrs (lrAttrs r) (setAttrs (rhAttrs h) [])\<rparr>"

text \<open>The write under the lock; \<open>None\<close> is the division by zero of an empty ring.\<close>

definition storeEntry :: "trace_entry \<Rightarrow> 'u ring_core \<Rightarrow> 'u ring_core option" where
  "storeEntry e c =
     (if rcSize c = 0 \<or> length (rcEntries c) \<le> rcPos c mod rcSize c then None
      else Some (c\<lparr>rcEntries := (rcEntries c)[rcPos c mod rcSize c := e], rcPos := rcPos c + 1\<rparr>))"

definition HandleRecord :: "ring_handler \<Rightarrow> log_record \<Rightarrow> 'u ring_core \<Rightarrow> 'u \<Rightarrow> ('u ring_core \<times> 'u) option" where
  "HandleRecord h r c u =
     (let entry = entryOf h r in
      case storeEntry entry c of
        None \<Rightarrow> None
      | Some c' \<Rightarrow> Some (c', (case onEntry c of None \<Rightarrow> u | Some cb \<Rightarrow> cb entry u)))"

definition WithAttrs :: "ring_handler \<Rightarrow> (string \<times> gval) list \<Rightarrow> ring_handler" where
  "WithAttrs h attrs = h\<lparr>rhAttrs := rhAttrs h @ attrs\<rparr>"

definition WithGroup :: "ring_handler \<Rightarrow> string \<Rightarrow> ring_handler" where
  "WithGroup h name = h"

definition SnapshotR :: "'u ring_core \<Rightarrow> trace_entry list" where
  "SnapshotR c = ringSnapshot zeroEntry (rcSize c) (rcPos c) (rcEntries c)"

definition CountR :: "'u ring_core \<Rightarrow> nat" where
  "CountR c = rcPos c"

definition core_holds :: "nat \<Rightarrow> trace_entry list \<Rightarrow> 'u ring_core \<Rightarrow> bool" where
  "core_holds sz h c \<longleftrightarrow> rcSize c = sz \<and> rcPos c = length h \<and> length (rcEntries c) = sz \<and> ring_of sz h (rcEntries c)"

interpretation handler_ring: bounded_log storeEntry SnapshotR CountR sz "core_holds sz" for sz
proof
  fix h c e
  assume a: "core_holds sz h c"
  then have "0 < sz" by (simp add: core_holds_def ring_of_def)
  with a show "\<exists>c'. storeEntry e c = Some c' \<and> core_holds sz (h @ [e]) c'"
    by (auto simp: storeEntry_def core_holds_def not_le ring_of_overwrite)
  from a show "SnapshotR c = latest sz h"
    by (auto simp: SnapshotR_def core_holds_def intro!: ringSnapshot_latest)
qed (simp add: CountR_def core_holds_def)

text \<open>Handlers derived by \<open>WithAttrs\<close> write to one core: their records interleave in the order of the calls.\<close>

fun handleAll :: "(ring_handler \<times> log_record) list \<Rightarrow> 'u ring_core \<Rightarrow> 'u \<Rightarrow> ('u ring_core \<times> 'u) option" where
  "handleAll [] c u = Some (c, u)"
| "handleAll ((h, r) # rs) c u = (case HandleRecord h r c u of None \<Rightarrow> None | Some (c', u') \<Rightarrow> handleAll rs c' u')"

lemma handleAll_pushAll: "map_option fst (handleAll rs c u) = pushAll storeEntry (map (\<lambda>(h, r). entryOf h r) rs) c"
  by (induction rs c u rule: handleAll.induct) (auto simp: HandleRecord_def Let_def split: option.splits)

lemma core_holds_new: "0 < sz \<Longrightarrow> core_holds sz [] (snd (NewRingHandler sz level cb))"
  by (simp add: core_holds_def NewRingHandler_def ring_of_Nil)

lemma ring_handler_keeps_latest:
  assumes "0 < sz"
  shows "\<exists>c' u'. handleAll rs (snd (NewRingHandler sz level cb)) u = Some (c', u') \<and>
    SnapshotR c' = latest sz (map (\<lambda>(h, r). entryOf h r) rs) \<and> CountR c' = length rs"
proof -
  let ?c = "snd (NewRingHandler sz level cb)"
  from handler_ring.pushAll_snapshot [OF core_holds_new [OF assms, of level cb], of "map (\<lambda>(h, r). entryOf h r) rs"]
    handleAll_pushAll [of rs ?c u]
  show ?thesis by (cases "handleAll rs ?c u") auto
qed

section \<open>The live store\<close>

record log_entry =
  leTime :: int
  leLevel :: string
  leMessage :: string
  leSource :: string
  leAttrs :: "(string \<times> string) list"

record live_event =
  lvTime :: int
  lvType :: string
  lvSubtype :: string
  lvSummary :: string
  lvRaw :: "string option"

record ws_event_frame =
  weType :: string
  weEvent :: string
  wePayload :: "string option"
  weSeq :: int

record peek =
  pkType :: string
  pkAgent :: string
  pkTool :: string
  pkStatus :: string
  pkMessage :: string
  pkName :: string

text \<open>
  Decoding of payloads: a log line or an error, and the fields of an event as far as decoding got, since the
  error is ignored there. The milliseconds of a decoded log line are its time.
\<close>

record live_codec =
  decLog :: "string option \<Rightarrow> log_entry option"
  decPeek :: "string \<Rightarrow> peek"

definition zeroPeek :: peek where
  "zeroPeek = \<lparr>pkType = [], pkAgent = [], pkTool = [], pkStatus = [], pkMessage = [], pkName = []\<rparr>"

record live_store =
  logs :: "log_entry list"
  events :: "live_event list"
  logCap :: nat
  evtCap :: nat
  logPos :: nat
  evtPos :: nat
  dirty :: bool
  tailing :: bool

definition NewLiveStore :: "nat \<Rightarrow> nat \<Rightarrow> live_store" where
  "NewLiveStore lc ec =
     \<lparr>logs = [], events = [], logCap = lc, evtCap = ec, logPos = 0, evtPos = 0, dirty = False, tailing = False\<rparr>"

definition ringAppend :: "nat \<Rightarrow> nat \<Rightarrow> 'a \<Rightarrow> 'a list \<Rightarrow> 'a list option" where
  "ringAppend cap pos e entries =
     (if pos < cap then Some (entries @ [e])
      else if cap = 0 \<or> length entries \<le> pos mod cap then None
      else Some (entries[pos mod cap := e]))"

definition appendLog :: "log_entry \<Rightarrow> live_store \<Rightarrow> live_store option" where
  "appendLog e s =
     map_option (\<lambda>ls. s\<lparr>logs := ls, logPos := logPos s + 1, dirty := True\<rparr>) (ringAppend (logCap s) (logPos s) e (logs s))"

definition appendEvent :: "live_event \<Rightarrow> live_store \<Rightarrow> live_store option" where
  "appendEvent e s =
     map_option (\<lambda>es. s\<lparr>events := es, evtPos := evtPos s + 1, dirty := True\<rparr>) (ringAppend (evtCap s) (evtPos s) e (events s))"

definition zeroLog :: log_entry where
  "zeroLog = \<lparr>leTime = 0, leLevel = [], leMessage = [], leSource = [], leAttrs = []\<rparr>"

definition zeroEvent :: live_event where
  "zeroEvent = \<lparr>lvTime = 0, lvType = [], lvSubtype = [], lvSummary = [], lvRaw = None\<rparr>"

definition logSnapshot :: "live_store \<Rightarrow> log_entry list" where
  "logSnapshot s = ringSnapshot zeroLog (logCap s) (logPos s) (logs s)"

definition evtSnapshot :: "live_store \<Rightarrow> live_event list" where
  "evtSnapshot s = ringSnapshot zeroEvent (evtCap s) (evtPos s) (events s)"

definition MarkClean :: "live_store \<Rightarrow> live_store" where "MarkClean s = s\<lparr>dirty := False\<rparr>"
definition SetTailing :: "bool \<Rightarrow> live_store \<Rightarrow> live_store" where "SetTailing v s = s\<lparr>tailing := v\<rparr>"

section \<open>Event summaries\<close>

definition formatTeamEvent :: "string \<Rightarrow> string \<Rightarrow> string" where
  "formatTeamEvent event subtype =
     ''Team '' @ map (\<lambda>c. if c = CHR ''.'' then CHR '' '' else c) (trimPrefix ''team.'' event)"

definition agentSummary :: "peek \<Rightarrow> string" where
  "agentSummary pk =
     (let agent = (if pkAgent pk = [] then pkName pk else pkAgent pk); pre = ''Agent '' @ agent; ty = pkType pk in
      if ty = ''run.started'' then pre @ '' run started''
      else if ty = ''run.completed'' then pre @ '' run completed''
      else if ty = ''run.failed'' then pre @ '' run FAILED''
      else if ty = ''run.cancelled'' then pre @ '' run cancelled''
      else if ty = ''tool.call'' then pre @ '' -> tool.'' @ pkTool pk
      else if ty = ''tool.result'' then pre @ '' <- tool.'' @ pkTool pk
      else if ty = ''block.reply'' then pre @ '' block reply''
      else pre @ '': '' @ ty)"

definition chatSummary :: "peek \<Rightarrow> string" where
  "chatSummary pk =
     (let ty = pkType pk in
      if ty = ''message'' then ''Chat message''
      else if ty = ''chunk'' then ''Chat chunk''
      else if ty = ''thinking'' then ''Chat thinking''
      else ''Chat: '' @ ty)"

definition eventSummary :: "string \<Rightarrow> peek \<Rightarrow> string" where
  "eventSummary ev pk =
     (if ev = ''agent'' then agentSummary pk
      else if ev = ''chat'' then chatSummary pk
      else if ev = ''health'' then ''System health update''
      else if ev = ''cron'' then
        (if pkName pk \<noteq> [] then ''Cron '' @ pkName pk @ '': '' @ pkStatus pk else ''Cron: '' @ pkStatus pk)
      else if ev = ''presence'' then ''Presence update''
      else if ev = ''session.updated'' then ''Session updated''
      else if ev = ''trace.updated'' then ''Trace updated''
      else if ev = ''heartbeat'' then ''Heartbeat''
      else if ev = ''shutdown'' then ''Server shutdown''
      else if hasPrefix ''team.'' ev then formatTeamEvent ev (pkType pk)
      else if pkType pk \<noteq> [] then ev @ '': '' @ pkType pk else ev)"

definition parseLiveEvent :: "live_codec \<Rightarrow> int \<Rightarrow> ws_event_frame \<Rightarrow> live_event" where
  "parseLiveEvent cd now frame =
     (let pk = (case wePayload frame of None \<Rightarrow> zeroPeek | Some p \<Rightarrow> decPeek cd p) in
      \<lparr>lvTime = now, lvType = weEvent frame, lvSubtype = pkType pk, lvSummary = eventSummary (weEvent frame) pk,
       lvRaw = wePayload frame\<rparr>)"

definition HandleEvent :: "live_codec \<Rightarrow> int \<Rightarrow> ws_event_frame \<Rightarrow> live_store \<Rightarrow> live_store option" where
  "HandleEvent cd now frame s =
     (if weEvent frame = ''log''
      then (case decLog cd (wePayload frame) of None \<Rightarrow> Some s | Some entry \<Rightarrow> appendLog entry s)
      else let evt = parseLiveEvent cd now frame in
           if lvSummary evt \<noteq> [] then appendEvent evt s else Some s)"

text \<open>Only a nameless event without a type has no summary: no named event is ever dropped.\<close>

lemma agentSummary_nonempty [simp]: "agentSummary pk \<noteq> []"
  by (simp add: agentSummary_def Let_def)

lemma chatSummary_nonempty [simp]: "chatSummary pk \<noteq> []"
  by (simp add: chatSummary_def Let_def)

lemma formatTeamEvent_nonempty [simp]: "formatTeamEvent ev ty \<noteq> []"
  by (simp add: formatTeamEvent_def)

lemma eventSummary_empty: "eventSummary ev pk = [] \<longleftrightarrow> ev = [] \<and> pkType pk = []"
proof (cases "ev = []")
  case True
  then show ?thesis by (simp add: eventSummary_def hasPrefix_def)
next
  case False
  then show ?thesis by (simp add: eventSummary_def)
qed

section \<open>The store keeps the latest of each\<close>

definition logs_hold :: "nat \<Rightarrow> log_entry list \<Rightarrow> live_store \<Rightarrow> bool" where
  "logs_hold cap h s \<longleftrightarrow> logCap s = cap \<and> logPos s = length h \<and> length (logs s) = min cap (length h) \<and> ring_of cap h (logs s)"

definition events_hold :: "nat \<Rightarrow> live_event list \<Rightarrow> live_store \<Rightarrow> bool" where
  "events_hold cap h s \<longleftrightarrow> evtCap s = cap \<and> evtPos s = length h \<and> length (events s) = min cap (length h) \<and> ring_of cap h (events s)"

lemma ringAppend_ring:
  assumes "ring_of cap h entries" "length entries = min cap (length h)"
  shows "\<exists>es. ringAppend cap (length h) e entries = Some es \<and> ring_of cap (h @ [e]) es \<and> length es = min cap (Suc (length h))"
proof -
  have "0 < cap" using assms(1) by (simp add: ring_of_def)
  then have "\<not> cap \<le> length h mod cap" by (simp add: not_le)
  with \<open>0 < cap\<close> assms show ?thesis
    by (auto simp: ringAppend_def min_def ring_of_append ring_of_overwrite)
qed

lemma ringSnapshot_min:
  assumes "ring_of cap h entries" "length entries = min cap (length h)"
  shows "ringSnapshot z cap (length h) entries = latest cap h"
  using assms by (intro ringSnapshot_latest) auto

interpretation live_logs: bounded_log appendLog logSnapshot logPos cap "logs_hold cap" for cap
proof
  fix h s e
  assume a: "logs_hold cap h s"
  then show "\<exists>s'. appendLog e s = Some s' \<and> logs_hold cap (h @ [e]) s'"
    using ringAppend_ring [of cap h "logs s" e] by (auto simp: appendLog_def logs_hold_def)
  from a show "logSnapshot s = latest cap h"
    by (auto simp: logSnapshot_def logs_hold_def intro!: ringSnapshot_min)
qed (simp add: logs_hold_def)

interpretation live_events: bounded_log appendEvent evtSnapshot evtPos cap "events_hold cap" for cap
proof
  fix h s e
  assume a: "events_hold cap h s"
  then show "\<exists>s'. appendEvent e s = Some s' \<and> events_hold cap (h @ [e]) s'"
    using ringAppend_ring [of cap h "events s" e] by (auto simp: appendEvent_def events_hold_def)
  from a show "evtSnapshot s = latest cap h"
    by (auto simp: evtSnapshot_def events_hold_def intro!: ringSnapshot_min)
qed (simp add: events_hold_def)

text \<open>What a list of frames, each with its time of arrival, writes to either log.\<close>

definition logsOf :: "live_codec \<Rightarrow> (int \<times> ws_event_frame) list \<Rightarrow> log_entry list" where
  "logsOf cd fs = List.map_filter (\<lambda>(now, f). if weEvent f = ''log'' then decLog cd (wePayload f) else None) fs"

definition eventsOf :: "live_codec \<Rightarrow> (int \<times> ws_event_frame) list \<Rightarrow> live_event list" where
  "eventsOf cd fs = List.map_filter (\<lambda>(now, f).
     if weEvent f \<noteq> ''log'' \<and> lvSummary (parseLiveEvent cd now f) \<noteq> [] then Some (parseLiveEvent cd now f) else None) fs"

fun handleFrames :: "live_codec \<Rightarrow> (int \<times> ws_event_frame) list \<Rightarrow> live_store \<Rightarrow> live_store option" where
  "handleFrames cd [] s = Some s"
| "handleFrames cd ((now, f) # fs) s = (case HandleEvent cd now f s of None \<Rightarrow> None | Some s' \<Rightarrow> handleFrames cd fs s')"

lemma append_other:
  "appendLog e s = Some s' \<Longrightarrow> events_hold ec he s' = events_hold ec he s \<and> dirty s'"
  "appendEvent v s = Some s' \<Longrightarrow> logs_hold lc hl s' = logs_hold lc hl s \<and> dirty s'"
  by (auto simp: appendLog_def appendEvent_def events_hold_def logs_hold_def)

lemma HandleEvent_holds:
  assumes "logs_hold lc hl s" "events_hold ec he s" "dirty s \<longleftrightarrow> hl \<noteq> [] \<or> he \<noteq> []"
  shows "\<exists>s'. HandleEvent cd now f s = Some s' \<and> logs_hold lc (hl @ logsOf cd [(now, f)]) s' \<and>
    events_hold ec (he @ eventsOf cd [(now, f)]) s' \<and>
    (dirty s' \<longleftrightarrow> hl @ logsOf cd [(now, f)] \<noteq> [] \<or> he @ eventsOf cd [(now, f)] \<noteq> [])"
proof (cases "weEvent f = ''log''")
  case True
  show ?thesis
  proof (cases "decLog cd (wePayload f)")
    case None
    with True assms show ?thesis by (simp add: HandleEvent_def logsOf_def eventsOf_def map_filter_simps)
  next
    case (Some e)
    obtain s' where "appendLog e s = Some s'" "logs_hold lc (hl @ [e]) s'" using live_logs.push_holds [OF assms(1)] by blast
    with True Some assms append_other(1) show ?thesis
      by (auto simp: HandleEvent_def logsOf_def eventsOf_def map_filter_simps)
  qed
next
  case False
  let ?v = "parseLiveEvent cd now f"
  show ?thesis
  proof (cases "lvSummary ?v = []")
    case True
    with False assms show ?thesis by (simp add: HandleEvent_def logsOf_def eventsOf_def map_filter_simps)
  next
    case nonempty: False
    obtain s' where "appendEvent ?v s = Some s'" "events_hold ec (he @ [?v]) s'" using live_events.push_holds [OF assms(2)] by blast
    with False nonempty assms append_other(2) show ?thesis
      by (auto simp: HandleEvent_def logsOf_def eventsOf_def map_filter_simps Let_def)
  qed
qed

lemma handleFrames_holds:
  assumes "logs_hold lc hl s" "events_hold ec he s" "dirty s \<longleftrightarrow> hl \<noteq> [] \<or> he \<noteq> []"
  shows "\<exists>s'. handleFrames cd fs s = Some s' \<and> logs_hold lc (hl @ logsOf cd fs) s' \<and> events_hold ec (he @ eventsOf cd fs) s' \<and>
    (dirty s' \<longleftrightarrow> hl @ logsOf cd fs \<noteq> [] \<or> he @ eventsOf cd fs \<noteq> [])"
  using assms
proof (induction fs arbitrary: s hl he)
  case Nil
  then show ?case by (simp add: logsOf_def eventsOf_def map_filter_simps)
next
  case (Cons p fs)
  obtain now f where p: "p = (now, f)" by fastforce
  have split: "logsOf cd (p # fs) = logsOf cd [(now, f)] @ logsOf cd fs" "eventsOf cd (p # fs) = eventsOf cd [(now, f)] @ eventsOf cd fs"
    by (simp_all add: p logsOf_def eventsOf_def map_filter_simps split: option.split)
  from HandleEvent_holds [OF Cons.prems, of cd now f] obtain s' where
    s': "HandleEvent cd now f s = Some s'" "logs_hold lc (hl @ logsOf cd [(now, f)]) s'"
      "events_hold ec (he @ eventsOf cd [(now, f)]) s'"
      "dirty s' \<longleftrightarrow> hl @ logsOf cd [(now, f)] \<noteq> [] \<or> he @ eventsOf cd [(now, f)] \<noteq> []" by blast
  from Cons.IH [OF s'(2-4)] s'(1) show ?case by (simp add: p split [unfolded p])
qed

text \<open>
  C23: The live store refines two unbounded logs: after any sequence of event frames no write has panicked,
  the snapshots are the latest log lines and events in order of arrival, as many as fit, the counters are the
  numbers received, and the store is dirty exactly when something was accepted. No named event is dropped.
\<close>

theorem live_store_keeps_latest:
  assumes "0 < lc" "0 < ec"
  shows "\<exists>s. handleFrames cd fs (NewLiveStore lc ec) = Some s \<and>
    logSnapshot s = latest lc (logsOf cd fs) \<and> evtSnapshot s = latest ec (eventsOf cd fs) \<and>
    logPos s = length (logsOf cd fs) \<and> evtPos s = length (eventsOf cd fs) \<and>
    (dirty s \<longleftrightarrow> logsOf cd fs \<noteq> [] \<or> eventsOf cd fs \<noteq> []) \<and>
    (list_all (\<lambda>(now, f). weEvent f \<noteq> []) fs \<longrightarrow> length (eventsOf cd fs) = length (filter (\<lambda>(now, f). weEvent f \<noteq> ''log'') fs))"
proof -
  have "logs_hold lc [] (NewLiveStore lc ec)" "events_hold ec [] (NewLiveStore lc ec)" "\<not> dirty (NewLiveStore lc ec)"
    using assms by (simp_all add: logs_hold_def events_hold_def NewLiveStore_def ring_of_Nil)
  from handleFrames_holds [OF this(1,2), of cd fs] this(3) obtain s where
    "handleFrames cd fs (NewLiveStore lc ec) = Some s" "logs_hold lc (logsOf cd fs) s" "events_hold ec (eventsOf cd fs) s"
    "dirty s \<longleftrightarrow> logsOf cd fs \<noteq> [] \<or> eventsOf cd fs \<noteq> []" by auto
  moreover have "length (eventsOf cd fs) = length (filter (\<lambda>(now, f). weEvent f \<noteq> ''log'') fs)"
    if "list_all (\<lambda>(now, f). weEvent f \<noteq> []) fs"
    using that by (induction fs) (auto simp: eventsOf_def map_filter_simps parseLiveEvent_def Let_def eventSummary_empty)
  ultimately show ?thesis
    using live_logs.snapshot_latest live_events.snapshot_latest live_logs.total_length live_events.total_length by blast
qed

definition demoLive :: live_codec where
  "demoLive = \<lparr>decLog = map_option (\<lambda>p. zeroLog\<lparr>leMessage := p\<rparr>), decPeek = (\<lambda>p. zeroPeek\<lparr>pkType := p\<rparr>)\<rparr>"

definition demoFrame :: "string \<Rightarrow> string \<Rightarrow> ws_event_frame" where
  "demoFrame ev p = \<lparr>weType = ''event'', weEvent = ev, wePayload = Some p, weSeq = 0\<rparr>"

theorem live_store_keeps_latest_witness:
  "\<exists>s. handleFrames demoLive [(0, demoFrame ''log'' ''a''), (1, demoFrame ''health'' []), (2, demoFrame ''log'' ''b''),
       (3, demoFrame ''log'' ''c'')] (NewLiveStore 2 1) = Some s \<and>
     map leMessage (logSnapshot s) = [''b'', ''c''] \<and> logPos s = 3 \<and> dirty s"
proof -
  let ?fs = "[(0, demoFrame ''log'' ''a''), (1, demoFrame ''health'' []), (2, demoFrame ''log'' ''b''), (3, demoFrame ''log'' ''c'')]"
  have "logsOf demoLive ?fs = map (\<lambda>p. zeroLog\<lparr>leMessage := p\<rparr>) [''a'', ''b'', ''c'']"
    by (simp add: logsOf_def demoFrame_def demoLive_def map_filter_simps)
  with live_store_keeps_latest [of 2 1 demoLive ?fs] show ?thesis
    by (auto simp: latest_def)
qed

end
