(* ===== verification/SpanTree.thy ===== *)
theory SpanTree
  imports Prelude
begin

text \<open>
  \<open>internal/tui/views/trace_types.go\<close>: traces, spans and \<open>BuildSpanTree\<close>, which links the spans of a trace by
  their parent ids. The pointers of the Go nodes are the ids they are stored under; a heap maps an id to the
  children of its node. The order in which Go ranges over the map of nodes is an argument. Sorting
  keeps this order among equal start times: as it is arbitrary, every outcome of \<open>sort.Slice\<close> is covered.
\<close>

section \<open>Data\<close>

record trace_metadata =
  TotalCacheReadTokens :: int
  TotalCacheCreationTokens :: int

record trace_data =
  trID :: string
  trParentTraceID :: string
  trAgentID :: string
  trName :: string
  trChannel :: string
  trSessionKey :: string
  trRunID :: string
  trStatus :: string
  trDurationMs :: int
  TotalInputTokens :: int
  TotalOutputTokens :: int
  SpanCount :: int
  LLMCallCount :: int
  ToolCallCount :: int
  trInputPreview :: string
  trOutputPreview :: string
  trError :: string
  trStartTime :: int
  trEndTime :: "int option"
  trMetadata :: "trace_metadata option"
  trCreatedAt :: int

record span_metadata =
  CacheCreationTokens :: int
  CacheReadTokens :: int
  ThinkingTokens :: int

record span_data =
  spID :: string
  spTraceID :: string
  ParentSpanID :: string
  spAgentID :: string
  SpanType :: string
  spName :: string
  spStatus :: string
  spDurationMs :: int
  spModel :: string
  spProvider :: string
  InputTokens :: int
  OutputTokens :: int
  ToolName :: string
  spInputPreview :: string
  spOutputPreview :: string
  spError :: string
  spMetadata :: "span_metadata option"
  spStartTime :: int
  spEndTime :: "int option"
  spCreatedAt :: int

record trace_filters =
  tfAgentID :: string
  tfChannel :: string
  tfLimit :: int
  tfOffset :: int

type_synonym nodes = "(string \<times> span_data) list"
type_synonym kids = "string \<Rightarrow> string list"

record span_forest =
  sfNodes :: nodes
  sfRoots :: "string list"
  sfChildren :: kids

section \<open>Building\<close>

definition spanNodes :: "span_data list \<Rightarrow> nodes" where
  "spanNodes spans = fold (\<lambda>s. AList.update (spID s) s) spans []"

definition parentOf :: "nodes \<Rightarrow> string \<Rightarrow> string option" where
  "parentOf nodes i =
     (case map_of nodes i of
        None \<Rightarrow> None
      | Some s \<Rightarrow> if ParentSpanID s = [] then None
          else (case map_of nodes (ParentSpanID s) of None \<Rightarrow> None | Some _ \<Rightarrow> Some (ParentSpanID s)))"

fun linkNodes :: "nodes \<Rightarrow> string list \<Rightarrow> string list \<times> kids \<Rightarrow> string list \<times> kids" where
  "linkNodes nodes [] rc = rc"
| "linkNodes nodes (i # order) (roots, ch) =
     (case parentOf nodes i of
        None \<Rightarrow> linkNodes nodes order (roots @ [i], ch)
      | Some p \<Rightarrow> linkNodes nodes order (roots, ch(p := ch p @ [i])))"

definition startOf :: "nodes \<Rightarrow> string \<Rightarrow> int" where
  "startOf nodes i = (case map_of nodes i of None \<Rightarrow> 0 | Some s \<Rightarrow> spStartTime s)"

text \<open>
  \<open>sortSpanNodes\<close> sorts a slice in place and descends into the children of every node that has more than one.
  The fuel bounds the depth of the recursion.
\<close>

fun sortSpanNodes :: "nat \<Rightarrow> nodes \<Rightarrow> kids \<Rightarrow> string list \<Rightarrow> (string list \<times> kids) option"
  and sortKids :: "nat \<Rightarrow> nodes \<Rightarrow> kids \<Rightarrow> string list \<Rightarrow> kids option"
where
  "sortSpanNodes 0 nodes ch ns = None"
| "sortSpanNodes (Suc n) nodes ch ns =
     (let ss = sort_key (startOf nodes) ns in
      case sortKids n nodes ch ss of None \<Rightarrow> None | Some ch' \<Rightarrow> Some (ss, ch'))"
| "sortKids n nodes ch [] = Some ch"
| "sortKids n nodes ch (i # ns) =
     (if 1 < length (ch i)
      then (case sortSpanNodes n nodes ch (ch i) of
              None \<Rightarrow> None
            | Some (ss, ch') \<Rightarrow> sortKids n nodes (ch'(i := ss)) ns)
      else sortKids n nodes ch ns)"

definition BuildSpanTree :: "span_data list \<Rightarrow> string list \<Rightarrow> span_forest option" where
  "BuildSpanTree spans order =
     (let nodes = spanNodes spans; (roots, ch) = linkNodes nodes order ([], (\<lambda>i. [])) in
      case sortSpanNodes (Suc (length spans)) nodes ch roots of
        None \<Rightarrow> None
      | Some (ss, ch') \<Rightarrow> Some \<lparr>sfNodes = nodes, sfRoots = ss, sfChildren = ch'\<rparr>)"

section \<open>The links\<close>

lemma linkNodes_filter:
  "linkNodes nodes order (roots, ch) =
     (roots @ filter (\<lambda>i. parentOf nodes i = None) order, \<lambda>p. ch p @ filter (\<lambda>i. parentOf nodes i = Some p) order)"
  by (induction order arbitrary: roots ch) (auto split: option.split)

lemma linkNodes_init:
  "linkNodes nodes order ([], (\<lambda>i. [])) =
     (filter (\<lambda>i. parentOf nodes i = None) order, \<lambda>p. filter (\<lambda>i. parentOf nodes i = Some p) order)"
  by (simp add: linkNodes_filter)

text \<open>
  A way up from a node: the node, its parent, the parent of that, up to a root. As a node has one parent there
  is one way up, so no node repeats on it and it is no longer than the number of nodes.
\<close>

fun wayUp :: "nodes \<Rightarrow> string list \<Rightarrow> bool" where
  "wayUp nodes [] = False"
| "wayUp nodes [r] = (parentOf nodes r = None)"
| "wayUp nodes (c # p # ps) = (parentOf nodes c = Some p \<and> wayUp nodes (p # ps))"

lemma wayUp_unique: "wayUp nodes (c # ps) \<Longrightarrow> wayUp nodes (c # qs) \<Longrightarrow> ps = qs"
proof (induction ps arbitrary: c qs)
  case Nil
  then show ?case by (cases qs) auto
next
  case (Cons p ps)
  then show ?case by (cases qs) auto
qed

lemma wayUp_suffix: "wayUp nodes (ps @ c # qs) \<Longrightarrow> wayUp nodes (c # qs)"
proof (induction ps)
  case (Cons p ps)
  then show ?case by (cases "ps @ c # qs") auto
qed simp

lemma wayUp_distinct: "wayUp nodes ps \<Longrightarrow> distinct ps"
proof (induction ps)
  case (Cons c ps)
  have "c \<notin> set ps"
  proof
    assume "c \<in> set ps"
    then obtain as bs where ps: "ps = as @ c # bs" by (meson split_list)
    with Cons.prems wayUp_suffix [of nodes "c # as" c bs] wayUp_unique [of nodes c ps bs] have "ps = bs" by simp
    with ps show False by simp
  qed
  moreover have "distinct ps" using Cons by (cases ps) auto
  ultimately show ?case by simp
qed simp

lemma parentOf_known: "parentOf nodes i = Some p \<Longrightarrow> i \<in> fst ` set nodes \<and> p \<in> fst ` set nodes"
  by (auto simp: parentOf_def split: option.splits if_splits dest!: map_of_SomeD intro: rev_image_eqI)

lemma wayUp_known: "wayUp nodes (i # ps) \<Longrightarrow> i \<in> fst ` set nodes \<Longrightarrow> set (i # ps) \<subseteq> fst ` set nodes"
proof (induction ps arbitrary: i)
  case (Cons p ps)
  then have "wayUp nodes (p # ps)" "p \<in> fst ` set nodes" using parentOf_known [of nodes i p] by simp_all
  from Cons.IH [OF this] Cons.prems(2) show ?case by simp
qed simp

lemma wayUp_length:
  assumes "wayUp nodes (i # ps)" "i \<in> fst ` set nodes"
  shows "length (i # ps) \<le> length nodes"
proof -
  have "card (set (i # ps)) \<le> card (fst ` set nodes)" 
    by (rule card_mono [OF _ wayUp_known [OF assms]]) simp
  also have "\<dots> \<le> length nodes" by (metis card_length length_map list.set_map)
  finally show ?thesis using distinct_card [OF wayUp_distinct [OF assms(1)]] by simp
qed

section \<open>Sorting returns\<close>

definition children_ok :: "nodes \<Rightarrow> kids \<Rightarrow> bool" where
  "children_ok nodes ch \<longleftrightarrow> (\<forall>p. \<forall>c \<in> set (ch p). parentOf nodes c = Some p)"

lemma children_okD: "children_ok nodes ch \<Longrightarrow> c \<in> set (ch p) \<Longrightarrow> parentOf nodes c = Some p"
  by (auto simp: children_ok_def)

definition same_kids :: "kids \<Rightarrow> kids \<Rightarrow> bool" where
  "same_kids ch ch' \<longleftrightarrow> (\<forall>p. mset (ch' p) = mset (ch p))"

lemma same_kids_refl [simp]: "same_kids ch ch" by (simp add: same_kids_def)

lemma same_kids_trans: "same_kids ch ch' \<Longrightarrow> same_kids ch' ch'' \<Longrightarrow> same_kids ch ch''"
  by (simp add: same_kids_def)

lemma same_kids_ok: "same_kids ch ch' \<Longrightarrow> children_ok nodes ch \<Longrightarrow> children_ok nodes ch'"
  unfolding same_kids_def children_ok_def by (metis mset_eq_setD)

text \<open>Every node of the slice is at least \<open>k\<close> steps below a root, so \<open>k\<close> plus the fuel need not exceed the number of nodes.\<close>

definition at_level :: "nodes \<Rightarrow> nat \<Rightarrow> string \<Rightarrow> bool" where
  "at_level nodes k i \<longleftrightarrow> i \<in> fst ` set nodes \<and> (\<exists>ps. wayUp nodes (i # ps) \<and> k \<le> length ps)"

lemma at_level_child:
  assumes "at_level nodes k p" "parentOf nodes c = Some p"
  shows "at_level nodes (Suc k) c"
proof -
  from assms(1) obtain ps where "wayUp nodes (p # ps)" "k \<le> length ps" by (auto simp: at_level_def)
  with assms(2) have "wayUp nodes (c # p # ps)" "Suc k \<le> length (p # ps)" by simp_all
  with parentOf_known [OF assms(2)] show ?thesis unfolding at_level_def by blast
qed

lemma at_level_bound: "at_level nodes k i \<Longrightarrow> k < length nodes"
  by (auto simp: at_level_def dest!: wayUp_length)

lemma sort_returns:
  "children_ok nodes ch \<Longrightarrow> list_all (at_level nodes k) ns \<Longrightarrow> length nodes < n + k \<Longrightarrow> 0 < n \<Longrightarrow>
     \<exists>ch'. sortSpanNodes n nodes ch ns = Some (sort_key (startOf nodes) ns, ch') \<and> same_kids ch ch'"
  "children_ok nodes ch \<Longrightarrow> list_all (at_level nodes k) ns \<Longrightarrow> length nodes \<le> n + k \<Longrightarrow>
     \<exists>ch'. sortKids n nodes ch ns = Some ch' \<and> same_kids ch ch'"
proof (induction n nodes ch ns and n nodes ch ns arbitrary: k and k rule: sortSpanNodes_sortKids.induct)
  case (1 nodes ch ns)
  then show ?case by simp
next
  case (2 n nodes ch ns)
  let ?ss = "sort_key (startOf nodes) ns"
  from 2(3) have "list_all (at_level nodes k) ?ss" by (simp add: list_all_iff)
  with 2 obtain ch' where "sortKids n nodes ch ?ss = Some ch'" "same_kids ch ch'" by fastforce
  then show ?case by simp
next
  case (3 n nodes ch)
  then show ?case by simp
next
  case (4 n nodes ch i ns)
  show ?case
  proof (cases "1 < length (ch i)")
    case False
    with 4(3) [OF False 4(4), of k] 4(5,6) show ?thesis by simp
  next
    case True
    have i: "at_level nodes k i" using 4(5) by simp
    with at_level_bound 4(6) have "0 < n" by fastforce
    moreover have "list_all (at_level nodes (Suc k)) (ch i)"
      using at_level_child [OF i] children_okD [OF 4(4)] by (auto simp: list_all_iff)
    ultimately obtain ch1 where c1: "sortSpanNodes n nodes ch (ch i) = Some (sort_key (startOf nodes) (ch i), ch1)" "same_kids ch ch1"
      using 4(1) [OF True 4(4), of "Suc k"] 4(6) by auto
    let ?ch2 = "ch1(i := sort_key (startOf nodes) (ch i))"
    have "same_kids ch ?ch2" using c1(2) by (simp add: same_kids_def)
    moreover from this have "children_ok nodes ?ch2" using 4(4) by (rule same_kids_ok)
    then obtain ch' where "sortKids n nodes ?ch2 ns = Some ch'" "same_kids ?ch2 ch'"
      using 4(2) [OF True c1(1) refl, of k] 4(5,6) by (simp del: fun_upd_apply) blast
    ultimately show ?thesis using True c1(1) same_kids_trans by auto
  qed
qed

section \<open>Properties\<close>

text \<open>The nodes a reader of the forest meets.\<close>

inductive shown :: "span_forest \<Rightarrow> string \<Rightarrow> bool" for f where
  root: "r \<in> set (sfRoots f) \<Longrightarrow> shown f r"
| child: "shown f p \<Longrightarrow> c \<in> set (sfChildren f p) \<Longrightarrow> shown f c"

lemma length_spanNodes: "length (spanNodes spans) \<le> length spans"
proof -
  have "length (AList.update k v ns) \<le> Suc (length ns)" for k :: string and v :: span_data and ns by (induction ns) auto
  note upd = this
  have "length (fold (\<lambda>s. AList.update (spID s) s) spans ns) \<le> length spans + length ns" for ns
  proof (induction spans arbitrary: ns)
    case (Cons s spans)
    from Cons [of "AList.update (spID s) s ns"] upd [of "spID s" s ns] show ?case by simp
  qed simp
  from this [of "[]"] show ?thesis by (simp add: spanNodes_def)
qed

lemma shown_wayUp:
  assumes roots: "set (sfRoots f) = {i \<in> fst ` set nodes. parentOf nodes i = None}"
    and kids: "\<And>p. set (sfChildren f p) = {i. parentOf nodes i = Some p}"
  shows "shown f i \<longleftrightarrow> i \<in> fst ` set nodes \<and> (\<exists>ps. wayUp nodes (i # ps))"
proof
  assume "shown f i"
  then show "i \<in> fst ` set nodes \<and> (\<exists>ps. wayUp nodes (i # ps))"
  proof induction
    case (root r)
    with roots have "wayUp nodes [r]" "r \<in> fst ` set nodes" by auto
    then show ?case by blast
  next
    case (child p c)
    with kids have "parentOf nodes c = Some p" by blast
    moreover from child obtain ps where "wayUp nodes (p # ps)" by blast
    ultimately have "wayUp nodes (c # p # ps)" by simp
    then show ?case using parentOf_known [OF \<open>parentOf nodes c = Some p\<close>] by blast
  qed
next
  have "wayUp nodes (i # ps) \<Longrightarrow> i \<in> fst ` set nodes \<Longrightarrow> shown f i" for ps
  proof (induction ps arbitrary: i)
    case Nil
    with roots show ?case by (auto intro: shown.root)
  next
    case (Cons p ps)
    then have "parentOf nodes i = Some p" by simp
    with Cons parentOf_known [OF this] kids show ?case by (auto intro: shown.child)
  qed
  then show "i \<in> fst ` set nodes \<and> (\<exists>ps. wayUp nodes (i # ps)) \<Longrightarrow> shown f i" by blast
qed

lemma BuildSpanTree_returns:
  assumes "distinct order" "set order = fst ` set (spanNodes spans)"
  shows "\<exists>f. BuildSpanTree spans order = Some f \<and>
    sfRoots f = sort_key (startOf (spanNodes spans)) (filter (\<lambda>i. parentOf (spanNodes spans) i = None) order) \<and>
    (\<forall>p. mset (sfChildren f p) = mset (filter (\<lambda>i. parentOf (spanNodes spans) i = Some p) order)) \<and>
    (\<forall>i. shown f i \<longleftrightarrow> i \<in> set order \<and> (\<exists>ps. wayUp (spanNodes spans) (i # ps)))"
proof -
  let ?nodes = "spanNodes spans"
  let ?roots = "filter (\<lambda>i. parentOf ?nodes i = None) order"
  let ?ch = "\<lambda>p. filter (\<lambda>i. parentOf ?nodes i = Some p) order"
  have "children_ok ?nodes ?ch" by (simp add: children_ok_def)
  moreover have "list_all (at_level ?nodes 0) ?roots"
    using assms(2) by (auto simp: list_all_iff at_level_def intro: exI [of _ "[]"])
  ultimately obtain ch' where ch': "sortSpanNodes (Suc (length spans)) ?nodes ?ch ?roots = Some (sort_key (startOf ?nodes) ?roots, ch')"
      "same_kids ?ch ch'"
    using sort_returns(1) [of ?nodes ?ch 0 ?roots "Suc (length spans)"] length_spanNodes [of spans] by auto
  let ?f = "\<lparr>sfNodes = ?nodes, sfRoots = sort_key (startOf ?nodes) ?roots, sfChildren = ch'\<rparr>"
  have f: "BuildSpanTree spans order = Some ?f" 
    unfolding BuildSpanTree_def Let_def linkNodes_init prod.case ch'(1) by simp
  have kids: "mset (ch' p) = mset (?ch p)" for p using ch'(2) by (simp add: same_kids_def)
  have "set (ch' p) = {i. parentOf ?nodes i = Some p}" for p
    using mset_eq_setD [OF kids [of p]] assms(2) parentOf_known [of ?nodes] by auto
  then have "shown ?f i \<longleftrightarrow> i \<in> set order \<and> (\<exists>ps. wayUp ?nodes (i # ps))" for i
    using shown_wayUp [of ?f ?nodes i] assms(2) by auto
  with f kids show ?thesis by (intro exI [of _ ?f]) simp
qed

text \<open>
  C22: \<open>BuildSpanTree\<close> returns for every list of spans and every iteration order, its recursion no deeper than
  the number of spans, even when parent ids form a cycle. The roots are the spans without a known parent in
  order of their start, the children of a node are the spans that name it, and a span can be reached
  from the roots exactly when its chain of parents ends: one on or under a cycle is not in the tree.
\<close>

theorem span_tree_is_built:
  assumes "distinct order" "set order = fst ` set (spanNodes spans)"
  shows "\<exists>f. BuildSpanTree spans order = Some f \<and>
    sfRoots f = sort_key (startOf (spanNodes spans)) (filter (\<lambda>i. parentOf (spanNodes spans) i = None) order) \<and>
    (\<forall>p. mset (sfChildren f p) = mset (filter (\<lambda>i. parentOf (spanNodes spans) i = Some p) order)) \<and>
    (\<forall>i. shown f i \<longleftrightarrow> i \<in> set order \<and> (\<exists>ps. wayUp (spanNodes spans) (i # ps)))"
  using assms by (rule BuildSpanTree_returns)

lemma cycle_no_wayUp:
  assumes "parentOf nodes a = Some b" "parentOf nodes b = Some a"
  shows "\<not> wayUp nodes (a # ps)"
proof -
  have "\<not> wayUp nodes (a # ps) \<and> \<not> wayUp nodes (b # ps)" using assms by (induction ps) auto
  then show ?thesis by simp
qed

definition demoSpan :: "string \<Rightarrow> string \<Rightarrow> int \<Rightarrow> span_data" where
  "demoSpan i p t = \<lparr>spID = i, spTraceID = [], ParentSpanID = p, spAgentID = [], SpanType = [], spName = [], spStatus = [],
     spDurationMs = 0, spModel = [], spProvider = [], InputTokens = 0, OutputTokens = 0, ToolName = [], spInputPreview = [],
     spOutputPreview = [], spError = [], spMetadata = None, spStartTime = t, spEndTime = None, spCreatedAt = 0\<rparr>"

theorem span_tree_is_built_witness:
  "\<exists>f. BuildSpanTree [demoSpan ''a'' ''b'' 1, demoSpan ''b'' ''a'' 2, demoSpan ''r'' [] 3, demoSpan ''c'' ''r'' 4] [''b'', ''c'', ''r'', ''a''] = Some f \<and>
     shown f ''c'' \<and> \<not> shown f ''a''"
proof -
  let ?spans = "[demoSpan ''a'' ''b'' 1, demoSpan ''b'' ''a'' 2, demoSpan ''r'' [] 3, demoSpan ''c'' ''r'' 4]"
  let ?order = "[''b'', ''c'', ''r'', ''a'']"
  have k: "map fst (spanNodes ?spans) = [''a'', ''b'', ''r'', ''c'']" by code_simp
  have n: "set ?order = fst ` set (spanNodes ?spans)" unfolding set_map [symmetric] k by auto
  have c: "wayUp (spanNodes ?spans) [''c'', ''r'']" by code_simp
  have "parentOf (spanNodes ?spans) ''a'' = Some ''b''" "parentOf (spanNodes ?spans) ''b'' = Some ''a''" by code_simp+
  then have "\<not> wayUp (spanNodes ?spans) (''a'' # ps)" for ps by (rule cycle_no_wayUp)
  then have na: "\<not> (\<exists>ps. wayUp (spanNodes ?spans) (''a'' # ps))" by blast
  have d: "distinct ?order" by simp
  obtain f where f: "BuildSpanTree ?spans ?order = Some f"
      "\<forall>i. shown f i \<longleftrightarrow> i \<in> set ?order \<and> (\<exists>ps. wayUp (spanNodes ?spans) (i # ps))"
    using span_tree_is_built [OF d n] by (elim exE conjE)
  have "shown f ''c''" unfolding f(2) [rule_format]
    by (rule conjI, simp, rule exI [of _ "[''r'']"], rule c)
  moreover have "\<not> shown f ''a''" unfolding f(2) [rule_format] using na by blast
  ultimately show ?thesis using f(1) by blast
qed

text \<open>The children of an only child are never sorted: their order is that of the map.\<close>

lemma only_child_not_sorted:
  defines "spans \<equiv> [demoSpan ''r'' [] 0, demoSpan ''c'' ''r'' 1, demoSpan ''x'' ''c'' 2, demoSpan ''y'' ''c'' 3]"
  shows "map_option (\<lambda>f. sfChildren f ''c'') (BuildSpanTree spans [''r'', ''c'', ''x'', ''y'']) = Some [''x'', ''y'']"
    and "map_option (\<lambda>f. sfChildren f ''c'') (BuildSpanTree spans [''r'', ''c'', ''y'', ''x'']) = Some [''y'', ''x'']"
  unfolding spans_def by code_simp+

end
