(* ===== verification/TraceStore.thy ===== *)
theory TraceStore
  imports SpanTree GoclawKinds
begin

text \<open>
  The traces of the terminal UI: the two requests of \<open>internal/provider/goclaw/traces.go\<close> and the store of
  \<open>internal/tui/trace_store.go\<close>. The web socket reader, the UI and any number of refreshing goroutines share
  the store. Each critical section of the mutex is one step; the fetch between the two sections of a refresh
  is a window in which the others run.
\<close>

section \<open>Requests\<close>

text \<open>\<open>url.Values.Encode\<close>: the pairs sorted by key, with \<open>url.QueryEscape\<close> on both sides.\<close>

definition querySafe :: "char \<Rightarrow> bool" where
  "querySafe c \<longleftrightarrow> isUpper c \<or> isLower c \<or> isDigit c \<or> c \<in> set ''-_.~''"

definition queryEscapeC :: "char \<Rightarrow> string" where
  "queryEscapeC c =
     (if querySafe c then [c] else if c = CHR '' '' then ''+''
      else [CHR ''%'', upperHex (code c div 16), upperHex (code c mod 16)])"

definition queryEscape :: "string \<Rightarrow> string" where
  "queryEscape s = concat (map queryEscapeC s)"

definition encodeQuery :: "(string \<times> string) list \<Rightarrow> string" where
  "encodeQuery kvs = strJoin ''&'' (map (\<lambda>(k, v). queryEscape k @ ''='' @ queryEscape v) kvs)"

text \<open>The parameters in the alphabetical order of their keys.\<close>

definition buildTraceQuery :: "trace_filters \<Rightarrow> string" where
  "buildTraceQuery f =
     (let params = (if tfAgentID f \<noteq> [] then [(''agent_id'', tfAgentID f)] else []) @
            (if tfChannel f \<noteq> [] then [(''channel'', tfChannel f)] else []) @
            (if 0 < tfLimit f then [(''limit'', showInt (tfLimit f))] else []) @
            (if 0 < tfOffset f then [(''offset'', showInt (tfOffset f))] else [])
      in if params = [] then [] else ''?'' @ encodeQuery params)"

record trace_codec =
  decTraces :: "string \<Rightarrow> (trace_data list \<times> int) result"
  decTrace :: "string \<Rightarrow> (trace_data \<times> span_data list) result"

definition ListTraces :: "trace_codec \<Rightarrow> 's goclaw \<Rightarrow> trace_filters \<Rightarrow> ('s gworld, trace_data list \<times> int) api" where
  "ListTraces cd gc f =
     bindA (wrapA ''list traces: '' (httpGet gc (''/v1/traces'' @ buildTraceQuery f))) (\<lambda>data.
       wrapA ''parse traces: '' (liftR (decTraces cd data)))"

definition GetTrace :: "trace_codec \<Rightarrow> 's goclaw \<Rightarrow> string \<Rightarrow> ('s gworld, trace_data \<times> span_data list) api" where
  "GetTrace cd gc traceID =
     bindA (wrapA (''get trace '' @ traceID @ '': '') (httpGet gc (''/v1/traces/'' @ traceID))) (\<lambda>data.
       wrapA ''parse trace detail: '' (liftR (decTrace cd data)))"

section \<open>The store\<close>

record trace_store =
  tsTraces :: "trace_data list"
  tsTotal :: int
  tsFilters :: trace_filters
  selectedID :: string
  tsSpans :: "span_data list"
  spanTree :: "span_forest option"
  selectedData :: "trace_data option"
  listDirty :: bool
  detailDirty :: bool
  fetching :: bool

definition NewTraceStore :: trace_store where
  "NewTraceStore = \<lparr>tsTraces = [], tsTotal = 0, tsFilters = \<lparr>tfAgentID = [], tfChannel = [], tfLimit = 50, tfOffset = 0\<rparr>,
     selectedID = [], tsSpans = [], spanTree = None, selectedData = None, listDirty = False, detailDirty = False, fetching = False\<rparr>"

definition NotifyTraceUpdated :: "trace_store \<Rightarrow> trace_store" where
  "NotifyTraceUpdated s = s\<lparr>listDirty := True\<rparr>"

definition SetFiltersT :: "trace_filters \<Rightarrow> trace_store \<Rightarrow> trace_store" where
  "SetFiltersT f s = s\<lparr>tsFilters := (if tfLimit f = 0 then f\<lparr>tfLimit := 50\<rparr> else f), listDirty := True\<rparr>"

definition NotifyDetailDirty :: "trace_store \<Rightarrow> trace_store" where
  "NotifyDetailDirty s = s\<lparr>detailDirty := True\<rparr>"

definition SelectTrace :: "string \<Rightarrow> trace_store \<Rightarrow> trace_store" where
  "SelectTrace i s =
     (if selectedID s \<noteq> i
      then s\<lparr>selectedID := i, tsSpans := [], spanTree := None, selectedData := None, detailDirty := True\<rparr> else s)"

text \<open>The first and the last section of \<open>RefreshList\<close>; a refresh that loses the race returns at once.\<close>

definition beginList :: "trace_store \<Rightarrow> trace_filters option \<times> trace_store" where
  "beginList s = (if fetching s then (None, s) else (Some (tsFilters s), s\<lparr>fetching := True\<rparr>))"

definition endList :: "(trace_data list \<times> int) result \<Rightarrow> trace_store \<Rightarrow> trace_store" where
  "endList r s =
     (case r of
        Inl err \<Rightarrow> s\<lparr>fetching := False\<rparr>
      | Inr (traces, n) \<Rightarrow> s\<lparr>tsTraces := traces, tsTotal := n, listDirty := False, fetching := False\<rparr>)"

text \<open>The same for \<open>RefreshDetail\<close>, which nothing keeps from running twice.\<close>

definition beginDetail :: "trace_store \<Rightarrow> string option" where
  "beginDetail s = (if selectedID s = [] then None else Some (selectedID s))"

definition endDetail :: "string \<Rightarrow> (trace_data \<times> span_data list) result \<Rightarrow> span_forest option \<Rightarrow> trace_store \<Rightarrow> trace_store" where
  "endDetail i r tree s =
     (case r of
        Inl err \<Rightarrow> s
      | Inr (trace, spans) \<Rightarrow>
          (if selectedID s = i
           then s\<lparr>selectedData := Some trace, tsSpans := spans, spanTree := tree, detailDirty := False\<rparr> else s))"

section \<open>Interleavings\<close>

text \<open>
  The fetches in flight: the filters of the list refresh and the ids of the detail refreshes. \<open>answers\<close> holds
  the answers the server may give for an id, at any time.
\<close>

record shared_store =
  store :: trace_store
  listFetch :: "trace_filters list"
  detailFetch :: "string list"

definition startShared :: shared_store where
  "startShared = \<lparr>store = NewTraceStore, listFetch = [], detailFetch = []\<rparr>"

definition iteration :: "span_data list \<Rightarrow> string list \<Rightarrow> bool" where
  "iteration spans order \<longleftrightarrow> distinct order \<and> set order = fst ` set (spanNodes spans)"

inductive store_step ::
  "(string \<Rightarrow> trace_data \<Rightarrow> span_data list \<Rightarrow> bool) \<Rightarrow> shared_store \<Rightarrow> shared_store \<Rightarrow> bool" for answers
where
  notify_list: "store_step answers c (c\<lparr>store := NotifyTraceUpdated (store c)\<rparr>)"
| notify_detail: "store_step answers c (c\<lparr>store := NotifyDetailDirty (store c)\<rparr>)"
| set_filters: "store_step answers c (c\<lparr>store := SetFiltersT f (store c)\<rparr>)"
| select: "store_step answers c (c\<lparr>store := SelectTrace i (store c)\<rparr>)"
| begin_list: "beginList (store c) = (Some f, s) \<Longrightarrow> store_step answers c (c\<lparr>store := s, listFetch := f # listFetch c\<rparr>)"
| end_list: "f \<in> set (listFetch c) \<Longrightarrow>
    store_step answers c (c\<lparr>store := endList r (store c), listFetch := remove1 f (listFetch c)\<rparr>)"
| begin_detail: "beginDetail (store c) = Some i \<Longrightarrow> store_step answers c (c\<lparr>detailFetch := i # detailFetch c\<rparr>)"
| detail_fails: "i \<in> set (detailFetch c) \<Longrightarrow>
    store_step answers c (c\<lparr>store := endDetail i (Inl err) None (store c), detailFetch := remove1 i (detailFetch c)\<rparr>)"
| end_detail: "i \<in> set (detailFetch c) \<Longrightarrow> answers i trace spans \<Longrightarrow> iteration spans order \<Longrightarrow>
    store_step answers c (c\<lparr>store := endDetail i (Inr (trace, spans)) (BuildSpanTree spans order) (store c),
      detailFetch := remove1 i (detailFetch c)\<rparr>)"

inductive shared_reachable :: "(string \<Rightarrow> trace_data \<Rightarrow> span_data list \<Rightarrow> bool) \<Rightarrow> shared_store \<Rightarrow> bool" for answers where
  start: "shared_reachable answers startShared"
| step: "shared_reachable answers c \<Longrightarrow> store_step answers c c' \<Longrightarrow> shared_reachable answers c'"

lemmas store_ops = NotifyTraceUpdated_def NotifyDetailDirty_def SetFiltersT_def SelectTrace_def beginList_def endList_def
  beginDetail_def endDetail_def

section \<open>Properties\<close>

definition detail_ok :: "(string \<Rightarrow> trace_data \<Rightarrow> span_data list \<Rightarrow> bool) \<Rightarrow> trace_store \<Rightarrow> bool" where
  "detail_ok answers s \<longleftrightarrow>
     (case selectedData s of
        None \<Rightarrow> tsSpans s = [] \<and> spanTree s = None
      | Some t \<Rightarrow> selectedID s \<noteq> [] \<and> answers (selectedID s) t (tsSpans s) \<and>
          (\<exists>order. iteration (tsSpans s) order \<and> BuildSpanTree (tsSpans s) order = spanTree s))"

definition one_fetch :: "shared_store \<Rightarrow> bool" where
  "one_fetch c \<longleftrightarrow> (if fetching (store c) then length (listFetch c) = 1 else listFetch c = [])"

definition fetches_named :: "shared_store \<Rightarrow> bool" where
  "fetches_named c \<longleftrightarrow> [] \<notin> set (detailFetch c)"

lemma remove1_single: "length xs = Suc 0 \<Longrightarrow> x \<in> set xs \<Longrightarrow> remove1 x xs = []"
  by (cases xs) auto

lemma store_step_detail:
  assumes "store_step answers c c'" "detail_ok answers (store c)" "fetches_named c"
  shows "detail_ok answers (store c')"
  using assms
  by cases (auto simp: store_ops detail_ok_def fetches_named_def split: if_splits option.splits sum.splits)

lemma store_step_fetch:
  assumes "store_step answers c c'" "one_fetch c" "fetches_named c"
  shows "one_fetch c'" "fetches_named c'"
  using assms
  by (cases, auto simp: store_ops one_fetch_def fetches_named_def remove1_single split: if_splits sum.splits dest: notin_set_remove1)+

lemma shared_reachable_inv:
  assumes "shared_reachable answers c"
  shows "detail_ok answers (store c) \<and> one_fetch c \<and> fetches_named c"
  using assms
proof induction
  case start
  show ?case by (simp add: startShared_def NewTraceStore_def detail_ok_def one_fetch_def fetches_named_def)
next
  case (step c c')
  then show ?case using store_step_detail store_step_fetch by blast
qed

text \<open>
  C21: However notifications, selections and refreshes interleave, the trace that is shown belongs to the
  selection: its header and spans are an answer of the server for the selected id, and the tree is built
  from these spans. A selection without an answer shows nothing, and at most one list refresh is in flight.
\<close>

theorem shown_trace_is_the_selected:
  assumes "shared_reachable answers c"
  shows "(case selectedData (store c) of
        None \<Rightarrow> tsSpans (store c) = [] \<and> spanTree (store c) = None
      | Some t \<Rightarrow> answers (selectedID (store c)) t (tsSpans (store c)) \<and>
          (\<exists>order f. iteration (tsSpans (store c)) order \<and> BuildSpanTree (tsSpans (store c)) order = Some f \<and> spanTree (store c) = Some f)) \<and>
    length (listFetch c) \<le> 1"
proof -
  note inv = shared_reachable_inv [OF assms]
  have "\<exists>f. BuildSpanTree spans order = Some f" if "iteration spans order" for spans order
    using that BuildSpanTree_returns [of order spans] unfolding iteration_def by blast
  then have "case selectedData (store c) of
        None \<Rightarrow> tsSpans (store c) = [] \<and> spanTree (store c) = None
      | Some t \<Rightarrow> answers (selectedID (store c)) t (tsSpans (store c)) \<and>
          (\<exists>order f. iteration (tsSpans (store c)) order \<and> BuildSpanTree (tsSpans (store c)) order = Some f \<and> spanTree (store c) = Some f)"
    using inv by (fastforce simp: detail_ok_def split: option.splits)
  moreover have "length (listFetch c) \<le> 1" using inv by (auto simp: one_fetch_def split: if_splits)
  ultimately show ?thesis by blast
qed

definition demoTrace :: trace_data where
  "demoTrace = \<lparr>trID = ''t1'', trParentTraceID = [], trAgentID = [], trName = ''run'', trChannel = [], trSessionKey = [], trRunID = [],
     trStatus = ''ok'', trDurationMs = 0, TotalInputTokens = 0, TotalOutputTokens = 0, SpanCount = 1, LLMCallCount = 0,
     ToolCallCount = 0, trInputPreview = [], trOutputPreview = [], trError = [], trStartTime = 0, trEndTime = None,
     trMetadata = None, trCreatedAt = 0\<rparr>"

definition demoAnswers :: "string \<Rightarrow> trace_data \<Rightarrow> span_data list \<Rightarrow> bool" where
  "demoAnswers i t sp \<longleftrightarrow> i = ''t1'' \<and> t = demoTrace \<and> sp = [demoSpan ''r'' [] 0]"

text \<open>A run: select, fetch twice, lose the first fetch to an error, and take the second answer.\<close>

definition demoShared :: shared_store where
  "demoShared =
     (let s = SelectTrace ''t1'' NewTraceStore;
          s = endDetail ''t1'' (Inl (errorf ''timeout'')) None s
      in startShared\<lparr>store := endDetail ''t1'' (Inr (demoTrace, [demoSpan ''r'' [] 0])) (BuildSpanTree [demoSpan ''r'' [] 0] [''r'']) s\<rparr>)"

lemma demoShared_reachable: "shared_reachable demoAnswers demoShared"
proof -
  let ?c1 = "startShared\<lparr>store := SelectTrace ''t1'' (store startShared)\<rparr>"
  have 1: "shared_reachable demoAnswers ?c1" by (rule step [OF start select])
  let ?c2 = "?c1\<lparr>detailFetch := ''t1'' # detailFetch ?c1\<rparr>"
  have b: "beginDetail (store ?c1) = Some ''t1''" by (simp add: startShared_def NewTraceStore_def store_ops)
  have 2: "shared_reachable demoAnswers ?c2" by (rule step [OF 1 begin_detail [OF b]])
  let ?c3 = "?c2\<lparr>detailFetch := ''t1'' # detailFetch ?c2\<rparr>"
  have "beginDetail (store ?c2) = Some ''t1''" using b by simp
  from step [OF 2 begin_detail [OF this]] have 3: "shared_reachable demoAnswers ?c3" .
  let ?c4 = "?c3\<lparr>store := endDetail ''t1'' (Inl (errorf ''timeout'')) None (store ?c3), detailFetch := remove1 ''t1'' (detailFetch ?c3)\<rparr>"
  have 4: "shared_reachable demoAnswers ?c4" by (rule step [OF 3 detail_fails]) simp
  have it: "iteration [demoSpan ''r'' [] 0] [''r'']" by (simp add: iteration_def spanNodes_def demoSpan_def)
  have m: "''t1'' \<in> set (detailFetch ?c4)" by simp
  have a: "demoAnswers ''t1'' demoTrace [demoSpan ''r'' [] 0]" by (simp add: demoAnswers_def)
  have "store_step demoAnswers ?c4 (?c4\<lparr>store := endDetail ''t1'' (Inr (demoTrace, [demoSpan ''r'' [] 0]))
      (BuildSpanTree [demoSpan ''r'' [] 0] [''r'']) (store ?c4), detailFetch := remove1 ''t1'' (detailFetch ?c4)\<rparr>)"
    by (rule end_detail) (rule m, rule a, rule it)
  from step [OF 4 this] show ?thesis
    by (simp add: demoShared_def startShared_def Let_def)
qed

theorem shown_trace_is_the_selected_witness:
  "shared_reachable demoAnswers demoShared \<and> selectedData (store demoShared) = Some demoTrace \<and>
   demoAnswers (selectedID (store demoShared)) demoTrace (tsSpans (store demoShared))"
proof -
  have "selectedData (store demoShared) = Some demoTrace"
    by (simp add: demoShared_def NewTraceStore_def startShared_def store_ops)
  with shown_trace_is_the_selected [OF demoShared_reachable] demoShared_reachable show ?thesis by simp
qed

text \<open>
  A notification that arrives while the list is being fetched is lost: the fetch clears the flag although
  its answer may be older than the notification.
\<close>

lemma update_during_fetch_is_lost:
  "\<exists>c1 c2 c3. store_step answers startShared c1 \<and> listFetch c1 \<noteq> [] \<and>
     store_step answers c1 c2 \<and> store c2 = NotifyTraceUpdated (store c1) \<and>
     store_step answers c2 c3 \<and> \<not> listDirty (store c3) \<and> listFetch c3 = []"
proof -
  let ?f = "tsFilters NewTraceStore"
  let ?s1 = "NewTraceStore\<lparr>fetching := True\<rparr>" and ?s3 = "endList (Inr ([], 0)) (NotifyTraceUpdated (NewTraceStore\<lparr>fetching := True\<rparr>))"
  let ?c1 = "\<lparr>store = ?s1, listFetch = [?f], detailFetch = []\<rparr>"
  let ?c2 = "\<lparr>store = NotifyTraceUpdated ?s1, listFetch = [?f], detailFetch = []\<rparr>"
  let ?c3 = "\<lparr>store = ?s3, listFetch = [], detailFetch = []\<rparr>"
  have 1: "store_step answers startShared ?c1"
    using begin_list [of startShared ?f ?s1 answers] by (simp add: beginList_def startShared_def NewTraceStore_def)
  have 2: "store_step answers ?c1 ?c2" using notify_list [of answers ?c1] by simp
  have 3: "store_step answers ?c2 ?c3" using end_list [of ?f ?c2 answers "Inr ([], 0)"] by simp
  have "\<not> listDirty (store ?c3)" by (simp add: endList_def)
  with 1 2 3 show ?thesis by fastforce
qed

end
