(* ===== verification/Views.thy ===== *)
theory Views
  imports Display LiveStore TraceStore
begin

text \<open>
  \<open>internal/tui/views\<close>: what the views of the terminal UI compute. The widgets belong to \<open>tview\<close>; modelled
  are the data behind a table or a text and the text itself. Rendering of values by \<open>fmt\<close>, of times and of
  seconds with one decimal, and \<open>json.MarshalIndent\<close> are parameters. Strings hold UTF-8 bytes.
\<close>

section \<open>Styles\<close>

type_synonym color = "int \<times> int \<times> int"

definition ColorBase :: color where "ColorBase = (30, 30, 46)"
definition ColorMantle :: color where "ColorMantle = (24, 24, 37)"
definition ColorSurface0 :: color where "ColorSurface0 = (49, 50, 68)"
definition ColorSurface1 :: color where "ColorSurface1 = (69, 71, 90)"
definition ColorOverlay0 :: color where "ColorOverlay0 = (108, 112, 134)"
definition ColorText :: color where "ColorText = (205, 214, 244)"
definition ColorSubtext0 :: color where "ColorSubtext0 = (166, 173, 200)"
definition ColorRed :: color where "ColorRed = (243, 139, 168)"
definition ColorGreen :: color where "ColorGreen = (166, 227, 161)"
definition ColorYellow :: color where "ColorYellow = (249, 226, 175)"
definition ColorBlue :: color where "ColorBlue = (137, 180, 250)"
definition ColorMauve :: color where "ColorMauve = (203, 166, 247)"
definition ColorPeach :: color where "ColorPeach = (250, 179, 135)"
definition ColorTeal :: color where "ColorTeal = (148, 226, 213)"
definition ColorLavender :: color where "ColorLavender = (180, 190, 254)"
definition ColorFlamingo :: color where "ColorFlamingo = (242, 205, 205)"
definition ColorSky :: color where "ColorSky = (137, 220, 235)"
definition ColorSapphire :: color where "ColorSapphire = (116, 199, 236)"
definition ColorPink :: color where "ColorPink = (245, 194, 231)"
definition ColorRosewater :: color where "ColorRosewater = (245, 224, 220)"

definition HexOverlay0 :: string where "HexOverlay0 = ''#6c7086''"
definition HexText :: string where "HexText = ''#cdd6f4''"
definition HexSubtext0 :: string where "HexSubtext0 = ''#a6adc8''"
definition HexRed :: string where "HexRed = ''#f38ba8''"
definition HexGreen :: string where "HexGreen = ''#a6e3a1''"
definition HexYellow :: string where "HexYellow = ''#f9e2af''"
definition HexBlue :: string where "HexBlue = ''#89b4fa''"
definition HexMauve :: string where "HexMauve = ''#cba6f7''"
definition HexPeach :: string where "HexPeach = ''#fab387''"
definition HexTeal :: string where "HexTeal = ''#94e2d5''"
definition HexLavender :: string where "HexLavender = ''#b4befe''"

definition Tag :: "string \<Rightarrow> string \<Rightarrow> string" where
  "Tag hex txt = ''['' @ hex @ '']'' @ txt @ ''[-]''"

definition BoldTag :: "string \<Rightarrow> string \<Rightarrow> string" where
  "BoldTag hex txt = ''['' @ hex @ ''::b]'' @ txt @ ''[-::-]''"

definition HeaderSep :: string where
  "HeaderSep = Tag HexOverlay0 '' | ''"

text \<open>The symbols \<open>U+25CF\<close>, \<open>U+25C6\<close>, \<open>U+2717\<close>, \<open>U+25D0\<close> and \<open>U+25CB\<close>.\<close>

definition symFull :: string where "symFull = map char_of [226 :: nat, 151, 143]"
definition symDiamond :: string where "symDiamond = map char_of [226 :: nat, 151, 134]"
definition symCross :: string where "symCross = map char_of [226 :: nat, 156, 151]"
definition symHalf :: string where "symHalf = map char_of [226 :: nat, 151, 144]"
definition symEmpty :: string where "symEmpty = map char_of [226 :: nat, 151, 139]"
definition symDash :: string where "symDash = map char_of [226 :: nat, 128, 148]"

definition StatusIndicator :: "(string \<times> string) list" where
  "StatusIndicator = [(''InSync'', symFull), (''Drifted'', symDiamond), (''Missing'', symCross), (''Error'', symCross), (''Extra'', ''?'')]"

definition StatusColor :: "(string \<times> color) list" where
  "StatusColor = [(''InSync'', ColorGreen), (''Drifted'', ColorYellow), (''Missing'', ColorPeach), (''Error'', ColorRed), (''Extra'', ColorLavender)]"

definition StatusHex :: "(string \<times> string) list" where
  "StatusHex = [(''InSync'', HexGreen), (''Drifted'', HexYellow), (''Missing'', HexPeach), (''Error'', HexRed), (''Extra'', HexLavender)]"

definition KindColor :: "(resource_kind \<times> color) list" where
  "KindColor = [(KindTenant, ColorPink), (KindProvider, ColorBlue), (KindAgent, ColorMauve), (KindChannel, ColorTeal),
     (KindMCPServer, ColorSky), (KindSkill, ColorGreen), (KindCronJob, ColorYellow), (KindAgentTeam, ColorPeach),
     (KindBuiltinToolConfig, ColorFlamingo), (KindSkillConfig, ColorLavender), (KindMCPCredentials, ColorSapphire),
     (KindSystemConfig, ColorRosewater), (KindSecureCLI, ColorPink), (KindSecureCLIGrant, ColorFlamingo), (KindAgentLink, ColorSky)]"

text \<open>A lookup that gives a default for a missing key.\<close>

definition getOr :: "'v \<Rightarrow> (string \<times> 'v) list \<Rightarrow> string \<Rightarrow> 'v" where
  "getOr d m k = (case map_of m k of None \<Rightarrow> d | Some v \<Rightarrow> v)"

definition StatusCell :: "string \<Rightarrow> string \<times> color" where
  "StatusCell status = (getOr ''?'' StatusIndicator status @ '' '' @ status, getOr ColorText StatusColor status)"

definition KindCellColor :: "resource_kind \<Rightarrow> color" where
  "KindCellColor kind = getOr ColorText KindColor kind"

section \<open>The resource table\<close>

definition actionToStatus :: "change \<Rightarrow> string" where
  "actionToStatus c =
     (if Error c \<noteq> [] then ''Error''
      else case Action c of
        ActionNoop \<Rightarrow> ''InSync'' | ActionUpdate \<Rightarrow> ''Drifted'' | ActionCreate \<Rightarrow> ''Missing''
      | ActionDelete \<Rightarrow> ''Extra'' | ActionUnset \<Rightarrow> ''Unknown'')"

definition shownStatuses :: "string list" where
  "shownStatuses = [''InSync'', ''Drifted'', ''Missing'', ''Error'', ''Extra'']"

definition statusCount :: "change list \<Rightarrow> string \<Rightarrow> nat" where
  "statusCount changes s = length (filter (\<lambda>c. actionToStatus c = s) changes)"

definition summaryParts :: "(string \<Rightarrow> nat \<Rightarrow> string) \<Rightarrow> change list \<Rightarrow> string list" where
  "summaryParts part changes =
     map (\<lambda>s. part s (statusCount changes s)) (filter (\<lambda>s. 0 < statusCount changes s) shownStatuses)"

definition StatusSummary :: "change list \<Rightarrow> string" where
  "StatusSummary changes =
     (let parts = summaryParts (\<lambda>s n. showNat n @ '' '' @ s) changes in
      if parts = [] then ''no resources'' else strJoin ''  '' parts)"

definition StatusSummaryColored :: "change list \<Rightarrow> string" where
  "StatusSummaryColored changes =
     (let parts = summaryParts (\<lambda>s n. Tag (getOr [] StatusHex s) (getOr [] StatusIndicator s @ '' '' @ showNat n @ '' '' @ s)) changes in
      if parts = [] then Tag HexOverlay0 ''no resources'' else strJoin ''  '' parts)"

record table_row =
  rowKind :: resource_kind
  rowName :: string
  rowStatus :: string
  driftInfo :: string
  rowChange :: change

definition toTableRow :: "change \<Rightarrow> table_row" where
  "toTableRow c =
     \<lparr>rowKind = chKind c, rowName = chName c, rowStatus = actionToStatus c,
      driftInfo = (if Diff c \<noteq> [] then strJoin '', '' (sort (map fst (Diff c))) else ''-''), rowChange = c\<rparr>"

fun indexOf :: "string list \<Rightarrow> string \<Rightarrow> nat" where
  "indexOf [] k = 0"
| "indexOf (x # xs) k = (if x = k then 0 else Suc (indexOf xs k))"

definition kindOrder :: "resource_kind \<Rightarrow> nat" where
  "kindOrder k = (if k \<in> set ApplyOrder then indexOf ApplyOrder k else 0)"

text \<open>\<open>sort.Slice\<close> by kind and then name: a stable sort by the name followed by one by the kind.\<close>

definition sortChanges :: "change list \<Rightarrow> change list" where
  "sortChanges changes = sort_key (kindOrder \<circ> chKind) (sort_key chName changes)"

definition tableRows :: "change list \<Rightarrow> table_row list" where
  "tableRows changes = map toTableRow (sortChanges changes)"

text \<open>The entry behind a row of a table with one header row.\<close>

definition atRow :: "'a list \<Rightarrow> int \<Rightarrow> 'a option" where
  "atRow xs row = (let idx = row - 1 in if idx < 0 \<or> int (length xs) \<le> idx then None else Some (xs ! nat idx))"

definition GetSelectedChange :: "table_row list \<Rightarrow> int \<Rightarrow> change option" where
  "GetSelectedChange rows row = map_option rowChange (atRow rows row)"

text \<open>The cells of a row, with their colours.\<close>

definition rowCells :: "table_row \<Rightarrow> (string \<times> color) list" where
  "rowCells r = [(rowKind r, KindCellColor (rowKind r)), (rowName r, ColorText), StatusCell (rowStatus r), (driftInfo r, ColorOverlay0)]"

section \<open>The drift view\<close>

definition escapeTags :: "string \<Rightarrow> string" where
  "escapeTags s = concat (map (\<lambda>c. if c = CHR ''['' then ''[[]'' else [c]) s)"

definition formatDiffVal :: "(gval \<Rightarrow> string) \<Rightarrow> gval \<Rightarrow> string" where
  "formatDiffVal fmtV v =
     (if v = GNil then ''(none)''
      else let s = fmtV v; s = (if 80 < length s then take 77 s @ ''...'' else s) in trimSpace (escapeTags s))"

definition driftField :: "(gval \<Rightarrow> string) \<Rightarrow> diffs \<Rightarrow> string \<Rightarrow> string" where
  "driftField fmtV ds k =
     (case map_of ds k of
        None \<Rightarrow> []
      | Some d \<Rightarrow> ''  '' @ BoldTag HexText (k @ '':'') @ [nl] @
          ''    '' @ Tag HexRed (''- '' @ formatDiffVal fmtV (Old d)) @ [nl] @
          ''    '' @ Tag HexGreen (''+ '' @ formatDiffVal fmtV (New d)) @ [nl])"

definition driftRule :: string where
  "driftRule = ''  '' @ Tag HexOverlay0 (concat (replicate 8 (map char_of [226 :: nat, 148, 128]))) @ [nl]"

definition renderDiff :: "(gval \<Rightarrow> string) \<Rightarrow> diffs \<Rightarrow> string" where
  "renderDiff fmtV ds =
     (if ds = [] then Tag HexGreen ''No differences found.''
      else BoldTag HexMauve (showNat (length ds) @ '' field(s) drifted:'') @ [nl, nl] @
        strJoin driftRule (map (driftField fmtV ds) (sort (map fst ds))))"

definition showDriftText :: "(gval \<Rightarrow> string) \<Rightarrow> change \<Rightarrow> string \<times> string" where
  "showDriftText fmtV c =
     ('' Drift: '' @ chKind c @ ''/'' @ chName c @ '' '',
      if Error c \<noteq> [] then Tag HexRed (''Error: '' @ Error c)
      else case Action c of
        ActionNoop \<Rightarrow> Tag HexGreen ''No drift detected. Resource is in sync.''
      | ActionCreate \<Rightarrow> Tag HexYellow ''Resource missing in GoClaw. Will be created on apply.''
      | ActionDelete \<Rightarrow> Tag HexLavender (''Resource exists in GoClaw but not in manifest (orphan).'' @ [nl] @
          ''Will be deleted on apply with --prune.'')
      | ActionUpdate \<Rightarrow> renderDiff fmtV (Diff c)
      | ActionUnset \<Rightarrow> Tag HexOverlay0 ''Unknown state.'')"

section \<open>The detail view\<close>

fun numericTail :: "string \<Rightarrow> bool \<Rightarrow> bool" where
  "numericTail [] hasDigit = hasDigit"
| "numericTail (c # cs) hasDigit =
     (if c = CHR ''.'' then numericTail cs hasDigit else if isDigit c then numericTail cs True else False)"

definition isNumeric :: "string \<Rightarrow> bool" where
  "isNumeric s =
     (case s of [] \<Rightarrow> False | c # cs \<Rightarrow> if c = CHR ''-'' then numericTail cs False else numericTail s False)"

definition colorizeValue :: "string \<Rightarrow> string" where
  "colorizeValue v =
     (let trimmed = trimSpace v in
      if trimmed = [] then v
      else if trimmed = ''true'' \<or> trimmed = ''false'' then '' '' @ Tag HexPeach trimmed
      else if trimmed = ''null'' \<or> trimmed = ''~'' then '' '' @ Tag HexOverlay0 trimmed
      else if isNumeric trimmed then '' '' @ Tag HexPeach trimmed
      else '' '' @ Tag HexGreen trimmed)"

text \<open>The groups of \<open>^(\s*)([\w._-]+)(:)(.*)$\<close>: the key is followed by the first colon, as it contains none.\<close>

definition yamlKeyC :: "char \<Rightarrow> bool" where
  "yamlKeyC c \<longleftrightarrow> isUpper c \<or> isLower c \<or> isDigit c \<or> c \<in> set ''_.-''"

definition reSpace :: "char \<Rightarrow> bool" where
  "reSpace c \<longleftrightarrow> code c \<in> {9, 10, 12, 13, 32}"

definition yamlKey :: "string \<Rightarrow> (string \<times> string \<times> string) option" where
  "yamlKey line =
     (let indent = takeWhile reSpace line; rest = dropWhile reSpace line; key = takeWhile yamlKeyC rest in
      case dropWhile yamlKeyC rest of
        [] \<Rightarrow> None
      | c # val \<Rightarrow> if key \<noteq> [] \<and> c = CHR '':'' then Some (indent, key, val) else None)"

definition highlightLine :: "string \<Rightarrow> string" where
  "highlightLine line =
     (let escaped = escapeTags line in
      case yamlKey line of
        Some (indent, key, rest) \<Rightarrow> indent @ ''['' @ HexLavender @ '']'' @ key @ '':[-]'' @ colorizeValue (escapeTags rest)
      | None \<Rightarrow>
          if hasPrefix ''#'' (trimSpace escaped) then Tag HexOverlay0 escaped
          else if hasPrefix ''- '' (trimSpace escaped) then Tag HexText escaped
          else escaped)"

definition highlightYAML :: "string \<Rightarrow> string" where
  "highlightYAML s = strJoin [nl] (map highlightLine (strSplit [nl] s))"

definition detailText :: "(gomap \<Rightarrow> string result) \<Rightarrow> resource_kind \<Rightarrow> string \<Rightarrow> gomap option result \<Rightarrow> string" where
  "detailText toYaml kind name observed =
     (case observed of
        Inl err \<Rightarrow> Tag HexRed (''Error observing '' @ kind @ ''/'' @ name @ '':'' @ [nl] @ errText err)
      | Inr None \<Rightarrow> Tag HexYellow (kind @ ''/'' @ name @ '' not yet created in GoClaw.'') @ [nl, nl] @ ''Run '' @
          Tag HexGreen ''gcplane apply'' @ '' to create it.''
      | Inr (Some m) \<Rightarrow>
          (case toYaml m of
             Inl err \<Rightarrow> Tag HexRed (''Failed to marshal YAML: '' @ errText err)
           | Inr y \<Rightarrow> highlightYAML y))"

end
