(* ===== verification/Panels.thy ===== *)
theory Panels
  imports Views
begin

text \<open>
  The panels for logs and traces of \<open>internal/tui/views\<close>: \<open>logs_panel.go\<close>, \<open>trace_list.go\<close>, \<open>span_list.go\<close>,
  \<open>span_detail.go\<close> and \<open>traces_panel.go\<close>. A panel keeps the entries behind its table; the selected row belongs to
  the widget and is part of the state here because what a key acts on depends on it.
\<close>

section \<open>Logs\<close>

definition logLevelRank :: "string \<Rightarrow> int" where
  "logLevelRank l = getOr 0 [(''debug'', 0), (''info'', 1), (''warn'', 2), (''error'', 3)] l"

definition logLevelLabel :: "(string \<times> string) list" where
  "logLevelLabel = [(''debug'', ''DBG''), (''info'', ''INF''), (''warn'', ''WRN''), (''error'', ''ERR'')]"

definition logLevelHex :: "(string \<times> string) list" where
  "logLevelHex = [(''debug'', HexOverlay0), (''info'', HexGreen), (''warn'', HexYellow), (''error'', HexRed)]"

definition colorFromHex :: "string \<Rightarrow> color \<times> bool" where
  "colorFromHex hex =
     (if hex = HexOverlay0 then (ColorOverlay0, True) else if hex = HexGreen then (ColorGreen, True)
      else if hex = HexYellow then (ColorYellow, True) else if hex = HexRed then (ColorRed, True)
      else if hex = HexBlue then (ColorBlue, True) else if hex = HexText then (ColorText, True)
      else (ColorText, False))"

definition lower :: "string \<Rightarrow> string" where
  "lower s = map toLowerC s"

definition formatLogAttrs :: "(string \<times> string) list \<Rightarrow> string" where
  "formatLogAttrs attrs = strJoin '' '' (map (\<lambda>k. k @ ''='' @ getOr [] attrs k) (sort (map fst attrs)))"

record logs_panel =
  lpPaused :: bool
  levelMin :: string
  msgFilter :: string
  lpEntries :: "log_entry list"
  lpRow :: int

definition NewLogsPanel :: logs_panel where
  "NewLogsPanel = \<lparr>lpPaused = False, levelMin = ''info'', msgFilter = [], lpEntries = [], lpRow = 0\<rparr>"

definition logShown :: "string \<Rightarrow> string \<Rightarrow> log_entry \<Rightarrow> bool" where
  "logShown minimum flt e \<longleftrightarrow> \<not> logLevelRank (leLevel e) < logLevelRank minimum \<and>
     (flt \<noteq> [] \<longrightarrow> strContains (lower (leMessage e @ '' '' @ leSource e)) flt)"

definition RefreshLogs :: "log_entry list \<Rightarrow> logs_panel \<Rightarrow> logs_panel" where
  "RefreshLogs entries p =
     (let vis = filter (logShown (levelMin p) (msgFilter p)) entries in
      p\<lparr>lpEntries := vis, lpRow := (if \<not> lpPaused p \<and> vis \<noteq> [] then int (length vis) else lpRow p)\<rparr>)"

definition logCells :: "(int \<Rightarrow> string) \<Rightarrow> log_entry \<Rightarrow> (string \<times> color) list" where
  "logCells fmtTime e =
     (let hex = getOr HexText logLevelHex (leLevel e);
          label = getOr (leLevel e) logLevelLabel (leLevel e);
          src = (if 14 < length (leSource e) then take 11 (leSource e) @ ''...'' else leSource e);
          attrs = formatLogAttrs (leAttrs e)
      in [('' '' @ fmtTime (leTime e), ColorOverlay0), (label, fst (colorFromHex hex)), (src, ColorSky),
          (leMessage e @ (if attrs \<noteq> [] then '' '' @ attrs else []), ColorText)])"

definition SelectedEntry :: "(int \<Rightarrow> string) \<Rightarrow> logs_panel \<Rightarrow> string" where
  "SelectedEntry fmtTime p =
     (case atRow (lpEntries p) (lpRow p) of
        None \<Rightarrow> []
      | Some e \<Rightarrow>
          (let attrs = formatLogAttrs (leAttrs e) in
           fmtTime (leTime e) @ '' '' @ leLevel e @ '' '' @ leSource e @ '' '' @ leMessage e @
             (if attrs \<noteq> [] then '' '' @ attrs else [])))"

definition SetLevelMin :: "string \<Rightarrow> logs_panel \<Rightarrow> logs_panel" where "SetLevelMin l p = p\<lparr>levelMin := l\<rparr>"
definition SetFilterL :: "string \<Rightarrow> logs_panel \<Rightarrow> logs_panel" where "SetFilterL f p = p\<lparr>msgFilter := lower f\<rparr>"
definition TogglePauseL :: "logs_panel \<Rightarrow> logs_panel" where "TogglePauseL p = p\<lparr>lpPaused := \<not> lpPaused p\<rparr>"

text \<open>The rows of the table: the header and the entries, or the header and a note.\<close>

definition rowCount :: "'a list \<Rightarrow> int" where
  "rowCount xs = (if xs = [] then 2 else int (length xs) + 1)"

definition halfPageDown :: "int \<Rightarrow> int \<Rightarrow> int \<Rightarrow> int" where
  "halfPageDown height rows row = (let new = row + height div 2; max = rows - 1 in if max < new then max else new)"

definition halfPageUp :: "int \<Rightarrow> int \<Rightarrow> int" where
  "halfPageUp height row = (let new = row - height div 2 in if new < 1 then 1 else new)"

definition logsStatusBar :: "logs_panel \<Rightarrow> nat \<Rightarrow> nat \<Rightarrow> string" where
  "logsStatusBar p vis n =
     '' '' @ (if lpPaused p then Tag HexYellow ''[PAUSED] '' else []) @ Tag HexOverlay0 ''---'' @ '' '' @ showNat vis @ ''/'' @
     showNat n @ '' entries | Level: '' @ getOr [] logLevelLabel (levelMin p) @ ''+''"

section \<open>Numbers and durations\<close>

definition compactNumber :: "int \<Rightarrow> string" where
  "compactNumber n = (if n < 1000 then showInt n else showInt (n div 1000) @ ''k'')"

definition formatTokens :: "int \<Rightarrow> int \<Rightarrow> trace_metadata option \<Rightarrow> string" where
  "formatTokens inp out meta =
     compactNumber inp @ ''/'' @ compactNumber out @
     (case meta of
        None \<Rightarrow> []
      | Some m \<Rightarrow> if 0 < TotalCacheReadTokens m then '' +'' @ compactNumber (TotalCacheReadTokens m) @ ''c'' else [])"

text \<open>\<open>fmtSecs ms\<close> is \<open>%.1f\<close> of the seconds.\<close>

definition formatTraceDuration :: "(int \<Rightarrow> string) \<Rightarrow> int \<Rightarrow> string" where
  "formatTraceDuration fmtSecs ms =
     (if ms \<le> 0 then symDash
      else if ms < 1000 then showInt ms @ ''ms''
      else if ms < 60000 then fmtSecs ms @ ''s''
      else showInt (ms div 1000 div 60) @ ''m'' @ showInt (ms div 1000 mod 60) @ ''s'')"

text \<open>\<open>formatNumber\<close>: a comma before every digit whose distance from the end is a multiple of three.\<close>

fun commas :: "string \<Rightarrow> bool \<Rightarrow> string" where
  "commas [] started = []"
| "commas (c # cs) started =
     (if started \<and> (length cs + 1) mod 3 = 0 then [CHR '','', c] else [c]) @ commas cs True"

definition formatNumber :: "int \<Rightarrow> string" where
  "formatNumber n = (if n < 1000 then showInt n else commas (showInt n) False)"

definition traceStatusCell :: "string \<Rightarrow> string \<times> color" where
  "traceStatusCell status =
     (if status \<in> set [''ok'', ''success'', ''completed''] then (symFull, ColorGreen)
      else if status \<in> set [''error'', ''failed''] then (symCross, ColorRed)
      else if status \<in> set [''running'', ''pending''] then (symHalf, ColorYellow)
      else (symEmpty, ColorOverlay0))"

definition spanStatusIcon :: "string \<Rightarrow> string" where
  "spanStatusIcon status =
     (if status \<in> set [''ok'', ''success'', ''completed''] then symFull
      else if status \<in> set [''error'', ''failed''] then symCross
      else if status \<in> set [''running'', ''pending''] then symHalf
      else symEmpty)"

definition spanTypeColor :: "string \<Rightarrow> color" where
  "spanTypeColor ty =
     (if ty = ''agent'' then ColorMauve else if ty = ''llm_call'' then ColorBlue else if ty = ''tool_call'' then ColorTeal
      else ColorOverlay0)"

definition spanTypeHex :: "string \<Rightarrow> string" where
  "spanTypeHex ty =
     (if ty = ''agent'' then HexMauve else if ty = ''llm_call'' then HexBlue else if ty = ''tool_call'' then HexTeal else HexOverlay0)"

section \<open>The two lists\<close>

definition clip :: "nat \<Rightarrow> string \<Rightarrow> string" where
  "clip n s = (if n < length s then take (n - 3) s @ ''...'' else s)"

definition traceMatches :: "string \<Rightarrow> trace_data \<Rightarrow> bool" where
  "traceMatches flt tr \<longleftrightarrow> strContains (lower (trName tr @ '' '' @ trAgentID tr @ '' '' @ trChannel tr @ '' '' @ trStatus tr)) flt"

definition spanMatches :: "string \<Rightarrow> span_data \<Rightarrow> bool" where
  "spanMatches flt s \<longleftrightarrow>
     strContains (lower (SpanType s @ '' '' @ spName s @ '' '' @ ToolName s @ '' '' @ spModel s @ '' '' @ spStatus s)) flt"

record trace_list =
  tlTraces :: "trace_data list"
  tlFilter :: string
  tlRow :: int

text \<open>The last row with the selected id wins; without one the first row is selected.\<close>

fun selectedRowOf :: "trace_data list \<Rightarrow> string \<Rightarrow> int \<Rightarrow> int \<Rightarrow> int" where
  "selectedRowOf [] i row sel = sel"
| "selectedRowOf (tr # trs) i row sel = selectedRowOf trs i (row + 1) (if trID tr = i then row else sel)"

definition RefreshTraceList :: "trace_data list \<Rightarrow> string \<Rightarrow> trace_list \<Rightarrow> trace_list" where
  "RefreshTraceList traces i trl =
     (let vis = filter (\<lambda>tr. tlFilter trl = [] \<or> traceMatches (tlFilter trl) tr) traces in
      trl\<lparr>tlTraces := vis, tlRow := (if vis = [] then tlRow trl else selectedRowOf vis i 1 1)\<rparr>)"

definition SelectedTraceID :: "trace_list \<Rightarrow> string" where
  "SelectedTraceID trl = (case atRow (tlTraces trl) (tlRow trl) of None \<Rightarrow> [] | Some tr \<Rightarrow> trID tr)"

definition SetFilterT :: "string \<Rightarrow> trace_list \<Rightarrow> trace_list" where "SetFilterT f trl = trl\<lparr>tlFilter := lower f\<rparr>"

definition traceCells :: "(int \<Rightarrow> string) \<Rightarrow> (int \<Rightarrow> string) \<Rightarrow> trace_data \<Rightarrow> (string \<times> color) list" where
  "traceCells fmtSecs fmtTime tr =
     (let name = clip 30 (if trName tr = [] then trAgentID tr else trName tr); (sym, col) = traceStatusCell (trStatus tr) in
      [('' '' @ name, ColorText), (sym @ '' '' @ trStatus tr, col), (formatTraceDuration fmtSecs (trDurationMs tr), ColorSubtext0),
       (formatTokens (TotalInputTokens tr) (TotalOutputTokens tr) (trMetadata tr), ColorText),
       (showInt (SpanCount tr), ColorSubtext0), (fmtTime (trStartTime tr), ColorOverlay0)])"

record span_list =
  slSpans :: "span_data list"
  slFilter :: string
  slRow :: int

definition RefreshSpanList :: "span_data list \<Rightarrow> span_list \<Rightarrow> span_list" where
  "RefreshSpanList spans sl =
     (let vis = filter (\<lambda>s. slFilter sl = [] \<or> spanMatches (slFilter sl) s) spans in
      sl\<lparr>slSpans := vis, slRow := (if vis = [] then slRow sl else 1)\<rparr>)"

definition SelectedSpan :: "span_list \<Rightarrow> span_data option" where
  "SelectedSpan sl = atRow (slSpans sl) (slRow sl)"

text \<open>The name that is shown: the model of a call to one, the tool of a call to one.\<close>

definition spanLabel :: "span_data \<Rightarrow> string" where
  "spanLabel s =
     (if SpanType s = ''llm_call'' \<and> spModel s \<noteq> [] then spModel s
      else if SpanType s = ''tool_call'' \<and> ToolName s \<noteq> [] then ToolName s
      else spName s)"

definition SelectedText :: "(int \<Rightarrow> string) \<Rightarrow> span_list \<Rightarrow> string" where
  "SelectedText fmtSecs sl =
     (case SelectedSpan sl of
        None \<Rightarrow> []
      | Some s \<Rightarrow> SpanType s @ '' '' @ spanLabel s @ '' ('' @ formatTraceDuration fmtSecs (spDurationMs s) @ '') '' @ spID s)"

definition SetFilterS :: "string \<Rightarrow> span_list \<Rightarrow> span_list" where "SetFilterS f sl = sl\<lparr>slFilter := lower f\<rparr>"

definition spanCells :: "(int \<Rightarrow> string) \<Rightarrow> span_data \<Rightarrow> (string \<times> color) list" where
  "spanCells fmtSecs s =
     (let (sym, col) = traceStatusCell (spStatus s) in
      [('' '' @ SpanType s, spanTypeColor (SpanType s)), ('' '' @ clip 40 (spanLabel s), ColorText), (sym @ '' '' @ spStatus s, col),
       (formatTraceDuration fmtSecs (spDurationMs s), ColorSubtext0),
       (compactNumber (InputTokens s) @ ''/'' @ compactNumber (OutputTokens s), ColorText)])"

definition formatSpanCopyText :: "(int \<Rightarrow> string) \<Rightarrow> span_data \<Rightarrow> string" where
  "formatSpanCopyText fmtSecs s =
     SpanType s @ '': '' @ spanLabel s @ '' ('' @ formatTraceDuration fmtSecs (spDurationMs s) @ '') '' @ spID s"

section \<open>The span view\<close>

definition indentBlock :: "string \<Rightarrow> string \<Rightarrow> string" where
  "indentBlock txt hex = concat (map (\<lambda>line. ''   '' @ Tag hex line @ [nl]) (strSplit [nl] txt))"

text \<open>\<open>pretty\<close> is \<open>json.Unmarshal\<close> followed by \<open>json.MarshalIndent\<close>, where both succeed.\<close>

definition formatPreview :: "(string \<Rightarrow> string option) \<Rightarrow> string \<Rightarrow> string" where
  "formatPreview pretty txt =
     (let txt = trimSpace txt in
      if hasPrefix ''{'' txt \<or> hasPrefix ''['' txt
      then (case pretty txt of Some p \<Rightarrow> indentBlock p HexSubtext0 | None \<Rightarrow> indentBlock txt HexSubtext0)
      else indentBlock txt HexSubtext0)"

definition tokenLine :: "span_data \<Rightarrow> string" where
  "tokenLine s =
     (if 0 < InputTokens s \<or> 0 < OutputTokens s
      then '' '' @ Tag HexOverlay0 ''Tokens:'' @ '' '' @ formatNumber (InputTokens s) @ '' in / '' @ formatNumber (OutputTokens s) @ '' out'' @
        (case spMetadata s of
           None \<Rightarrow> []
         | Some m \<Rightarrow>
             (if 0 < CacheReadTokens m then ''  '' @ Tag HexGreen ''cache-r:'' @ '' '' @ formatNumber (CacheReadTokens m) else []) @
             (if 0 < CacheCreationTokens m then ''  '' @ Tag HexYellow ''cache-w:'' @ '' '' @ formatNumber (CacheCreationTokens m) else []) @
             (if 0 < ThinkingTokens m then ''  '' @ Tag HexPeach ''think:'' @ '' '' @ formatNumber (ThinkingTokens m) else [])) @ [nl]
      else [])"

definition showSpan :: "(string \<Rightarrow> string option) \<Rightarrow> (int \<Rightarrow> string) \<Rightarrow> span_data \<Rightarrow> string" where
  "showSpan pretty fmtSecs s =
     [nl] @ '' '' @ BoldTag HexMauve ''Span:'' @ '' '' @ Tag (spanTypeHex (SpanType s)) (SpanType s) @
     (if spName s \<noteq> [] then '' '' @ symDash @ '' '' @ Tag HexText (spName s) else []) @ [nl] @
     '' '' @ Tag HexOverlay0 ''Status:'' @ '' '' @ spanStatusIcon (spStatus s) @ '' '' @ spStatus s @ ''  '' @
     Tag HexOverlay0 ''Duration:'' @ '' '' @ formatTraceDuration fmtSecs (spDurationMs s) @
     (if spProvider s \<noteq> [] then ''  '' @ Tag HexOverlay0 ''Provider:'' @ '' '' @ spProvider s else []) @ [nl] @
     (if spModel s \<noteq> [] then '' '' @ Tag HexOverlay0 ''Model:'' @ '' '' @ Tag HexBlue (spModel s) @ [nl] else []) @
     (if ToolName s \<noteq> [] then '' '' @ Tag HexOverlay0 ''Tool:'' @ '' '' @ Tag HexTeal (ToolName s) @ [nl] else []) @
     tokenLine s @
     '' '' @ Tag HexOverlay0 ''ID:'' @ '' '' @ Tag HexOverlay0 (spID s) @ [nl] @ [nl] @
     (if spInputPreview s \<noteq> [] then '' '' @ BoldTag HexOverlay0 ''Input:'' @ [nl] @ formatPreview pretty (spInputPreview s) @ [nl] else []) @
     (if spOutputPreview s \<noteq> [] then '' '' @ BoldTag HexOverlay0 ''Output:'' @ [nl] @ formatPreview pretty (spOutputPreview s) @ [nl] else []) @
     (if spError s \<noteq> [] then '' '' @ BoldTag HexRed ''Error:'' @ [nl] @ ''   '' @ Tag HexRed (spError s) @ [nl] else [])"

section \<open>The traces panel\<close>

datatype level = Traces | Spans | Detail

record traces_panel =
  tpList :: trace_list
  tpSpans :: span_list
  tpLast :: "span_data option"
  tpLevel :: level
  traceName :: string
  spanName :: string
  tpPaused :: bool
  agentFilter :: string
  channelFilter :: string
  traceCount :: int
  traceTotal :: int
  tpFilter :: string

definition NewTracesPanel :: traces_panel where
  "NewTracesPanel = \<lparr>tpList = \<lparr>tlTraces = [], tlFilter = [], tlRow = 0\<rparr>, tpSpans = \<lparr>slSpans = [], slFilter = [], slRow = 0\<rparr>,
     tpLast = None, tpLevel = Traces, traceName = [], spanName = [], tpPaused = False, agentFilter = [], channelFilter = [],
     traceCount = 0, traceTotal = 0, tpFilter = []\<rparr>"

definition DrillIn :: "traces_panel \<Rightarrow> bool \<times> traces_panel" where
  "DrillIn p =
     (case tpLevel p of
        Spans \<Rightarrow>
          (case SelectedSpan (tpSpans p) of
             None \<Rightarrow> (False, p)
           | Some s \<Rightarrow> (True, p\<lparr>spanName := spanLabel s, tpLast := Some s, tpLevel := Detail\<rparr>))
      | _ \<Rightarrow> (False, p))"

definition ShowSpans :: "trace_data \<Rightarrow> span_data list \<Rightarrow> traces_panel \<Rightarrow> traces_panel" where
  "ShowSpans trace spans p =
     p\<lparr>traceName := (if trName trace = [] then trAgentID trace else trName trace), tpSpans := RefreshSpanList spans (tpSpans p),
       tpLevel := Spans\<rparr>"

definition DrillOut :: "traces_panel \<Rightarrow> traces_panel" where
  "DrillOut p =
     (case tpLevel p of
        Detail \<Rightarrow> p\<lparr>spanName := [], tpLevel := Spans\<rparr>
      | Spans \<Rightarrow> p\<lparr>traceName := [], tpLevel := Traces\<rparr>
      | Traces \<Rightarrow> p)"

definition DrillRoot :: "traces_panel \<Rightarrow> traces_panel" where
  "DrillRoot p = p\<lparr>traceName := [], spanName := [], tpLevel := Traces\<rparr>"

definition RefreshTraces :: "trace_data list \<Rightarrow> int \<Rightarrow> string \<Rightarrow> traces_panel \<Rightarrow> traces_panel" where
  "RefreshTraces traces n i p =
     p\<lparr>traceCount := int (length traces), traceTotal := n, tpList := RefreshTraceList traces i (tpList p)\<rparr>"

definition TogglePauseT :: "traces_panel \<Rightarrow> traces_panel" where "TogglePauseT p = p\<lparr>tpPaused := \<not> tpPaused p\<rparr>"

definition GoToTopT :: "traces_panel \<Rightarrow> traces_panel" where
  "GoToTopT p =
     (case tpLevel p of
        Traces \<Rightarrow> p\<lparr>tpList := (tpList p)\<lparr>tlRow := 1\<rparr>\<rparr>
      | Spans \<Rightarrow> p\<lparr>tpSpans := (tpSpans p)\<lparr>slRow := 1\<rparr>\<rparr>
      | Detail \<Rightarrow> p)"

definition GoToBottomT :: "traces_panel \<Rightarrow> traces_panel" where
  "GoToBottomT p =
     (case tpLevel p of
        Traces \<Rightarrow> p\<lparr>tpList := (tpList p)\<lparr>tlRow := rowCount (tlTraces (tpList p)) - 1\<rparr>\<rparr>
      | Spans \<Rightarrow> p\<lparr>tpSpans := (tpSpans p)\<lparr>slRow := rowCount (slSpans (tpSpans p)) - 1\<rparr>\<rparr>
      | Detail \<Rightarrow> p)"

definition CopySelected :: "(int \<Rightarrow> string) \<Rightarrow> traces_panel \<Rightarrow> string" where
  "CopySelected fmtSecs p =
     (case tpLevel p of
        Traces \<Rightarrow> SelectedTraceID (tpList p)
      | Spans \<Rightarrow> SelectedText fmtSecs (tpSpans p)
      | Detail \<Rightarrow> (case tpLast p of None \<Rightarrow> [] | Some s \<Rightarrow> formatSpanCopyText fmtSecs s))"

definition SetFilterP :: "string \<Rightarrow> traces_panel \<Rightarrow> traces_panel" where
  "SetFilterP f p =
     (let p = p\<lparr>tpFilter := f\<rparr> in
      case tpLevel p of
        Traces \<Rightarrow> p\<lparr>tpList := SetFilterT f (tpList p)\<rparr>
      | Spans \<Rightarrow> p\<lparr>tpSpans := SetFilterS f (tpSpans p)\<rparr>
      | Detail \<Rightarrow> p)"

definition tracesStatusBar :: "traces_panel \<Rightarrow> string" where
  "tracesStatusBar p =
     '' '' @ (if tpPaused p then Tag HexYellow ''[PAUSED] '' else []) @ Tag HexMauve ''Traces'' @
     (if traceName p \<noteq> [] then Tag HexOverlay0 '' > '' @ Tag HexBlue (traceName p) else []) @
     (if spanName p \<noteq> [] then Tag HexOverlay0 '' > '' @ Tag HexTeal (spanName p) else []) @
     (case tpLevel p of
        Traces \<Rightarrow> '' '' @ showInt (traceCount p) @ ''/'' @ showInt (traceTotal p) @ '' | Agent: '' @
          (if agentFilter p \<noteq> [] then agentFilter p else ''all'')
      | Spans \<Rightarrow> '' '' @ showNat (length (slSpans (tpSpans p))) @ '' spans''
      | Detail \<Rightarrow> '' detail'') @
     Tag HexOverlay0 '' [l=in h=out Esc=root]''"

section \<open>Facts\<close>

text \<open>The breadcrumb only ever names what the level shows.\<close>

definition crumbs_ok :: "traces_panel \<Rightarrow> bool" where
  "crumbs_ok p \<longleftrightarrow> (spanName p \<noteq> [] \<longrightarrow> tpLevel p = Detail) \<and> (traceName p \<noteq> [] \<longrightarrow> tpLevel p \<noteq> Traces) \<and>
     (tpLevel p = Detail \<longrightarrow> (\<exists>s. tpLast p = Some s \<and> spanName p = spanLabel s))"

lemma crumbs_new: "crumbs_ok NewTracesPanel"
  by (simp add: crumbs_ok_def NewTracesPanel_def)

lemma crumbs_ops:
  assumes "crumbs_ok p"
  shows "crumbs_ok (snd (DrillIn p))" "crumbs_ok (DrillOut p)" "crumbs_ok (DrillRoot p)" "crumbs_ok (RefreshTraces ts n i p)"
    "crumbs_ok (TogglePauseT p)" "crumbs_ok (GoToTopT p)" "crumbs_ok (GoToBottomT p)" "crumbs_ok (SetFilterP f p)"
    "tpLevel p \<noteq> Detail \<Longrightarrow> crumbs_ok (ShowSpans trace spans p)"
  using assms
  by (auto simp: crumbs_ok_def DrillIn_def DrillOut_def DrillRoot_def RefreshTraces_def TogglePauseT_def GoToTopT_def
      GoToBottomT_def SetFilterP_def ShowSpans_def Let_def split: level.splits option.splits)

text \<open>The commas of \<open>formatNumber\<close> can be taken out again.\<close>

lemma commas_digits: "CHR '','' \<notin> set s \<Longrightarrow> filter (\<lambda>c. c \<noteq> CHR '','') (commas s b) = s"
  by (induction s b rule: commas.induct) auto

text \<open>A half page never leaves the table.\<close>

lemma half_page_in_table:
  "0 \<le> height \<Longrightarrow> 2 \<le> rows \<Longrightarrow> 1 \<le> row \<Longrightarrow> row < rows \<Longrightarrow> 1 \<le> halfPageDown height rows row \<and> halfPageDown height rows row < rows"
  "0 \<le> height \<Longrightarrow> 1 \<le> row \<Longrightarrow> 1 \<le> halfPageUp height row \<and> halfPageUp height row \<le> row"
  by (auto simp: halfPageDown_def halfPageUp_def Let_def)

lemma atRow_None: "atRow xs row = None \<longleftrightarrow> row < 1 \<or> int (length xs) < row"
  by (auto simp: atRow_def Let_def)

lemma atRow_Some: "atRow xs row = Some x \<Longrightarrow> 1 \<le> row \<and> row \<le> int (length xs) \<and> x = xs ! nat (row - 1)"
  by (auto simp: atRow_def Let_def split: if_splits)

text \<open>Formatting of log attributes does not depend on the order of the map.\<close>

lemma formatLogAttrs_perm:
  assumes "mset (map fst a) = mset (map fst b)" "map_of a = map_of b"
  shows "formatLogAttrs a = formatLogAttrs b"
proof -
  have "sort (map fst a) = sort (map fst b)" using assms(1) by (intro properties_for_sort) simp_all
  with assms(2) show ?thesis by (simp add: formatLogAttrs_def getOr_def)
qed

end
