(* ===== verification/EngineConverge.thy ===== *)
theory EngineConverge
  imports EngineTrace
begin

text \<open>
  Convergence: against a provider that echoes what it was sent, a run without failures leaves
  nothing to do for the next one.
\<close>

section \<open>Providers that echo\<close>

text \<open>
  What the API documents of its responses: a stored resource returns every field it was sent
  that is not write-only, and, for the kinds that support it, the write-only hash.
\<close>

definition echoed :: "resource_kind \<Rightarrow> gomap \<Rightarrow> gomap \<Rightarrow> bool" where
  "echoed kind sent stored \<longleftrightarrow>
     (\<forall>f v. map_of sent f = Some v \<and> f \<notin> set (WriteOnlyFields kind) \<and> f \<noteq> WriteOnlyHashField \<longrightarrow>
        map_of stored f = Some v) \<and>
     (if SupportsWriteOnlyHash kind
      then \<forall>h. map_of sent WriteOnlyHashField = Some h \<longrightarrow> map_of stored WriteOnlyHashField = Some h
      else map_of stored WriteOnlyHashField = None)"

text \<open>\<open>view w kind name\<close> is what the server holds for a resource in the state \<open>w\<close>.\<close>

type_synonym 'w view = "'w \<Rightarrow> resource_kind \<Rightarrow> string \<Rightarrow> gomap option"

definition sameWorld :: "'w engine \<Rightarrow> 'w view \<Rightarrow> 'w \<Rightarrow> 'w \<Rightarrow> bool" where
  "sameWorld e view w w' \<longleftrightarrow> view w' = view w \<and> os e w' = os e w"

definition onlyAt :: "'w engine \<Rightarrow> 'w view \<Rightarrow> resource_kind \<times> string \<Rightarrow> 'w \<Rightarrow> 'w \<Rightarrow> bool" where
  "onlyAt e view kn w w' \<longleftrightarrow>
     os e w' = os e w \<and> (\<forall>k n. (k, n) \<noteq> kn \<longrightarrow> view w' k n = view w k n)"

definition writeLaw ::
  "'w engine \<Rightarrow> 'w view \<Rightarrow> (resource_kind \<Rightarrow> string \<Rightarrow> gomap \<Rightarrow> 'w \<Rightarrow> goerr option \<times> 'w) \<Rightarrow> bool"
where
  "writeLaw e view f \<longleftrightarrow>
     (\<forall>k n s w err w'. f k n s w = (err, w') \<longrightarrow>
        onlyAt e view (k, n) w w' \<and>
        (err = None \<longrightarrow> (\<exists>c. view w' k n = Some c \<and> echoed k s c)))"

definition lawful :: "'w engine \<Rightarrow> 'w view \<Rightarrow> bool" where
  "lawful e view \<longleftrightarrow>
     (\<forall>k n w. fst (Observe (provider e) k n w) = Inr (view w k n) \<and>
        sameWorld e view w (snd (Observe (provider e) k n w))) \<and>
     (\<forall>k w. sameWorld e view w (snd (ListAll (provider e) k w))) \<and>
     writeLaw e view (Create (provider e)) \<and> writeLaw e view (Update (provider e)) \<and>
     (\<forall>k n w. onlyAt e view (k, n) w (snd (Delete (provider e) k n w)))"

text \<open>The specs the comparison can confirm (see \<open>echoed_spec_has_no_diff\<close>).\<close>

definition comparable :: "resource_kind \<Rightarrow> gomap \<Rightarrow> bool" where
  "comparable kind spec \<longleftrightarrow> distinct (map fst spec) \<and>
     (\<forall>f v. (f, v) \<in> set spec \<longrightarrow> f \<noteq> WriteOnlyHashField \<and>
        (f \<notin> set (WriteOnlyFields kind) \<longrightarrow> wf_val v \<and> nan_free v \<and> setFieldsOk f v))"

definition settled :: "'w engine \<Rightarrow> 'w view \<Rightarrow> resource \<Rightarrow> 'w \<Rightarrow> bool" where
  "settled e view r w \<longleftrightarrow>
     ignored r \<or>
     (\<exists>c. view w (resKind r) (resName r) = Some c \<and> \<not> drifted (codec_of e) r (desiredSpec e r w) c)"

section \<open>One resource\<close>

lemma desiredSpec_os: "os e w' = os e w \<Longrightarrow> desiredSpec e r w' = desiredSpec e r w"
  by (simp add: desiredSpec_def)

lemma settled_cong:
  assumes "onlyAt e view kn w w'" "ident r \<noteq> kn"
  shows "settled e view r w' \<longleftrightarrow> settled e view r w"
proof -
  have "view w' (resKind r) (resName r) = view w (resKind r) (resName r)"
    using assms unfolding onlyAt_def ident_def by metis
  moreover have "desiredSpec e r w' = desiredSpec e r w"
    using assms(1) unfolding onlyAt_def by (metis desiredSpec_os)
  ultimately show ?thesis by (simp add: settled_def)
qed

lemma settled_same: "sameWorld e view w w' \<Longrightarrow> settled e view r w' \<longleftrightarrow> settled e view r w"
  by (simp add: settled_def sameWorld_def desiredSpec_def)

lemma lawful_observe:
  assumes "lawful e view"
  shows "\<exists>w'. Observe (provider e) k n w = (Inr (view w k n), w') \<and> sameWorld e view w w'"
  using assms unfolding lawful_def by (metis prod.collapse)

lemma reconcileOne_lawful:
  assumes "lawful e view" "reconcileOne e r force w = (c, w')"
  shows "sameWorld e view w w' \<and> Error c = [] \<and>
    (Action c = ActionNoop \<longrightarrow> settled e view r w) \<and>
    (settled e view r w \<and> \<not> force \<longrightarrow> Action c = ActionNoop) \<and>
    (Action c \<noteq> ActionNoop \<longrightarrow> \<not> ignored r \<and> Action c \<in> {ActionCreate, ActionUpdate} \<and>
       WriteOnlyHash c = desiredHashOf (codec_of e) r (desiredSpec e r w))"
proof -
  from lawful_observe [OF assms(1)] obtain w1 where
    o: "Observe (provider e) (resKind r) (resName r) w = (Inr (view w (resKind r) (resName r)), w1)"
    and s: "sameWorld e view w w1" by blast
  from reconcileOne_spec [OF o, of force] assms(2) s show ?thesis
    by (cases "view w (resKind r) (resName r)")
       (auto simp: settled_def observeErr_def split: if_splits)
qed

lemma echoed_not_drifted:
  assumes "comparable (resKind r) spec"
    and "echoed (resKind r) (if h \<noteq> [] then AList.update WriteOnlyHashField (GStr h) spec else spec) c"
    and "h = desiredHashOf cd r spec"
  shows "\<not> drifted cd r spec c"
proof -
  let ?s = "if h \<noteq> [] then AList.update WriteOnlyHashField (GStr h) spec else spec"
  have keep: "map_of ?s f = Some v" if "(f, v) \<in> set spec" "f \<noteq> WriteOnlyHashField" for f v
    using that assms(1) by (simp add: comparable_def map_of_update)
  have "map_of c f = Some v \<and> wf_val v \<and> nan_free v \<and> setFieldsOk f v"
    if "(f, v) \<in> set spec" "f \<notin> set (WriteOnlyFields (resKind r))" for f v
    using assms(1,2) keep [OF that(1)] that unfolding comparable_def echoed_def by metis
  then have "conforms (WriteOnlyFields (resKind r)) [] spec c"
    by (intro fields) (auto simp: joinPath_def intro: fieldOk_self)
  moreover have "\<not> hashDrift (resKind r) h (strOr (map_of c WriteOnlyHashField))"
    using assms(2) by (auto simp: echoed_def hashDrift_def map_of_update strOr_def split: if_splits)
  ultimately show ?thesis using assms(3) by (simp add: drifted_def)
qed

lemma writeLawD:
  assumes "writeLaw e view f" "f k n s w = (err, w')"
  shows "onlyAt e view (k, n) w w'"
    and "err = None \<Longrightarrow> \<exists>c. view w' k n = Some c \<and> echoed k s c"
  using assms unfolding writeLaw_def by blast+

lemma execute_lawful:
  assumes "lawful e view" "comparable (resKind r) (desiredSpec e r w)"
    and "Action c \<in> {ActionCreate, ActionUpdate}"
    and "WriteOnlyHash c = desiredHashOf (codec_of e) r (desiredSpec e r w)"
    and "execute e c r w = (err, w')"
  shows "onlyAt e view (ident r) w w' \<and> (err = None \<longrightarrow> settled e view r w')"
proof -
  let ?h = "WriteOnlyHash c"
  let ?s = "if ?h \<noteq> [] then AList.update WriteOnlyHashField (GStr ?h) (desiredSpec e r w) else desiredSpec e r w"
  define f where "f = (if Action c = ActionCreate then Create (provider e) else Update (provider e))"
  have f: "f (resKind r) (resName r) ?s w = (err, w')"
    using assms(3,5) unfolding execute_def desiredSpec_def f_def Let_def by auto
  have law: "writeLaw e view f" using assms(1) by (simp add: lawful_def f_def)
  have o: "onlyAt e view (ident r) w w'"
    and c: "err = None \<Longrightarrow> \<exists>c. view w' (resKind r) (resName r) = Some c \<and> echoed (resKind r) ?s c"
    unfolding ident_def by (simp_all add: writeLawD [OF law f])
  have "settled e view r w'" if "err = None"
  proof -
    from c [OF that] obtain st where st: "view w' (resKind r) (resName r) = Some st" "echoed (resKind r) ?s st"
      by blast
    from echoed_not_drifted [OF assms(2) st(2) assms(4)] st(1) o show ?thesis
      unfolding settled_def onlyAt_def by (metis desiredSpec_os)
  qed
  with o show ?thesis by blast
qed


section \<open>The phases\<close>

text \<open>What the observe phase leaves behind for the change \<open>c\<close> of \<open>r\<close>, relative to its start.\<close>

definition decided :: "'w engine \<Rightarrow> 'w view \<Rightarrow> 'w \<Rightarrow> resource \<Rightarrow> change \<Rightarrow> bool" where
  "decided e view w r c \<longleftrightarrow> Error c = [] \<and>
     (if Action c = ActionNoop then settled e view r w
      else Action c \<in> {ActionCreate, ActionUpdate} \<and>
        WriteOnlyHash c = desiredHashOf (codec_of e) r (desiredSpec e r w))"

lemma sameWorld_trans: "sameWorld e view w w1 \<Longrightarrow> sameWorld e view w1 w2 \<Longrightarrow> sameWorld e view w w2"
  by (simp add: sameWorld_def)

lemma reconcileKind_decided:
  assumes "lawful e view" "schedOk e" "reconcileKind e rs force conc w = (cs, w')"
  shows "list_all2 (decided e view w) rs cs \<and> sameWorld e view w w'"
proof -
  have step: "decided e view w r (fst (reconcileOne e r force w1)) \<and>
      sameWorld e view w (snd (reconcileOne e r force w1))" if s: "sameWorld e view w w1" for r w1
  proof -
    obtain c w2 where c: "reconcileOne e r force w1 = (c, w2)" by fastforce
    have "settled e view r w1 = settled e view r w" using s by (rule settled_same)
    moreover have "desiredSpec e r w1 = desiredSpec e r w" using s by (simp add: sameWorld_def desiredSpec_def)
    ultimately show ?thesis
      using reconcileOne_lawful [OF assms(1) c] sameWorld_trans [OF s] c by (auto simp: decided_def)
  qed
  have "sameWorld e view w w" by (simp add: sameWorld_def)
  from reconcileKind_inv [where I = "sameWorld e view w" and Q = "decided e view w", OF assms(2) this step]
  show ?thesis using assms(3) by (metis fst_conv snd_conv)
qed

lemma executeIn_mono: "executeIn e cs rs js res w = (res', w') \<Longrightarrow> Failed res \<le> Failed res'"
proof (induction js arbitrary: res w)
  case (Cons j js)
  obtain err w1 where x: "execute e (cs ! j) (rs ! j) w = (err, w1)" by (metis surj_pair)
  show ?case
  proof (cases err)
    case None
    with Cons.prems x have "executeIn e cs rs js (res\<lparr>Applied := Suc (Applied res)\<rparr>) w1 = (res', w')"
      by (simp add: Let_def)
    from Cons.IH [OF this] show ?thesis by simp
  next
    case (Some er)
    with Cons.prems x have "executeIn e cs rs js (res\<lparr>Failed := Suc (Failed res), resErrors := resErrors res @
      [failureText (chKind (cs ! j)) (chName (cs ! j)) (errText er)]\<rparr>) w1 = (res', w')"
      by (simp add: Let_def)
    from Cons.IH [OF this] show ?thesis by simp
  qed
qed simp

lemma executeIn_settles:
  assumes "lawful e view" "distinct (map ident rs)" "length cs = length rs"
    and "executeIn e cs rs js res w = (res', w')" "Failed res' = Failed res" "distinct js"
    and "\<And>i. i \<in> set js \<Longrightarrow> i < length rs \<and> Action (cs ! i) \<in> {ActionCreate, ActionUpdate} \<and>
       comparable (resKind (rs ! i)) (desiredSpec e (rs ! i) w) \<and>
       WriteOnlyHash (cs ! i) = desiredHashOf (codec_of e) (rs ! i) (desiredSpec e (rs ! i) w)"
  shows "os e w' = os e w \<and> (\<forall>i \<in> set js. settled e view (rs ! i) w') \<and>
    (\<forall>r. settled e view r w \<and> (\<forall>i \<in> set js. ident r \<noteq> ident (rs ! i)) \<longrightarrow> settled e view r w')"
  using assms(4-7)
proof (induction js arbitrary: res w)
  case Nil
  then show ?case by simp
next
  case (Cons j js)
  obtain err w1 where x: "execute e (cs ! j) (rs ! j) w = (err, w1)" by (metis surj_pair)
  have none: "err = None"
  proof (rule ccontr)
    assume "err \<noteq> None"
    then obtain er where er: "err = Some er" by blast
    let ?res = "res\<lparr>Failed := Suc (Failed res), resErrors := resErrors res @
      [failureText (chKind (cs ! j)) (chName (cs ! j)) (errText er)]\<rparr>"
    from Cons.prems(1) x er have "executeIn e cs rs js ?res w1 = (res', w')" by (simp add: Let_def)
    from executeIn_mono [OF this] Cons.prems(2) show False by simp
  qed
  from Cons.prems(4) [of j] have j: "j < length rs" "Action (cs ! j) \<in> {ActionCreate, ActionUpdate}"
    "comparable (resKind (rs ! j)) (desiredSpec e (rs ! j) w)"
    "WriteOnlyHash (cs ! j) = desiredHashOf (codec_of e) (rs ! j) (desiredSpec e (rs ! j) w)" by auto
  from execute_lawful [OF assms(1) j(3) j(2) j(4) x] none have
    only: "onlyAt e view (ident (rs ! j)) w w1" and set1: "settled e view (rs ! j) w1" by auto
  then have os1: "os e w1 = os e w" by (simp add: onlyAt_def)
  have "executeIn e cs rs js (res\<lparr>Applied := Suc (Applied res)\<rparr>) w1 = (res', w')"
    using Cons.prems(1) x none by (simp add: Let_def)
  from Cons.IH [OF this] Cons.prems os1 have ih: "os e w' = os e w"
    "\<And>i. i \<in> set js \<Longrightarrow> settled e view (rs ! i) w'"
    "\<And>r. settled e view r w1 \<Longrightarrow> (\<forall>i \<in> set js. ident r \<noteq> ident (rs ! i)) \<Longrightarrow> settled e view r w'"
    by (simp_all add: desiredSpec_def)
  have "ident (rs ! j) \<noteq> ident (rs ! i)" if "i \<in> set js" for i
  proof -
    have "i \<noteq> j" "i < length rs" using that Cons.prems(3,4) by auto
    with assms(2) j(1) show ?thesis by (metis length_map nth_eq_iff_index_eq nth_map)
  qed
  with set1 ih(3) have "settled e view (rs ! j) w'" by blast
  moreover have "settled e view r w'"
    if "settled e view r w" "\<forall>i \<in> set (j # js). ident r \<noteq> ident (rs ! i)" for r
    using that settled_cong [OF only, of r] ih(3) [of r] by simp
  ultimately show ?case using ih(1,2) by auto
qed


lemma executeChanges_settles:
  assumes law: "lawful e view" and sok: "schedOk e" and dist: "distinct (map ident rs)"
    and dec: "list_all2 (decided e view w) rs cs" and same: "sameWorld e view w w1"
    and comp: "\<And>r. r \<in> set rs \<Longrightarrow> comparable (resKind r) (desiredSpec e r w)"
    and run: "executeChanges e cs rs conc w1 = (res, w2)" and ok: "Failed res = 0"
  shows "os e w2 = os e w \<and> (\<forall>r \<in> set rs. settled e view r w2) \<and>
    (\<forall>r. settled e view r w \<and> ident r \<notin> ident ` set rs \<longrightarrow> settled e view r w2)"
proof -
  let ?jobs = "filter (\<lambda>i. \<not> skipChange (cs ! i)) [0..<length cs]"
  define js where "js = (if conc \<le> 1 then ?jobs
    else map (\<lambda>j. ?jobs ! j) (sched e w1 (nat conc) (length ?jobs)))"
  have "mset (sched e w1 (nat conc) (length ?jobs)) = mset [0..<length ?jobs]"
    using sok unfolding schedOk_def by simp
  from mset_map_nth [OF this] have m: "mset js = mset ?jobs" unfolding js_def by presburger
  then have sj: "set js = set ?jobs" by (rule mset_eq_setD)
  have dj: "distinct js" using m mset_eq_imp_distinct_iff by (metis distinct_filter distinct_upt)
  have len: "length cs = length rs" using dec by (simp add: list_all2_lengthD)
  have decd: "decided e view w (rs ! i) (cs ! i)" if "i < length rs" for i
    using dec that by (simp add: list_all2_conv_all_nth)
  have skip: "skipChange (cs ! i) \<longleftrightarrow> Action (cs ! i) = ActionNoop" if "i < length rs" for i
    using decd [OF that] by (simp add: skipChange_def decided_def)
  have d1: "desiredSpec e r w1 = desiredSpec e r w" for r using same by (simp add: sameWorld_def desiredSpec_def)
  have x: "executeIn e cs rs js emptyResult w1 = (res, w2)"
    using run by (simp add: executeChanges_def Let_def js_def split: if_splits)
  have job: "i < length rs \<and> Action (cs ! i) \<in> {ActionCreate, ActionUpdate} \<and>
       comparable (resKind (rs ! i)) (desiredSpec e (rs ! i) w1) \<and>
       WriteOnlyHash (cs ! i) = desiredHashOf (codec_of e) (rs ! i) (desiredSpec e (rs ! i) w1)"
    if i: "i \<in> set js" for i
  proof -
    have l: "i < length rs" and "\<not> skipChange (cs ! i)" using i sj len by auto
    with skip decd [OF l] comp d1 show ?thesis by (simp add: decided_def)
  qed
  have "Failed res = Failed emptyResult" using ok by (simp add: emptyResult_def)
  note st = executeIn_settles [OF law dist len x this dj job]
  have sw: "settled e view r w1 = settled e view r w" for r using same by (rule settled_same)
  have "settled e view (rs ! i) w2" if i: "i < length rs" for i
  proof (cases "i \<in> set js")
    case True
    with st show ?thesis by blast
  next
    case False
    with i sj len have "skipChange (cs ! i)" by auto
    with skip [OF i] decd [OF i] have "settled e view (rs ! i) w1" by (simp add: decided_def sw)
    moreover have "ident (rs ! i) \<noteq> ident (rs ! j)" if "j \<in> set js" for j
      using that False i job [OF that] dist by (metis length_map nth_eq_iff_index_eq nth_map)
    ultimately show ?thesis using st by blast
  qed
  moreover have "settled e view r w2" if "settled e view r w" "ident r \<notin> ident ` set rs" for r
    using st that sw job by (metis image_eqI nth_mem)
  ultimately show ?thesis
    using st same by (auto simp: sameWorld_def in_set_conv_nth)
qed

lemma reconcileKinds_mono:
  "reconcileKinds e rs opts kinds p res w = ((p', res'), w') \<Longrightarrow> Failed res \<le> Failed res'"
proof (induction kinds arbitrary: p res w)
  case (Cons kind kinds)
  obtain cs w1 where k: "reconcileKind e (byKind rs kind) (Force opts) (Concurrency opts) w = (cs, w1)"
    by (metis surj_pair)
  obtain kr w2 where x: "executeChanges e cs (byKind rs kind) (Concurrency opts) w1 = (kr, w2)"
    by (metis surj_pair)
  let ?p = "addChanges (byKind rs kind) cs p"
  consider "byKind rs kind = []" | "byKind rs kind \<noteq> []" "DryRun opts" | "byKind rs kind \<noteq> []" "\<not> DryRun opts"
    by blast
  then show ?case
  proof cases
    case 1
    with Cons show ?thesis by simp
  next
    case 2
    with Cons k show ?thesis by (simp add: Let_def)
  next
    case 3
    with Cons.prems k x have "reconcileKinds e rs opts kinds ?p (addResult res kr) w2 = ((p', res'), w')"
      by (simp add: Let_def)
    from Cons.IH [OF this] show ?thesis by (simp add: addResult_def)
  qed
qed simp

lemma reconcileKinds_settles:
  assumes law: "lawful e view" and sok: "schedOk e" and dist: "distinct (map ident rs)"
    and act: "\<not> DryRun opts"
    and "reconcileKinds e rs opts kinds p res w = ((p', res'), w')" "Failed res' = Failed res" "distinct kinds"
    and "\<And>r. r \<in> set rs \<Longrightarrow> comparable (resKind r) (desiredSpec e r w)"
  shows "os e w' = os e w \<and> (\<forall>r \<in> set rs. resKind r \<in> set kinds \<or> settled e view r w \<longrightarrow> settled e view r w')"
  using assms(5-8)
proof (induction kinds arbitrary: p res w)
  case Nil
  then show ?case by simp
next
  case (Cons kind kinds)
  let ?rs = "byKind rs kind"
  show ?case
  proof (cases "?rs = []")
    case True
    with Cons.prems(1) have "reconcileKinds e rs opts kinds p res w = ((p', res'), w')" by simp
    from Cons.IH [OF this] Cons.prems True show ?thesis by (auto simp: byKind_def filter_empty_conv)
  next
    case False
    obtain cs w1 where k: "reconcileKind e ?rs (Force opts) (Concurrency opts) w = (cs, w1)"
      by (metis surj_pair)
    obtain kr w2 where x: "executeChanges e cs ?rs (Concurrency opts) w1 = (kr, w2)" by (metis surj_pair)
    from reconcileKind_decided [OF law sok k] have
      dec: "list_all2 (decided e view w) ?rs cs" and same: "sameWorld e view w w1" by auto
    from Cons.prems(1) False k x act have
      rest: "reconcileKinds e rs opts kinds (addChanges ?rs cs p) (addResult res kr) w2 = ((p', res'), w')"
      by (simp add: Let_def)
    have f: "Failed kr = 0" and f2: "Failed res' = Failed (addResult res kr)"
      using reconcileKinds_mono [OF rest] Cons.prems(2) by (auto simp: addResult_def)
    have d: "distinct (map ident ?rs)" using dist by (simp add: byKind_def distinct_map_filter)
    have sub: "set ?rs \<subseteq> set rs" by (auto simp: byKind_def)
    from executeChanges_settles [OF law sok d dec same _ x f] Cons.prems(4) sub have
      st: "os e w2 = os e w" "\<forall>r \<in> set ?rs. settled e view r w2"
        "\<forall>r. settled e view r w \<and> ident r \<notin> ident ` set ?rs \<longrightarrow> settled e view r w2" by (auto simp: subset_iff)
    have comp2: "comparable (resKind r) (desiredSpec e r w2)" if "r \<in> set rs" for r
      using Cons.prems(4) [OF that] st(1) by (simp add: desiredSpec_def)
    from Cons.IH [OF rest f2 _ comp2] Cons.prems(3) have
      ih: "os e w' = os e w2" "\<forall>r \<in> set rs. resKind r \<in> set kinds \<or> settled e view r w2 \<longrightarrow> settled e view r w'"
      by auto
    have "settled e view r w2" if r: "r \<in> set rs" "resKind r = kind \<or> settled e view r w" for r
    proof (cases "resKind r = kind")
      case True
      with r(1) st(2) show ?thesis by (auto simp: byKind_def)
    next
      case False
      then have "ident r \<notin> ident ` set ?rs" by (auto simp: byKind_def ident_def)
      with st(3) r(2) False show ?thesis by blast
    qed
    with ih st(1) show ?thesis by auto
  qed
qed

section \<open>Pruning leaves the manifest alone\<close>

lemma pruneRemotes_keeps:
  assumes "lawful e view" "r \<in> set rs"
    and "pruneRemotes e rs dry kind infos cs res w = ((cs', res'), w')"
  shows "os e w' = os e w \<and> (settled e view r w' = settled e view r w)"
  using assms(3)
proof (induction infos arbitrary: cs res w)
  case (Cons info infos)
  show ?case
  proof (cases "orphan rs kind info \<and> \<not> dry")
    case False
    with Cons show ?thesis by (auto simp: orphan_iff Let_def split: if_splits)
  next
    case True
    obtain err w1 where d: "Delete (provider e) kind (infoName info) w = (err, w1)" by (metis surj_pair)
    then have only: "onlyAt e view (kind, infoName info) w w1"
      using assms(1) unfolding lawful_def by (metis snd_conv)
    have "ident r \<noteq> (kind, infoName info)"
      using True assms(2) by (auto simp: orphan_iff inManifest_def list_ex_iff ident_def)
    then have s: "settled e view r w1 = settled e view r w" using only by (intro settled_cong)
    have o: "os e w1 = os e w" using only by (simp add: onlyAt_def)
    obtain cs1 res1 where "pruneRemotes e rs dry kind infos cs1 res1 w1 = ((cs', res'), w')"
      using Cons.prems True d by (auto simp: orphan_iff Let_def split: option.splits)
    from Cons.IH [OF this] s o show ?thesis by simp
  qed
qed simp

lemma pruneKinds_keeps:
  assumes "lawful e view" "r \<in> set rs"
    and "pruneKinds e rs dry kinds cs res w = ((cs', res'), w')"
  shows "os e w' = os e w \<and> (settled e view r w' = settled e view r w)"
  using assms(3)
proof (induction kinds arbitrary: cs res w)
  case (Cons kind kinds)
  show ?case
  proof (cases "notPruned kind")
    case True
    with Cons show ?thesis by simp
  next
    case False
    obtain l w1 where l: "ListAll (provider e) kind w = (l, w1)" by (metis surj_pair)
    then have same: "sameWorld e view w w1" using assms(1) unfolding lawful_def by (metis snd_conv)
    then have s: "settled e view r w1 = settled e view r w" by (rule settled_same)
    have o: "os e w1 = os e w" using same by (simp add: sameWorld_def)
    show ?thesis
    proof (cases l)
      case (Inl err)
      with Cons.prems False l have "pruneKinds e rs dry kinds cs res w1 = ((cs', res'), w')" by simp
      from Cons.IH [OF this] s o show ?thesis by simp
    next
      case (Inr infos)
      obtain cs1 res1 w2 where p: "pruneRemotes e rs dry kind infos cs res w1 = ((cs1, res1), w2)"
        by (metis surj_pair)
      with Cons.prems False l Inr have "pruneKinds e rs dry kinds cs1 res1 w2 = ((cs', res'), w')" by simp
      from Cons.IH [OF this] pruneRemotes_keeps [OF assms(1,2) p] s o show ?thesis by simp
    qed
  qed
qed simp


section \<open>A run with nothing to do\<close>

definition quiet :: "change \<Rightarrow> bool" where
  "quiet c \<longleftrightarrow> Action c = ActionNoop \<and> Error c = []"

lemma executeChanges_quiet:
  assumes "schedOk e" "list_all quiet cs"
  shows "executeChanges e cs rs conc w = (emptyResult, w)"
proof -
  have "filter (\<lambda>i. \<not> skipChange (cs ! i)) [0..<length cs] = []"
    using assms(2) by (auto simp: filter_empty_conv list_all_length quiet_def skipChange_def)
  moreover have "sched e w (nat conc) 0 = []"
    using assms(1) unfolding schedOk_def by (metis mset_zero_iff upt_0)
  ultimately show ?thesis by (simp add: executeChanges_def Let_def)
qed

lemma reconcileKind_quiet:
  assumes "lawful e view" "schedOk e" "\<And>r. r \<in> set rs \<Longrightarrow> settled e view r w"
    and "reconcileKind e rs False conc w = (cs, w')"
  shows "list_all quiet cs \<and> sameWorld e view w w'"
proof -
  let ?Q = "\<lambda>r c. settled e view r w \<longrightarrow> quiet c"
  have step: "?Q r (fst (reconcileOne e r False w1)) \<and> sameWorld e view w (snd (reconcileOne e r False w1))"
    if s: "sameWorld e view w w1" for r w1
  proof -
    obtain c w2 where c: "reconcileOne e r False w1 = (c, w2)" by fastforce
    have "settled e view r w1 = settled e view r w" using s by (rule settled_same)
    then show ?thesis
      using reconcileOne_lawful [OF assms(1) c] sameWorld_trans [OF s] c by (auto simp: quiet_def)
  qed
  have "sameWorld e view w w" by (simp add: sameWorld_def)
  from reconcileKind_inv [where I = "sameWorld e view w" and Q = ?Q and force = False, OF assms(2) this step]
  have "list_all2 ?Q rs cs" "sameWorld e view w w'" using assms(4) by (metis fst_conv snd_conv)+
  then show ?thesis using assms(3) by (auto simp: list_all2_conv_all_nth list_all_length)
qed

lemma addChanges_Changes: "length rs = length cs \<Longrightarrow> Changes (addChanges rs cs p) = Changes p @ cs"
proof (induction rs cs p rule: addChanges.induct)
  case (1 r rs c cs p)
  have "Changes (addChange r c p) = Changes p @ [c]"
    by (auto simp: addChange_def Let_def split: action.split)
  with 1 show ?case by simp
qed auto

lemma addChanges_quiet_errors:
  "length rs = length cs \<Longrightarrow> list_all quiet cs \<Longrightarrow> planErrors (addChanges rs cs p) = planErrors p"
proof (induction rs cs p rule: addChanges.induct)
  case (1 r rs c cs p)
  then have "planErrors (addChange r c p) = planErrors p"
    by (simp add: addChange_def Let_def quiet_def)
  with 1 show ?case by simp
qed auto

lemma reconcileKind_length: "schedOk e \<Longrightarrow> reconcileKind e rs force conc w = (cs, w') \<Longrightarrow> length cs = length rs"
  using reconcileKind_changeFor [of e rs force conc w] list_all2_lengthD by fastforce

lemma reconcileKinds_quiet:
  assumes law: "lawful e view" and sok: "schedOk e" and "\<not> Force opts"
    and "reconcileKinds e rs opts kinds p res w = ((p', res'), w')"
    and "\<And>r. r \<in> set rs \<Longrightarrow> resKind r \<in> set kinds \<Longrightarrow> settled e view r w"
  shows "(\<exists>cs. Changes p' = Changes p @ cs \<and> list_all quiet cs) \<and> res' = addResult res emptyResult \<and>
    sameWorld e view w w' \<and> planErrors p' = planErrors p"
  using assms(4,5)
proof (induction kinds arbitrary: p res w)
  case Nil
  then show ?case by (auto simp: sameWorld_def addResult_def emptyResult_def)
next
  case (Cons kind kinds)
  let ?rs = "byKind rs kind"
  show ?case
  proof (cases "?rs = []")
    case True
    with Cons show ?thesis by simp
  next
    case False
    obtain cs w1 where k: "reconcileKind e ?rs False (Concurrency opts) w = (cs, w1)"
      by (metis surj_pair)
    have "settled e view r w" if "r \<in> set ?rs" for r using that Cons.prems(2) by (simp add: byKind_def)
    from reconcileKind_quiet [OF law sok this k] have q: "list_all quiet cs" and s: "sameWorld e view w w1" by auto
    have ch: "Changes (addChanges ?rs cs p) = Changes p @ cs"
      using reconcileKind_length [OF sok k] by (simp add: addChanges_Changes)
    have er: "planErrors (addChanges ?rs cs p) = planErrors p"
      using reconcileKind_length [OF sok k] q by (simp add: addChanges_quiet_errors)
    obtain res1 where r1: "reconcileKinds e rs opts kinds (addChanges ?rs cs p) res1 w1 = ((p', res'), w')"
      "addResult res1 emptyResult = addResult res emptyResult"
      using Cons.prems(1) False k assms(3) executeChanges_quiet [OF sok q]
      by (cases "DryRun opts") (auto simp: Let_def addResult_def emptyResult_def)
    have "settled e view r w1" if "r \<in> set rs" "resKind r \<in> set kinds" for r
      using that Cons.prems(2) settled_same [OF s] by simp
    from Cons.IH [OF r1(1) this] ch er q r1(2) s show ?thesis
      by (auto simp: sameWorld_def)
  qed
qed

section \<open>Whole runs\<close>

lemma Reconcile_settles:
  assumes "lawful e view" "schedOk e" "distinct (map ident (Resources m))"
    and "\<And>r. r \<in> set (Resources m) \<Longrightarrow> comparable (resKind r) (desiredSpec e r w)"
    and "\<not> DryRun opts" "Reconcile e m opts w = ((p, res), w')" "Failed res = 0"
    and r: "r \<in> set (Resources m)" "resKind r \<in> set ApplyOrder"
  shows "settled e view r w'"
proof -
  obtain p1 res1 w1 where k: "reconcileKinds e (Resources m) opts ApplyOrder emptyPlan emptyResult w =
    ((p1, res1), w1)" by (metis surj_pair)
  have f: "Failed res1 = Failed emptyResult"
    using assms(6,7) k
    by (auto simp: Reconcile_def addResult_def emptyResult_def split: if_splits prod.splits)
  from reconcileKinds_settles [OF assms(1-3) assms(5) k f ApplyOrder_distinct assms(4)]
  have s1: "settled e view r w1" using r by auto
  show ?thesis
  proof (cases "Prune opts")
    case False
    with assms(6) k have "w' = w1" by (simp add: Reconcile_def)
    with s1 show ?thesis by simp
  next
    case True
    obtain cs res3 where "pruneKinds e (Resources m) (DryRun opts) DeleteOrder [] emptyResult w1 = ((cs, res3), w')"
      using assms(6) k True
      by (auto simp: Reconcile_def detectAndExecutePrunes_def split: prod.splits)
    from pruneKinds_keeps [OF assms(1) r(1) this] s1 show ?thesis by simp
  qed
qed

lemma Reconcile_quiet:
  assumes "lawful e view" "schedOk e" "\<not> Force opts" "Reconcile e m opts w = ((p, res), w')"
    and "\<And>r. r \<in> set (Resources m) \<Longrightarrow> resKind r \<in> set ApplyOrder \<Longrightarrow> settled e view r w"
  shows "Creates p = 0 \<and> Updates p = 0 \<and> planErrors p = [] \<and>
    (\<not> Prune opts \<longrightarrow> list_all quiet (Changes p) \<and> res = emptyResult)"
proof -
  obtain p1 res1 w1 where k: "reconcileKinds e (Resources m) opts ApplyOrder emptyPlan emptyResult w =
    ((p1, res1), w1)" by (metis surj_pair)
  have p: "Creates p = Creates p1" "Updates p = Updates p1" "planErrors p = planErrors p1"
    "\<not> Prune opts \<Longrightarrow> p = p1 \<and> res = res1"
    using assms(4) k by (auto simp: Reconcile_def split: prod.splits if_splits)
  from reconcileKinds_quiet [OF assms(1-3) k assms(5)] have q: "list_all quiet (Changes p1)"
    "res1 = emptyResult" "planErrors p1 = []"
    by (auto simp: emptyPlan_def emptyResult_def addResult_def)
  from reconcileKinds_plan [OF assms(2) tallied_empty k] have "tallied p1" by simp
  with q(1) have "Creates p1 = 0" "Updates p1 = 0"
    by (auto simp: tallied_def countAction_def quiet_def list_all_iff filter_empty_conv)
  with p q show ?thesis by simp
qed

section \<open>Properties\<close>

text \<open>
  C1: Convergence. Against a provider that echoes what it is sent, after a run without failed
  calls (pruning or not, forced or not, sequential or not) the next run finds nothing to do:
  every change is a no-op without error, nothing is applied, nothing fails.
\<close>

theorem reconcile_converges:
  assumes "lawful e view" "schedOk e" "distinct (map ident (Resources m))"
    and "\<And>r. r \<in> set (Resources m) \<Longrightarrow> comparable (resKind r) (desiredSpec e r w)"
    and "\<not> DryRun opts" "Reconcile e m opts w = ((p, res), w')" "Failed res = 0"
    and "\<not> Force opts2" "\<not> Prune opts2" "Reconcile e m opts2 w' = ((p2, res2), w2)"
  shows "(\<forall>c \<in> set (Changes p2). Action c = ActionNoop \<and> Error c = []) \<and> Applied res2 = 0 \<and> Failed res2 = 0"
proof -
  have "settled e view r w'" if "r \<in> set (Resources m)" "resKind r \<in> set ApplyOrder" for r
    using Reconcile_settles [OF assms(1-7) that] .
  from Reconcile_quiet [OF assms(1,2,8,10) this] assms(9) show ?thesis
    by (auto simp: emptyResult_def list_all_iff quiet_def)
qed

text \<open>The in-memory provider with the fields the API would keep: a lawful provider.\<close>

definition keptFields :: "resource_kind \<Rightarrow> gomap \<Rightarrow> gomap" where
  "keptFields k s =
     filter (\<lambda>(f, v). f \<notin> set (WriteOnlyFields k) \<and> (f = WriteOnlyHashField \<longrightarrow> SupportsWriteOnlyHash k)) s"

definition echoEngine :: "mem engine" where
  "echoEngine = memEngine\<lparr>provider := memProvider
     \<lparr>Create := (\<lambda>k n s w. (None, AList.update (k, n) (keptFields k s) w)),
      Update := (\<lambda>k n s w. (None, AList.update (k, n) (keptFields k s) w))\<rparr>\<rparr>"

definition memView :: "mem view" where
  "memView w k n = map_of w (k, n)"

lemma map_of_filter_key: "P f \<Longrightarrow> map_of (filter (\<lambda>(f, v). P f) s) f = map_of s f"
  by (induction s) auto

lemma map_of_filter_out: "\<not> P f \<Longrightarrow> map_of (filter (\<lambda>(f, v). P f) s) f = None"
  by (induction s) auto

lemma hash_not_write_only: "WriteOnlyHashField \<notin> set (WriteOnlyFields k)"
proof -
  have "list_all (\<lambda>(k, fs). WriteOnlyHashField \<notin> set fs) writeOnlyTable" by code_simp
  then show ?thesis
    by (auto simp: WriteOnlyFields_def list_all_iff dest!: map_of_SomeD [OF sym] split: option.split)
qed

lemma echoed_kept: "echoed k s (keptFields k s)"
proof -
  let ?P = "\<lambda>f. f \<notin> set (WriteOnlyFields k) \<and> (f = WriteOnlyHashField \<longrightarrow> SupportsWriteOnlyHash k)"
  have "map_of (keptFields k s) f = (if ?P f then map_of s f else None)" for f
    unfolding keptFields_def
    using map_of_filter_key [of ?P f s] map_of_filter_out [of ?P f s] by simp
  then show ?thesis using hash_not_write_only by (simp add: echoed_def)
qed

lemma lawful_echo: "lawful echoEngine memView"
proof -
  have "writeLaw echoEngine memView (\<lambda>k n s w. (None, AList.update (k, n) (keptFields k s) w))"
    by (simp add: writeLaw_def onlyAt_def memView_def echoEngine_def memEngine_def map_of_update echoed_kept)
  moreover have "onlyAt echoEngine memView (k, n) w (AList.delete (k, n) w)" for k n w
    by (simp add: onlyAt_def memView_def echoEngine_def memEngine_def map_of_delete)
  ultimately show ?thesis
    by (simp add: lawful_def sameWorld_def echoEngine_def memEngine_def memProvider_def memView_def)
qed

lemma schedOk_echo: "schedOk echoEngine"
  by (simp add: schedOk_def echoEngine_def memEngine_def)

lemma demoM_comparable: "r \<in> set (Resources demoM) \<Longrightarrow> comparable (resKind r) (desiredSpec echoEngine r demoW)"
proof -
  have spec: "map (\<lambda>r. desiredSpec echoEngine r demoW) (Resources demoM) =
    [[(''model'', GStr ''m'')], [(''enabled'', GBool True)]]" by code_simp
  have "setFieldsOk ''model'' (GStr ''m'')" "setFieldsOk ''enabled'' (GBool True)"
    "WriteOnlyHashField \<noteq> ''model''" "WriteOnlyHashField \<noteq> ''enabled''" by code_simp+
  with spec show "r \<in> set (Resources demoM) \<Longrightarrow> comparable (resKind r) (desiredSpec echoEngine r demoW)"
    by (auto simp: comparable_def demoM_def demoManifest_def)
qed

theorem reconcile_converges_witness:
  "\<exists>p res w'. Reconcile echoEngine demoM (demoOpts False True 3) demoW = ((p, res), w') \<and> Creates p = 1 \<and>
     list_all (\<lambda>c. Action c = ActionNoop) (Changes (fst (fst (Reconcile echoEngine demoM (demoOpts True False 0) w'))))"
proof -
  obtain p res w' where r: "Reconcile echoEngine demoM (demoOpts False True 3) demoW = ((p, res), w')"
    by (metis surj_pair)
  obtain p2 res2 w2 where r2: "Reconcile echoEngine demoM (demoOpts True False 0) w' = ((p2, res2), w2)"
    by (metis surj_pair)
  have "Failed (snd (fst (Reconcile echoEngine demoM (demoOpts False True 3) demoW))) = 0"
    "Creates (fst (fst (Reconcile echoEngine demoM (demoOpts False True 3) demoW))) = 1" by code_simp+
  with r have f: "Failed res = 0" and c: "Creates p = 1" by simp_all
  have d: "distinct (map ident (Resources demoM))" by code_simp
  show ?thesis
    using reconcile_converges [OF lawful_echo schedOk_echo d demoM_comparable _ r f _ _ r2] r r2 c
    by (auto simp: demoOpts_def list_all_iff)
qed

text \<open>
  C27: The observe phase does not depend on the scheduler: if observations leave the world alone,
  any number of workers in any order computes the changes the sequential loop computes.
\<close>

theorem observe_phase_schedule_independent:
  assumes "schedOk e" "\<And>k n w. snd (Observe (provider e) k n w) = w"
  shows "reconcileKind e rs force conc w = reconcileKind e rs force 0 w"
proof -
  let ?f = "\<lambda>r. fst (reconcileOne e r force w)"
  have all: "reconcileKind e rs force c w = (map ?f rs, w)" for c
  proof -
    have "list_all2 (\<lambda>r ch. ch = ?f r) rs (fst (reconcileKind e rs force c w)) \<and>
        snd (reconcileKind e rs force c w) = w"
      using reconcileKind_inv [where I = "\<lambda>v. v = w" and Q = "\<lambda>r ch. ch = ?f r" and force = force,
          OF assms(1) refl, of rs c] assms(2)
      by (simp add: reconcileOne_world)
    then show ?thesis by (auto simp: list_all2_conv_all_nth prod_eq_iff intro!: nth_equalityI)
  qed
  show ?thesis by (simp add: all)
qed

theorem observe_phase_schedule_independent_witness:
  "reconcileKind memEngine (Resources demoM) False 8 demoW = reconcileKind memEngine (Resources demoM) False 0 demoW"
  by (rule observe_phase_schedule_independent [OF schedOk_mem]) (simp add: memEngine_def memProvider_def)

end
