(* ===== verification/PruneSettles.thy ===== *)
theory PruneSettles
  imports EngineConverge
begin

text \<open>
  What pruning leaves behind: against a provider whose listings follow its deletions, a run that prunes without
  a failed call leaves no orphan, and a run that finds none deletes nothing.
\<close>

section \<open>Listings\<close>

text \<open>
  The law of a listing: it succeeds for the kinds that pruning covers and changes nothing, observations leave it
  alone, and a deletion that succeeds removes the entries of the name and adds none.
\<close>

definition lawfulListing :: "'w engine \<Rightarrow> ('w \<Rightarrow> resource_kind \<Rightarrow> resource_info list) \<Rightarrow> bool" where
  "lawfulListing e listed \<longleftrightarrow>
     (\<forall>k w. \<not> notPruned k \<longrightarrow> (\<exists>w'. ListAll (provider e) k w = (Inr (listed w k), w') \<and> listed w' = listed w)) \<and>
     (\<forall>k n w. listed (snd (Observe (provider e) k n w)) = listed w) \<and>
     (\<forall>k n w w'. Delete (provider e) k n w = (None, w') \<longrightarrow>
        (\<forall>k'. set (listed w' k') \<subseteq> set (listed w k')) \<and> n \<notin> infoName ` set (listed w' k))"

definition noOrphans :: "resource list \<Rightarrow> (resource_kind \<Rightarrow> resource_info list) \<Rightarrow> resource_kind list \<Rightarrow> bool" where
  "noOrphans rs ls kinds \<longleftrightarrow> (\<forall>k \<in> set kinds. \<not> notPruned k \<longrightarrow> (\<forall>i \<in> set (ls k). \<not> orphan rs k i))"

lemma lawfulListing_list:
  assumes "lawfulListing e listed" "\<not> notPruned k"
  obtains w' where "ListAll (provider e) k w = (Inr (listed w k), w')" "listed w' = listed w"
  using assms unfolding lawfulListing_def by blast

lemma lawfulListing_delete:
  assumes "lawfulListing e listed" "Delete (provider e) k n w = (None, w')"
  shows "set (listed w' k') \<subseteq> set (listed w k')" "n \<notin> infoName ` set (listed w' k)"
  using assms unfolding lawfulListing_def by blast+

lemma noOrphans_subset:
  "noOrphans rs ls kinds \<Longrightarrow> (\<And>k. set (ls' k) \<subseteq> set (ls k)) \<Longrightarrow> noOrphans rs ls' kinds"
  unfolding noOrphans_def by blast

section \<open>Nothing to prune\<close>

lemma pruneRemotes_none:
  "(\<And>i. i \<in> set infos \<Longrightarrow> \<not> orphan rs kind i) \<Longrightarrow> pruneRemotes e rs dry kind infos cs res w = ((cs, res), w)"
  by (induction infos) (auto simp: orphan_def inManifest_iff)

lemma pruneKinds_none:
  assumes "lawfulListing e listed"
  shows "noOrphans rs (listed w) kinds \<Longrightarrow> \<exists>w'. pruneKinds e rs dry kinds cs res w = ((cs, res), w') \<and> listed w' = listed w"
proof (induction kinds arbitrary: w)
  case (Cons k kinds)
  have rest: "noOrphans rs (listed w) kinds" using Cons.prems by (simp add: noOrphans_def)
  show ?case
  proof (cases "notPruned k")
    case True
    with Cons.IH [OF rest] show ?thesis by simp
  next
    case False
    obtain w1 where l: "ListAll (provider e) k w = (Inr (listed w k), w1)" "listed w1 = listed w"
      using assms False by (rule lawfulListing_list)
    have "pruneRemotes e rs dry k (listed w k) cs res w1 = ((cs, res), w1)"
      using Cons.prems False by (intro pruneRemotes_none) (simp add: noOrphans_def)
    with Cons.IH [of w1] rest l False show ?thesis by simp
  qed
qed simp

section \<open>What a prune leaves\<close>

lemma pruneRemotes_failed: "Failed res \<le> Failed (snd (fst (pruneRemotes e rs d kind infos cs res w)))"
proof (induction infos arbitrary: d cs res w)
  case (Cons i infos)
  show ?case by (auto simp: Let_def intro!: order_trans [OF _ Cons.IH] split: prod.split option.split)
qed simp

lemma pruneKinds_failed: "Failed res \<le> Failed (snd (fst (pruneKinds e rs d kinds cs res w)))"
proof (induction e rs d kinds cs res w rule: pruneKinds.induct)
  case (2 e rs d k kinds cs res w)
  have "Failed res \<le> Failed res1" if "pruneRemotes e rs d k infos cs res v = ((cs1, res1), v1)" for infos v cs1 res1 v1
    using pruneRemotes_failed [of res e rs d k infos cs v] that by simp
  with 2 show ?case by (auto split: prod.split sum.split) (meson order_trans)+
qed simp

lemma pruneRemotes_settles:
  assumes law: "lawfulListing e listed"
  shows "pruneRemotes e rs False kind infos cs res w = ((cs', res'), w') \<Longrightarrow> Failed res' = Failed res \<Longrightarrow>
    (\<forall>k. set (listed w' k) \<subseteq> set (listed w k)) \<and>
    (\<forall>i \<in> set infos. orphan rs kind i \<longrightarrow> infoName i \<notin> infoName ` set (listed w' kind))"
proof (induction infos arbitrary: cs res w)
  case (Cons i infos)
  show ?case
  proof (cases "orphan rs kind i")
    case False
    with Cons show ?thesis by (auto simp: orphan_def inManifest_iff split: if_splits)
  next
    case True
    let ?cs = "cs @ [zeroChange\<lparr>chKind := kind, chName := infoName i, Action := ActionDelete\<rparr>]"
    obtain err w1 where d: "Delete (provider e) kind (infoName i) w = (err, w1)" by fastforce
    show ?thesis
    proof (cases err)
      case None
      with Cons.prems(1) True d have
        p: "pruneRemotes e rs False kind infos ?cs (res\<lparr>Applied := Suc (Applied res)\<rparr>) w1 = ((cs', res'), w')"
        by (simp add: orphan_def inManifest_iff Let_def)
      from Cons.IH [OF p] Cons.prems(2) lawfulListing_delete [OF law d [unfolded None]] show ?thesis
        by (auto simp: subset_iff)
    next
      case (Some er)
      with Cons.prems(1) True d have "Failed res < Failed res'"
        using pruneRemotes_failed [of "res\<lparr>Failed := Suc (Failed res),
            resErrors := resErrors res @ [failureText kind (infoName i) (errText er)]\<rparr>" e rs False kind infos ?cs w1]
        by (simp add: orphan_def inManifest_iff Let_def)
      with Cons.prems(2) show ?thesis by simp
    qed
  qed
qed simp

lemma pruneKinds_settles:
  assumes law: "lawfulListing e listed"
  shows "pruneKinds e rs False kinds cs res w = ((cs', res'), w') \<Longrightarrow> Failed res' = Failed res \<Longrightarrow>
    (\<forall>k. set (listed w' k) \<subseteq> set (listed w k)) \<and> noOrphans rs (listed w') kinds"
proof (induction kinds arbitrary: cs res w)
  case (Cons k kinds)
  show ?case
  proof (cases "notPruned k")
    case True
    with Cons show ?thesis by (simp add: noOrphans_def)
  next
    case False
    obtain w1 where l: "ListAll (provider e) k w = (Inr (listed w k), w1)" "listed w1 = listed w"
      using law False by (rule lawfulListing_list)
    obtain cs1 res1 w2 where p: "pruneRemotes e rs False k (listed w k) cs res w1 = ((cs1, res1), w2)"
      by (metis surj_pair)
    with Cons.prems(1) False l(1) have k: "pruneKinds e rs False kinds cs1 res1 w2 = ((cs', res'), w')" by simp
    have "Failed res \<le> Failed res1" "Failed res1 \<le> Failed res'"
      using pruneRemotes_failed [of res e rs False k "listed w k" cs w1] p
        pruneKinds_failed [of res1 e rs False kinds cs1 w2] k by simp_all
    with Cons.prems(2) have f: "Failed res1 = Failed res" "Failed res' = Failed res1" by simp_all
    from pruneRemotes_settles [OF law p f(1)] l(2) have
      a: "set (listed w2 k') \<subseteq> set (listed w k')" and
      b: "i \<in> set (listed w k) \<Longrightarrow> orphan rs k i \<Longrightarrow> infoName i \<notin> infoName ` set (listed w2 k)" for k' i by auto
    from Cons.IH [OF k f(2)] have c: "set (listed w' k') \<subseteq> set (listed w2 k')" "noOrphans rs (listed w') kinds" for k'
      by auto
    have "\<not> orphan rs k i" if "i \<in> set (listed w' k)" for i using that a b c(1) by blast
    with a c show ?thesis by (auto simp: noOrphans_def)
  qed
qed (simp add: noOrphans_def)

section \<open>Whole runs\<close>

lemma reconcileKinds_quiet_frame:
  assumes law: "lawful e view" and sok: "schedOk e" and "\<not> Force opts"
    and frame: "\<And>k n w. f (snd (Observe (provider e) k n w)) = f w"
    and "reconcileKinds e rs opts kinds p res w = ((p', res'), w')"
    and "\<And>r. r \<in> set rs \<Longrightarrow> resKind r \<in> set kinds \<Longrightarrow> settled e view r w"
  shows "f w' = f w"
  using assms(5,6)
proof (induction kinds arbitrary: p res w)
  case (Cons kind kinds)
  let ?rs = "byKind rs kind"
  show ?case
  proof (cases "?rs = []")
    case True
    with Cons show ?thesis by simp
  next
    case False
    obtain cs w1 where k: "reconcileKind e ?rs False (Concurrency opts) w = (cs, w1)" by (metis surj_pair)
    have "settled e view r w" if "r \<in> set ?rs" for r using that Cons.prems(2) by (simp add: byKind_def)
    from reconcileKind_quiet [OF law sok this k] have q: "list_all quiet cs" and s: "sameWorld e view w w1" by auto
    obtain res1 where r1: "reconcileKinds e rs opts kinds (addChanges ?rs cs p) res1 w1 = ((p', res'), w')"
      using Cons.prems(1) False k assms(3) executeChanges_quiet [OF sok q]
      by (cases "DryRun opts") (auto simp: Let_def)
    have "settled e view r w1" if "r \<in> set rs" "resKind r \<in> set kinds" for r
      using that Cons.prems(2) settled_same [OF s] by simp
    from Cons.IH [OF r1 this] reconcileKind_frame [of f e ?rs False "Concurrency opts" w, OF frame] k show ?thesis by simp
  qed
qed simp

lemma Reconcile_leaves_no_orphans:
  assumes "lawfulListing e listed" "Prune opts" "\<not> DryRun opts"
    and "Reconcile e m opts w = ((p, res), w')" "Failed res = 0"
  shows "noOrphans (Resources m) (listed w') DeleteOrder"
proof -
  from assms(2-5) obtain w1 cs res3 where
    p: "pruneKinds e (Resources m) False DeleteOrder [] emptyResult w1 = ((cs, res3), w')" and "Failed res3 = 0"
    by (auto simp: Reconcile_def detectAndExecutePrunes_def addResult_def split: prod.splits)
  then have "Failed res3 = Failed emptyResult" by (simp add: emptyResult_def)
  from pruneKinds_settles [OF assms(1) p this] show ?thesis by simp
qed

lemma Reconcile_quiet_pruned:
  assumes "lawful e view" "schedOk e" "\<not> Force opts" "Reconcile e m opts w = ((p, res), w')"
    and "\<And>r. r \<in> set (Resources m) \<Longrightarrow> resKind r \<in> set ApplyOrder \<Longrightarrow> settled e view r w"
    and "lawfulListing e listed" "noOrphans (Resources m) (listed w) DeleteOrder"
  shows "list_all quiet (Changes p) \<and> res = emptyResult"
proof -
  obtain p1 res1 w1 where k: "reconcileKinds e (Resources m) opts ApplyOrder emptyPlan emptyResult w = ((p1, res1), w1)"
    by (metis surj_pair)
  from reconcileKinds_quiet [OF assms(1-3) k assms(5)] have q: "list_all quiet (Changes p1)" "res1 = emptyResult"
    by (auto simp: emptyPlan_def emptyResult_def addResult_def)
  have "listed (snd (Observe (provider e) k n v)) = listed v" for k n v
    using assms(6) by (simp add: lawfulListing_def)
  from reconcileKinds_quiet_frame [of e view opts listed, OF assms(1-3) this k assms(5)]
  have "noOrphans (Resources m) (listed w1) DeleteOrder" using assms(7) by simp
  from pruneKinds_none [OF assms(6) this, of "DryRun opts" "[]" emptyResult] k q assms(4) show ?thesis
    by (auto simp: Reconcile_def detectAndExecutePrunes_def addResult_def emptyResult_def split: if_splits)
qed

section \<open>The in-memory provider lists lawfully\<close>

definition memListed :: "mem \<Rightarrow> resource_kind \<Rightarrow> resource_info list" where
  "memListed w k = map (\<lambda>((k', n), s). \<lparr>infoKind = k, infoName = n, CreatedBy = ''gcplane'', Source = [], IsSystem = False\<rparr>)
     (filter (\<lambda>((k', n), s). k' = k) w)"

lemma lawfulListing_echo: "lawfulListing echoEngine memListed"
  by (auto simp: lawfulListing_def echoEngine_def memEngine_def memProvider_def memListed_def AList.delete_eq case_prod_unfold)

end
