(* ===== verification/Source.thy ===== *)
theory Source
  imports Loader
begin

text \<open>
  \<open>internal/source\<close>: where the controller gets its manifest. SHA-256 in hexadecimal is a function,
  \<open>git\<close> is a command that changes a world whose disk the loader reads.
\<close>

section \<open>Files\<close>

definition isYaml :: "string \<times> fsnode \<Rightarrow> bool" where
  "isYaml e \<longleftrightarrow> \<not> isDirNode (snd e) \<and> isYamlName (fst e)"

fun hashInputOf :: "disk \<Rightarrow> string \<Rightarrow> string list \<Rightarrow> string result" where
  "hashInputOf d dir [] = Inr []"
| "hashInputOf d dir (name # names) =
     (case diskRead d (JoinPath [dir, name]) of
        Inl err \<Rightarrow> Inl (wrapf (''read '' @ name @ '': '') err)
      | Inr data \<Rightarrow>
          (case hashInputOf d dir names of
             Inl err \<Rightarrow> Inl err
           | Inr rest \<Rightarrow> Inr (name @ '':'' @ data @ rest)))"

definition hashDir :: "(string \<Rightarrow> string) \<Rightarrow> disk \<Rightarrow> string \<Rightarrow> string result" where
  "hashDir sha d dir =
     (case readDir d dir of
        Inl err \<Rightarrow> Inl (wrapf (''readdir '' @ dir @ '': '') err)
      | Inr entries \<Rightarrow>
          (case hashInputOf d dir (sort (map fst (filter isYaml entries))) of
             Inl err \<Rightarrow> Inl err
           | Inr input \<Rightarrow> Inr (sha input)))"

definition hashOf :: "(string \<Rightarrow> string) \<Rightarrow> disk \<Rightarrow> string \<Rightarrow> fsnode \<Rightarrow> string result" where
  "hashOf sha d path n =
     (if isDirNode n
      then (case hashDir sha d path of Inl err \<Rightarrow> Inl (wrapf ''hash dir: '' err) | Inr h \<Rightarrow> Inr h)
      else (case diskRead d path of
              Inl err \<Rightarrow> Inl (wrapf ''read manifest file: '' err)
            | Inr data \<Rightarrow> Inr (sha data)))"

text \<open>Load and validate, the second half of both sources.\<close>

definition loadValid :: "codecs \<Rightarrow> valid_env \<Rightarrow> disk \<Rightarrow> string \<Rightarrow> string \<Rightarrow> string \<Rightarrow> (manifest \<times> string) go" where
  "loadValid cs env d loadErr path hash =
     bindGo (LoadM cs d path) (\<lambda>r.
       case r of
         Inl err \<Rightarrow> Ret (Inl (wrapf loadErr err))
       | Inr m \<Rightarrow>
           (case ValidateM (env\<lparr>veDisk := d\<rparr>) m of
              [] \<Rightarrow> Ret (Inr (m, hash))
            | err # errs \<Rightarrow> Ret (Inl (errorf (''validate manifest: '' @ errText err)))))"

definition FetchFile :: "codecs \<Rightarrow> valid_env \<Rightarrow> (string \<Rightarrow> string) \<Rightarrow> disk \<Rightarrow> string \<Rightarrow> (manifest \<times> string) go" where
  "FetchFile cs env sha d path =
     (case nodeAt d path of
        None \<Rightarrow> Ret (Inl (wrapf ''stat manifest path: ''
                  (GoErr (Some ErrNotExist) (''stat '' @ path @ '': no such file or directory''))))
      | Some n \<Rightarrow>
          (case hashOf sha d path n of
             Inl err \<Rightarrow> Ret (Inl err)
           | Inr hash \<Rightarrow> loadValid cs env d ''load manifest: '' path hash))"

section \<open>Git\<close>

text \<open>
  The world of \<open>git\<close>: running a command in a directory returns its combined output with the
  process error, if any; \<open>MkdirTemp\<close> and \<open>RemoveAll\<close> are the calls of \<open>os\<close>, and the disk can be read.
\<close>

record 'w git_ops =
  runCommand :: "string \<Rightarrow> string list \<Rightarrow> 'w \<Rightarrow> (string \<times> string option) \<times> 'w"
  mkdirTemp :: "'w \<Rightarrow> string result \<times> 'w"
  removeAll' :: "string \<Rightarrow> 'w \<Rightarrow> 'w"
  diskOf :: "'w \<Rightarrow> disk"

record git_source =
  gitRepo :: string
  gitBranch :: string
  gitPath :: string
  gitDir :: string

definition NewGitSource :: "string \<Rightarrow> string \<Rightarrow> string \<Rightarrow> git_source result" where
  "NewGitSource repo branch path =
     (let branch = (if branch = [] then ''main'' else branch); path = (if path = [] then ''manifest.yaml'' else path) in
      case find (hasPrefix ''-'') [repo, branch, path] of
        Some v \<Rightarrow> Inl (errorf (''invalid git parameter '' @ goQuote v @ '': must not start with '' @ [squote] @ ''-'' @ [squote]))
      | None \<Rightarrow> Inr \<lparr>gitRepo = repo, gitBranch = branch, gitPath = path, gitDir = []\<rparr>)"

definition runGitIn :: "'w git_ops \<Rightarrow> string \<Rightarrow> string list \<Rightarrow> 'w \<Rightarrow> string result \<times> 'w" where
  "runGitIn g dir args w =
     (case runCommand g dir args w of
        ((out, Some err), w') \<Rightarrow> (Inl (errorf (err @ '': '' @ trimSpace out)), w')
      | ((out, None), w') \<Rightarrow> (Inr (trimSpace out), w'))"

definition cloneGit :: "'w git_ops \<Rightarrow> git_source \<Rightarrow> 'w \<Rightarrow> git_source result \<times> 'w" where
  "cloneGit g s w =
     (case mkdirTemp g w of
        (Inl err, w') \<Rightarrow> (Inl (wrapf ''create temp dir: '' err), w')
      | (Inr dir, w') \<Rightarrow>
          (case runGitIn g [] [''clone'', ''--depth'', ''1'', ''--single-branch'', ''--branch'', gitBranch s, gitRepo s, dir] w' of
             (Inl err, w'') \<Rightarrow> (Inl (wrapf ''git clone: '' err), removeAll' g dir w'')
           | (Inr out, w'') \<Rightarrow> (Inr (s\<lparr>gitDir := dir\<rparr>), w'')))"

definition fetchGit :: "'w git_ops \<Rightarrow> git_source \<Rightarrow> 'w \<Rightarrow> git_source result \<times> 'w" where
  "fetchGit g s w =
     (case runGitIn g (gitDir s) [''fetch'', ''origin'', gitBranch s] w of
        (Inl err, w') \<Rightarrow> (Inl (wrapf ''git fetch: '' err), w')
      | (Inr out, w') \<Rightarrow>
          (case runGitIn g (gitDir s) [''reset'', ''--hard'', ''origin/'' @ gitBranch s] w' of
             (Inl err, w'') \<Rightarrow> (Inl (wrapf ''git reset: '' err), w'')
           | (Inr out', w'') \<Rightarrow> (Inr s, w'')))"

text \<open>The source keeps the clone directory of a failed later step, as the code does.\<close>

definition FetchGit ::
  "codecs \<Rightarrow> valid_env \<Rightarrow> 'w git_ops \<Rightarrow> git_source \<Rightarrow> 'w \<Rightarrow> ((manifest \<times> string) go \<times> git_source) \<times> 'w"
where
  "FetchGit cs env g s w =
     (case (if gitDir s = [] then cloneGit g s w else fetchGit g s w) of
        (Inl err, w') \<Rightarrow> ((Ret (Inl err), s), w')
      | (Inr s', w') \<Rightarrow>
          (case runGitIn g (gitDir s') [''rev-parse'', ''HEAD''] w' of
             (Inl err, w'') \<Rightarrow> ((Ret (Inl (wrapf ''git rev-parse HEAD: '' err)), s'), w'')
           | (Inr hash, w'') \<Rightarrow>
               ((loadValid cs env (diskOf g w'') ''load manifest from repo: '' (JoinPath [gitDir s', gitPath s']) hash, s'), w'')))"

definition CleanupGit :: "'w git_ops \<Rightarrow> git_source \<Rightarrow> 'w \<Rightarrow> 'w" where
  "CleanupGit g s w = (if gitDir s \<noteq> [] then removeAll' g (gitDir s) w else w)"

section \<open>What a fetch guarantees\<close>

lemma loadValid_Inr:
  "loadValid cs env d l path hash = Ret (Inr (m, h)) \<Longrightarrow>
     LoadM cs d path = Ret (Inr m) \<and> valid_manifest (env\<lparr>veDisk := d\<rparr>) m \<and> h = hash"
  unfolding loadValid_def by (elim bindGo_InrE) (auto simp flip: ValidateM_iff split: list.split_asm)

lemma FetchFile_Inr:
  assumes "FetchFile cs env sha d path = Ret (Inr (m, h))"
  shows "LoadM cs d path = Ret (Inr m) \<and> valid_manifest (env\<lparr>veDisk := d\<rparr>) m \<and>
    (\<exists>n. nodeAt d path = Some n \<and> hashOf sha d path n = Inr h)"
  using assms by (auto simp: FetchFile_def dest: loadValid_Inr split: option.splits sum.splits)

lemma FetchGit_Inr:
  assumes "FetchGit cs env g s w = ((Ret (Inr (m, h)), s'), w')"
  shows "LoadM cs (diskOf g w') (JoinPath [gitDir s', gitPath s']) = Ret (Inr m) \<and> valid_manifest (env\<lparr>veDisk := diskOf g w'\<rparr>) m"
  using assms by (auto simp: FetchGit_def dest: loadValid_Inr split: if_splits prod.splits sum.splits)

text \<open>
  A change of the directory that leaves the names and the contents of its own YAML files alone,
  such as an edit of a file below \<open>skills/\<close>.
\<close>

lemma hashInputOf_cong:
  "(\<And>name. name \<in> set names \<Longrightarrow> diskRead d (JoinPath [dir, name]) = diskRead d' (JoinPath [dir, name])) \<Longrightarrow>
     hashInputOf d dir names = hashInputOf d' dir names"
  by (induction names) (auto split: sum.split)

lemma hashDir_cong:
  assumes "readDir d dir = Inr es" "readDir d' dir = Inr es'" "filter isYaml es = filter isYaml es'"
    and "\<And>e. e \<in> set es \<Longrightarrow> isYaml e \<Longrightarrow> diskRead d (JoinPath [dir, fst e]) = diskRead d' (JoinPath [dir, fst e])"
  shows "hashDir sha d dir = hashDir sha d' dir"
proof -
  let ?names = "sort (map fst (filter isYaml es))"
  have "hashInputOf d dir ?names = hashInputOf d' dir ?names"
    by (rule hashInputOf_cong) (use assms(4) in auto)
  with assms(1,2,3) show ?thesis by (simp add: hashDir_def split: sum.split)
qed

end
