(* ===== verification/Controller.thy ===== *)
theory Controller
  imports PruneSettles Source
begin

text \<open>
  \<open>internal/controller\<close>: \<open>status.go\<close>, \<open>metrics.go\<close>, \<open>verify.go\<close> and \<open>controller.go\<close>. The data part
  comes first (one cycle of the loop as a function on the tracker, the metrics and the world), then
  the loop with its trigger channel and the callers of \<open>TriggerAndWait\<close> as a step relation. Times and
  durations are integers read from a clock of the world.
\<close>

named_theorems status_simps \<open>unfolding rules for the status tracker\<close>

section \<open>Status\<close>

record condition =
  condType :: string
  condStatus :: string
  condMessage :: string
  LastTransitionTime :: int

record resource_status =
  rsKind :: resource_kind
  rsName :: string
  rsStatus :: string
  rsMessage :: string

record sync_status =
  LastSyncTime :: int
  LastSyncHash :: string
  Conditions :: "condition list"
  statusResources :: "resource_status list"

definition ConditionSynced :: string where "ConditionSynced = ''Synced''"
definition ConditionError :: string where "ConditionError = ''Error''"
definition ConditionDrifted :: string where "ConditionDrifted = ''Drifted''"

definition NewStatusTracker :: sync_status where
  "NewStatusTracker = \<lparr>LastSyncTime = 0, LastSyncHash = [], Conditions = [], statusResources = []\<rparr>"

definition UpdateStatus :: "sync_status \<Rightarrow> sync_status \<Rightarrow> sync_status" where
  "UpdateStatus s t = s"

fun upsertCondition :: "int \<Rightarrow> condition \<Rightarrow> condition list \<Rightarrow> condition list" where
  "upsertCondition now cond [] = [cond\<lparr>LastTransitionTime := now\<rparr>]"
| "upsertCondition now cond (c # cs) =
     (if condType c = condType cond
      then cond\<lparr>LastTransitionTime := (if condStatus c \<noteq> condStatus cond then now else LastTransitionTime c)\<rparr> # cs
      else c # upsertCondition now cond cs)"

definition SetCondition :: "int \<Rightarrow> condition \<Rightarrow> sync_status \<Rightarrow> sync_status" where
  "SetCondition now cond t = t\<lparr>Conditions := upsertCondition now cond (Conditions t)\<rparr>"

definition IsSynced :: "sync_status \<Rightarrow> bool" where
  "IsSynced t =
     (case find (\<lambda>c. condType c = ConditionSynced) (Conditions t) of
        None \<Rightarrow> False
      | Some c \<Rightarrow> condStatus c = ''True'')"

text \<open>A condition as the controller builds it, without a transition time.\<close>

definition cond :: "string \<Rightarrow> string \<Rightarrow> string \<Rightarrow> condition" where
  "cond ty st msg = \<lparr>condType = ty, condStatus = st, condMessage = msg, LastTransitionTime = 0\<rparr>"

section \<open>Metrics\<close>

record metrics =
  SyncSuccess :: int
  SyncErrors :: int
  SyncDuration :: int
  metLastSyncTime :: int
  DriftDetected :: int
  DriftResources :: int
  ProviderVerifyErrors :: int
  WriteOnlyHashMismatches :: int

definition zeroMetrics :: metrics where
  "zeroMetrics = \<lparr>SyncSuccess = 0, SyncErrors = 0, SyncDuration = 0, metLastSyncTime = 0, DriftDetected = 0,
     DriftResources = 0, ProviderVerifyErrors = 0, WriteOnlyHashMismatches = 0\<rparr>"

section \<open>One cycle\<close>

record sync_result =
  srApplied :: nat
  srFailed :: nat
  srCreates :: nat
  srUpdates :: nat
  srNoops :: nat
  srErrors :: "string list"

record provider_verify_failure =
  pvfName :: string
  pvfError :: string

text \<open>
  What a controller is built from. The verifier is present when the provider implements
  \<open>ProviderVerifier\<close>; the notifiers are the two interfaces the configured notifier may satisfy. A
  fetch may panic (reading a skill file can), which ends the process.
\<close>

record 'w controller_config =
  Fetch :: "'w \<Rightarrow> (manifest \<times> string) go \<times> 'w"
  ctlEngine :: "'w engine"
  verifier :: "(string \<Rightarrow> 'w \<Rightarrow> goerr option \<times> 'w) option"
  notifier :: "(change list \<Rightarrow> 'w \<Rightarrow> goerr option \<times> 'w) option"
  verifyNotifier :: "(provider_verify_failure list \<Rightarrow> 'w \<Rightarrow> goerr option \<times> 'w) option"
  ctlPrune :: bool
  clock :: "'w \<Rightarrow> int"

record ctl =
  tracker :: sync_status
  metricsOf :: metrics
  lastHash :: string

definition isDrift :: "change \<Rightarrow> bool" where
  "isDrift ch \<longleftrightarrow> Action ch = ActionCreate \<or> Action ch = ActionUpdate"

definition notifyDrift :: "'w controller_config \<Rightarrow> change list \<Rightarrow> 'w \<Rightarrow> 'w" where
  "notifyDrift cfg changes w =
     (case notifier cfg of
        None \<Rightarrow> w
      | Some notify \<Rightarrow>
          (let drifted = filter isDrift changes in
           if drifted = [] then w else snd (notify drifted w)))"

definition resourceStatus :: "change \<Rightarrow> resource_status" where
  "resourceStatus ch =
     (let (st, msg) =
        (if Error ch \<noteq> [] then (''Error'', Error ch)
         else if Action ch = ActionNoop then (''InSync'', [])
         else if Action ch = ActionCreate then (''Created'', [])
         else if Action ch = ActionUpdate then (''Updated'', [])
         else ([], []))
      in \<lparr>rsKind = chKind ch, rsName = chName ch, rsStatus = st, rsMessage = msg\<rparr>)"

definition buildResourceStatuses :: "plan \<Rightarrow> apply_result \<Rightarrow> resource_status list" where
  "buildResourceStatuses p r = map resourceStatus (Changes p)"

text \<open>The loop over the providers; \<open>None\<close> is the early return of a missing endpoint.\<close>

fun verifyLoop ::
  "(string \<Rightarrow> 'w \<Rightarrow> goerr option \<times> 'w) \<Rightarrow> resource list \<Rightarrow> provider_verify_failure list \<Rightarrow> 'w \<Rightarrow>
   provider_verify_failure list option \<times> 'w"
where
  "verifyLoop verify [] failures w = (Some failures, w)"
| "verifyLoop verify (p # ps) failures w =
     (case verify (resName p) w of
        (None, w) \<Rightarrow> verifyLoop verify ps failures w
      | (Some err, w) \<Rightarrow>
          if errorsIs err ErrNotFound then (None, w)
          else if errorsIs err ErrUnauthorized
          then verifyLoop verify ps (failures @ [\<lparr>pvfName = resName p, pvfError = errText err\<rparr>]) w
          else verifyLoop verify ps failures w)"

definition verifyProviders :: "'w controller_config \<Rightarrow> manifest \<Rightarrow> metrics \<Rightarrow> 'w \<Rightarrow> metrics \<times> 'w" where
  "verifyProviders cfg m mt w =
     (case verifier cfg of
        None \<Rightarrow> (mt, w)
      | Some verify \<Rightarrow>
          (let providers = filter (\<lambda>r. resKind r = KindProvider) (Resources m) in
           if providers = [] then (mt, w)
           else case verifyLoop verify providers [] w of
             (None, w) \<Rightarrow> (mt, w)
           | (Some failures, w) \<Rightarrow>
               if failures = [] then (mt, w)
               else (mt\<lparr>ProviderVerifyErrors := ProviderVerifyErrors mt + int (length failures)\<rparr>,
                     case verifyNotifier cfg of None \<Rightarrow> w | Some notify \<Rightarrow> snd (notify failures w))))"

definition failedFetch :: "int \<Rightarrow> goerr \<Rightarrow> ctl \<Rightarrow> sync_result \<times> ctl" where
  "failedFetch now err c =
     (\<lparr>srApplied = 0, srFailed = 0, srCreates = 0, srUpdates = 0, srNoops = 0, srErrors = [errText err]\<rparr>,
      c\<lparr>tracker := SetCondition now (cond ConditionSynced ''False'' [])
           (SetCondition now (cond ConditionError ''True'' (errText err)) (tracker c)),
        metricsOf := (metricsOf c)\<lparr>SyncErrors := SyncErrors (metricsOf c) + 1\<rparr>\<rparr>)"

definition controllerOpts :: "bool \<Rightarrow> reconcile_opts" where
  "controllerOpts prune = \<lparr>DryRun = False, Prune = prune, Force = False, Concurrency = 5\<rparr>"

definition hasErrors :: "plan \<Rightarrow> apply_result \<Rightarrow> bool" where
  "hasErrors p r \<longleftrightarrow> 0 < Failed r \<or> planErrors p \<noteq> []"

definition hasDrift :: "plan \<Rightarrow> bool" where
  "hasDrift p \<longleftrightarrow> 0 < Creates p \<or> 0 < Updates p"

text \<open>The tracker after a cycle that reached the engine.\<close>

definition setOutcome :: "int \<Rightarrow> plan \<Rightarrow> apply_result \<Rightarrow> sync_status \<Rightarrow> sync_status" where
  "setOutcome now p r t =
     (let t = (if hasErrors p r
               then SetCondition now (cond ConditionError ''True'' ''sync completed with errors'')
                      (SetCondition now (cond ConditionSynced ''False'' []) t)
               else SetCondition now (cond ConditionError ''False'' [])
                      (SetCondition now (cond ConditionSynced ''True'' []) t))
      in if hasDrift p
         then SetCondition now (cond ConditionDrifted ''True'' ''resources were created or updated'') t
         else SetCondition now (cond ConditionDrifted ''False'' []) t)"

definition hashMismatches :: "plan \<Rightarrow> nat" where
  "hashMismatches p = length (filter (\<lambda>ch. map_of (Diff ch) WriteOnlyHashField \<noteq> None) (Changes p))"

definition countCycle :: "int \<Rightarrow> int \<Rightarrow> plan \<Rightarrow> apply_result \<Rightarrow> metrics \<Rightarrow> metrics" where
  "countCycle duration now p r mt =
     mt\<lparr>SyncErrors := SyncErrors mt + (if hasErrors p r then 1 else 0),
        SyncSuccess := SyncSuccess mt + (if hasErrors p r then 0 else 1),
        SyncDuration := duration, metLastSyncTime := now,
        DriftResources := int (Creates p + Updates p),
        DriftDetected := DriftDetected mt + (if hasDrift p then 1 else 0),
        WriteOnlyHashMismatches := WriteOnlyHashMismatches mt + int (hashMismatches p)\<rparr>"

definition syncResult :: "plan \<Rightarrow> apply_result \<Rightarrow> sync_result" where
  "syncResult p r =
     \<lparr>srApplied = Applied r, srFailed = Failed r, srCreates = Creates p, srUpdates = Updates p, srNoops = Noops p,
      srErrors = (if planErrors p \<noteq> [] then resErrors r @ planErrors p else resErrors r)\<rparr>"

text \<open>
  \<open>reconcileOnce\<close> up to the call of \<open>notifyWaiters\<close>, with the result it passes on; \<open>None\<close> when the
  fetch panics.
\<close>

definition reconcileCycle :: "'w controller_config \<Rightarrow> ctl \<Rightarrow> 'w \<Rightarrow> ((sync_result \<times> ctl) \<times> 'w) option" where
  "reconcileCycle cfg c w =
     (case Fetch cfg w of
        (Panic msg, w1) \<Rightarrow> None
      | (Ret (Inl err), w1) \<Rightarrow> Some (failedFetch (clock cfg w1) err c, w1)
      | (Ret (Inr (m, hash)), w1) \<Rightarrow>
          (case Reconcile (ctlEngine cfg) m (controllerOpts (ctlPrune cfg)) w1 of
             ((p, r), w2) \<Rightarrow>
               let status = \<lparr>LastSyncTime = clock cfg w2, LastSyncHash = hash, Conditions = [],
                             statusResources = buildResourceStatuses p r\<rparr>;
                   t = setOutcome (clock cfg w2) p r (UpdateStatus status (tracker c));
                   w3 = (if hasDrift p then notifyDrift cfg (Changes p) w2 else w2)
               in (case verifyProviders cfg m (metricsOf c) w3 of
                     (mt, w4) \<Rightarrow>
                       Some ((syncResult p r,
                         \<lparr>tracker = t,
                          metricsOf = countCycle (clock cfg w2 - clock cfg w) (clock cfg w4) p r mt,
                          lastHash = hash\<rparr>), w4))))"

section \<open>Facts about the tracker\<close>

definition conditionOf :: "sync_status \<Rightarrow> string \<Rightarrow> condition option" where
  "conditionOf t ty = find (\<lambda>c. condType c = ty) (Conditions t)"

definition statusOf :: "sync_status \<Rightarrow> string \<Rightarrow> string option" where
  "statusOf t ty = map_option condStatus (conditionOf t ty)"

lemma find_upsertCondition:
  "find (\<lambda>c. condType c = ty) (upsertCondition now k cs) =
     (if ty = condType k
      then Some (k\<lparr>LastTransitionTime :=
             (case find (\<lambda>c. condType c = ty) cs of
                Some c \<Rightarrow> if condStatus c \<noteq> condStatus k then now else LastTransitionTime c
              | None \<Rightarrow> now)\<rparr>)
      else find (\<lambda>c. condType c = ty) cs)"
  by (induction cs) auto

lemma statusOf_SetCondition [status_simps]:
  "statusOf (SetCondition now k t) ty = (if ty = condType k then Some (condStatus k) else statusOf t ty)"
  by (simp add: statusOf_def conditionOf_def SetCondition_def find_upsertCondition)

lemma set_upsertCondition: "condType ` set (upsertCondition now k cs) = insert (condType k) (condType ` set cs)"
  by (induction cs) auto

lemma distinct_upsertCondition:
  "distinct (map condType cs) \<Longrightarrow> distinct (map condType (upsertCondition now k cs))"
  by (induction cs) (use set_upsertCondition [of now k] in auto)

lemma SetCondition_other [status_simps]:
  "LastSyncHash (SetCondition now k t) = LastSyncHash t"
  "statusResources (SetCondition now k t) = statusResources t"
  "LastSyncTime (SetCondition now k t) = LastSyncTime t"
  by (simp_all add: SetCondition_def)

lemma cond_sel [status_simps]: "condType (cond ty st msg) = ty" "condStatus (cond ty st msg) = st"
  by (simp_all add: cond_def)

lemma condition_types [status_simps]:
  "ConditionSynced \<noteq> ConditionError" "ConditionSynced \<noteq> ConditionDrifted" "ConditionError \<noteq> ConditionDrifted"
  "ConditionError \<noteq> ConditionSynced" "ConditionDrifted \<noteq> ConditionSynced" "ConditionDrifted \<noteq> ConditionError"
  by (simp_all add: ConditionSynced_def ConditionError_def ConditionDrifted_def)

lemma IsSynced_iff [status_simps]: "IsSynced t \<longleftrightarrow> statusOf t ConditionSynced = Some ''True''"
  by (auto simp: IsSynced_def statusOf_def conditionOf_def split: option.split)

lemma setOutcome_status [status_simps]:
  "statusOf (setOutcome now p r t) ConditionSynced = Some (if hasErrors p r then ''False'' else ''True'')"
  "statusOf (setOutcome now p r t) ConditionError = Some (if hasErrors p r then ''True'' else ''False'')"
  "statusOf (setOutcome now p r t) ConditionDrifted = Some (if hasDrift p then ''True'' else ''False'')"
  "LastSyncHash (setOutcome now p r t) = LastSyncHash t"
  "statusResources (setOutcome now p r t) = statusResources t"
  by (simp_all add: setOutcome_def Let_def status_simps)

section \<open>Failures and their texts\<close>

definition balanced :: "apply_result \<Rightarrow> bool" where
  "balanced r \<longleftrightarrow> length (resErrors r) = Failed r"

lemma executeIn_balanced: "balanced r \<Longrightarrow> balanced (fst (executeIn e cs rs js r w))"
  by (induction e cs rs js r w rule: executeIn.induct)
     (auto simp: balanced_def Let_def split: prod.split option.split)

lemma pruneRemotes_balanced: "balanced r \<Longrightarrow> balanced (snd (fst (pruneRemotes e rs d k infos cs r w)))"
  by (induction e rs d k infos cs r w rule: pruneRemotes.induct)
     (auto simp: balanced_def Let_def split: prod.split option.split)

lemma pruneKinds_balanced: "balanced r \<Longrightarrow> balanced (snd (fst (pruneKinds e rs d ks cs r w)))"
proof (induction e rs d ks cs r w rule: pruneKinds.induct)
  case (2 e rs d k ks cs r w)
  then show ?case
    by (auto split: prod.split sum.split) (metis pruneRemotes_balanced fst_conv snd_conv)+
qed simp

lemma balanced_addResult: "balanced a \<Longrightarrow> balanced b \<Longrightarrow> balanced (addResult a b)"
  by (simp add: balanced_def addResult_def)

lemma balanced_empty [simp]: "balanced emptyResult"
  by (simp add: balanced_def emptyResult_def)

lemma executeChanges_balanced: "balanced (fst (executeChanges e cs rs n w))"
  by (simp add: executeChanges_def Let_def executeIn_balanced)

lemma reconcileKinds_balanced: "balanced r \<Longrightarrow> balanced (snd (fst (reconcileKinds e rs opts ks p r w)))"
proof (induction ks arbitrary: p r w)
  case (Cons k ks)
  have "balanced (addResult r kr)" if "executeChanges e cs (byKind rs k) n w1 = (kr, w2)" for cs n w1 kr w2
    using that Cons.prems by (metis balanced_addResult executeChanges_balanced fst_conv)
  with Cons show ?case by (auto simp: Let_def split: prod.split)
qed simp

lemma Reconcile_balanced: "balanced (snd (fst (Reconcile e m opts w)))"
proof -
  obtain p r w1 where k: "reconcileKinds e (Resources m) opts ApplyOrder emptyPlan emptyResult w = ((p, r), w1)"
    by (metis surj_pair)
  have "balanced r" using reconcileKinds_balanced [of emptyResult e "Resources m" opts ApplyOrder emptyPlan w] k by simp
  moreover have "balanced (snd (fst (detectAndExecutePrunes e m d w1)))" for d
    by (simp add: detectAndExecutePrunes_def pruneKinds_balanced)
  ultimately show ?thesis using k by (auto simp: Reconcile_def balanced_addResult split: prod.split)
      (metis balanced_addResult fst_conv snd_conv)
qed

lemma syncResult_clean: "balanced r \<Longrightarrow> srErrors (syncResult p r) = [] \<longleftrightarrow> \<not> hasErrors p r"
  by (auto simp: syncResult_def hasErrors_def balanced_def)


lemma reconcileCycle_SomeE:
  assumes "reconcileCycle cfg c w = Some ((res, c'), w')"
  obtains (failed) err where "Fetch cfg w = (Ret (Inl err), w')" "(res, c') = failedFetch (clock cfg w') err c"
  | (ran) m h w1 p r w2 mt where "Fetch cfg w = (Ret (Inr (m, h)), w1)"
      "Reconcile (ctlEngine cfg) m (controllerOpts (ctlPrune cfg)) w1 = ((p, r), w2)" "balanced r"
      "verifyProviders cfg m (metricsOf c) (if hasDrift p then notifyDrift cfg (Changes p) w2 else w2) = (mt, w')"
      "res = syncResult p r" "lastHash c' = h"
      "tracker c' = setOutcome (clock cfg w2) p r \<lparr>LastSyncTime = clock cfg w2, LastSyncHash = h, Conditions = [],
         statusResources = buildResourceStatuses p r\<rparr>"
      "metricsOf c' = countCycle (clock cfg w2 - clock cfg w) (clock cfg w') p r mt"
proof -
  obtain f w1 where f: "Fetch cfg w = (f, w1)" by fastforce
  show thesis
  proof (cases f)
    case (Panic msg)
    with assms f show ?thesis by (simp add: reconcileCycle_def)
  next
    case (Ret o')
    show ?thesis
    proof (cases o')
      case (Inl err)
      with Ret assms f failed show ?thesis by (auto simp: reconcileCycle_def)
    next
      case (Inr mh)
      obtain m h where mh: "mh = (m, h)" by fastforce
      obtain p r w2 where rec: "Reconcile (ctlEngine cfg) m (controllerOpts (ctlPrune cfg)) w1 = ((p, r), w2)"
        by (metis surj_pair)
      with Reconcile_balanced have "balanced r" by (metis fst_conv snd_conv)
      with ran [of m h w1 p r w2] Ret Inr mh f rec assms show ?thesis
        by (auto simp: reconcileCycle_def Let_def UpdateStatus_def split: prod.splits)
    qed
  qed
qed

section \<open>A source and observers that leave the server alone\<close>

text \<open>What the source, the verifier and the notifiers leave as it is.\<close>

definition observersKeep :: "'w controller_config \<Rightarrow> ('w \<Rightarrow> 'b) \<Rightarrow> bool" where
  "observersKeep cfg f \<longleftrightarrow>
     (\<forall>w. f (snd (Fetch cfg w)) = f w) \<and>
     (\<forall>g k w. verifier cfg = Some g \<longrightarrow> f (snd (g k w)) = f w) \<and>
     (\<forall>g cs w. notifier cfg = Some g \<longrightarrow> f (snd (g cs w)) = f w) \<and>
     (\<forall>g vs w. verifyNotifier cfg = Some g \<longrightarrow> f (snd (g vs w)) = f w)"

definition undisturbed :: "'w controller_config \<Rightarrow> 'w view \<Rightarrow> bool" where
  "undisturbed cfg view \<longleftrightarrow> observersKeep cfg view \<and> observersKeep cfg (os (ctlEngine cfg))"

lemma verifyLoop_keeps:
  assumes "\<And>k w. f (snd (g k w)) = f w"
  shows "f (snd (verifyLoop g ps fs w)) = f w"
proof (induction ps arbitrary: fs w)
  case (Cons p ps)
  have "f (snd (g (resName p) w)) = f w" by (rule assms)
  with Cons show ?case by (auto split: prod.split option.split)
qed simp

lemma observers_keep:
  assumes "observersKeep cfg f"
  shows "f (snd (Fetch cfg w)) = f w" and "f (notifyDrift cfg cs w) = f w"
    and "f (snd (verifyProviders cfg m mt w)) = f w"
proof -
  show "f (snd (Fetch cfg w)) = f w" using assms by (simp add: observersKeep_def)
  show "f (notifyDrift cfg cs w) = f w"
    using assms by (auto simp: notifyDrift_def observersKeep_def Let_def split: option.split)
  show "f (snd (verifyProviders cfg m mt w)) = f w"
  proof (cases "verifier cfg")
    case None
    then show ?thesis by (simp add: verifyProviders_def)
  next
    case (Some g)
    let ?l = "verifyLoop g (filter (\<lambda>r. resKind r = KindProvider) (Resources m)) [] w"
    obtain o' w1 where l: "?l = (o', w1)" by fastforce
    have "f (snd ?l) = f w" using assms Some by (intro verifyLoop_keeps) (simp add: observersKeep_def)
    with l Some assms show ?thesis
      by (auto simp: verifyProviders_def observersKeep_def Let_def split: option.split)
  qed
qed

text \<open>From the end of one run to the start of the next, what the observers keep stays.\<close>

lemma between_cycles:
  assumes "observersKeep cfg f" "verifyProviders cfg m mt (if hasDrift p then notifyDrift cfg cs w else w) = (mt', w1)"
    and "Fetch cfg w1 = (x, w2)"
  shows "f w2 = f w"
  using observers_keep(1) [OF assms(1), of w1] observers_keep(2) [OF assms(1), of cs w]
    observers_keep(3) [OF assms(1), of m mt "if hasDrift p then notifyDrift cfg cs w else w"] assms(2,3)
  by (auto split: if_splits)

section \<open>Properties of a cycle\<close>


text \<open>What a cycle reports when its plan has nothing to do, and when besides nothing was applied.\<close>

lemma quiet_outcome:
  assumes "Creates p = 0" "Updates p = 0"
  shows "srCreates (syncResult p r) = 0 \<and> srUpdates (syncResult p r) = 0 \<and>
      statusOf (setOutcome now p r t) ConditionDrifted = Some ''False'' \<and> DriftResources (countCycle d n p r mt) = 0"
    and "planErrors p = [] \<Longrightarrow> r = emptyResult \<Longrightarrow> srApplied (syncResult p r) = 0 \<and> srFailed (syncResult p r) = 0 \<and>
      srErrors (syncResult p r) = [] \<and> IsSynced (setOutcome now p r t)"
  using assms by (simp_all add: status_simps hasDrift_def hasErrors_def syncResult_def countCycle_def emptyResult_def)

text \<open>
  C12: The control loop comes to rest. When the server echoes what it is sent and the source keeps
  returning the same manifest, the cycle after one without errors creates and updates nothing and
  reports no drift; and, when it does not prune or the listings of the server follow its deletions, it applies
  nothing, fails nothing and stays synced.
\<close>

theorem controller_comes_to_rest:
  assumes "lawful (ctlEngine cfg) view" "schedOk (ctlEngine cfg)" "undisturbed cfg view"
    and "distinct (map ident (Resources m))"
    and "\<And>r. r \<in> set (Resources m) \<Longrightarrow> comparable (resKind r) (desiredSpec (ctlEngine cfg) r w)"
    and "fst (Fetch cfg w) = Ret (Inr (m, h))" "reconcileCycle cfg c w = Some ((res, c1), w1)" "srErrors res = []"
    and "fst (Fetch cfg w1) = Ret (Inr (m, h'))" "reconcileCycle cfg c1 w1 = Some ((res2, c2), w2)"
  shows "srCreates res2 = 0 \<and> srUpdates res2 = 0 \<and> statusOf (tracker c2) ConditionDrifted = Some ''False'' \<and>
    DriftResources (metricsOf c2) = 0 \<and>
    (\<not> ctlPrune cfg \<or> (\<exists>listed. lawfulListing (ctlEngine cfg) listed \<and> observersKeep cfg listed) \<longrightarrow>
       srApplied res2 = 0 \<and> srFailed res2 = 0 \<and> srErrors res2 = [] \<and> IsSynced (tracker c2))"
proof -
  let ?e = "ctlEngine cfg" and ?o = "controllerOpts (ctlPrune cfg)"
  have o: "\<not> DryRun ?o" "\<not> Force ?o" "Prune ?o = ctlPrune cfg" by (simp_all add: controllerOpts_def)
  from assms(7,6) obtain w0 p r w' mt where
    f: "Fetch cfg w = (Ret (Inr (m, h)), w0)" and rec: "Reconcile ?e m ?o w0 = ((p, r), w')" and "balanced r"
    and v: "verifyProviders cfg m (metricsOf c) (if hasDrift p then notifyDrift cfg (Changes p) w' else w') = (mt, w1)"
    and "res = syncResult p r"
    by (cases rule: reconcileCycle_SomeE) auto
  with assms(8) have ok: "Failed r = 0" by (simp add: syncResult_clean hasErrors_def)
  from assms(10,9) obtain h2 w3 p2 r2 w4 mt2 where
    f2: "Fetch cfg w1 = (Ret (Inr (m, h')), w3)" and rec2: "Reconcile ?e m ?o w3 = ((p2, r2), w4)"
    and res2: "res2 = syncResult p2 r2" and t2: "tracker c2 = setOutcome (clock cfg w4) p2 r2
      \<lparr>LastSyncTime = clock cfg w4, LastSyncHash = h', Conditions = [], statusResources = buildResourceStatuses p2 r2\<rparr>"
    and m2: "metricsOf c2 = countCycle (clock cfg w4 - clock cfg w1) (clock cfg w2) p2 r2 mt2"
    by (cases rule: reconcileCycle_SomeE) auto
  note keep = assms(3) [unfolded undisturbed_def]
  have "os ?e w0 = os ?e w" using observers_keep(1) [OF keep [THEN conjunct2], of w] f by simp
  from desiredSpec_os [OF this] have comp: "\<And>r. r \<in> set (Resources m) \<Longrightarrow> comparable (resKind r) (desiredSpec ?e r w0)"
    using assms(5) by simp
  have same: "sameWorld ?e view w' w3" 
    using between_cycles [OF keep [THEN conjunct1] v f2] between_cycles [OF keep [THEN conjunct2] v f2]
    by (simp add: sameWorld_def)
  have settled: "settled ?e view r w3" if "r \<in> set (Resources m)" "resKind r \<in> set ApplyOrder" for r
    using Reconcile_settles [OF assms(1,2,4) comp o(1) rec ok that] settled_same [OF same] by simp
  from Reconcile_quiet [OF assms(1,2) o(2) rec2 settled]
  have q: "Creates p2 = 0" "Updates p2 = 0" "planErrors p2 = []" "\<not> ctlPrune cfg \<Longrightarrow> r2 = emptyResult"
    by (auto simp: controllerOpts_def)
  have "r2 = emptyResult" if "ctlPrune cfg" "lawfulListing ?e listed" "observersKeep cfg listed" for listed
  proof -
    have "noOrphans (Resources m) (listed w3) DeleteOrder"
      using Reconcile_leaves_no_orphans [OF that(2) _ o(1) rec ok] between_cycles [OF that(3) v f2] that(1) o(3) by simp
    with Reconcile_quiet_pruned [OF assms(1,2) o(2) rec2 settled that(2)] show ?thesis by simp
  qed
  with q(4) have rest: "r2 = emptyResult"
    if "\<not> ctlPrune cfg \<or> (\<exists>listed. lawfulListing ?e listed \<and> observersKeep cfg listed)" using that by blast
  show ?thesis unfolding res2 t2 m2 using quiet_outcome [OF q(1,2)] quiet_outcome(2) [OF q(1-3) rest] by blast
qed

section \<open>A controller to evaluate\<close>

definition demoCtl :: "(manifest \<times> string) go \<Rightarrow> mem controller_config" where
  "demoCtl f = \<lparr>Fetch = (\<lambda>w. (f, w)), ctlEngine = echoEngine, verifier = Some (\<lambda>k w. (None, w)),
     notifier = Some (\<lambda>cs w. (None, w)), verifyNotifier = None, ctlPrune = False, clock = (\<lambda>w. 7)\<rparr>"

definition freshCtl :: ctl where
  "freshCtl = \<lparr>tracker = NewStatusTracker, metricsOf = zeroMetrics, lastHash = []\<rparr>"


text \<open>A controller that prunes.\<close>

definition demoPruning :: "mem controller_config" where
  "demoPruning = (demoCtl (Ret (Inr (demoM, ''h''))))\<lparr>ctlPrune := True\<rparr>"

theorem controller_comes_to_rest_witness:
  "\<exists>res c1 w1 res2 c2 w2.
     reconcileCycle demoPruning freshCtl demoW = Some ((res, c1), w1) \<and>
     srCreates res = 1 \<and> srUpdates res = 1 \<and> srApplied res = 3 \<and>
     reconcileCycle demoPruning c1 w1 = Some ((res2, c2), w2) \<and>
     srApplied res2 = 0 \<and> IsSynced (tracker c2)"
proof -
  have "map_option (\<lambda>((res, c), w). (srCreates res, srUpdates res, srApplied res, srErrors res))
      (reconcileCycle demoPruning freshCtl demoW) = Some (1, 1, 3, [])" by code_simp
  then obtain res c1 w1 where r: "reconcileCycle demoPruning freshCtl demoW = Some ((res, c1), w1)"
    and e: "srCreates res = 1" "srUpdates res = 1" "srApplied res = 3" "srErrors res = []" by auto
  have "reconcileCycle demoPruning c1 w1 \<noteq> None"
    by (simp add: reconcileCycle_def demoPruning_def demoCtl_def Let_def split: prod.split)
  then obtain res2 c2 w2 where r2: "reconcileCycle demoPruning c1 w1 = Some ((res2, c2), w2)" by auto
  have cfg: "ctlEngine demoPruning = echoEngine" "undisturbed demoPruning memView" "fst (Fetch demoPruning v) = Ret (Inr (demoM, ''h''))"
    "observersKeep demoPruning memListed" for v
    by (auto simp: demoPruning_def demoCtl_def undisturbed_def observersKeep_def)
  have d: "distinct (map ident (Resources demoM))" by code_simp
  show ?thesis
    using controller_comes_to_rest [where cfg = demoPruning and view = memView, OF _ _ cfg(2) d _ cfg(3) r e(4) cfg(3) r2]
      lawful_echo schedOk_echo demoM_comparable r r2 e cfg(4) lawfulListing_echo
    unfolding cfg(1) by blast
qed

end
