(* ===== verification/ControlLoop.thy ===== *)
theory ControlLoop
  imports Controller
begin

text \<open>
  The goroutines of \<open>controller.go\<close>: the loop of \<open>Run\<close>, the debounce timers of \<open>Trigger\<close> and the callers
  of \<open>TriggerAndWait\<close>, as a step relation. A step is what a goroutine does between two points where
  another may come in: a critical section of \<open>c.mu\<close>, one operation on a channel, or a whole cycle,
  which shares with the others only the provider's world. That world changes between the steps in any
  way.
\<close>

section \<open>State\<close>

text \<open>
  Where the loop is: in \<open>select\<close>, inside \<open>reconcileOnce\<close> (\<open>Cycled\<close> once the result is computed), inside
  \<open>notifyWaiters\<close> with the waiters still to be sent to, returned, or dead after a panic.
\<close>

datatype phase = Idle | Running | Cycled sync_result | Notifying sync_result "nat list" | Stopped | Crashed

text \<open>Where a caller of \<open>TriggerAndWait\<close> is.\<close>

datatype caller = Fresh | Registered | Waiting | Answered sync_result | TimedOut

text \<open>
  \<open>inbox\<close> is the channel of capacity one that each caller makes, \<open>triggerCh\<close> tells whether the trigger
  channel (capacity one) is full, \<open>timers\<close> counts the timer functions that may still run.
\<close>

record 'w loop_state =
  phase :: phase
  ctlState :: ctl
  world :: 'w
  triggerCh :: bool
  timers :: nat
  waiters :: "nat list"
  inbox :: "nat \<Rightarrow> sync_result option"
  callers :: "nat \<Rightarrow> caller"

definition halted :: "'w loop_state \<Rightarrow> bool" where
  "halted s \<longleftrightarrow> phase s = Stopped \<or> phase s = Crashed"

fun notifying :: "phase \<Rightarrow> nat list" where
  "notifying (Notifying res ns) = ns"
| "notifying _ = []"

text \<open>\<open>New\<close>, and \<open>Run\<close> up to its first call of \<open>reconcileOnce\<close>.\<close>

definition startLoop :: "ctl \<Rightarrow> 'w \<Rightarrow> 'w loop_state" where
  "startLoop c w = \<lparr>phase = Running, ctlState = c, world = w, triggerCh = False, timers = 0, waiters = [],
     inbox = (\<lambda>i. None), callers = (\<lambda>i. Fresh)\<rparr>"

section \<open>The operations\<close>

text \<open>\<open>Trigger\<close>: \<open>Stop\<close> either cancels the pending function, or comes too late for it.\<close>

definition TriggerC :: "bool \<Rightarrow> 'w loop_state \<Rightarrow> 'w loop_state" where
  "TriggerC cancelled s = s\<lparr>timers := (if cancelled then timers s - 1 else timers s) + 1\<rparr>"

definition sendTrigger :: "'w loop_state \<Rightarrow> 'w loop_state" where
  "sendTrigger s = s\<lparr>triggerCh := True\<rparr>"

definition fireTimer :: "'w loop_state \<Rightarrow> 'w loop_state" where
  "fireTimer s = sendTrigger (s\<lparr>timers := timers s - 1\<rparr>)"

definition registerWaiter :: "nat \<Rightarrow> 'w loop_state \<Rightarrow> 'w loop_state" where
  "registerWaiter i s = s\<lparr>waiters := waiters s @ [i], callers := (callers s)(i := Registered)\<rparr>"

definition wakeLoop :: "nat \<Rightarrow> 'w loop_state \<Rightarrow> 'w loop_state" where
  "wakeLoop i s = (sendTrigger s)\<lparr>callers := (callers s)(i := Waiting)\<rparr>"

definition receiveResult :: "nat \<Rightarrow> sync_result \<Rightarrow> 'w loop_state \<Rightarrow> 'w loop_state" where
  "receiveResult i res s = s\<lparr>inbox := (inbox s)(i := None), callers := (callers s)(i := Answered res)\<rparr>"

definition dropWaiter :: "nat \<Rightarrow> 'w loop_state \<Rightarrow> 'w loop_state" where
  "dropWaiter i s = s\<lparr>waiters := filter (\<lambda>w. w \<noteq> i) (waiters s), callers := (callers s)(i := TimedOut)\<rparr>"

definition grabWaiters :: "sync_result \<Rightarrow> 'w loop_state \<Rightarrow> 'w loop_state" where
  "grabWaiters res s = s\<lparr>phase := Notifying res (waiters s), waiters := []\<rparr>"

definition sendResult :: "sync_result \<Rightarrow> nat \<Rightarrow> nat list \<Rightarrow> 'w loop_state \<Rightarrow> 'w loop_state" where
  "sendResult res i ns s = s\<lparr>phase := Notifying res ns, inbox := (inbox s)(i := Some res)\<rparr>"

text \<open>The steps of the loop that do not wait for the ticker or for \<open>done\<close>.\<close>

inductive loop_step :: "'w controller_config \<Rightarrow> 'w loop_state \<Rightarrow> 'w loop_state \<Rightarrow> bool" for cfg where
  take_trigger: "phase s = Idle \<Longrightarrow> triggerCh s \<Longrightarrow> loop_step cfg s (s\<lparr>phase := Running, triggerCh := False\<rparr>)"
| cycle: "phase s = Running \<Longrightarrow> reconcileCycle cfg (ctlState s) (world s) = Some ((res, c), w) \<Longrightarrow>
    loop_step cfg s (s\<lparr>phase := Cycled res, ctlState := c, world := w\<rparr>)"
| crash: "phase s = Running \<Longrightarrow> reconcileCycle cfg (ctlState s) (world s) = None \<Longrightarrow>
    loop_step cfg s (s\<lparr>phase := Crashed\<rparr>)"
| grab: "phase s = Cycled res \<Longrightarrow> loop_step cfg s (grabWaiters res s)"
| send: "phase s = Notifying res (i # ns) \<Longrightarrow> inbox s i = None \<Longrightarrow> loop_step cfg s (sendResult res i ns s)"
| finish: "phase s = Notifying res [] \<Longrightarrow> loop_step cfg s (s\<lparr>phase := Idle\<rparr>)"

text \<open>The steps of everybody else.\<close>

inductive other_step :: "'w loop_state \<Rightarrow> 'w loop_state \<Rightarrow> bool" where
  tick: "phase s = Idle \<Longrightarrow> other_step s (s\<lparr>phase := Running\<rparr>)"
| stop: "phase s = Idle \<Longrightarrow> other_step s (s\<lparr>phase := Stopped\<rparr>)"
| disturb: "other_step s (s\<lparr>world := w\<rparr>)"
| trigger: "other_step s (TriggerC cancelled s)"
| fire: "0 < timers s \<Longrightarrow> other_step s (fireTimer s)"
| register: "callers s i = Fresh \<Longrightarrow> other_step s (registerWaiter i s)"
| wake: "callers s i = Registered \<Longrightarrow> other_step s (wakeLoop i s)"
| receive: "callers s i = Waiting \<Longrightarrow> inbox s i = Some res \<Longrightarrow> other_step s (receiveResult i res s)"
| cancel: "callers s i = Waiting \<Longrightarrow> other_step s (dropWaiter i s)"

inductive reach :: "'w controller_config \<Rightarrow> 'w loop_state \<Rightarrow> bool" for cfg where
  start: "reach cfg (startLoop c w)"
| by_loop: "reach cfg s \<Longrightarrow> loop_step cfg s s' \<Longrightarrow> reach cfg s'"
| by_other: "reach cfg s \<Longrightarrow> other_step s s' \<Longrightarrow> reach cfg s'"

lemmas op_defs = sendTrigger_def TriggerC_def fireTimer_def registerWaiter_def wakeLoop_def receiveResult_def
  dropWaiter_def grabWaiters_def sendResult_def startLoop_def

section \<open>The invariant\<close>

definition owed :: "'w loop_state \<Rightarrow> nat list" where
  "owed s = notifying (phase s) @ waiters s"

text \<open>The next cycle is on its way: what a caller that waits for it relies on.\<close>

definition cycleDue :: "'w loop_state \<Rightarrow> bool" where
  "cycleDue s \<longleftrightarrow> triggerCh s \<or> phase s = Running \<or> (\<exists>res. phase s = Cycled res)"

text \<open>
  A caller is owed a result exactly while it is registered or waiting and its channel is empty, except
  that a result already on its way may reach a caller that has given up; nobody is owed two; and a
  caller that waits for the next cycle has the trigger channel full or the cycle under way.
\<close>

definition caller_ok :: "'w loop_state \<Rightarrow> nat \<Rightarrow> bool" where
  "caller_ok s i \<longleftrightarrow>
     (case callers s i of
        Fresh \<Rightarrow> i \<notin> set (owed s) \<and> inbox s i = None
      | Registered \<Rightarrow> inbox s i = None \<longleftrightarrow> i \<in> set (owed s)
      | Waiting \<Rightarrow> (inbox s i = None \<longleftrightarrow> i \<in> set (owed s)) \<and>
          (i \<in> set (waiters s) \<and> \<not> halted s \<longrightarrow> cycleDue s)
      | Answered res \<Rightarrow> i \<notin> set (owed s) \<and> inbox s i = None
      | TimedOut \<Rightarrow> i \<notin> set (waiters s) \<and> (i \<in> set (notifying (phase s)) \<longrightarrow> inbox s i = None))"

definition loop_inv :: "'w loop_state \<Rightarrow> bool" where
  "loop_inv s \<longleftrightarrow> distinct (owed s) \<and> (\<forall>i. caller_ok s i)"

lemmas inv_defs = loop_inv_def caller_ok_def owed_def halted_def cycleDue_def

lemma loop_inv_start: "loop_inv (startLoop c w)"
  by (simp add: inv_defs startLoop_def)

lemmas caller_defs = caller_ok_def owed_def halted_def cycleDue_def

lemma caller_ok_loop:
  assumes "loop_step cfg s s'" "distinct (owed s)" "caller_ok s j"
  shows "caller_ok s' j"
  using assms
  by (cases rule: loop_step.cases) (auto simp: caller_defs op_defs split: caller.split_asm caller.split)

lemma caller_ok_other:
  assumes "other_step s s'" "caller_ok s j"
  shows "caller_ok s' j"
  using assms
  by (cases rule: other_step.cases) (auto simp: caller_defs op_defs split: caller.split_asm caller.split)

lemma loop_inv_loop: "loop_inv s \<Longrightarrow> loop_step cfg s s' \<Longrightarrow> loop_inv s'"
proof -
  assume inv: "loop_inv s" and st: "loop_step cfg s s'"
  from st inv have "distinct (owed s')" by (cases rule: loop_step.cases) (auto simp: loop_inv_def owed_def op_defs)
  with inv caller_ok_loop [OF st] show ?thesis by (simp add: loop_inv_def)
qed

lemma loop_inv_other: "loop_inv s \<Longrightarrow> other_step s s' \<Longrightarrow> loop_inv s'"
proof -
  assume inv: "loop_inv s" and st: "other_step s s'"
  have "i \<notin> set (owed s)" if "callers s i = Fresh" for i
    using that inv by (auto simp: loop_inv_def caller_ok_def split: caller.split_asm)
  with st inv have "distinct (owed s')" by (cases rule: other_step.cases) (auto simp: loop_inv_def owed_def op_defs)
  with inv caller_ok_other [OF st] show ?thesis by (simp add: loop_inv_def)
qed

lemma reach_inv: "reach cfg s \<Longrightarrow> loop_inv s"
  by (induction rule: reach.induct) (blast intro: loop_inv_start loop_inv_loop loop_inv_other)+

section \<open>Progress\<close>

text \<open>A caller still waiting for its result, and one that has it, gave up or outlived the loop.\<close>

definition waiting :: "'w loop_state \<Rightarrow> nat \<Rightarrow> bool" where
  "waiting s i \<longleftrightarrow> callers s i = Waiting \<and> inbox s i = None \<and> \<not> halted s"

definition served :: "'w loop_state \<Rightarrow> nat \<Rightarrow> bool" where
  "served s i \<longleftrightarrow> (\<exists>res. callers s i = Answered res) \<or> (callers s i = Waiting \<and> inbox s i \<noteq> None) \<or>
     callers s i = TimedOut \<or> halted s"

definition posOf :: "nat \<Rightarrow> nat list \<Rightarrow> nat" where
  "posOf i xs = length (takeWhile (\<lambda>x. x \<noteq> i) xs)"

text \<open>How many steps of the loop a waiting caller is away from its result, at most.\<close>

definition rank :: "'w loop_state \<Rightarrow> nat \<Rightarrow> nat" where
  "rank s i =
     (if i \<in> set (notifying (phase s)) then Suc (posOf i (notifying (phase s)))
      else Suc (posOf i (waiters s)) +
        (case phase s of Cycled res \<Rightarrow> 1 | Running \<Rightarrow> 2 | Idle \<Rightarrow> 3 | Notifying res ns \<Rightarrow> length ns + 4 | _ \<Rightarrow> 0))"

lemma posOf_simps [simp]:
  "posOf i [] = 0" "posOf i (x # xs) = (if x = i then 0 else Suc (posOf i xs))"
  "i \<in> set xs \<Longrightarrow> posOf i (xs @ ys) = posOf i xs"
  by (auto simp: posOf_def)

lemma posOf_le: "posOf i xs \<le> length xs"
  by (simp add: posOf_def length_takeWhile_le)

lemma posOf_filter: "j \<noteq> i \<Longrightarrow> posOf i (filter (\<lambda>x. x \<noteq> j) xs) \<le> posOf i xs"
  by (induction xs) auto

lemma rank_le: "rank s i \<le> length (owed s) + 5"
  using posOf_le [of i "notifying (phase s)"] posOf_le [of i "waiters s"]
  by (auto simp: rank_def owed_def split: phase.split)

lemma waiting_owed: "loop_inv s \<Longrightarrow> waiting s i \<Longrightarrow> i \<in> set (owed s) \<and> (i \<in> set (waiters s) \<longrightarrow> cycleDue s)"
  by (auto simp: loop_inv_def caller_ok_def waiting_def dest: spec [of _ i])

lemma waiting_loop:
  assumes "loop_inv s" "waiting s i" "loop_step cfg s s'"
  shows "served s' i \<or> waiting s' i \<and> rank s' i < rank s i"
  using assms(3) waiting_owed [OF assms(1,2)] assms(2)
  by (cases rule: loop_step.cases) (auto simp: waiting_def served_def halted_def rank_def owed_def op_defs)

lemma waiting_other:
  assumes "loop_inv s" "waiting s i" "other_step s s'"
  shows "served s' i \<or> waiting s' i \<and> rank s' i \<le> rank s i"
  using assms(3) waiting_owed [OF assms(1,2)] assms(2)
  by (cases rule: other_step.cases)
     (auto simp: waiting_def served_def halted_def rank_def owed_def op_defs posOf_filter split: phase.split)

lemma served_loop: "served s i \<Longrightarrow> loop_step cfg s s' \<Longrightarrow> served s' i"
  by (erule loop_step.cases) (auto simp: served_def halted_def op_defs)

lemma served_other: "served s i \<Longrightarrow> other_step s s' \<Longrightarrow> served s' i"
  by (erule other_step.cases) (auto simp: served_def halted_def op_defs)

text \<open>\<open>interleaved cfg n s s'\<close>: a run with \<open>n\<close> steps of the loop and any steps of the others in between.\<close>

inductive interleaved :: "'w controller_config \<Rightarrow> nat \<Rightarrow> 'w loop_state \<Rightarrow> 'w loop_state \<Rightarrow> bool" for cfg where
  here: "interleaved cfg 0 s s"
| then_loop: "interleaved cfg n s s1 \<Longrightarrow> loop_step cfg s1 s2 \<Longrightarrow> interleaved cfg (Suc n) s s2"
| then_other: "interleaved cfg n s s1 \<Longrightarrow> other_step s1 s2 \<Longrightarrow> interleaved cfg n s s2"

lemma interleaved_progress:
  assumes "interleaved cfg n s s'" "loop_inv s" "waiting s i"
  shows "loop_inv s' \<and> (served s' i \<or> waiting s' i \<and> rank s' i + n \<le> rank s i)"
  using assms
proof (induction rule: interleaved.induct)
  case (then_loop n s s1 s2)
  then show ?case using waiting_loop [of s1 i cfg s2] by (fastforce intro: loop_inv_loop served_loop)
next
  case (then_other n s s1 s2)
  then show ?case using waiting_other [of s1 i s2] by (fastforce intro: loop_inv_other served_other)
qed simp

lemma rank_pos: "loop_inv s \<Longrightarrow> waiting s i \<Longrightarrow> 0 < rank s i"
  by (auto simp: rank_def)

lemma loop_enabled:
  assumes "loop_inv s" "waiting s i"
  shows "\<exists>s'. loop_step cfg s s'"
proof (cases "phase s")
  case Idle
  with waiting_owed [OF assms] have "triggerCh s" by (auto simp: owed_def cycleDue_def)
  with Idle show ?thesis by (blast intro: loop_step.intros)
next
  case Running
  then show ?thesis
    by (cases "reconcileCycle cfg (ctlState s) (world s)") (auto intro: loop_step.intros)
next
  case (Notifying res ns)
  show ?thesis
  proof (cases ns)
    case (Cons j js)
    with assms(1) Notifying have "inbox s j = None"
      by (cases "callers s j") (auto simp: loop_inv_def caller_ok_def owed_def dest!: spec [of _ j])
    with Cons Notifying show ?thesis by (blast intro: loop_step.intros)
  qed (use Notifying in \<open>blast intro: loop_step.intros\<close>)
qed (use assms(2) in \<open>auto simp: waiting_def halted_def intro: loop_step.intros\<close>)

section \<open>Properties\<close>

text \<open>
  C11: No wake-up is lost and no reply blocks. In every state the goroutines can reach, a caller of
  \<open>TriggerAndWait\<close> that has no result yet never depends on the ticker: the loop has a step to take, and
  however the others are scheduled, after at most as many loop steps as callers are owed a result, plus
  five, the caller has its result, has given up, or the loop has ended.
\<close>

theorem TriggerAndWait_is_answered:
  assumes "reach cfg s" "waiting s i"
  shows "(\<exists>s'. loop_step cfg s s') \<and>
    (\<forall>n s'. interleaved cfg n s s' \<and> length (notifying (phase s)) + length (waiters s) + 5 \<le> n \<longrightarrow> served s' i)"
proof -
  have inv: "loop_inv s" using assms(1) by (rule reach_inv)
  have "served s' i" if w: "interleaved cfg n s s'" and n: "length (owed s) + 5 \<le> n" for n s'
  proof (rule ccontr)
    assume "\<not> served s' i"
    with interleaved_progress [OF w inv assms(2)] have "loop_inv s'" "waiting s' i" "rank s' i + n \<le> rank s i" by auto
    with rank_pos [of s' i] rank_le [of s i] n show False by linarith
  qed
  with loop_enabled [OF inv assms(2)] show ?thesis by (auto simp: owed_def)
qed

definition demoWaiting :: "mem loop_state" where
  "demoWaiting = wakeLoop 1 (wakeLoop 0 (registerWaiter 1 (registerWaiter 0 (startLoop freshCtl demoW))))"

theorem TriggerAndWait_is_answered_witness:
  "(\<exists>s'. loop_step (demoCtl (Ret (Inl (errorf ''e'')))) demoWaiting s') \<and>
   \<not> (\<exists>n s'. interleaved (demoCtl (Ret (Inl (errorf ''e'')))) n demoWaiting s' \<and> 7 \<le> n \<and> \<not> served s' 1)"
proof -
  let ?cfg = "demoCtl (Ret (Inl (errorf ''e'')))" and ?s0 = "startLoop freshCtl demoW"
  have "reach ?cfg (registerWaiter 0 ?s0)"
    by (rule by_other [OF start other_step.register]) (simp add: op_defs)
  then have "reach ?cfg (registerWaiter 1 (registerWaiter 0 ?s0))"
    by (rule by_other [OF _ other_step.register]) (simp add: op_defs)
  then have "reach ?cfg (wakeLoop 0 (registerWaiter 1 (registerWaiter 0 ?s0)))"
    by (rule by_other [OF _ other_step.wake]) (simp add: op_defs)
  then have r: "reach ?cfg demoWaiting" unfolding demoWaiting_def
    by (rule by_other [OF _ other_step.wake]) (simp add: op_defs)
  have "waiting demoWaiting 1" "phase demoWaiting = Running" "length (waiters demoWaiting) = 2"
    by (simp_all add: demoWaiting_def waiting_def halted_def op_defs)
  with TriggerAndWait_is_answered [OF r, of 1] show ?thesis by auto
qed

end
