(* ===== verification/PlanAgrees.thy ===== *)
theory PlanAgrees
  imports EngineConverge
begin

text \<open>
  The plan of a dry run and the plan of the run that follows it: against a lawful provider they make the
  same decisions, because a write only touches the resource it names and later kinds are observed as they
  were. \<open>apply\<close> relies on it: it shows one plan, asks, and computes a second one to execute.
\<close>

text \<open>Two states that look the same for the kinds that are still to be visited.\<close>

definition agree :: "'w engine \<Rightarrow> 'w view \<Rightarrow> resource_kind list \<Rightarrow> 'w \<Rightarrow> 'w \<Rightarrow> bool" where
  "agree e view kinds w v \<longleftrightarrow> os e w = os e v \<and> (\<forall>k n. k \<in> set kinds \<longrightarrow> view w k n = view v k n)"

lemma agree_trans: "agree e view ks w v \<Longrightarrow> agree e view ks v u \<Longrightarrow> agree e view ks w u"
  by (simp add: agree_def)

lemma agree_sym: "agree e view ks w v \<Longrightarrow> agree e view ks v w"
  by (simp add: agree_def)

lemma agree_tl: "agree e view (k # ks) w v \<Longrightarrow> agree e view ks w v"
  by (simp add: agree_def)

lemma sameWorld_agree: "sameWorld e view w v \<Longrightarrow> agree e view ks w v"
  by (simp add: agree_def sameWorld_def)

lemma stepCompare_state: "stepCompare e rc w = (fst (stepCompare e rc v), w)"
  by (simp add: stepCompare_def Let_def split: option.split)

lemma reconcileOne_agree:
  assumes "lawful e view" "agree e view [resKind r] w v"
  shows "fst (reconcileOne e r force w) = fst (reconcileOne e r force v)"
proof -
  obtain w' v' where o: "Observe (provider e) (resKind r) (resName r) w = (Inr (view w (resKind r) (resName r)), w')"
    "Observe (provider e) (resKind r) (resName r) v = (Inr (view v (resKind r) (resName r)), v')"
    using lawful_observe [OF assms(1)] by metis
  have "os e w = os e v" "view w (resKind r) (resName r) = view v (resKind r) (resName r)"
    using assms(2) by (simp_all add: agree_def)
  note same = this
  let ?rc = "(newContext r force)\<lparr>rcSpec := resolveSpecSecrets (os e v) (specMap r),
    rcCurrent := view v (resKind r) (resName r)\<rparr>"
  have nc: "rcResource (newContext r force) = r" by (simp add: newContext_def)
  have "fst (reconcileOne e r force w) = rcChange (snd (fst (stepCompare e ?rc w')))"
    using o(1) same by (simp add: reconcileOne_def stepResolveSecrets_def stepObserve_def nc split: prod.split option.split)
  moreover have "fst (reconcileOne e r force v) = rcChange (snd (fst (stepCompare e ?rc v')))"
    using o(2) by (simp add: reconcileOne_def stepResolveSecrets_def stepObserve_def nc split: prod.split option.split)
  ultimately show ?thesis using stepCompare_state [of e ?rc w' v'] by simp
qed

lemma reconcileKind_changes:
  assumes "lawful e view" "schedOk e"
  shows "fst (reconcileKind e rs force conc w) = map (\<lambda>r. fst (reconcileOne e r force w)) rs \<and>
    sameWorld e view w (snd (reconcileKind e rs force conc w))"
proof -
  have refl: "sameWorld e view w w" by (simp add: sameWorld_def)
  have "fst (reconcileOne e r force v) = fst (reconcileOne e r force w) \<and> sameWorld e view w (snd (reconcileOne e r force v))"
    if "sameWorld e view w v" for r v
  proof -
    have "sameWorld e view v (snd (reconcileOne e r force v))"
      using lawful_observe [OF assms(1), of "resKind r" "resName r" v] by (auto simp: reconcileOne_world)
    with that sameWorld_trans [OF that] show ?thesis
      using reconcileOne_agree [OF assms(1) agree_sym [OF sameWorld_agree]] by blast
  qed
  from reconcileKind_inv [where I = "sameWorld e view w" and Q = "\<lambda>r c. c = fst (reconcileOne e r force w)",
      OF assms(2) refl this]
  show ?thesis by (auto simp: list_all2_conv_all_nth intro: nth_equalityI)
qed

text \<open>Executing the changes of one kind leaves the others alone.\<close>

lemma execute_other_kinds:
  assumes "lawful e view" "resKind r \<notin> set ks"
  shows "agree e view ks w (snd (execute e c r w))"
proof -
  have w: "onlyAt e view (resKind r, resName r) w (snd (f (resKind r) (resName r) s w))" if "writeLaw e view f" for f s
    using writeLawD(1) [OF that, of "resKind r" "resName r" s w] by (metis prod.collapse)
  have l: "writeLaw e view (Create (provider e))" "writeLaw e view (Update (provider e))"
    using assms(1) by (simp_all add: lawful_def)
  have "onlyAt e view (resKind r, resName r) w (snd (execute e c r w))"
    using w [OF l(1)] w [OF l(2)] by (cases "Action c") (simp_all add: execute_def Let_def onlyAt_def)
  with assms(2) show ?thesis unfolding agree_def onlyAt_def by (metis prod.inject)
qed

lemma executeIn_other_kinds:
  assumes "lawful e view" "\<And>i. i \<in> set js \<Longrightarrow> resKind (rs ! i) \<notin> set ks"
  shows "agree e view ks w (snd (executeIn e cs rs js res w))"
  using assms(2)
proof (induction js arbitrary: res w)
  case (Cons j js)
  have "agree e view ks w (snd (execute e (cs ! j) (rs ! j) w))"
    by (rule execute_other_kinds [OF assms(1)]) (use Cons.prems in auto)
  with Cons show ?case
    by (auto simp: Let_def split: prod.split option.split) (metis agree_trans)+
qed (simp add: agree_def)

lemma executeChanges_other_kinds:
  assumes "lawful e view" "schedOk e" "length cs = length rs" "\<And>r. r \<in> set rs \<Longrightarrow> resKind r \<notin> set ks"
  shows "agree e view ks w (snd (executeChanges e cs rs conc w))"
proof -
  let ?jobs = "filter (\<lambda>i. \<not> skipChange (cs ! i)) [0..<length cs]"
  define js where "js = (if conc \<le> 1 then ?jobs else map (\<lambda>j. ?jobs ! j) (sched e w (nat conc) (length ?jobs)))"
  have s: "set (sched e w (nat conc) (length ?jobs)) = {..<length ?jobs}"
    using schedOk_set [OF assms(2)] by blast
  have "set js \<subseteq> set ?jobs"
  proof
    fix i assume "i \<in> set js"
    then show "i \<in> set ?jobs" using s nth_mem [of _ ?jobs] by (auto simp only: js_def set_map split: if_split_asm)
  qed
  then have "resKind (rs ! i) \<notin> set ks" if "i \<in> set js" for i using that assms(3,4) by auto
  then have "agree e view ks w (snd (executeIn e cs rs js emptyResult w))" by (rule executeIn_other_kinds [OF assms(1)])
  moreover have "executeChanges e cs rs conc w = executeIn e cs rs js emptyResult w"
    by (simp add: executeChanges_def js_def Let_def)
  ultimately show ?thesis by simp
qed

lemma reconcileKinds_agree:
  assumes "lawful e view" "schedOk e" "distinct kinds" "agree e view kinds w v" "Force o1 = Force o2"
  shows "fst (fst (reconcileKinds e rs o1 kinds p r1 w)) = fst (fst (reconcileKinds e rs o2 kinds p r2 v))"
  using assms(3,4)
proof (induction kinds arbitrary: p r1 r2 w v)
  case (Cons kind kinds)
  let ?rs = "byKind rs kind" and ?f = "Force o2"
  have kinds: "resKind r \<notin> set kinds" if "r \<in> set ?rs" for r using that Cons.prems(1) by (simp add: byKind_def)
  let ?cs = "map (\<lambda>r. fst (reconcileOne e r ?f w)) ?rs"
  have same: "map (\<lambda>r. fst (reconcileOne e r ?f v)) ?rs = ?cs"
    using Cons.prems(2) reconcileOne_agree [OF assms(1), of _ v w ?f] by (auto simp: byKind_def agree_def)
  obtain w1 where w1: "reconcileKind e ?rs ?f (Concurrency o1) w = (?cs, w1)" "agree e view kinds w w1"
    using reconcileKind_changes [OF assms(1,2), of ?rs ?f "Concurrency o1" w] sameWorld_agree by (metis prod.collapse)
  obtain v1 where v1: "reconcileKind e ?rs ?f (Concurrency o2) v = (?cs, v1)" "agree e view kinds v v1"
    using reconcileKind_changes [OF assms(1,2), of ?rs ?f "Concurrency o2" v] sameWorld_agree same by (metis prod.collapse)
  have ex: "agree e view kinds u (snd (executeChanges e ?cs ?rs n u))" for u n
    by (rule executeChanges_other_kinds [OF assms(1,2)]) (use kinds in auto)
  have run: "\<exists>r' u'. reconcileKinds e rs opts (kind # kinds) p r u =
      reconcileKinds e rs opts kinds (if ?rs = [] then p else addChanges ?rs ?cs p) r' u' \<and> agree e view kinds u u'"
    if k: "reconcileKind e ?rs ?f (Concurrency opts) u = (?cs, u1)" and a: "agree e view kinds u u1" and f: "Force opts = ?f"
    for opts r u u1
  proof (cases "?rs = [] \<or> DryRun opts")
    case True
    define u' where "u' = (if ?rs = [] then u else u1)"
    have "agree e view kinds u u'" using a by (simp add: u'_def agree_def)
    with True k f show ?thesis by (intro exI [of _ r] exI [of _ u']) (auto simp: Let_def u'_def)
  next
    case False
    obtain kr u2 where x: "executeChanges e ?cs ?rs (Concurrency opts) u1 = (kr, u2)" by fastforce
    with ex [of u1 "Concurrency opts"] agree_trans [OF a] have "agree e view kinds u u2" by (metis snd_conv)
    with False k f x show ?thesis by (auto simp: Let_def)
  qed
  obtain r1' w2 where w2: "reconcileKinds e rs o1 (kind # kinds) p r1 w =
      reconcileKinds e rs o1 kinds (if ?rs = [] then p else addChanges ?rs ?cs p) r1' w2" "agree e view kinds w w2"
    using run [OF w1 assms(5)] by metis
  obtain r2' v2 where v2: "reconcileKinds e rs o2 (kind # kinds) p r2 v =
      reconcileKinds e rs o2 kinds (if ?rs = [] then p else addChanges ?rs ?cs p) r2' v2" "agree e view kinds v v2"
    using run [OF v1 refl] by metis
  have "agree e view kinds w2 v2" using agree_tl [OF Cons.prems(2)] w2(2) v2(2) by (simp add: agree_def)
  from Cons.IH [OF _ this] Cons.prems(1) show ?case unfolding w2(1) v2(1) by simp
qed simp

section \<open>Whole runs\<close>

lemma Reconcile_plans_agree:
  assumes "lawful e view" "schedOk e" "agree e view ApplyOrder w v" "Force o1 = Force o2"
    and "Reconcile e m o1 w = ((p1, r1), w')" "Reconcile e m o2 v = ((p2, r2), v')"
  shows "filter (\<lambda>c. Action c \<noteq> ActionDelete) (Changes p1) = filter (\<lambda>c. Action c \<noteq> ActionDelete) (Changes p2)"
    and "\<not> Prune o1 \<Longrightarrow> \<not> Prune o2 \<Longrightarrow> p1 = p2"
proof -
  let ?k = "\<lambda>opts u. reconcileKinds e (Resources m) opts ApplyOrder emptyPlan emptyResult u"
  obtain q s w1 where k1: "?k o1 w = ((q, s), w1)" by (metis surj_pair)
  obtain q' s' v1 where k2: "?k o2 v = ((q', s'), v1)" by (metis surj_pair)
  have q: "q = q'" using reconcileKinds_agree [OF assms(1,2) ApplyOrder_distinct assms(3,4)] k1 k2 by (metis fst_conv)
  have one: "\<exists>ds. Changes p = Changes qq @ ds \<and> (\<forall>c \<in> set ds. Action c = ActionDelete) \<and> (\<not> Prune opts \<longrightarrow> p = qq)"
    if k: "?k opts u = ((qq, ss), u1)" and r: "Reconcile e m opts u = ((p, rr), u')" for opts u qq ss u1 p rr u'
  proof (cases "Prune opts")
    case True
    obtain ds res2 u2 where d: "detectAndExecutePrunes e m (DryRun opts) u1 = ((ds, res2), u2)" by (metis surj_pair)
    then have "list_all (listedOrphan e (Resources m) DeleteOrder) ds"
      using pruneKinds_changes by (fastforce simp: detectAndExecutePrunes_def)
    then have "\<forall>c \<in> set ds. Action c = ActionDelete" by (fastforce simp: list_all_iff listedOrphan_def deletion_def)
    with k r d True show ?thesis by (auto simp: Reconcile_def)
  qed (use k r in \<open>simp add: Reconcile_def\<close>)
  from one [OF k1 assms(5)] obtain ds1 where a: "Changes p1 = Changes q @ ds1" "\<forall>c \<in> set ds1. Action c = ActionDelete"
    "\<not> Prune o1 \<longrightarrow> p1 = q" by blast
  from one [OF k2 assms(6)] obtain ds2 where b: "Changes p2 = Changes q' @ ds2" "\<forall>c \<in> set ds2. Action c = ActionDelete"
    "\<not> Prune o2 \<longrightarrow> p2 = q'" by blast
  from a b q show "filter (\<lambda>c. Action c \<noteq> ActionDelete) (Changes p1) = filter (\<lambda>c. Action c \<noteq> ActionDelete) (Changes p2)"
    by (simp add: filter_empty_conv)
  from a b q show "\<not> Prune o1 \<Longrightarrow> \<not> Prune o2 \<Longrightarrow> p1 = p2" by simp
qed

lemma Reconcile_dry_same:
  assumes "lawful e view" "DryRun opts" "Reconcile e m opts w = ((p, r), w')"
  shows "sameWorld e view w w'"
proof -
  have "(\<lambda>u. (view u, os e u)) (snd (Reconcile e m opts w)) = (\<lambda>u. (view u, os e u)) w"
    using assms(1) by (intro Reconcile_dry_frame [OF assms(2)]) (simp_all add: lawful_def sameWorld_def)
  with assms(3) show ?thesis by (simp add: sameWorld_def)
qed

text \<open>Recording the calls keeps a provider lawful.\<close>

lemma writeLaw_iff:
  "writeLaw e view f \<longleftrightarrow> (\<forall>k n s w. onlyAt e view (k, n) w (snd (f k n s w)) \<and>
     (fst (f k n s w) = None \<longrightarrow> (\<exists>c. view (snd (f k n s w)) k n = Some c \<and> echoed k s c)))"
  unfolding writeLaw_def by (metis prod.collapse fst_conv snd_conv)

lemma logged_sel [simp]: "fst (logged call f s) = fst (f (fst s))" "fst (snd (logged call f s)) = snd (f (fst s))"
  by (simp_all add: logged_def split: prod.split)

lemma unlogged_sel [simp]: "fst (unlogged f s) = fst (f (fst s))" "fst (snd (unlogged f s)) = snd (f (fst s))"
  by (simp_all add: unlogged_def split: prod.split)

lemma lawful_traced: "lawful e view \<Longrightarrow> lawful (traced e) (\<lambda>s. view (fst s))"
  by (simp add: lawful_def writeLaw_iff sameWorld_def onlyAt_def traced_def)

end
