(* ===== verification/Commands.thy ===== *)
theory Commands
  imports Display PlanAgrees
begin

text \<open>
  \<open>cmd/config.go\<close>, \<open>plan.go\<close>, \<open>apply.go\<close>, \<open>diff.go\<close>, \<open>destroy.go\<close>, \<open>export.go\<close> and \<open>validate.go\<close>: the
  command line. A command reads its flags, the environment and the disk, talks to the server through the
  engine that \<open>newEngine\<close> builds for a connection, and leaves a list of effects: what it printed and the
  entries it appended to the audit log.
\<close>

section \<open>Configuration\<close>

datatype provider_option = WithTenantID string | WithUserID string

datatype effect =
    Printed string
  | AuditApply string string nat nat nat nat nat "string list"
  | AuditDestroy string nat nat

record 'w cli =
  flagFile :: string
  flagEndpoint :: string
  flagToken :: string
  flagVerbose :: bool
  cliOS :: oscalls
  cliCodecs :: codecs
  cliValid :: valid_env
  cliDisk :: disk
  cliFmt :: "gval \<Rightarrow> string"
  newEngine :: "string \<Rightarrow> string \<Rightarrow> provider_option list \<Rightarrow> 'w engine"

definition Getenv :: "oscalls \<Rightarrow> string \<Rightarrow> string" where
  "Getenv o' k = (case LookupEnv o' k of None \<Rightarrow> [] | Some v \<Rightarrow> v)"

text \<open>The first of the values that is not empty, as the chains of \<open>if x == ""\<close> pick it.\<close>

fun firstSet :: "string list \<Rightarrow> string" where
  "firstSet [] = []"
| "firstSet (v # vs) = (if v = [] then firstSet vs else v)"

definition resolveConnection :: "'w cli \<Rightarrow> manifest \<Rightarrow> (string \<times> string) result" where
  "resolveConnection cli m =
     (let ep = firstSet [flagEndpoint cli, Getenv (cliOS cli) ''GCPLANE_ENDPOINT'', Endpoint (Connection m)] in
      if ep = [] then Inl (errorf ''endpoint required: use --endpoint, GCPLANE_ENDPOINT, or manifest connection.endpoint'')
      else
        let tok = firstSet [flagToken cli, Getenv (cliOS cli) ''GCPLANE_TOKEN'', Token (Connection m)] in
        if tok = [] then Inl (errorf ''token required: use --token, GCPLANE_TOKEN, or manifest connection.token'')
        else case Resolve (cliOS cli) ep of
          Inl err \<Rightarrow> Inl (wrapf ''resolve endpoint: '' err)
        | Inr ep' \<Rightarrow>
            (case Resolve (cliOS cli) tok of
               Inl err \<Rightarrow> Inl (wrapf ''resolve token: '' err)
             | Inr tok' \<Rightarrow> Inr (ep', tok')))"

definition resolveTenantOpt :: "oscalls \<Rightarrow> string \<Rightarrow> provider_option list result" where
  "resolveTenantOpt o' tid =
     (if tid = [] then Inr []
      else case Resolve o' tid of
        Inl err \<Rightarrow> Inl (wrapf ''resolve tenantId: '' err)
      | Inr resolved \<Rightarrow>
          if \<not> keyRe resolved
          then Inl (errorf (''invalid tenantId '' @ goQuote resolved @ '': must be kebab-case (a-z0-9, hyphens)''))
          else Inr [WithTenantID resolved])"

definition resolveUserOpt :: "oscalls \<Rightarrow> string \<Rightarrow> provider_option list result" where
  "resolveUserOpt o' uid =
     (if uid = [] then Inr []
      else case Resolve o' uid of
        Inl err \<Rightarrow> Inl (wrapf ''resolve userId: '' err)
      | Inr resolved \<Rightarrow> Inr [WithUserID resolved])"

definition resolveProviderOpts :: "'w cli \<Rightarrow> manifest \<Rightarrow> provider_option list result" where
  "resolveProviderOpts cli m =
     (case resolveTenantOpt (cliOS cli) (firstSet [Getenv (cliOS cli) ''GCPLANE_TENANT_ID'', TenantID (Connection m)]) of
        Inl err \<Rightarrow> Inl err
      | Inr tenantOpts \<Rightarrow>
          (case resolveUserOpt (cliOS cli) (firstSet [Getenv (cliOS cli) ''GCPLANE_USER_ID'', UserID (Connection m)]) of
             Inl err \<Rightarrow> Inl err
           | Inr userOpts \<Rightarrow> Inr (tenantOpts @ userOpts)))"

definition manifestPath :: "'w cli \<Rightarrow> string" where
  "manifestPath cli =
     (let path = firstSet [flagFile cli, Getenv (cliOS cli) ''GCPLANE_CONFIG''] in
      if path \<noteq> [] then path
      else case find (\<lambda>name. nodeAt (cliDisk cli) name \<noteq> None) [''gcplane.yaml'', ''gcplane.yml'', ''.gcplane.yaml''] of
        None \<Rightarrow> [] | Some name \<Rightarrow> name)"

definition loadAndValidateManifest :: "'w cli \<Rightarrow> manifest go" where
  "loadAndValidateManifest cli =
     (let path = manifestPath cli in
      if path = []
      then Ret (Inl (errorf ''manifest file required: use --file, GCPLANE_CONFIG env, or create gcplane.yaml''))
      else bindGo (LoadM (cliCodecs cli) (cliDisk cli) path) (\<lambda>r.
        case r of
          Inl err \<Rightarrow> Ret (Inl err)
        | Inr m \<Rightarrow>
            (case ValidateM ((cliValid cli)\<lparr>veDisk := cliDisk cli\<rparr>) m of
               [] \<Rightarrow> Ret (Inr m)
             | errs \<Rightarrow> Ret (Inl (errorf (''manifest validation failed with '' @ showNat (length errs) @ '' error(s)''))))))"

definition newEngineFor :: "'w cli \<Rightarrow> manifest \<Rightarrow> 'w engine result" where
  "newEngineFor cli m =
     (case resolveConnection cli m of
        Inl err \<Rightarrow> Inl err
      | Inr (ep, tok) \<Rightarrow>
          (case resolveProviderOpts cli m of
             Inl err \<Rightarrow> Inl err
           | Inr opts \<Rightarrow> Inr (newEngine cli ep tok opts)))"

section \<open>Commands\<close>

text \<open>A command returns its error, if any, with its effects; a panic in the loader passes through.\<close>

type_synonym outcome = "(effect list \<times> goerr option) go"

definition selectResources :: "string \<Rightarrow> manifest \<Rightarrow> manifest" where
  "selectResources selector m =
     (if selector \<noteq> [] then m\<lparr>Resources := FilterByLabels (Resources m) (ParseLabelSelector selector)\<rparr> else m)"

text \<open>The common start: load, validate, select, connect.\<close>

definition withEngine ::
  "'w cli \<Rightarrow> string \<Rightarrow> ('w engine \<Rightarrow> manifest \<Rightarrow> ('w \<Rightarrow> (effect list \<times> goerr option) \<times> 'w)) \<Rightarrow>
   'w \<Rightarrow> outcome \<times> 'w"
where
  "withEngine cli selector body w =
     (case loadAndValidateManifest cli of
        Panic msg \<Rightarrow> (Panic msg, w)
      | Ret (Inl err) \<Rightarrow> (Ret (Inr ([], Some err)), w)
      | Ret (Inr m) \<Rightarrow>
          (let m = selectResources selector m in
           case newEngineFor cli m of
             Inl err \<Rightarrow> (Ret (Inr ([], Some err)), w)
           | Inr e \<Rightarrow> (case body e m w of (out, w') \<Rightarrow> (Ret (Inr out), w'))))"

record plan_flags =
  pfPrune :: bool
  pfForce :: bool
  pfSelector :: string

definition planCmd :: "'w cli \<Rightarrow> plan_flags \<Rightarrow> 'w \<Rightarrow> outcome \<times> 'w" where
  "planCmd cli f =
     withEngine cli (pfSelector f) (\<lambda>e m w.
       case Reconcile e m \<lparr>DryRun = True, Prune = pfPrune f, Force = pfForce f, Concurrency = 0\<rparr> w of
         ((p, r), w') \<Rightarrow> (([Printed (PrintPlan (cliFmt cli) p (flagVerbose cli))], None), w'))"

definition diffCmd :: "'w cli \<Rightarrow> 'w \<Rightarrow> outcome \<times> 'w" where
  "diffCmd cli =
     withEngine cli [] (\<lambda>e m w.
       case Reconcile e m \<lparr>DryRun = True, Prune = False, Force = False, Concurrency = 0\<rparr> w of
         ((p, r), w') \<Rightarrow> (([Printed (PrintDiff (cliFmt cli) p)], None), w'))"

record apply_flags =
  autoApprove :: bool
  applyPrune :: bool
  applyForce :: bool
  applySelector :: string
  applyLogFile :: string

definition confirmed :: "bool \<Rightarrow> string \<Rightarrow> bool" where
  "confirmed auto answer \<longleftrightarrow>
     auto \<or> trimSpace (map toLowerC answer) = ''y'' \<or> trimSpace (map toLowerC answer) = ''yes''"

definition writeApplyAuditLog :: "string \<Rightarrow> string \<Rightarrow> plan \<Rightarrow> apply_result \<Rightarrow> effect list" where
  "writeApplyAuditLog logFile manifestFile p r =
     (if logFile = [] then []
      else [AuditApply logFile manifestFile (Creates p) (Updates p) (Deletes p) (Applied r) (Failed r) (resErrors r)])"

definition applyOpts :: "apply_flags \<Rightarrow> bool \<Rightarrow> reconcile_opts" where
  "applyOpts f dry = \<lparr>DryRun = dry, Prune = applyPrune f, Force = applyForce f, Concurrency = 0\<rparr>"

text \<open>\<open>apply\<close> once the engine stands: the plan, the question with its answer, the run.\<close>

definition applyWith ::
  "(gval \<Rightarrow> string) \<Rightarrow> bool \<Rightarrow> string \<Rightarrow> apply_flags \<Rightarrow> string \<Rightarrow> 'w engine \<Rightarrow> manifest \<Rightarrow>
   'w \<Rightarrow> (effect list \<times> goerr option) \<times> 'w"
where
  "applyWith fmtV verbose configFile f answer e m w =
     (case Reconcile e m (applyOpts f True) w of
        ((p, _), w1) \<Rightarrow>
          let shown = [Printed (PrintPlan fmtV p verbose)] in
          if Creates p = 0 \<and> Updates p = 0 \<and> Deletes p = 0
          then ((shown @ [Printed (nl # ''No changes to apply.'' @ [nl])], None), w1)
          else
            let warned = (if 0 < Deletes p then [Printed (PrintPruneWarning (Deletes p))] else []);
                asked = (if autoApprove f then [] else [Printed (nl # ''Apply these changes? [y/N] '')])
            in if \<not> confirmed (autoApprove f) answer
               then ((shown @ warned @ asked @ [Printed (''Apply cancelled.'' @ [nl])], None), w1)
               else case Reconcile e m (applyOpts f False) w1 of
                 ((_, r), w2) \<Rightarrow>
                   ((shown @ warned @ asked @ [Printed (PrintApplyResult r)] @
                       writeApplyAuditLog (applyLogFile f) configFile p r,
                     if 0 < Failed r then Some (errorf (showNat (Failed r) @ '' resource(s) failed to apply'')) else None), w2))"

definition applyCmd :: "'w cli \<Rightarrow> apply_flags \<Rightarrow> string \<Rightarrow> 'w \<Rightarrow> outcome \<times> 'w" where
  "applyCmd cli f answer =
     withEngine cli (applySelector f) (applyWith (cliFmt cli) (flagVerbose cli) (flagFile cli) f answer)"

definition validateCmd :: "'w cli \<Rightarrow> outcome" where
  "validateCmd cli =
     (if flagFile cli = [] then Ret (Inr ([], Some (errorf ''manifest file required: use --file or -f'')))
      else bindGo (LoadM (cliCodecs cli) (cliDisk cli) (flagFile cli)) (\<lambda>r.
        case r of
          Inl err \<Rightarrow> Ret (Inr ([], Some err))
        | Inr m \<Rightarrow>
            (case ValidateM ((cliValid cli)\<lparr>veDisk := cliDisk cli\<rparr>) m of
               [] \<Rightarrow> Ret (Inr ([Printed (''Valid: '' @ metaName (Metadata m) @ '' ('' @ showNat (length (Resources m)) @ '' resources)'' @ [nl])], None))
             | errs \<Rightarrow> Ret (Inr (Printed (''Validation errors:'' @ [nl]) # map (\<lambda>er. Printed (''  - '' @ errText er @ [nl])) errs,
                 Some (errorf (showNat (length errs) @ '' validation error(s)'')))))))"

section \<open>Export\<close>

definition exportInternalFields :: "string list" where
  "exportInternalFields = [''id'', ''createdAt'', ''updatedAt'', ''createdBy'', ''created_at'', ''updated_at'', ''created_by'',
     ''writeOnlyHash'', ''write_only_hash'']"

definition exportedSpec :: "gomap option \<Rightarrow> gomap option" where
  "exportedSpec observed =
     map_option (\<lambda>m. fold AList.delete (exportInternalFields @ [''name'', ''agentKey'', ''agent_key'']) m) observed"

fun exportInfos ::
  "'w engine \<Rightarrow> bool \<Rightarrow> resource_kind \<Rightarrow> resource_info list \<Rightarrow> 'w \<Rightarrow> resource list \<times> 'w"
where
  "exportInfos e all kind [] w = ([], w)"
| "exportInfos e all kind (info # infos) w =
     (if \<not> all \<and> CreatedBy info \<noteq> ''gcplane'' then exportInfos e all kind infos w
      else case Observe (provider e) kind (infoName info) w of
             (Inl err, w) \<Rightarrow> exportInfos e all kind infos w
           | (Inr observed, w) \<Rightarrow>
               (case exportInfos e all kind infos w of
                  (rs, w) \<Rightarrow> (\<lparr>resKind = kind, resName = infoName info, Labels = [], Annotations = [],
                    Spec = exportedSpec observed\<rparr> # rs, w)))"

fun exportKinds :: "'w engine \<Rightarrow> bool \<Rightarrow> resource_kind list \<Rightarrow> 'w \<Rightarrow> resource list \<times> 'w" where
  "exportKinds e all [] w = ([], w)"
| "exportKinds e all (kind # kinds) w =
     (case ListAll (provider e) kind w of
        (Inl err, w) \<Rightarrow> exportKinds e all kinds w
      | (Inr infos, w) \<Rightarrow>
          (case exportInfos e all kind infos w of
             (rs, w) \<Rightarrow> (case exportKinds e all kinds w of (rs', w) \<Rightarrow> (rs @ rs', w))))"

definition buildExportManifest :: "'w engine \<Rightarrow> bool \<Rightarrow> string \<Rightarrow> 'w \<Rightarrow> manifest \<times> 'w" where
  "buildExportManifest e all ep w =
     (case exportKinds e all ApplyOrder w of
        (rs, w') \<Rightarrow>
          (\<lparr>APIVersion = ''gcplane.io/v1'', manKind = ''Manifest'', Metadata = \<lparr>metaName = ''exported'', Environment = []\<rparr>,
            Connection = \<lparr>Endpoint = ep, Token = ''${GCPLANE_TOKEN}'', TenantID = [], UserID = []\<rparr>, Resources = rs\<rparr>, w'))"

definition exportCmd :: "'w cli \<Rightarrow> (manifest \<Rightarrow> string result) \<Rightarrow> bool \<Rightarrow> 'w \<Rightarrow> (effect list \<times> goerr option) \<times> 'w" where
  "exportCmd cli marshal all w =
     (let ep = firstSet [flagEndpoint cli, Getenv (cliOS cli) ''GCPLANE_ENDPOINT''];
          tok = firstSet [flagToken cli, Getenv (cliOS cli) ''GCPLANE_TOKEN''] in
      if ep = [] \<or> tok = []
      then (([], Some (errorf ''--endpoint and --token (or GCPLANE_ENDPOINT/GCPLANE_TOKEN env) required'')), w)
      else case buildExportManifest (newEngine cli ep tok []) all ep w of
             (m, w') \<Rightarrow>
               (case marshal m of
                  Inl err \<Rightarrow> (([], Some err), w')
                | Inr text \<Rightarrow> (([Printed text], None), w')))"

section \<open>Destroy\<close>

definition notDestroyed :: "resource_kind \<Rightarrow> bool" where
  "notDestroyed kind \<longleftrightarrow>
     kind = KindSkill \<or> kind = KindBuiltinToolConfig \<or> kind = KindSkillConfig \<or>
     kind = KindSystemConfig \<or> kind = KindMCPCredentials"

fun ownedOf :: "'w engine \<Rightarrow> resource_kind list \<Rightarrow> 'w \<Rightarrow> resource_info list \<times> 'w" where
  "ownedOf e [] w = ([], w)"
| "ownedOf e (kind # kinds) w =
     (if notDestroyed kind then ownedOf e kinds w
      else case ListAll (provider e) kind w of
             (Inl err, w) \<Rightarrow> ownedOf e kinds w
           | (Inr infos, w) \<Rightarrow>
               (case ownedOf e kinds w of
                  (rest, w) \<Rightarrow> (filter (\<lambda>info. CreatedBy info = ''gcplane'') infos @ rest, w)))"

fun deleteAll :: "'w engine \<Rightarrow> resource_info list \<Rightarrow> 'w \<Rightarrow> (effect list \<times> nat) \<times> 'w" where
  "deleteAll e [] w = (([], 0), w)"
| "deleteAll e (r # rs) w =
     (case Delete (provider e) (infoKind r) (infoName r) w of
        (Some err, w) \<Rightarrow>
          (case deleteAll e rs w of
             ((out, failed), w) \<Rightarrow>
               ((Printed (''  '' @ colorRed @ ''x '' @ infoKind r @ ''/'' @ infoName r @ '': '' @ errText err @ colorReset @ [nl]) # out,
                 failed + 1), w))
      | (None, w) \<Rightarrow>
          (case deleteAll e rs w of
             ((out, failed), w) \<Rightarrow>
               ((Printed (''  '' @ colorGreen @ ''+ '' @ infoKind r @ ''/'' @ infoName r @ '' deleted'' @ colorReset @ [nl]) # out, failed), w)))"

record destroy_flags =
  dfAutoApprove :: bool
  dfDryRun :: bool
  dfLogFile :: string
  dfBackup :: string

definition writeDestroyAuditLog :: "string \<Rightarrow> nat \<Rightarrow> nat \<Rightarrow> effect list" where
  "writeDestroyAuditLog logFile deleted failed = (if logFile = [] then [] else [AuditDestroy logFile deleted failed])"

text \<open>\<open>destroy\<close> once the engine stands and the backup is written.\<close>

definition destroyWith :: "destroy_flags \<Rightarrow> string \<Rightarrow> 'w engine \<Rightarrow> 'w \<Rightarrow> (effect list \<times> goerr option) \<times> 'w" where
  "destroyWith f answer e w =
     (case ownedOf e DeleteOrder w of
        (toDelete, w1) \<Rightarrow>
          if toDelete = [] then (([Printed (''No gcplane-managed resources found.'' @ [nl])], None), w1)
          else
            let shown = Printed (nl # colorBold @ colorRed @ ''Will destroy '' @ showNat (length toDelete) @ '' resource(s):'' @ colorReset @ [nl, nl]) #
                  map (\<lambda>r. Printed (''  '' @ colorRed @ ''- '' @ infoKind r @ ''/'' @ infoName r @ colorReset @ [nl])) toDelete
            in if dfDryRun f then ((shown @ [Printed (nl # ''Dry-run: no resources deleted.'' @ [nl])], None), w1)
               else
                 let asked = (if dfAutoApprove f then [] else [Printed (nl # ''Destroy these resources? This cannot be undone. [y/N] '')])
                 in if \<not> confirmed (dfAutoApprove f) answer
                    then ((shown @ asked @ [Printed (''Destroy cancelled.'' @ [nl])], None), w1)
                    else case deleteAll e toDelete w1 of
                      ((out, failed), w2) \<Rightarrow>
                        ((shown @ asked @ out @
                            [Printed (nl # colorBold @ ''Destroy complete!'' @ colorReset @ '' '' @ showNat (length toDelete - failed) @
                               '' deleted, '' @ showNat failed @ '' failed.'' @ [nl])] @
                            writeDestroyAuditLog (dfLogFile f) (length toDelete - failed) failed,
                          if 0 < failed then Some (errorf (showNat failed @ '' resource(s) failed to delete'')) else None), w2))"

text \<open>The connection of \<open>destroy\<close>: the flags and the environment, or the manifest when a file is given.\<close>

definition destroyConnection :: "'w cli \<Rightarrow> (string \<times> string \<times> provider_option list) go" where
  "destroyConnection cli =
     (if flagFile cli \<noteq> []
      then bindGo (loadAndValidateManifest cli) (\<lambda>r.
        case r of
          Inl err \<Rightarrow> Ret (Inl err)
        | Inr m \<Rightarrow>
            (case resolveConnection cli m of
               Inl err \<Rightarrow> Ret (Inl err)
             | Inr (ep, tok) \<Rightarrow>
                 (case resolveProviderOpts cli m of
                    Inl err \<Rightarrow> Ret (Inl err)
                  | Inr opts \<Rightarrow> Ret (Inr (ep, tok, opts)))))
      else Ret (Inr (firstSet [flagEndpoint cli, Getenv (cliOS cli) ''GCPLANE_ENDPOINT''],
                     firstSet [flagToken cli, Getenv (cliOS cli) ''GCPLANE_TOKEN''], [])))"

text \<open>\<open>writeFile\<close> is \<open>os.WriteFile\<close> on the machine that runs the command.\<close>

definition destroyCmd ::
  "'w cli \<Rightarrow> (manifest \<Rightarrow> string result) \<Rightarrow> (string \<Rightarrow> string \<Rightarrow> goerr option) \<Rightarrow> destroy_flags \<Rightarrow> string \<Rightarrow>
   'w \<Rightarrow> outcome \<times> 'w"
where
  "destroyCmd cli marshal writeFile f answer w =
     (case destroyConnection cli of
        Panic msg \<Rightarrow> (Panic msg, w)
      | Ret (Inl err) \<Rightarrow> (Ret (Inr ([], Some err)), w)
      | Ret (Inr (ep, tok, opts)) \<Rightarrow>
          if ep = [] \<or> tok = [] then (Ret (Inr ([], Some (errorf ''--endpoint and --token (or -f manifest) required''))), w)
          else
            let e = newEngine cli ep tok opts in
            if dfBackup f = [] then (case destroyWith f answer e w of (out, w') \<Rightarrow> (Ret (Inr out), w'))
            else case buildExportManifest e False ep w of
              (m, w1) \<Rightarrow>
                (case marshal m of
                   Inl err \<Rightarrow> (Ret (Inr ([], Some (wrapf ''backup marshal failed: '' err))), w1)
                 | Inr data \<Rightarrow>
                     (case writeFile (dfBackup f) data of
                        Some err \<Rightarrow> (Ret (Inr ([], Some (wrapf ''backup write failed: '' err))), w1)
                      | None \<Rightarrow>
                          (case destroyWith f answer e w1 of
                             ((out, err), w2) \<Rightarrow> (Ret (Inr (Printed (''Backup saved to '' @ dfBackup f @ [nl]) # out, err)), w2)))))"

section \<open>Facts\<close>

lemma applyOpts_sel [simp]:
  "DryRun (applyOpts f d) = d" "Prune (applyOpts f d) = applyPrune f" "Force (applyOpts f d) = applyForce f"
  "Concurrency (applyOpts f d) = 0"
  by (simp_all add: applyOpts_def)

definition keptCalls :: "wcall list \<Rightarrow> wcall list" where
  "keptCalls calls = filter (\<lambda>call. fst call \<noteq> ActionDelete) calls"

lemma keptCalls_effective:
  "keptCalls (map callOf (effective cs)) = map callOf (effective (filter (\<lambda>c. Action c \<noteq> ActionDelete) cs))"
  by (induction cs) (auto simp: keptCalls_def effective_def callOf_def)

text \<open>Against a lawful provider the run that follows the dry run decides as the dry run did.\<close>

lemma applied_plan_is_printed:
  assumes "schedOk e" "lawful e view"
    and "Reconcile e m (applyOpts f True) w = ((p, r), w1)" "Reconcile e m (applyOpts f False) w1 = ((p', r'), w')"
  shows "filter (\<lambda>c. Action c \<noteq> ActionDelete) (Changes p') = filter (\<lambda>c. Action c \<noteq> ActionDelete) (Changes p) \<and>
    (\<not> applyPrune f \<longrightarrow> p' = p)"
proof -
  have "agree e view ApplyOrder w w1"
    using Reconcile_dry_same [OF assms(2) _ assms(3)] sameWorld_agree by fastforce
  from Reconcile_plans_agree [OF assms(2,1) this _ assms(3,4)] show ?thesis by auto
qed

definition applyPrompt :: effect where
  "applyPrompt = Printed (nl # ''Apply these changes? [y/N] '')"

lemma applyWith_cases:
  assumes "Reconcile e m (applyOpts f True) w = ((p, r0), w1)"
    and "applyWith fmtV verbose cfg f answer e m w = ((out, err), w')"
  shows "hd out = Printed (PrintPlan fmtV p verbose) \<and>
    (if confirmed (autoApprove f) answer \<and> (0 < Creates p \<or> 0 < Updates p \<or> 0 < Deletes p)
     then (autoApprove f \<or> applyPrompt \<in> set out) \<and>
       (\<exists>p' r. Reconcile e m (applyOpts f False) w1 = ((p', r), w') \<and> (err = None \<longleftrightarrow> Failed r = 0))
     else w' = w1 \<and> err = None)"
  using assms unfolding applyWith_def applyPrompt_def by (auto simp: Let_def split: prod.splits if_splits)

section \<open>Properties\<close>

text \<open>
  C10: \<open>apply\<close> does what was confirmed. It prints the plan of a dry run; unless that plan has something to
  do and the operator, having been asked, confirms it (or approved it beforehand) no writing call is made
  and the world stays as the dry run left it, whatever the provider answers. Confirmed, it makes exactly the
  writing calls of the run that follows, in the order of that run's plan, and fails when one of them fails.
  Against a lawful provider the creations and updates among them are those of the printed plan, in its order,
  and without pruning all of them are.
\<close>

theorem apply_runs_what_was_confirmed:
  assumes "schedOk e"
    and "applyWith fmtV verbose cfg f answer (traced e) m (w, []) = ((out, err), (w', calls))"
  shows "\<exists>p r w1. Reconcile e m (applyOpts f True) w = ((p, r), w1) \<and> hd out = Printed (PrintPlan fmtV p verbose) \<and>
    (if confirmed (autoApprove f) answer \<and> (0 < Creates p \<or> 0 < Updates p \<or> 0 < Deletes p)
     then (autoApprove f \<or> applyPrompt \<in> set out) \<and>
       (\<exists>p' r'. Reconcile e m (applyOpts f False) w1 = ((p', r'), w') \<and> (err = None \<longleftrightarrow> Failed r' = 0) \<and>
          calls = map callOf (filter (\<lambda>c. \<not> skipChange c) (Changes p'))) \<and>
       (\<forall>view. lawful e view \<longrightarrow>
          keptCalls calls = map callOf (filter (\<lambda>c. \<not> skipChange c) (filter (\<lambda>c. Action c \<noteq> ActionDelete) (Changes p))) \<and>
          (\<not> applyPrune f \<longrightarrow> calls = map callOf (filter (\<lambda>c. \<not> skipChange c) (Changes p))))
     else calls = [] \<and> w' = w1 \<and> err = None)"
proof -
  let ?e = "traced e"
  obtain p r w1 t where d: "Reconcile ?e m (applyOpts f True) (w, []) = ((p, r), (w1, t))" by (metis surj_pair)
  from Reconcile_traced [OF assms(1) d] have dry: "Reconcile e m (applyOpts f True) w = ((p, r), w1)" "t = []" by auto
  note cs = applyWith_cases [OF d assms(2)]
  show ?thesis
  proof (cases "confirmed (autoApprove f) answer \<and> (0 < Creates p \<or> 0 < Updates p \<or> 0 < Deletes p)")
    case False
    with cs dry show ?thesis by auto
  next
    case True
    with cs dry obtain p' r' where x: "Reconcile ?e m (applyOpts f False) (w1, []) = ((p', r'), (w', calls))"
      and asked: "autoApprove f \<or> applyPrompt \<in> set out" "err = None \<longleftrightarrow> Failed r' = 0" by auto
    from Reconcile_traced [OF assms(1) x] have run: "Reconcile e m (applyOpts f False) w1 = ((p', r'), w')"
      "calls = map callOf (effective (Changes p'))"
      by (simp_all add: callsOf_def)
    have same: "keptCalls calls = map callOf (effective (filter (\<lambda>c. Action c \<noteq> ActionDelete) (Changes p))) \<and>
        (\<not> applyPrune f \<longrightarrow> calls = map callOf (effective (Changes p)))" if "lawful e view" for view
      using applied_plan_is_printed [OF assms(1) that dry(1) run(1)] run(2) by (auto simp: keptCalls_effective)
    show ?thesis
      using cs dry(1) True asked run same by (simp add: effective_def)
  qed
qed

definition demoFlags :: "bool \<Rightarrow> apply_flags" where
  "demoFlags prune = \<lparr>autoApprove = False, applyPrune = prune, applyForce = False, applySelector = [], applyLogFile = []\<rparr>"

theorem apply_runs_what_was_confirmed_witness:
  "snd (snd (applyWith (\<lambda>v. []) False ''m.yaml'' (demoFlags True) ''n'' (traced echoEngine) demoM (demoW, []))) = [] \<and>
   keptCalls (snd (snd (applyWith (\<lambda>v. []) False ''m.yaml'' (demoFlags True) ''Yes'' (traced echoEngine) demoM (demoW, [])))) =
     [(ActionUpdate, KindProvider, ''p''), (ActionCreate, KindAgent, ''a'')]"
proof
  let ?run = "\<lambda>answer. applyWith (\<lambda>v. []) False ''m.yaml'' (demoFlags True) answer (traced echoEngine) demoM (demoW, [])"
  have no: "\<not> confirmed (autoApprove (demoFlags True)) ''n''" and yes: "confirmed (autoApprove (demoFlags True)) ''Yes''" by code_simp+
  obtain p r w1 where d: "Reconcile echoEngine demoM (applyOpts (demoFlags True) True) demoW = ((p, r), w1)" by (metis surj_pair)
  have "(case Reconcile echoEngine demoM (applyOpts (demoFlags True) True) demoW of ((p, r), w) \<Rightarrow>
     (Creates p, map callOf (filter (\<lambda>c. \<not> skipChange c) (filter (\<lambda>c. Action c \<noteq> ActionDelete) (Changes p))))) =
     (1, [(ActionUpdate, KindProvider, ''p''), (ActionCreate, KindAgent, ''a'')])" by code_simp
  with d have p: "Creates p = 1" "map callOf (filter (\<lambda>c. \<not> skipChange c) (filter (\<lambda>c. Action c \<noteq> ActionDelete) (Changes p))) =
     [(ActionUpdate, KindProvider, ''p''), (ActionCreate, KindAgent, ''a'')]" by simp_all
  obtain out err w' calls where r: "?run ''n'' = ((out, err), (w', calls))" by (metis surj_pair)
  from apply_runs_what_was_confirmed [OF schedOk_echo r] no r show "snd (snd (?run ''n'')) = []" by auto
  obtain out err w' calls where r: "?run ''Yes'' = ((out, err), (w', calls))" by (metis surj_pair)
  from apply_runs_what_was_confirmed [OF schedOk_echo r] yes d p r lawful_echo
  show "keptCalls (snd (snd (?run ''Yes''))) = [(ActionUpdate, KindProvider, ''p''), (ActionCreate, KindAgent, ''a'')]" by auto
qed

end
