(* ===== verification/Tenants.thy ===== *)
theory Tenants
  imports ControlLoop Commands
begin

text \<open>
  \<open>internal/controller/tenant_manager.go\<close>: one controller per subdirectory. Discovery reads the disk and
  keeps the tenants whose manifest, connection and ids are in order; the running manager is an association
  list from tenant names to the states of their loops, in the order in which Go ranges over the map.
\<close>

section \<open>Discovery\<close>

record tenant =
  tenPath :: string
  tenEndpoint :: string
  tenToken :: string
  tenOpts :: "provider_option list"

text \<open>The options of a tenant's provider; \<open>None\<close> when a value does not resolve or the id is malformed.\<close>

definition tenantOptions :: "oscalls \<Rightarrow> connection \<Rightarrow> provider_option list option" where
  "tenantOptions o' conn =
     (case (if TenantID conn = [] then Some []
            else case Resolve o' (TenantID conn) of
              Inl err \<Rightarrow> None
            | Inr tid \<Rightarrow> if keyRe tid then Some [WithTenantID tid] else None) of
        None \<Rightarrow> None
      | Some opts \<Rightarrow>
          (if UserID conn = [] then Some opts
           else case Resolve o' (UserID conn) of
             Inl err \<Rightarrow> None
           | Inr uid \<Rightarrow> Some (opts @ [WithUserID uid])))"

definition tenantOf :: "oscalls \<Rightarrow> string \<Rightarrow> manifest \<Rightarrow> tenant option" where
  "tenantOf o' dir m =
     (let ep = Endpoint (Connection m); tok = Token (Connection m) in
      if ep = [] \<or> tok = [] then None
      else case Resolve o' ep of
        Inl err \<Rightarrow> None
      | Inr ep \<Rightarrow>
          (case Resolve o' tok of
             Inl err \<Rightarrow> None
           | Inr tok \<Rightarrow>
               map_option (\<lambda>opts. \<lparr>tenPath = dir, tenEndpoint = ep, tenToken = tok, tenOpts = opts\<rparr>)
                 (tenantOptions o' (Connection m))))"

fun discoverTenants ::
  "codecs \<Rightarrow> valid_env \<Rightarrow> (string \<Rightarrow> string) \<Rightarrow> oscalls \<Rightarrow> disk \<Rightarrow> string \<Rightarrow> (string \<times> fsnode) list \<Rightarrow>
   (string \<times> tenant) list \<Rightarrow> (string \<times> tenant) list go"
where
  "discoverTenants cs env sha o' d dir [] ts = Ret (Inr ts)"
| "discoverTenants cs env sha o' d dir ((name, node) # entries) ts =
     (if \<not> isDirNode node then discoverTenants cs env sha o' d dir entries ts
      else
        let tenantDir = JoinPath [dir, name] in
        case FetchFile cs env sha d tenantDir of
          Panic msg \<Rightarrow> Panic msg
        | Ret (Inl err) \<Rightarrow> discoverTenants cs env sha o' d dir entries ts
        | Ret (Inr (m, h)) \<Rightarrow>
            (case tenantOf o' tenantDir m of
               None \<Rightarrow> discoverTenants cs env sha o' d dir entries ts
             | Some t \<Rightarrow> discoverTenants cs env sha o' d dir entries (AList.update name t ts)))"

definition NewTenantManager ::
  "codecs \<Rightarrow> valid_env \<Rightarrow> (string \<Rightarrow> string) \<Rightarrow> oscalls \<Rightarrow> disk \<Rightarrow> string \<Rightarrow> (string \<times> tenant) list go"
where
  "NewTenantManager cs env sha o' d dir =
     (case readDir d dir of
        Inl err \<Rightarrow> Ret (Inl (wrapf ''read tenants dir: '' err))
      | Inr entries \<Rightarrow>
          bindGo (discoverTenants cs env sha o' d dir entries []) (\<lambda>r.
            case r of
              Inl err \<Rightarrow> Ret (Inl err)
            | Inr [] \<Rightarrow> Ret (Inl (errorf (''no valid tenants found in '' @ dir)))
            | Inr ts \<Rightarrow> Ret (Inr ts)))"

section \<open>The running manager\<close>

type_synonym 'w manager = "(string \<times> 'w loop_state) list"

definition GetTenant :: "'w manager \<Rightarrow> string \<Rightarrow> 'w loop_state option" where
  "GetTenant tm name = map_of tm name"

definition TriggerTenant :: "bool \<Rightarrow> string \<Rightarrow> 'w manager \<Rightarrow> bool \<times> 'w manager" where
  "TriggerTenant cancelled name tm =
     (case map_of tm name of
        None \<Rightarrow> (False, tm)
      | Some c \<Rightarrow> (True, AList.update name (TriggerC cancelled c) tm))"

definition TriggerAllTenants :: "bool \<Rightarrow> 'w manager \<Rightarrow> 'w manager" where
  "TriggerAllTenants cancelled tm = map (\<lambda>(name, c). (name, TriggerC cancelled c)) tm"

definition AggregatedStatus :: "'w manager \<Rightarrow> (string \<times> sync_status) list" where
  "AggregatedStatus tm = map (\<lambda>(name, c). (name, tracker (ctlState c))) tm"

definition addMetrics :: "metrics \<Rightarrow> metrics \<Rightarrow> metrics" where
  "addMetrics snap agg =
     (let agg = agg\<lparr>SyncSuccess := SyncSuccess agg + SyncSuccess snap, SyncErrors := SyncErrors agg + SyncErrors snap,
            DriftDetected := DriftDetected agg + DriftDetected snap, DriftResources := DriftResources agg + DriftResources snap,
            ProviderVerifyErrors := ProviderVerifyErrors agg + ProviderVerifyErrors snap,
            WriteOnlyHashMismatches := WriteOnlyHashMismatches agg + WriteOnlyHashMismatches snap\<rparr>
      in if metLastSyncTime agg < metLastSyncTime snap
         then agg\<lparr>metLastSyncTime := metLastSyncTime snap, SyncDuration := SyncDuration snap\<rparr> else agg)"

definition AggregatedMetrics :: "'w manager \<Rightarrow> metrics" where
  "AggregatedMetrics tm = fold (\<lambda>(name, c). addMetrics (metricsOf (ctlState c))) tm zeroMetrics"

section \<open>Facts\<close>

definition sound_tenant :: "codecs \<Rightarrow> valid_env \<Rightarrow> disk \<Rightarrow> string \<Rightarrow> (string \<times> fsnode) list \<Rightarrow> string \<times> tenant \<Rightarrow> bool" where
  "sound_tenant cs env d dir entries = (\<lambda>(name, t).
     (\<exists>node. (name, node) \<in> set entries \<and> isDirNode node) \<and> tenPath t = JoinPath [dir, name] \<and>
     (\<exists>m. LoadM cs d (tenPath t) = Ret (Inr m) \<and> valid_manifest (env\<lparr>veDisk := d\<rparr>) m) \<and>
     (\<forall>tid. WithTenantID tid \<in> set (tenOpts t) \<longrightarrow> keyRe tid))"

lemma tenantOf_Some:
  "tenantOf o' dir m = Some t \<Longrightarrow> tenPath t = dir \<and> (\<forall>tid. WithTenantID tid \<in> set (tenOpts t) \<longrightarrow> keyRe tid)"
  by (auto simp: tenantOf_def tenantOptions_def Let_def split: if_splits sum.splits option.splits)

lemma set_AList_update: "set (AList.update k v al) \<subseteq> insert (k, v) (set al)"
  by (induction al) auto

lemma discoverTenants_sound:
  assumes "discoverTenants cs env sha o' d dir entries ts = Ret (Inr ts')"
    and "set entries \<subseteq> set all" "list_all (sound_tenant cs env d dir all) ts" "distinct (map fst ts)"
  shows "list_all (sound_tenant cs env d dir all) ts' \<and> distinct (map fst ts')"
  using assms
proof (induction entries arbitrary: ts)
  case (Cons e entries)
  obtain name node where e: "e = (name, node)" by fastforce
  let ?dir = "JoinPath [dir, name]"
  consider (skip) "discoverTenants cs env sha o' d dir entries ts = Ret (Inr ts')"
    | (keep) m h t where "isDirNode node" "FetchFile cs env sha d ?dir = Ret (Inr (m, h))" "tenantOf o' ?dir m = Some t"
        "discoverTenants cs env sha o' d dir entries (AList.update name t ts) = Ret (Inr ts')"
    using Cons.prems(1) e by (auto simp: Let_def split: go.splits sum.splits option.splits if_splits)
  then show ?case
  proof cases
    case skip
    with Cons show ?thesis by simp
  next
    case keep
    from FetchFile_Inr [OF keep(2)] tenantOf_Some [OF keep(3)] keep(1) Cons.prems(2) e
    have "sound_tenant cs env d dir all (name, t)" by (auto simp: sound_tenant_def)
    with Cons.prems(3) set_AList_update [of name t ts]
    have "list_all (sound_tenant cs env d dir all) (AList.update name t ts)" by (auto simp: list_all_iff)
    moreover have "distinct (map fst (AList.update name t ts))" using Cons.prems(4) by (simp add: distinct_update)
    ultimately show ?thesis using Cons.IH [OF keep(4)] Cons.prems(2) by simp
  qed
qed simp

lemma NewTenantManager_sound:
  assumes "NewTenantManager cs env sha o' d dir = Ret (Inr ts)"
  shows "\<exists>entries. readDir d dir = Inr entries \<and> ts \<noteq> [] \<and> distinct (map fst ts) \<and>
    list_all (sound_tenant cs env d dir entries) ts"
proof -
  from assms obtain entries where r: "readDir d dir = Inr entries" by (auto simp: NewTenantManager_def split: sum.splits)
  with assms have "discoverTenants cs env sha o' d dir entries [] = Ret (Inr ts) \<and> ts \<noteq> []"
    by (cases "discoverTenants cs env sha o' d dir entries []") (auto simp: NewTenantManager_def split: sum.splits list.splits)
  with r discoverTenants_sound [of cs env sha o' d dir entries "[]" ts entries] show ?thesis by auto
qed

text \<open>Triggering one tenant leaves the others alone.\<close>

lemma TriggerTenant_only:
  assumes "TriggerTenant cancelled name tm = (ok, tm')"
  shows "(ok \<longleftrightarrow> name \<in> fst ` set tm) \<and> (\<forall>other. other \<noteq> name \<longrightarrow> GetTenant tm' other = GetTenant tm other) \<and>
    GetTenant tm' name = map_option (TriggerC cancelled) (GetTenant tm name)"
proof (cases "map_of tm name")
  case None
  moreover from None have "name \<notin> fst ` set tm" by (simp add: map_of_eq_None_iff)
  ultimately show ?thesis using assms by (auto simp: TriggerTenant_def GetTenant_def)
next
  case (Some c)
  then have "name \<in> fst ` set tm" by (auto dest: map_of_SomeD intro: rev_image_eqI)
  with assms Some show ?thesis by (auto simp: TriggerTenant_def GetTenant_def gomap_simps)
qed

section \<open>Aggregation\<close>

definition metricsList :: "'w manager \<Rightarrow> metrics list" where
  "metricsList tm = map (\<lambda>(name, c). metricsOf (ctlState c)) tm"

lemma AggregatedMetrics_fold: "AggregatedMetrics tm = fold addMetrics (metricsList tm) zeroMetrics"
proof -
  have "fold (\<lambda>(name, c). addMetrics (metricsOf (ctlState c))) tm z = fold addMetrics (metricsList tm) z" for z
    by (induction tm arbitrary: z) (auto simp: metricsList_def)
  then show ?thesis by (simp add: AggregatedMetrics_def)
qed

lemma fold_addMetrics:
  "SyncSuccess (fold addMetrics ms z) = SyncSuccess z + sum_list (map SyncSuccess ms)"
  "SyncErrors (fold addMetrics ms z) = SyncErrors z + sum_list (map SyncErrors ms)"
  "DriftDetected (fold addMetrics ms z) = DriftDetected z + sum_list (map DriftDetected ms)"
  "DriftResources (fold addMetrics ms z) = DriftResources z + sum_list (map DriftResources ms)"
  "ProviderVerifyErrors (fold addMetrics ms z) = ProviderVerifyErrors z + sum_list (map ProviderVerifyErrors ms)"
  "WriteOnlyHashMismatches (fold addMetrics ms z) = WriteOnlyHashMismatches z + sum_list (map WriteOnlyHashMismatches ms)"
  "metLastSyncTime (fold addMetrics ms z) = fold max (map metLastSyncTime ms) (metLastSyncTime z)"
  by (induction ms arbitrary: z) (simp_all add: addMetrics_def Let_def max_def)

lemma fold_max_set: "fold max xs (z :: int) = Max (insert z (set xs))"
  by (metis Max.set_eq_fold list.simps(15))

lemma sum_list_perm: "mset xs = mset ys \<Longrightarrow> sum_list (map f xs) = sum_list (map (f :: 'a \<Rightarrow> int) ys)"
  by (metis mset_map sum_mset_sum_list)

text \<open>The order of the map does not matter, but for the duration when two tenants synced at the same time.\<close>

lemma AggregatedMetrics_perm:
  assumes "mset tm = mset tm'"
  shows "(AggregatedMetrics tm)\<lparr>SyncDuration := 0\<rparr> = (AggregatedMetrics tm')\<lparr>SyncDuration := 0\<rparr>"
proof -
  have m: "mset (metricsList tm) = mset (metricsList tm')" using assms by (simp add: metricsList_def)
  then have "set (metricsList tm) = set (metricsList tm')" by (rule mset_eq_setD)
  then show ?thesis
    using sum_list_perm [OF m] by (simp add: AggregatedMetrics_fold fold_addMetrics fold_max_set metrics.equality)
qed

end
