(* ===== verification/Notifier.thy ===== *)
theory Notifier
  imports Controller
begin

text \<open>
  \<open>internal/notifier\<close>: drift and verification alerts to a web hook. \<open>json.Marshal\<close> and the HTTP client
  are parameters; a payload is the dynamic value that is marshalled. Strings hold the UTF-8 bytes of the
  source.
\<close>

section \<open>Payloads\<close>

definition bullet :: string where "bullet = map char_of [226 :: nat, 128, 162]"
definition emDash :: string where "emDash = map char_of [226 :: nat, 128, 148]"

definition actionText :: "action \<Rightarrow> string" where
  "actionText a =
     (case a of ActionCreate \<Rightarrow> ''create'' | ActionUpdate \<Rightarrow> ''update'' | ActionNoop \<Rightarrow> ''noop''
      | ActionDelete \<Rightarrow> ''delete'' | ActionUnset \<Rightarrow> [])"

definition backtick :: string where "backtick = [char_of (96 :: nat)]"

definition driftSummary :: "change list \<Rightarrow> string" where
  "driftSummary changes =
     concat (map (\<lambda>ch. bullet @ '' **'' @ chKind ch @ ''/'' @ chName ch @ ''** '' @ emDash @ '' '' @
       backtick @ actionText (Action ch) @ backtick @ [nl]) changes)"

definition driftTitle :: "change list \<Rightarrow> string" where
  "driftTitle changes = ''GCPlane drift detected ('' @ showNat (length changes) @ '' resource(s))''"

definition slackSummary :: "change list \<Rightarrow> string" where
  "slackSummary changes =
     concat (map (\<lambda>ch. bullet @ '' *'' @ chKind ch @ ''/'' @ chName ch @ ''* '' @ emDash @ '' '' @
       backtick @ actionText (Action ch) @ backtick @ [nl]) changes)"

text \<open>The five shapes, over a title, a summary, a colour and a card id.\<close>

definition slackPayload :: "string \<Rightarrow> string \<Rightarrow> gval" where
  "slackPayload title summary =
     GMap [(''blocks'', GList
       [GMap [(''type'', GStr ''header''), (''text'', GMap [(''type'', GStr ''plain_text''), (''text'', GStr title)])],
        GMap [(''type'', GStr ''section''), (''text'', GMap [(''type'', GStr ''mrkdwn''), (''text'', GStr summary)])]])]"

definition discordPayload :: "string \<Rightarrow> string \<Rightarrow> int \<Rightarrow> gval" where
  "discordPayload title summary color =
     GMap [(''embeds'', GList [GMap [(''title'', GStr title), (''description'', GStr summary), (''color'', GInt color)]])]"

definition googleChatPayload :: "string \<Rightarrow> string \<Rightarrow> string \<Rightarrow> gval" where
  "googleChatPayload cardId title summary =
     GMap [(''cardsV2'', GList [GMap [(''cardId'', GStr cardId),
       (''card'', GMap [(''header'', GMap [(''title'', GStr title)]),
         (''sections'', GList [GMap [(''widgets'', GList [GMap [(''textParagraph'', GMap [(''text'', GStr summary)])]])]])])]])]"

definition teamsPayload :: "string \<Rightarrow> string \<Rightarrow> string \<Rightarrow> gval" where
  "teamsPayload title summary color =
     GMap [(''@type'', GStr ''MessageCard''), (''@context'', GStr ''http://schema.org/extensions''),
       (''summary'', GStr title), (''themeColor'', GStr color), (''title'', GStr title),
       (''sections'', GList [GMap [(''text'', GStr summary)]])]"

definition telegramPayload :: "string \<Rightarrow> string \<Rightarrow> gval" where
  "telegramPayload title summary =
     GMap [(''text'', GStr (''*'' @ title @ ''*'' @ [nl, nl] @ summary)), (''parse_mode'', GStr ''Markdown'')]"

definition buildSlackPayload :: "change list \<Rightarrow> gval" where
  "buildSlackPayload changes = slackPayload (driftTitle changes) (slackSummary changes)"

definition buildDiscordPayload :: "change list \<Rightarrow> gval" where
  "buildDiscordPayload changes = discordPayload (driftTitle changes) (driftSummary changes) 16750848"

definition buildGoogleChatPayload :: "change list \<Rightarrow> gval" where
  "buildGoogleChatPayload changes = googleChatPayload ''drift-alert'' (driftTitle changes) (driftSummary changes)"

definition buildTeamsPayload :: "change list \<Rightarrow> gval" where
  "buildTeamsPayload changes = teamsPayload (driftTitle changes) (driftSummary changes) ''FF8C00''"

definition buildTelegramPayload :: "change list \<Rightarrow> gval" where
  "buildTelegramPayload changes = telegramPayload (driftTitle changes) (driftSummary changes)"

definition buildPayload :: "string \<Rightarrow> change list \<Rightarrow> gval" where
  "buildPayload format changes =
     (if format = ''discord'' then buildDiscordPayload changes
      else if format = ''googlechat'' then buildGoogleChatPayload changes
      else if format = ''teams'' then buildTeamsPayload changes
      else if format = ''telegram'' then buildTelegramPayload changes
      else buildSlackPayload changes)"

definition verifyFailureTitle :: "provider_verify_failure list \<Rightarrow> string" where
  "verifyFailureTitle failures = ''GCPlane provider key verification FAILED ('' @ showNat (length failures) @ '' provider(s))''"

definition verifyFailureSummary :: "provider_verify_failure list \<Rightarrow> string" where
  "verifyFailureSummary failures =
     concat (map (\<lambda>f. bullet @ '' **'' @ pvfName f @ ''** '' @ emDash @ '' '' @ pvfError f @ [nl]) failures)"

definition buildSlackVerifyPayload :: "provider_verify_failure list \<Rightarrow> gval" where
  "buildSlackVerifyPayload failures =
     slackPayload (verifyFailureTitle failures)
       (concat (map (\<lambda>f. bullet @ '' *'' @ pvfName f @ ''* '' @ emDash @ '' '' @ pvfError f @ [nl]) failures))"

definition buildDiscordVerifyPayload :: "provider_verify_failure list \<Rightarrow> gval" where
  "buildDiscordVerifyPayload failures = discordPayload (verifyFailureTitle failures) (verifyFailureSummary failures) 15158332"

definition buildGoogleChatVerifyPayload :: "provider_verify_failure list \<Rightarrow> gval" where
  "buildGoogleChatVerifyPayload failures =
     googleChatPayload ''verify-alert'' (verifyFailureTitle failures) (verifyFailureSummary failures)"

definition buildTeamsVerifyPayload :: "provider_verify_failure list \<Rightarrow> gval" where
  "buildTeamsVerifyPayload failures = teamsPayload (verifyFailureTitle failures) (verifyFailureSummary failures) ''FF0000''"

definition buildTelegramVerifyPayload :: "provider_verify_failure list \<Rightarrow> gval" where
  "buildTelegramVerifyPayload failures = telegramPayload (verifyFailureTitle failures) (verifyFailureSummary failures)"

definition buildVerifyFailurePayload :: "string \<Rightarrow> provider_verify_failure list \<Rightarrow> gval" where
  "buildVerifyFailurePayload format failures =
     (if format = ''discord'' then buildDiscordVerifyPayload failures
      else if format = ''googlechat'' then buildGoogleChatVerifyPayload failures
      else if format = ''teams'' then buildTeamsVerifyPayload failures
      else if format = ''telegram'' then buildTelegramVerifyPayload failures
      else buildSlackVerifyPayload failures)"

section \<open>Sending\<close>

text \<open>\<open>post url body\<close> sends the request and returns the status of the response; building it may fail.\<close>

record 'w webhook =
  WebhookURL :: string
  Format :: string
  marshalPayload :: "gval \<Rightarrow> string result"
  badURL :: "string \<Rightarrow> goerr option"
  post :: "string \<Rightarrow> string \<Rightarrow> 'w \<Rightarrow> int result \<times> 'w"

definition NewNotifier :: "(gval \<Rightarrow> string result) \<Rightarrow> (string \<Rightarrow> goerr option) \<Rightarrow>
    (string \<Rightarrow> string \<Rightarrow> 'w \<Rightarrow> int result \<times> 'w) \<Rightarrow> string \<Rightarrow> string \<Rightarrow> 'w webhook" where
  "NewNotifier mp bad po url format =
     \<lparr>WebhookURL = url, Format = (if format = [] then ''slack'' else format), marshalPayload = mp, badURL = bad, post = po\<rparr>"

definition sendPayload :: "'w webhook \<Rightarrow> string \<Rightarrow> gval \<Rightarrow> 'w \<Rightarrow> goerr option \<times> 'w" where
  "sendPayload n marshalErr payload w =
     (case marshalPayload n payload of
        Inl err \<Rightarrow> (Some (wrapf marshalErr err), w)
      | Inr body \<Rightarrow>
          (case badURL n (WebhookURL n) of
             Some err \<Rightarrow> (Some (wrapf ''notifier: build request: '' err), w)
           | None \<Rightarrow>
               (case post n (WebhookURL n) body w of
                  (Inl err, w') \<Rightarrow> (Some (wrapf ''notifier: send request: '' err), w')
                | (Inr st, w') \<Rightarrow>
                    (if st < 200 \<or> 300 \<le> st
                     then (Some (errorf (''notifier: unexpected status '' @ showInt st)), w')
                     else (None, w')))))"

definition NotifyDrift :: "'w webhook \<Rightarrow> change list \<Rightarrow> 'w \<Rightarrow> goerr option \<times> 'w" where
  "NotifyDrift n changes w =
     (if WebhookURL n = [] \<or> changes = [] then (None, w)
      else sendPayload n ''notifier: marshal payload: '' (buildPayload (Format n) changes) w)"

definition NotifyProviderVerifyFailure :: "'w webhook \<Rightarrow> provider_verify_failure list \<Rightarrow> 'w \<Rightarrow> goerr option \<times> 'w" where
  "NotifyProviderVerifyFailure n failures w =
     (if WebhookURL n = [] \<or> failures = [] then (None, w)
      else sendPayload n ''notifier: marshal verify payload: '' (buildVerifyFailurePayload (Format n) failures) w)"

section \<open>Facts\<close>

text \<open>Every drifted resource is named in the alert, in every format.\<close>

fun textsOf :: "gval \<Rightarrow> string list" where
  "textsOf (GStr s) = [s]"
| "textsOf (GList vs) = concat (map textsOf vs)"
| "textsOf (GMap m) = concat (map (\<lambda>(k, v). textsOf v) m)"
| "textsOf v = []"

definition mentions :: "string \<Rightarrow> gval \<Rightarrow> bool" where
  "mentions s v \<longleftrightarrow> (\<exists>t pre post. t \<in> set (textsOf v) \<and> t = pre @ s @ post)"

lemma concat_mention: "x \<in> set xs \<Longrightarrow> f x = a @ s @ b \<Longrightarrow> \<exists>pre post. concat (map f xs) = pre @ s @ post"
  by (metis append.assoc concat.simps(2) concat_append in_set_conv_decomp list.simps(9) map_append)

lemma summary_mentions:
  assumes "ch \<in> set changes"
  shows "\<exists>pre post. driftSummary changes = pre @ (chKind ch @ ''/'' @ chName ch) @ post"
    and "\<exists>pre post. slackSummary changes = pre @ (chKind ch @ ''/'' @ chName ch) @ post"
proof -
  let ?s = "chKind ch @ ''/'' @ chName ch"
  let ?z = "emDash @ '' '' @ backtick @ actionText (Action ch) @ backtick @ [nl]"
  have "(\<lambda>ch. bullet @ '' **'' @ chKind ch @ ''/'' @ chName ch @ ''** '' @ emDash @ '' '' @
      backtick @ actionText (Action ch) @ backtick @ [nl]) ch = (bullet @ '' **'') @ ?s @ (''** '' @ ?z)" by simp
  then show "\<exists>pre post. driftSummary changes = pre @ ?s @ post"
    unfolding driftSummary_def by (rule concat_mention [OF assms])
  have "(\<lambda>ch. bullet @ '' *'' @ chKind ch @ ''/'' @ chName ch @ ''* '' @ emDash @ '' '' @
      backtick @ actionText (Action ch) @ backtick @ [nl]) ch = (bullet @ '' *'') @ ?s @ (''* '' @ ?z)" by simp
  then show "\<exists>pre post. slackSummary changes = pre @ ?s @ post"
    unfolding slackSummary_def by (rule concat_mention [OF assms])
qed

lemma mentions_text: "t \<in> set (textsOf v) \<Longrightarrow> \<exists>pre post. t = pre @ s @ post \<Longrightarrow> mentions s v"
  unfolding mentions_def by blast

lemma alert_names_every_change:
  assumes "ch \<in> set changes"
  shows "mentions (chKind ch @ ''/'' @ chName ch) (buildPayload format changes)"
proof -
  obtain pre post where d: "driftSummary changes = pre @ (chKind ch @ ''/'' @ chName ch) @ post"
    using summary_mentions(1) [OF assms] by blast
  have tg: "\<exists>pre post. ''*'' @ driftTitle changes @ ''*'' @ [nl, nl] @ driftSummary changes =
      pre @ (chKind ch @ ''/'' @ chName ch) @ post"
    by (rule exI [of _ "''*'' @ driftTitle changes @ ''*'' @ [nl, nl] @ pre"], rule exI [of _ post]) (simp add: d)
  show ?thesis
    unfolding buildPayload_def buildDiscordPayload_def buildGoogleChatPayload_def buildTeamsPayload_def
      buildTelegramPayload_def buildSlackPayload_def discordPayload_def googleChatPayload_def teamsPayload_def
      telegramPayload_def slackPayload_def
    using mentions_text [OF _ summary_mentions(1) [OF assms]] mentions_text [OF _ summary_mentions(2) [OF assms]]
      mentions_text [OF _ tg]
    by (simp split: if_split)
qed

end
