(* ===== verification/Server.thy ===== *)
theory Server
  imports Tenants Notifier
begin

text \<open>
  \<open>internal/server\<close>: the HTTP endpoints of \<open>gcplane serve\<close>, over a single controller or a tenant
  manager. A handler takes the request and the state and returns the response with the new state;
  \<open>encoding/json\<close>, HMAC-SHA256 in hexadecimal and the rendering of seconds are parameters.
\<close>

section \<open>Requests and responses\<close>

record web_request =
  wrHeaders :: "(string \<times> string) list"
  wrBody :: "string result"
  wrTenant :: string

record web_response =
  wpCode :: int
  wpType :: string
  wpBody :: string

record 'w server =
  srvSingle :: "'w loop_state"
  srvManager :: "'w manager option"
  webhookSecret :: string

record srv_codec =
  encStatus :: "sync_status \<Rightarrow> string"
  encStatuses :: "(string \<times> sync_status) list \<Rightarrow> string"
  encResult :: "sync_result \<Rightarrow> string"
  hmacHex :: "string \<Rightarrow> string \<Rightarrow> string"
  fmtSeconds :: "int \<Rightarrow> string"

definition jsonResponse :: "int \<Rightarrow> string \<Rightarrow> web_response" where
  "jsonResponse st body = \<lparr>wpCode = st, wpType = ''application/json'', wpBody = body\<rparr>"

definition bareResponse :: "int \<Rightarrow> web_response" where
  "bareResponse st = \<lparr>wpCode = st, wpType = [], wpBody = []\<rparr>"

definition dq :: string where "dq = [char_of (34 :: nat)]"

text \<open>An object with one string field, as the literals of the handlers write it.\<close>

definition jsonField :: "string \<Rightarrow> string \<Rightarrow> string" where
  "jsonField k v = ''{'' @ dq @ k @ dq @ '':'' @ dq @ v @ dq @ ''}''"

section \<open>Handlers\<close>

definition handleHealthz :: web_response where
  "handleHealthz = jsonResponse 200 (jsonField ''status'' ''ok'')"

definition isReady :: "'w server \<Rightarrow> bool" where
  "isReady s =
     (case srvManager s of
        Some tm \<Rightarrow> list_all (\<lambda>(name, c). IsSynced (tracker (ctlState c))) tm
      | None \<Rightarrow> IsSynced (tracker (ctlState (srvSingle s))))"

definition handleReadyz :: "'w server \<Rightarrow> web_response" where
  "handleReadyz s =
     (if isReady s then jsonResponse 200 (jsonField ''status'' ''ready'')
      else jsonResponse 503 (jsonField ''status'' ''not ready''))"

definition handleStatus :: "srv_codec \<Rightarrow> 'w server \<Rightarrow> web_response" where
  "handleStatus cd s =
     (case srvManager s of
        Some tm \<Rightarrow> jsonResponse 200 (encStatuses cd (AggregatedStatus tm))
      | None \<Rightarrow> jsonResponse 200 (encStatus cd (tracker (ctlState (srvSingle s)))))"

definition noTenant :: "string \<Rightarrow> web_response" where
  "noTenant name = jsonResponse 404 (''{'' @ dq @ ''error'' @ dq @ '':'' @ dq @ ''tenant '' @ goQuote name @ '' not found'' @ dq @ ''}'')"

definition handleTenantStatus :: "srv_codec \<Rightarrow> web_request \<Rightarrow> 'w server \<Rightarrow> web_response" where
  "handleTenantStatus cd r s =
     (case srvManager s of
        None \<Rightarrow> jsonResponse 404 (jsonField ''error'' ''multi-tenant not enabled'')
      | Some tm \<Rightarrow>
          (case GetTenant tm (wrTenant r) of
             None \<Rightarrow> noTenant (wrTenant r)
           | Some c \<Rightarrow> jsonResponse 200 (encStatus cd (tracker (ctlState c)))))"

text \<open>
  \<open>handleSync\<close>: with a manager it triggers every tenant and returns at once; otherwise it answers with what
  \<open>TriggerAndWait\<close> returned. That call interleaves with the loop (see \<open>ControlLoop\<close>), so its
  outcome, the result and the state of the loop when it returns, is the argument \<open>waited\<close>.
\<close>

definition handleSync :: "srv_codec \<Rightarrow> bool \<Rightarrow> sync_result result \<times> 'w loop_state \<Rightarrow> 'w server \<Rightarrow> web_response \<times> 'w server" where
  "handleSync cd cancelled waited s =
     (case srvManager s of
        Some tm \<Rightarrow> (jsonResponse 200 (jsonField ''message'' ''sync triggered''), s\<lparr>srvManager := Some (TriggerAllTenants cancelled tm)\<rparr>)
      | None \<Rightarrow>
          (let s' = s\<lparr>srvSingle := snd waited\<rparr> in
           case fst waited of
             Inl err \<Rightarrow>
               (if errorsIs err ErrContext then (jsonResponse 504 (jsonField ''error'' ''sync timed out''), s')
                else (jsonResponse 500 (''{'' @ dq @ ''error'' @ dq @ '':'' @ goQuote (errText err) @ ''}''), s'))
           | Inr res \<Rightarrow> (jsonResponse 200 (encResult cd res), s')))"

definition handleTenantSync :: "bool \<Rightarrow> web_request \<Rightarrow> 'w server \<Rightarrow> web_response \<times> 'w server" where
  "handleTenantSync cancelled r s =
     (case srvManager s of
        None \<Rightarrow> (jsonResponse 404 (jsonField ''error'' ''multi-tenant not enabled''), s)
      | Some tm \<Rightarrow>
          (case TriggerTenant cancelled (wrTenant r) tm of
             (False, _) \<Rightarrow> (noTenant (wrTenant r), s)
           | (True, tm') \<Rightarrow>
               (jsonResponse 200 (''{'' @ dq @ ''message'' @ dq @ '':'' @ dq @ ''sync triggered'' @ dq @ '','' @ dq @ ''tenant'' @ dq @ '':'' @
                  goQuote (wrTenant r) @ ''}''), s\<lparr>srvManager := Some tm'\<rparr>)))"

text \<open>\<open>Header.Get\<close>: the value of a header, empty when it is absent.\<close>

definition headerOf :: "web_request \<Rightarrow> string \<Rightarrow> string" where
  "headerOf r k = (case map_of (wrHeaders r) k of None \<Rightarrow> [] | Some v \<Rightarrow> v)"

definition verifyWebhookSignature :: "srv_codec \<Rightarrow> string \<Rightarrow> web_request \<Rightarrow> string \<Rightarrow> bool" where
  "verifyWebhookSignature cd secret r body =
     (let sig = headerOf r ''X-Hub-Signature-256''; tok = headerOf r ''X-Gitlab-Token'' in
      if sig \<noteq> [] then ''sha256='' @ hmacHex cd secret body = sig
      else if tok \<noteq> [] then tok = secret
      else False)"

definition maxWebhookBody :: int where
  "maxWebhookBody = 1048576"

definition triggerAny :: "bool \<Rightarrow> 'w server \<Rightarrow> 'w server" where
  "triggerAny cancelled s =
     (case srvManager s of
        Some tm \<Rightarrow> s\<lparr>srvManager := Some (TriggerAllTenants cancelled tm)\<rparr>
      | None \<Rightarrow> s\<lparr>srvSingle := TriggerC cancelled (srvSingle s)\<rparr>)"

definition handleWebhook :: "srv_codec \<Rightarrow> bool \<Rightarrow> web_request \<Rightarrow> 'w server \<Rightarrow> web_response \<times> 'w server" where
  "handleWebhook cd cancelled r s =
     (if webhookSecret s \<noteq> []
      then (case wrBody r of
              Inl err \<Rightarrow> (bareResponse 400, s)
            | Inr bytes \<Rightarrow>
                (if \<not> verifyWebhookSignature cd (webhookSecret s) r (takeI maxWebhookBody bytes)
                 then (bareResponse 401, s)
                 else (bareResponse 200, triggerAny cancelled s)))
      else (bareResponse 200, triggerAny cancelled s))"

definition metricLines :: "string \<Rightarrow> string \<Rightarrow> string \<Rightarrow> string" where
  "metricLines name help kind = ''# HELP '' @ name @ '' '' @ help @ [nl] @ ''# TYPE '' @ name @ '' '' @ kind @ [nl]"

definition handleMetrics :: "srv_codec \<Rightarrow> 'w server \<Rightarrow> web_response" where
  "handleMetrics cd s =
     (let m = (case srvManager s of Some tm \<Rightarrow> AggregatedMetrics tm | None \<Rightarrow> metricsOf (ctlState (srvSingle s)))
      in \<lparr>wpCode = 200, wpType = ''text/plain; version=0.0.4; charset=utf-8'', wpBody =
        metricLines ''gcplane_sync_total'' ''Total number of sync operations'' ''counter'' @
        ''gcplane_sync_total{status='' @ dq @ ''success'' @ dq @ ''} '' @ showInt (SyncSuccess m) @ [nl] @
        ''gcplane_sync_total{status='' @ dq @ ''error'' @ dq @ ''} '' @ showInt (SyncErrors m) @ [nl] @
        metricLines ''gcplane_sync_duration_seconds'' ''Duration of last sync'' ''gauge'' @
        ''gcplane_sync_duration_seconds '' @ fmtSeconds cd (SyncDuration m) @ [nl] @
        metricLines ''gcplane_last_sync_timestamp'' ''Unix timestamp of last sync'' ''gauge'' @
        ''gcplane_last_sync_timestamp '' @ showInt (metLastSyncTime m) @ [nl] @
        metricLines ''gcplane_drift_detected_total'' ''Total number of sync cycles where drift was detected'' ''counter'' @
        ''gcplane_drift_detected_total '' @ showInt (DriftDetected m) @ [nl] @
        metricLines ''gcplane_drift_resources'' ''Number of resources that drifted in the last sync cycle'' ''gauge'' @
        ''gcplane_drift_resources '' @ showInt (DriftResources m) @ [nl] @
        metricLines ''gcplane_provider_verify_errors_total'' ''Total provider key verification failures'' ''counter'' @
        ''gcplane_provider_verify_errors_total '' @ showInt (ProviderVerifyErrors m) @ [nl] @
        metricLines ''gcplane_write_only_hash_mismatches_total'' ''Total write-only hash mismatches detected'' ''counter'' @
        ''gcplane_write_only_hash_mismatches_total '' @ showInt (WriteOnlyHashMismatches m) @ [nl]\<rparr>)"

section \<open>Routes\<close>

datatype endpoint_handler = Healthz | Readyz | Metrics | Status | TenantStatus string | Sync | TenantSync string | Webhook

text \<open>The patterns of the mux over the segments of a path; \<open>{tenant}\<close> matches one segment, a GET pattern also HEAD.\<close>

definition isGet :: "string \<Rightarrow> bool" where
  "isGet meth \<longleftrightarrow> meth = ''GET'' \<or> meth = ''HEAD''"

definition route :: "string \<Rightarrow> string list \<Rightarrow> endpoint_handler option" where
  "route meth segs =
     (if isGet meth then
        (if segs = [''healthz''] then Some Healthz
         else if segs = [''readyz''] then Some Readyz
         else if segs = [''metrics''] then Some Metrics
         else if segs = [''api'', ''v1'', ''status''] then Some Status
         else if take 3 segs = [''api'', ''v1'', ''status''] \<and> length segs = 4 \<and> last segs \<noteq> [] then Some (TenantStatus (last segs))
         else None)
      else if meth = ''POST'' then
        (if segs = [''api'', ''v1'', ''sync''] then Some Sync
         else if take 3 segs = [''api'', ''v1'', ''sync''] \<and> length segs = 4 \<and> last segs \<noteq> [] then Some (TenantSync (last segs))
         else if segs = [''api'', ''v1'', ''webhook'', ''git''] then Some Webhook
         else None)
      else None)"

text \<open>One request against the server; \<open>None\<close> when no pattern matches and the mux answers by itself.\<close>

definition serveRequest ::
  "srv_codec \<Rightarrow> bool \<Rightarrow> sync_result result \<times> 'w loop_state \<Rightarrow> string \<Rightarrow> string list \<Rightarrow> web_request \<Rightarrow> 'w server \<Rightarrow>
   web_response option \<times> 'w server"
where
  "serveRequest cd cancelled waited meth segs r s =
     (case route meth segs of
        None \<Rightarrow> (None, s)
      | Some h \<Rightarrow>
          (case h of
             Healthz \<Rightarrow> (Some handleHealthz, s)
           | Readyz \<Rightarrow> (Some (handleReadyz s), s)
           | Metrics \<Rightarrow> (Some (handleMetrics cd s), s)
           | Status \<Rightarrow> (Some (handleStatus cd s), s)
           | TenantStatus t \<Rightarrow> (Some (handleTenantStatus cd (r\<lparr>wrTenant := t\<rparr>) s), s)
           | Sync \<Rightarrow> map_prod Some id (handleSync cd cancelled waited s)
           | TenantSync t \<Rightarrow> map_prod Some id (handleTenantSync cancelled (r\<lparr>wrTenant := t\<rparr>) s)
           | Webhook \<Rightarrow> map_prod Some id (handleWebhook cd cancelled r s)))"

section \<open>Properties\<close>

text \<open>What an accepted web hook must carry: the HMAC of the first megabyte of its body, or the secret itself.\<close>

definition signed :: "srv_codec \<Rightarrow> string \<Rightarrow> web_request \<Rightarrow> bool" where
  "signed cd secret r \<longleftrightarrow> (\<exists>bytes. wrBody r = Inr bytes \<and>
     (if headerOf r ''X-Hub-Signature-256'' \<noteq> []
      then headerOf r ''X-Hub-Signature-256'' = ''sha256='' @ hmacHex cd secret (take (nat maxWebhookBody) bytes)
      else headerOf r ''X-Gitlab-Token'' = secret))"

lemma handleWebhook_signed:
  assumes "webhookSecret s \<noteq> []" "handleWebhook cd cancelled r s = (resp, s')"
  shows "if signed cd (webhookSecret s) r then wpCode resp = 200 \<and> s' = triggerAny cancelled s
    else wpCode resp \<in> {400, 401} \<and> s' = s"
  using assms
  by (auto simp: handleWebhook_def signed_def verifyWebhookSignature_def bareResponse_def takeI_take Let_def
      split: sum.splits if_splits)

lemma route_Get: "isGet meth \<Longrightarrow> route meth segs = Some h \<Longrightarrow> h \<in> {Healthz, Readyz, Metrics, Status} \<union> range TenantStatus"
  by (auto simp: route_def split: if_splits)

lemma route_Post: "route meth segs = Some h \<Longrightarrow> \<not> isGet meth \<Longrightarrow> meth = ''POST''"
  by (auto simp: route_def split: if_splits)

text \<open>What the reading endpoints see of the state: the controllers without their channels and timers.\<close>

definition ctlView :: "'w manager \<Rightarrow> (string \<times> ctl) list" where
  "ctlView tm = map (\<lambda>(name, c). (name, ctlState c)) tm"

definition sameView :: "'w server \<Rightarrow> 'w server \<Rightarrow> bool" where
  "sameView s s' \<longleftrightarrow> map_option ctlView (srvManager s) = map_option ctlView (srvManager s') \<and>
     ctlState (srvSingle s) = ctlState (srvSingle s')"

lemma TriggerC_ctl [simp]: "ctlState (TriggerC cancelled c) = ctlState c"
  by (simp add: TriggerC_def)

lemma ctlView_update:
  "map_of tm name = Some c \<Longrightarrow> ctlState c' = ctlState c \<Longrightarrow> ctlView (AList.update name c' tm) = ctlView tm"
  by (induction tm) (auto simp: ctlView_def split: if_splits)

lemma ctlView_triggers:
  "ctlView (TriggerAllTenants cancelled tm) = ctlView tm"
  "ctlView (snd (TriggerTenant cancelled name tm)) = ctlView tm"
  by (auto simp: TriggerAllTenants_def TriggerTenant_def ctlView_update split: option.split)
     (simp add: ctlView_def comp_def case_prod_unfold)

lemma readers_of_view:
  "list_all (\<lambda>(name, c). IsSynced (tracker (ctlState c))) tm \<longleftrightarrow> list_all (\<lambda>(name, c). IsSynced (tracker c)) (ctlView tm)"
  "AggregatedStatus tm = map (\<lambda>(name, c). (name, tracker c)) (ctlView tm)"
  "metricsList tm = map (\<lambda>(name, c). metricsOf c) (ctlView tm)"
  by (auto simp: ctlView_def AggregatedStatus_def metricsList_def list_all_iff)

lemma sameView_answers:
  assumes "sameView s s'"
  shows "isReady s' = isReady s" "handleMetrics cd s' = handleMetrics cd s" "handleStatus cd s' = handleStatus cd s"
  using assms
  by (auto simp: sameView_def isReady_def handleMetrics_def handleStatus_def AggregatedMetrics_fold readers_of_view
      split: option.splits)

definition waits :: "string list \<Rightarrow> 'w server \<Rightarrow> bool" where
  "waits segs s \<longleftrightarrow> segs = [''api'', ''v1'', ''sync''] \<and> srvManager s = None"

lemma route_Sync: "route meth segs = Some Sync \<Longrightarrow> segs = [''api'', ''v1'', ''sync'']"
  by (auto simp: route_def split: if_splits)

lemma serveRequest_view:
  assumes "serveRequest cd cancelled waited meth segs r s = (resp, s')" "\<not> waits segs s"
  shows "sameView s s'"
proof -
  have refl: "sameView s s" by (simp add: sameView_def)
  have all: "sameView s (s\<lparr>srvManager := Some (TriggerAllTenants cancelled tm)\<rparr>)" if "srvManager s = Some tm" for tm
    using that by (simp add: sameView_def ctlView_triggers)
  have one: "sameView s (s\<lparr>srvManager := Some tm'\<rparr>)" if "srvManager s = Some tm" "TriggerTenant cancelled n tm = (True, tm')" for tm tm' n
    using that ctlView_triggers(2) [of cancelled n tm] by (simp add: sameView_def)
  have any: "sameView s (triggerAny cancelled s)"
    using all by (auto simp: triggerAny_def sameView_def split: option.split)
  show ?thesis
    using assms refl all one any route_Sync [of meth segs]
    by (auto simp: waits_def serveRequest_def handleSync_def handleTenantSync_def handleWebhook_def split: option.splits
        endpoint_handler.splits sum.splits prod.splits bool.splits if_splits)
qed

text \<open>
  What a trigger does to a loop: one more timer is pending, in the place of a cancelled one if \<open>Stop\<close> came in
  time. And to a service: the loops of the named tenants, or the single one, are armed; nothing else changes.
\<close>

definition armed :: "'w loop_state \<Rightarrow> 'w loop_state \<Rightarrow> bool" where
  "armed c c' \<longleftrightarrow> (\<exists>k. (k = timers c \<or> k = timers c - 1) \<and> c' = c\<lparr>timers := Suc k\<rparr>)"

definition armsOnly :: "(string \<Rightarrow> bool) \<Rightarrow> 'w server \<Rightarrow> 'w server \<Rightarrow> bool" where
  "armsOnly P s s' \<longleftrightarrow>
     (case srvManager s of
        None \<Rightarrow> (\<exists>c'. armed (srvSingle s) c' \<and> s' = s\<lparr>srvSingle := c'\<rparr>)
      | Some tm \<Rightarrow> (\<exists>tm'. s' = s\<lparr>srvManager := Some tm'\<rparr> \<and> map fst tm' = map fst tm \<and>
          (\<forall>n c. map_of tm n = Some c \<longrightarrow> (\<exists>c'. map_of tm' n = Some c' \<and> (if P n then armed c c' else c' = c)))))"

lemma armed_TriggerC: "armed c (TriggerC cancelled c)"
  by (auto simp: armed_def TriggerC_def)

lemma armsOnly_all: "armsOnly (\<lambda>n. True) s (triggerAny cancelled s)"
proof (cases "srvManager s")
  case None
  then show ?thesis
    by (auto simp: armsOnly_def triggerAny_def intro!: exI [of _ "TriggerC cancelled (srvSingle s)"] armed_TriggerC)
next
  case (Some tm)
  have "map fst (TriggerAllTenants cancelled tm) = map fst tm"
    "map_of (TriggerAllTenants cancelled tm) n = map_option (TriggerC cancelled) (map_of tm n)" for n
    by (auto simp: TriggerAllTenants_def map_of_map)
  with Some show ?thesis
    by (auto simp: armsOnly_def triggerAny_def armed_TriggerC intro!: exI [of _ "TriggerAllTenants cancelled tm"])
qed

lemma armsOnly_one:
  assumes "srvManager s = Some tm" "TriggerTenant cancelled t tm = (True, tm')"
  shows "armsOnly (\<lambda>n. n = t) s (s\<lparr>srvManager := Some tm'\<rparr>)"
proof -
  from assms(2) obtain c where c: "map_of tm t = Some c" "tm' = AList.update t (TriggerC cancelled c) tm"
    by (auto simp: TriggerTenant_def split: option.splits)
  have "t \<in> set (map fst tm)" using map_of_SomeD [OF c(1)] by force
  then have "map fst tm' = map fst tm" using c(2) by (simp add: update_keys)
  moreover have "\<exists>c'. map_of tm' n = Some c' \<and> (if n = t then armed x c' else c' = x)" if "map_of tm n = Some x" for n x
    using that c armed_TriggerC [of x cancelled] by (cases "n = t") (auto simp: update_conv')
  ultimately show ?thesis unfolding armsOnly_def assms(1) option.case by blast
qed

lemma route_Post_cases:
  assumes "route ''POST'' segs = Some h"
  obtains "h = Sync" "segs = [''api'', ''v1'', ''sync'']"
    | t where "h = TenantSync t" "segs = [''api'', ''v1'', ''sync'', t]"
    | "h = Webhook" "segs = [''api'', ''v1'', ''webhook'', ''git'']"
proof -
  have four: "\<exists>t. segs = [a, b, c, t]" if "take 3 segs = [a, b, c]" "length segs = 4" for a b c
  proof -
    from that(2) have "length (drop 3 segs) = Suc 0" by simp
    then obtain t where "drop 3 segs = [t]" unfolding length_Suc_conv by auto
    with that(1) append_take_drop_id [of 3 segs] show ?thesis by auto
  qed
  show thesis
    using assms that four by (auto simp: route_def isGet_def split: if_splits)
qed

text \<open>
  C14: A request changes the state of the service only if it is a POST to one of the three trigger
  endpoints, and then the change is the trigger alone, the configured secret and everything else staying as
  they are: a sync request arms every tenant, or, without tenants, leaves the loop as its \<open>TriggerAndWait\<close>
  left it; a sync request for a tenant arms that tenant; a web hook arms all of them or the single loop, and,
  once a secret is configured, only if it is signed: its GitHub signature is the HMAC of the body under the
  secret, or, without such a header, its GitLab token is the secret. Readiness, metrics and status
  look the same afterwards, except when the request waited for a cycle.
\<close>

theorem only_authorised_requests_trigger:
  assumes "serveRequest cd cancelled waited meth segs r s = (resp, s')" "s' \<noteq> s"
  shows "meth = ''POST'' \<and>
    ((segs = [''api'', ''v1'', ''sync''] \<and>
        (if srvManager s = None then s' = s\<lparr>srvSingle := snd waited\<rparr> else armsOnly (\<lambda>n. True) s s')) \<or>
     (\<exists>t. segs = [''api'', ''v1'', ''sync'', t] \<and> srvManager s \<noteq> None \<and> armsOnly (\<lambda>n. n = t) s s') \<or>
     (segs = [''api'', ''v1'', ''webhook'', ''git''] \<and> armsOnly (\<lambda>n. True) s s' \<and>
        (webhookSecret s = [] \<or> signed cd (webhookSecret s) r))) \<and>
    (waits segs s \<or>
       isReady s' = isReady s \<and> handleMetrics cd s' = handleMetrics cd s \<and> handleStatus cd s' = handleStatus cd s)"
    (is "_ \<and> ?change \<and> ?reads")
proof -
  from assms obtain h where h: "route meth segs = Some h" by (auto simp: serveRequest_def split: option.splits)
  have "\<not> isGet meth"
    using assms route_Get [OF _ h] h by (auto simp: serveRequest_def)
  with route_Post [OF h] have post: "meth = ''POST''" by blast
  have ?change using h [unfolded post]
  proof (cases rule: route_Post_cases)
    case 1
    with assms h armsOnly_all [of s cancelled] show ?thesis
      by (auto simp: serveRequest_def handleSync_def triggerAny_def Let_def split: option.splits sum.splits if_splits)
  next
    case (2 t)
    with assms h armsOnly_one [of s _ cancelled t] show ?thesis
      by (auto simp: serveRequest_def handleTenantSync_def split: option.splits prod.splits bool.splits)
  next
    case 3
    with h assms(1) obtain resp' where "handleWebhook cd cancelled r s = (resp', s')"
      by (auto simp: serveRequest_def map_prod_def split: prod.splits)
    with assms(2) 3 handleWebhook_signed [of s cd cancelled r resp' s'] armsOnly_all [of s cancelled] show ?thesis
      by (cases "webhookSecret s = []") (auto simp: handleWebhook_def split: if_splits)
  qed
  moreover have ?reads using sameView_answers [OF serveRequest_view [OF assms(1)]] by blast
  ultimately show ?thesis using post by blast
qed

definition demoServer :: "mem server" where
  "demoServer = \<lparr>srvSingle = startLoop freshCtl [], srvManager = Some [(''red'', startLoop freshCtl []), (''blue'', startLoop freshCtl [])],
     webhookSecret = ''s3cret''\<rparr>"

definition demoSrv :: srv_codec where
  "demoSrv = \<lparr>encStatus = (\<lambda>t. []), encStatuses = (\<lambda>ts. []), encResult = (\<lambda>r. []),
     hmacHex = (\<lambda>k b. rev k @ ''-'' @ b), fmtSeconds = (\<lambda>t. [])\<rparr>"

definition demoHook :: web_request where
  "demoHook = \<lparr>wrHeaders = [(''X-Hub-Signature-256'', ''sha256=terc3s-push'')], wrBody = Inr ''push'', wrTenant = []\<rparr>"

theorem only_authorised_requests_trigger_witness:
  "\<exists>resp s'. serveRequest demoSrv False (Inl (errorf []), startLoop freshCtl []) ''POST'' [''api'', ''v1'', ''webhook'', ''git''] demoHook demoServer = (resp, s') \<and>
     s' \<noteq> demoServer \<and> signed demoSrv ''s3cret'' demoHook"
proof -
  let ?run = "serveRequest demoSrv False (Inl (errorf []), startLoop freshCtl []) ''POST'' [''api'', ''v1'', ''webhook'', ''git''] demoHook demoServer"
  obtain resp s' where r: "?run = (resp, s')" by fastforce
  have "map_option (map (\<lambda>(n, c). timers c)) (srvManager (snd ?run)) = Some [1, 1]"
    "map_option (map (\<lambda>(n, c). timers c)) (srvManager demoServer) = Some [0, 0]" by code_simp+
  with r have ne: "s' \<noteq> demoServer" by auto
  from only_authorised_requests_trigger [OF r ne] r ne show ?thesis by (simp add: demoServer_def)
qed

end
