(* ===== verification/TuiModel.thy ===== *)
theory TuiModel
  imports Panels Server
begin

text \<open>
  The state behind the terminal UI: \<open>internal/tui/model.go\<close>, \<open>registry.go\<close>, \<open>event_bus.go\<close> and the client of
  \<open>attach.go\<close>, which shows the status of a running server instead of an own plan. The page in front belongs to
  \<open>tview.Pages\<close>; it is kept beside the stack of the registry.
\<close>

section \<open>The model\<close>

record tui_model =
  mdPlan :: "plan option"
  currentKind :: resource_kind
  searchFilter :: string
  mdEndpoint :: string
  manifestName :: string
  lastRefresh :: "int option"
  interval :: int
  mdErr :: "goerr option"

definition NewModel :: "manifest option \<Rightarrow> string \<Rightarrow> int \<Rightarrow> tui_model" where
  "NewModel m ep iv =
     \<lparr>mdPlan = None, currentKind = [], searchFilter = [], mdEndpoint = ep,
      manifestName = (case m of None \<Rightarrow> [] | Some m \<Rightarrow> metaName (Metadata m)), lastRefresh = None, interval = iv, mdErr = None\<rparr>"

definition UpdatePlan :: "int \<Rightarrow> plan \<Rightarrow> tui_model \<Rightarrow> tui_model" where
  "UpdatePlan now p m = m\<lparr>mdPlan := Some p, lastRefresh := Some now, mdErr := None\<rparr>"

definition SetErrorM :: "int \<Rightarrow> goerr \<Rightarrow> tui_model \<Rightarrow> tui_model" where
  "SetErrorM now err m = m\<lparr>mdErr := Some err, lastRefresh := Some now\<rparr>"

definition SetKind :: "resource_kind \<Rightarrow> tui_model \<Rightarrow> tui_model" where "SetKind k m = m\<lparr>currentKind := k\<rparr>"
definition SetFilterM :: "string \<Rightarrow> tui_model \<Rightarrow> tui_model" where "SetFilterM f m = m\<lparr>searchFilter := f\<rparr>"
definition SetManifestName :: "string \<Rightarrow> tui_model \<Rightarrow> tui_model" where "SetManifestName n m = m\<lparr>manifestName := n\<rparr>"

definition changeShown :: "tui_model \<Rightarrow> change \<Rightarrow> bool" where
  "changeShown m c \<longleftrightarrow> \<not> (currentKind m \<noteq> [] \<and> chKind c \<noteq> currentKind m) \<and>
     \<not> (searchFilter m \<noteq> [] \<and> \<not> strContains (lower (chName c)) (lower (searchFilter m)))"

definition GetChanges :: "tui_model \<Rightarrow> change list" where
  "GetChanges m = (case mdPlan m of None \<Rightarrow> [] | Some p \<Rightarrow> filter (changeShown m) (Changes p))"

section \<open>The view registry\<close>

datatype tab = TabState | TabTraces | TabLogs

definition tabPage :: "tab \<Rightarrow> string" where
  "tabPage t = (case t of TabState \<Rightarrow> ''main'' | TabTraces \<Rightarrow> ''traces'' | TabLogs \<Rightarrow> ''logs'')"

definition tabLabel :: "tab \<Rightarrow> string \<times> string" where
  "tabLabel t = (case t of TabState \<Rightarrow> (''State'', ''S'') | TabTraces \<Rightarrow> (''Traces'', ''T'') | TabLogs \<Rightarrow> (''Logs'', ''L''))"

record registry =
  regViews :: "string list"
  activeTab :: tab
  overlayStack :: "string list"
  frontPage :: string

definition NewViewRegistry :: registry where
  "NewViewRegistry = \<lparr>regViews = [], activeTab = TabState, overlayStack = [], frontPage = []\<rparr>"

definition RegisterView :: "string \<Rightarrow> registry \<Rightarrow> registry" where
  "RegisterView n r = r\<lparr>regViews := (if n \<in> set (regViews r) then regViews r else regViews r @ [n])\<rparr>"

text \<open>\<open>Pages.SwitchToPage\<close>: the page comes to the front if there is one of that name, otherwise nothing is visible.\<close>

definition switchToPage :: "string \<Rightarrow> registry \<Rightarrow> registry" where
  "switchToPage n r = r\<lparr>frontPage := (if n \<in> set (regViews r) then n else [])\<rparr>"

definition SwitchTab :: "tab \<Rightarrow> registry \<Rightarrow> registry" where
  "SwitchTab t r = switchToPage (tabPage t) (r\<lparr>activeTab := t, overlayStack := []\<rparr>)"

definition PushView :: "string \<Rightarrow> registry \<Rightarrow> registry" where
  "PushView n r = switchToPage n (r\<lparr>overlayStack := overlayStack r @ [n]\<rparr>)"

definition CurrentView :: "registry \<Rightarrow> string" where
  "CurrentView r = (if overlayStack r \<noteq> [] then last (overlayStack r) else tabPage (activeTab r))"

definition PopView :: "registry \<Rightarrow> string \<times> registry" where
  "PopView r =
     (let r = (if overlayStack r \<noteq> [] then r\<lparr>overlayStack := butlast (overlayStack r)\<rparr> else r);
          n = (if overlayStack r \<noteq> [] then last (overlayStack r) else tabPage (activeTab r))
      in (n, switchToPage n r))"

definition HasOverlay :: "registry \<Rightarrow> bool" where
  "HasOverlay r \<longleftrightarrow> overlayStack r \<noteq> []"

definition TabBar :: "registry \<Rightarrow> string" where
  "TabBar r =
     '' '' @ strJoin ''  '' (map (\<lambda>t.
       (let (label, key) = tabLabel t; hint = Tag HexOverlay0 (''('' @ key @ '')'') in
        if t = activeTab r then BoldTag HexGreen (symFull @ '' '' @ label) @ '' '' @ hint
        else Tag HexOverlay0 (symEmpty @ '' '' @ label) @ '' '' @ hint)) [TabState, TabTraces, TabLogs])"

text \<open>The page in front is the one the registry calls current.\<close>

definition registry_ok :: "registry \<Rightarrow> bool" where
  "registry_ok r \<longleftrightarrow> frontPage r = CurrentView r \<and> set (overlayStack r) \<subseteq> set (regViews r) \<and> range tabPage \<subseteq> set (regViews r)"

lemma tabPage_registered: "range tabPage \<subseteq> set vs \<Longrightarrow> tabPage t \<in> set vs"
  by auto

lemma registry_ops:
  assumes "registry_ok r"
  shows "registry_ok (SwitchTab t r)" "n \<in> set (regViews r) \<Longrightarrow> registry_ok (PushView n r)" "registry_ok (snd (PopView r))"
    and "fst (PopView r) = CurrentView (snd (PopView r))"
proof -
  have tabs: "tabPage t \<in> set (regViews r)" for t using assms by (auto simp: registry_ok_def)
  have sub: "set (butlast (overlayStack r)) \<subseteq> set (regViews r)"
    using assms by (auto simp: registry_ok_def dest: in_set_butlastD)
  then have "last (butlast (overlayStack r)) \<in> set (regViews r)" if "butlast (overlayStack r) \<noteq> []"
    using that last_in_set by blast
  then show "registry_ok (snd (PopView r))" "fst (PopView r) = CurrentView (snd (PopView r))"
    using assms sub tabs by (auto simp: registry_ok_def PopView_def switchToPage_def CurrentView_def Let_def)
  show "registry_ok (SwitchTab t r)" "n \<in> set (regViews r) \<Longrightarrow> registry_ok (PushView n r)"
    using assms tabs by (auto simp: registry_ok_def SwitchTab_def PushView_def switchToPage_def CurrentView_def)
qed

text \<open>Going back undoes going forward.\<close>

lemma Pop_Push: "registry_ok r \<Longrightarrow> n \<in> set (regViews r) \<Longrightarrow> snd (PopView (PushView n r)) = r"
  using subsetD [of "set (overlayStack r)" "set (regViews r)" "last (overlayStack r)"]
  by (auto simp: PopView_def PushView_def switchToPage_def registry_ok_def CurrentView_def Let_def)

section \<open>The event bus\<close>

type_synonym 'f event_bus = "(string \<times> 'f list) list"

definition Subscribe :: "string \<Rightarrow> 'f \<Rightarrow> 'f event_bus \<Rightarrow> 'f event_bus" where
  "Subscribe t f b = AList.update t (getOr [] b t @ [f]) b"

text \<open>The callbacks that are queued for an event, in the order of their subscription.\<close>

definition PublishTo :: "string \<Rightarrow> 'f event_bus \<Rightarrow> 'f list" where
  "PublishTo t b = getOr [] b t"

lemma Publish_Subscribe: "PublishTo t (Subscribe u f b) = PublishTo t b @ (if t = u then [f] else [])"
  by (simp add: PublishTo_def Subscribe_def getOr_def gomap_simps)

section \<open>Attaching to a server\<close>

text \<open>A response as the client reads it: the status and what reading the body gives.\<close>

record 'w attach_client =
  acURL :: string
  acGet :: "string \<Rightarrow> 'w \<Rightarrow> (int \<times> string result) result \<times> 'w"
  acPost :: "string \<Rightarrow> 'w \<Rightarrow> (int \<times> string result) result \<times> 'w"
  decStatus :: "string \<Rightarrow> sync_status result"
  decStatuses :: "string \<Rightarrow> (string \<times> sync_status) list result"

definition maxStatusBody :: int where "maxStatusBody = 10485760"

definition attachBody :: "'w attach_client \<Rightarrow> string \<Rightarrow> 'w \<Rightarrow> string result \<times> 'w" where
  "attachBody c path w =
     (case acGet c (acURL c @ path) w of
        (Inl err, w') \<Rightarrow> (Inl (wrapf ''connect to serve: '' err), w')
      | (Inr (st, Inl err), w') \<Rightarrow> (Inl (wrapf ''read response: '' err), w')
      | (Inr (st, Inr b), w') \<Rightarrow>
          (let body = takeI maxStatusBody b in
           if st \<noteq> 200 then (Inl (errorf (''serve returned '' @ showInt st @ '': '' @ body)), w') else (Inr body, w')))"

definition parseStatus :: "'w attach_client \<Rightarrow> string result \<times> 'w \<Rightarrow> sync_status result \<times> 'w" where
  "parseStatus c rw =
     (case rw of
        (Inl err, w) \<Rightarrow> (Inl err, w)
      | (Inr body, w) \<Rightarrow> (case decStatus c body of Inl err \<Rightarrow> (Inl (wrapf ''parse status: '' err), w) | Inr st \<Rightarrow> (Inr st, w)))"

definition FetchStatus :: "'w attach_client \<Rightarrow> 'w \<Rightarrow> sync_status result \<times> 'w" where
  "FetchStatus c w = parseStatus c (attachBody c ''/api/v1/status'' w)"

definition FetchTenantStatus :: "'w attach_client \<Rightarrow> string \<Rightarrow> 'w \<Rightarrow> sync_status result \<times> 'w" where
  "FetchTenantStatus c t w = parseStatus c (attachBody c (''/api/v1/status/'' @ pathEscape t) w)"

definition FetchTenantsStatus :: "'w attach_client \<Rightarrow> 'w \<Rightarrow> (string \<times> sync_status) list option result \<times> 'w" where
  "FetchTenantsStatus c w =
     (case attachBody c ''/api/v1/status'' w of
        (Inl err, w') \<Rightarrow> (Inl err, w')
      | (Inr body, w') \<Rightarrow>
          (Inr (case decStatuses c body of
             Inl err \<Rightarrow> None
           | Inr ts \<Rightarrow> if ts \<noteq> [] \<and> map_of ts [] = None then Some ts else None), w'))"

definition attachPost :: "'w attach_client \<Rightarrow> string \<Rightarrow> 'w \<Rightarrow> goerr option \<times> 'w" where
  "attachPost c path w =
     (case acPost c (acURL c @ path) w of
        (Inl err, w') \<Rightarrow> (Some (wrapf ''trigger sync: '' err), w')
      | (Inr (st, b), w') \<Rightarrow> (if st \<noteq> 200 then Some (errorf (''sync returned '' @ showInt st)) else None, w'))"

definition TriggerSync :: "'w attach_client \<Rightarrow> 'w \<Rightarrow> goerr option \<times> 'w" where
  "TriggerSync c w = attachPost c ''/api/v1/sync'' w"

definition TriggerTenantSync :: "'w attach_client \<Rightarrow> string \<Rightarrow> 'w \<Rightarrow> goerr option \<times> 'w" where
  "TriggerTenantSync c t w = attachPost c (''/api/v1/sync/'' @ pathEscape t) w"

definition Healthcheck :: "'w attach_client \<Rightarrow> 'w \<Rightarrow> goerr option \<times> 'w" where
  "Healthcheck c w =
     (case acGet c (acURL c @ ''/healthz'') w of
        (Inl err, w') \<Rightarrow> (Some (wrapf (''serve not reachable at '' @ acURL c @ '': '') err), w')
      | (Inr (st, b), w') \<Rightarrow> (if st \<noteq> 200 then Some (errorf (''serve unhealthy: status '' @ showInt st)) else None, w'))"

definition statusChange :: "resource_status \<Rightarrow> change" where
  "statusChange r =
     (let c = \<lparr>chKind = rsKind r, chName = rsName r, Action = ActionNoop, Diff = [], Error = [], Forced = False, WriteOnlyHash = []\<rparr> in
      if resource_status.rsStatus r = ''InSync'' then c
      else if resource_status.rsStatus r = ''Created'' then c\<lparr>Action := ActionCreate\<rparr>
      else if resource_status.rsStatus r = ''Updated'' then c\<lparr>Action := ActionUpdate\<rparr>
      else if resource_status.rsStatus r = ''Error'' then c\<lparr>Error := rsMessage r\<rparr>
      else c)"

definition StatusToChanges :: "sync_status option \<Rightarrow> change list" where
  "StatusToChanges st = (case st of None \<Rightarrow> [] | Some st \<Rightarrow> map statusChange (statusResources st))"

text \<open>The plan that \<open>refreshFromServe\<close> builds from a status.\<close>

definition addSynthetic :: "change \<Rightarrow> plan \<Rightarrow> plan" where
  "addSynthetic c p =
     (let p = (case Action c of
                 ActionNoop \<Rightarrow> p\<lparr>Noops := Noops p + 1\<rparr>
               | ActionCreate \<Rightarrow> p\<lparr>Creates := Creates p + 1\<rparr>
               | ActionUpdate \<Rightarrow> p\<lparr>Updates := Updates p + 1\<rparr>
               | ActionDelete \<Rightarrow> p\<lparr>Deletes := Deletes p + 1\<rparr>
               | ActionUnset \<Rightarrow> p)
      in if Error c \<noteq> [] then p\<lparr>planErrors := planErrors p @ [Error c]\<rparr> else p)"

definition syntheticPlan :: "change list \<Rightarrow> plan" where
  "syntheticPlan changes =
     fold addSynthetic changes \<lparr>Changes = changes, Creates = 0, Updates = 0, Deletes = 0, Noops = 0, planErrors = []\<rparr>"

definition fetchAttached :: "'w attach_client \<Rightarrow> string \<Rightarrow> 'w \<Rightarrow> change list result \<times> 'w" where
  "fetchAttached c t w =
     (case (if t \<noteq> [] then FetchTenantStatus c t w else FetchStatus c w) of
        (Inl err, w') \<Rightarrow> (Inl err, w')
      | (Inr st, w') \<Rightarrow> (Inr (StatusToChanges (Some st)), w'))"

text \<open>The stub provider of attach mode: every call is an error, none reaches a server.\<close>

definition stubObserve :: "string \<Rightarrow> resource_kind \<Rightarrow> string \<Rightarrow> gomap option result" where
  "stubObserve url k n = Inl (errorf (''observe not available in attach mode (connected to '' @ url @ '')''))"

definition stubWrite :: "string \<Rightarrow> goerr" where
  "stubWrite what = errorf (what @ '' not available in attach mode '' @ symDash @ '' use gcplane apply directly'')"

end
