(* ===== verification/Attach.thy ===== *)
theory Attach
  imports TuiModel
begin

text \<open>
  The attach mode of \<open>gcplane top\<close> against the server of \<open>gcplane serve\<close>: the client of \<open>internal/tui/attach.go\<close>
  whose requests are answered by the handlers of \<open>internal/server\<close>, over the path rules of \<open>net/http\<close>.
\<close>

section \<open>Paths\<close>

definition unhex :: "char \<Rightarrow> nat" where
  "unhex c = (if isDigit c then code c - 48 else code c - 55)"

text \<open>The unescaping of a path segment by the mux, for the percent codes that \<open>url.PathEscape\<close> writes.\<close>

fun pathUnescape :: "string \<Rightarrow> string" where
  "pathUnescape (c # h # l # cs) =
     (if c = CHR ''%'' then char_of (unhex h * 16 + unhex l) # pathUnescape cs else c # pathUnescape (h # l # cs))"
| "pathUnescape cs = cs"

lemma code_div16: "code c div 16 < 16"
  using nat_of_char_less_256 [of c] by (simp add: less_mult_imp_div_less)

lemma unhex_upperHex: "n < 16 \<Longrightarrow> unhex (upperHex n) = n"
  by (auto simp: unhex_def upperHex_def isDigit_def code_char_of)

lemma pathUnescape_plain: "c \<noteq> CHR ''%'' \<Longrightarrow> pathUnescape (c # cs) = c # pathUnescape cs"
  by (cases cs rule: list.exhaust [case_product list.exhaust]) (auto intro: list.exhaust [of "tl cs"])

lemma pathSafe_plain: "pathSafe c \<Longrightarrow> c \<noteq> CHR ''%'' \<and> c \<noteq> CHR ''/''"
  by (auto simp: pathSafe_def isUpper_def isLower_def isDigit_def)

lemma pathUnescape_escape: "pathUnescape (pathEscape s) = s"
proof (induction s)
  case (Cons c s)
  have "unhex (upperHex (code c div 16)) * 16 + unhex (upperHex (code c mod 16)) = code c"
    using code_div16 [of c] by (simp add: unhex_upperHex)
  with Cons pathSafe_plain [of c] show ?case
    by (simp add: pathEscape_def escapeC_def pathUnescape_plain)
qed (simp add: pathEscape_def)

lemma upperHex_plain: "n < 16 \<Longrightarrow> upperHex n \<noteq> CHR ''/''"
proof -
  assume n: "n < 16"
  then have "code (upperHex n) = (if n < 10 then 48 + n else 55 + n)" by (simp add: upperHex_def code_char_of)
  with n have "code (upperHex n) \<noteq> code CHR ''/''" by (auto split: if_splits)
  then show ?thesis by auto
qed

lemma escapeC_noslash: "CHR ''/'' \<notin> set (escapeC c)"
  using pathSafe_plain [of c] upperHex_plain [OF code_div16, of c] upperHex_plain [of "code c mod 16"]
  by (auto simp: escapeC_def)

lemma pathEscape_noslash: "CHR ''/'' \<notin> set (pathEscape s)"
  using escapeC_noslash by (simp add: pathEscape_def)

lemma strCut_slash:
  "CHR ''/'' \<notin> set a \<Longrightarrow> strCut ''/'' (a @ CHR ''/'' # b) = Some (a, b)"
  "CHR ''/'' \<notin> set a \<Longrightarrow> strCut ''/'' a = None"
  by (induction a) (auto simp: hasPrefix_def)

lemma strSplit_slash:
  "CHR ''/'' \<notin> set a \<Longrightarrow> strSplit ''/'' (a @ CHR ''/'' # b) = a # strSplit ''/'' b"
  "CHR ''/'' \<notin> set a \<Longrightarrow> strSplit ''/'' a = [a]"
  by (subst strSplit.simps, simp add: strCut_slash)+

definition segsOf :: "string \<Rightarrow> string list" where
  "segsOf path = map pathUnescape (tl (strSplit ''/'' path))"

lemma segsOf_status:
  "segsOf ''/api/v1/status'' = [''api'', ''v1'', ''status'']"
  "segsOf (''/api/v1/status/'' @ pathEscape t) = [''api'', ''v1'', ''status'', t]"
proof -
  have s: "strSplit ''/'' (''/'' @ x) = [] # strSplit ''/'' x" "strSplit ''/'' (''api/'' @ x) = ''api'' # strSplit ''/'' x"
    "strSplit ''/'' (''v1/'' @ x) = ''v1'' # strSplit ''/'' x" "strSplit ''/'' (''status/'' @ x) = ''status'' # strSplit ''/'' x" for x
    using strSplit_slash(1) [of "[]" x] strSplit_slash(1) [of "''api''" x] strSplit_slash(1) [of "''v1''" x]
      strSplit_slash(1) [of "''status''" x] by simp_all
  have "strSplit ''/'' (''/'' @ ''api/'' @ ''v1/'' @ ''status'') = [[], ''api'', ''v1'', ''status'']"
    unfolding s by (simp add: strSplit_slash(2))
  then show "segsOf ''/api/v1/status'' = [''api'', ''v1'', ''status'']" by (simp add: segsOf_def)
  have "strSplit ''/'' (''/'' @ ''api/'' @ ''v1/'' @ ''status/'' @ pathEscape t) = [[], ''api'', ''v1'', ''status'', pathEscape t]"
    unfolding s by (simp add: strSplit_slash(2) pathEscape_noslash)
  then show "segsOf (''/api/v1/status/'' @ pathEscape t) = [''api'', ''v1'', ''status'', t]"
    by (simp add: segsOf_def pathUnescape_escape)
qed

section \<open>The client on the server\<close>

text \<open>What the server answers; a request that no pattern matches is the 404 of the mux.\<close>

definition answerOf :: "web_response option \<times> 'w server \<Rightarrow> (int \<times> string result) result \<times> 'w server" where
  "answerOf rs = (case rs of (None, s) \<Rightarrow> (Inr (404, Inr ''404 page not found''), s) | (Some p, s) \<Rightarrow> (Inr (wpCode p, Inr (wpBody p)), s))"

definition emptyRequest :: web_request where
  "emptyRequest = \<lparr>wrHeaders = [], wrBody = Inr [], wrTenant = []\<rparr>"

definition attachTo ::
  "srv_codec \<Rightarrow> (string \<Rightarrow> sync_status result) \<Rightarrow> (string \<Rightarrow> (string \<times> sync_status) list result) \<Rightarrow>
   ('w server \<Rightarrow> sync_result result \<times> 'w loop_state) \<Rightarrow> string \<Rightarrow> 'w server attach_client"
where
  "attachTo cd dec decs waited url =
     \<lparr>acURL = url,
      acGet = (\<lambda>u s. answerOf (serveRequest cd False (waited s) ''GET'' (segsOf (drop (length url) u)) emptyRequest s)),
      acPost = (\<lambda>u s. answerOf (serveRequest cd False (waited s) ''POST'' (segsOf (drop (length url) u)) emptyRequest s)),
      decStatus = dec, decStatuses = decs\<rparr>"

lemma route_status:
  "route ''GET'' [''api'', ''v1'', ''status''] = Some Status"
  "t \<noteq> [] \<Longrightarrow> route ''GET'' [''api'', ''v1'', ''status'', t] = Some (TenantStatus t)"
  by (simp_all add: route_def isGet_def)

text \<open>
  An entry of the terminal reads as a change: same kind, name and error, and the same action, except that
  the wire format has no status for a deletion.
\<close>

definition shownAs :: "change \<Rightarrow> change \<Rightarrow> bool" where
  "shownAs now ch \<longleftrightarrow> chKind now = chKind ch \<and> chName now = chName ch \<and> Error now = Error ch \<and>
     (Action ch = ActionDelete \<or> Action now = Action ch)"

lemma statusChange_shownAs:
  "Action ch \<noteq> ActionUnset \<Longrightarrow> Error ch = [] \<or> Action ch = ActionNoop \<Longrightarrow> shownAs (statusChange (resourceStatus ch)) ch"
  by (cases "Action ch") (auto simp: shownAs_def statusChange_def resourceStatus_def Let_def)

lemma plan_actions_set:
  assumes "schedOk e" "Reconcile e m opts w = ((p, r), w')" "ch \<in> set (Changes p)"
  shows "Action ch \<noteq> ActionUnset" "Error ch = [] \<or> Action ch = ActionNoop"
proof -
  from Reconcile_layout [OF assms(1,2)] obtain cs ds where
    c: "Changes p = cs @ ds" "list_all2 changeFor (visitOrder (Resources m)) cs"
      "list_all (listedOrphan e (Resources m) DeleteOrder) ds" by blast
  have cs: "Action x \<noteq> ActionUnset \<and> (Error x = [] \<or> Action x = ActionNoop)" if "x \<in> set cs" for x
  proof -
    from that obtain i where "i < length cs" "x = cs ! i" by (auto simp: in_set_conv_nth)
    with list_all2_nthD2 [OF c(2)] have "changeFor (visitOrder (Resources m) ! i) x" by blast
    then show ?thesis by (auto simp: changeFor_def)
  qed
  have ds: "Action x = ActionDelete \<and> Error x = []" if "x \<in> set ds" for x
    using c(3) that by (auto simp: list_all_iff listedOrphan_def deletion_def zeroChange_def)
  have "Action ch \<noteq> ActionUnset \<and> (Error ch = [] \<or> Action ch = ActionNoop)"
    using assms(3) cs [of ch] ds [of ch] by (auto simp: c(1))
  then show "Action ch \<noteq> ActionUnset" "Error ch = [] \<or> Action ch = ActionNoop" by blast+
qed

text \<open>What the tracker holds after a cycle that reached the engine.\<close>

lemma reconcileCycle_resources:
  assumes "Fetch cfg w = (Ret (Inr (m, h)), w1)"
    and "Reconcile (ctlEngine cfg) m (controllerOpts (ctlPrune cfg)) w1 = ((p, r), w2)"
    and "reconcileCycle cfg c w = Some ((res, c'), w')"
  shows "statusResources (tracker c') = map resourceStatus (Changes p)"
  using assms(3)
proof (cases rule: reconcileCycle_SomeE)
  case (ran m' h' w1' p' r' w2' mt)
  with assms(1,2) show ?thesis by (simp add: status_simps buildResourceStatuses_def)
qed (use assms(1) in simp)

lemma attach_fetch_single:
  assumes "srvManager s = None" "dec (encStatus cd (tracker (ctlState (srvSingle s)))) = Inr (tracker (ctlState (srvSingle s)))"
    and "int (length (encStatus cd (tracker (ctlState (srvSingle s))))) \<le> maxStatusBody"
  shows "fetchAttached (attachTo cd dec decs waited url) [] s = (Inr (map statusChange (statusResources (tracker (ctlState (srvSingle s))))), s)"
  using assms
  by (simp add: fetchAttached_def FetchStatus_def parseStatus_def attachBody_def attachTo_def segsOf_status answerOf_def
      serveRequest_def route_status handleStatus_def jsonResponse_def takeI_take StatusToChanges_def)

lemma attach_fetch_tenant:
  assumes "srvManager s = Some tm" "map_of tm t = Some c" "t \<noteq> []"
    and "dec (encStatus cd (tracker (ctlState c))) = Inr (tracker (ctlState c))"
    and "int (length (encStatus cd (tracker (ctlState c)))) \<le> maxStatusBody"
  shows "fetchAttached (attachTo cd dec decs waited url) t s = (Inr (map statusChange (statusResources (tracker (ctlState c)))), s)"
  using assms
  by (simp add: fetchAttached_def FetchTenantStatus_def parseStatus_def attachBody_def attachTo_def segsOf_status(2) [simplified] answerOf_def
      serveRequest_def route_status handleTenantStatus_def GetTenant_def jsonResponse_def takeI_take StatusToChanges_def)

text \<open>
  C20: After a cycle of the server that could fetch its manifest, a terminal attached to it, with a tenant
  selected when the server has tenants, holds the plan of that cycle, entry by entry and in its order: same
  kind, name and error, and, except for planned deletions, the same action. This goes through the tracker the
  cycle updates, the handlers, the paths, the client and the reading of the status; it needs that
  \<open>encoding/json\<close> decodes what it encoded and that the status fits the ten megabytes the client reads. (The
  mux redirects the paths of tenants named \<open>.\<close> or \<open>..\<close>, which are excluded.)
\<close>

theorem attached_shows_last_cycle:
  assumes "schedOk (ctlEngine cfg)" "Fetch cfg w = (Ret (Inr (m, h)), w1)"
    and "Reconcile (ctlEngine cfg) m (controllerOpts (ctlPrune cfg)) w1 = ((p, r), w2)"
    and "reconcileCycle cfg c0 w = Some ((res, ctlState c), w')"
    and "if t = [] then srvManager s = None \<and> c = srvSingle s else srvManager s = Some tm \<and> map_of tm t = Some c"
    and "dec (encStatus cd (tracker (ctlState c))) = Inr (tracker (ctlState c))"
    and "int (length (encStatus cd (tracker (ctlState c)))) \<le> maxStatusBody" "t \<notin> {''.'', ''..''}"
  shows "\<exists>now. fetchAttached (attachTo cd dec decs waited url) t s = (Inr now, s) \<and>
    list_all2 shownAs now (Changes p)"
proof -
  have "fetchAttached (attachTo cd dec decs waited url) t s = (Inr (map statusChange (statusResources (tracker (ctlState c)))), s)"
    using assms(5-7) attach_fetch_single [of s dec cd decs waited url] attach_fetch_tenant [of s tm t c dec cd decs waited url]
    by (auto split: if_splits)
  moreover have "list_all2 shownAs (map statusChange (map resourceStatus (Changes p))) (Changes p)"
    using statusChange_shownAs [OF plan_actions_set [OF assms(1,3)]] by (simp add: list_all2_conv_all_nth)
  ultimately show ?thesis by (simp add: reconcileCycle_resources [OF assms(2-4)])
qed

definition demoChange :: "string \<Rightarrow> action \<Rightarrow> string \<Rightarrow> change" where
  "demoChange n a e = \<lparr>chKind = KindAgent, chName = n, Action = a, Diff = [], Error = e, Forced = False, WriteOnlyHash = []\<rparr>"

definition demoCycle :: plan where
  "demoCycle = \<lparr>Changes = [demoChange ''a'' ActionNoop [], demoChange ''b'' ActionUpdate [], demoChange ''c'' ActionNoop ''boom''],
     Creates = 0, Updates = 1, Deletes = 0, Noops = 2, planErrors = [''boom'']\<rparr>"

definition demoAttached :: "ctl \<Rightarrow> mem server" where
  "demoAttached c = demoServer\<lparr>srvManager := Some [(''red'', startLoop freshCtl []), (''a/b'', startLoop c [])]\<rparr>"

theorem attached_shows_last_cycle_witness:
  "\<exists>res c w' now. reconcileCycle (demoCtl (Ret (Inr (demoM, ''h'')))) freshCtl demoW = Some ((res, c), w') \<and>
     fetchAttached (attachTo demoSrv (\<lambda>_. Inr (tracker c)) (\<lambda>_. Inr []) (\<lambda>s. (Inl (errorf []), startLoop c [])) ''http://h'')
       ''a/b'' (demoAttached c) = (Inr now, demoAttached c) \<and>
     map (\<lambda>sh. (chKind sh, chName sh, Action sh)) now = [(KindProvider, ''p'', ActionUpdate), (KindAgent, ''a'', ActionCreate)]"
proof -
  let ?cfg = "demoCtl (Ret (Inr (demoM, ''h'')))"
  obtain p r w2 where rec: "Reconcile (ctlEngine ?cfg) demoM (controllerOpts (ctlPrune ?cfg)) demoW = ((p, r), w2)"
    by (metis surj_pair)
  have "map (\<lambda>ch. (chKind ch, chName ch, Action ch, Error ch))
      (Changes (fst (fst (Reconcile (ctlEngine ?cfg) demoM (controllerOpts (ctlPrune ?cfg)) demoW)))) =
    [(KindProvider, ''p'', ActionUpdate, []), (KindAgent, ''a'', ActionCreate, [])]" by code_simp
  with rec obtain x y where p: "Changes p = [x, y]" "chKind x = KindProvider" "chName x = ''p''" "Action x = ActionUpdate"
      "Error x = []" "chKind y = KindAgent" "chName y = ''a''" "Action y = ActionCreate" "Error y = []"
    by (auto simp: map_eq_Cons_conv)
  have "reconcileCycle ?cfg freshCtl demoW \<noteq> None"
    by (simp add: reconcileCycle_def demoCtl_def Let_def split: prod.split)
  then obtain res c w' where cyc: "reconcileCycle ?cfg freshCtl demoW = Some ((res, c), w')" by auto
  have ok: "schedOk (ctlEngine ?cfg)" "Fetch ?cfg demoW = (Ret (Inr (demoM, ''h'')), demoW)"
    by (simp_all add: demoCtl_def schedOk_echo)
  let ?ac = "attachTo demoSrv (\<lambda>_. Inr (tracker c)) (\<lambda>_. Inr []) (\<lambda>s. (Inl (errorf []), startLoop c [])) ''http://h''"
  have "\<exists>now. fetchAttached ?ac ''a/b'' (demoAttached c) = (Inr now, demoAttached c) \<and> list_all2 shownAs now (Changes p)"
    by (rule attached_shows_last_cycle [where c = "startLoop c []" and tm = "[(''red'', startLoop freshCtl []), (''a/b'', startLoop c [])]",
          OF ok rec])
       (use cyc in \<open>simp_all add: demoAttached_def startLoop_def demoSrv_def maxStatusBody_def\<close>)
  then obtain now where f: "fetchAttached ?ac ''a/b'' (demoAttached c) = (Inr now, demoAttached c)"
    and "list_all2 shownAs now (Changes p)" by blast
  with p have "map (\<lambda>sh. (chKind sh, chName sh, Action sh)) now = [(KindProvider, ''p'', ActionUpdate), (KindAgent, ''a'', ActionCreate)]"
    by (auto simp: list_all2_Cons2 shownAs_def)
  with cyc f show ?thesis by (intro exI conjI)
qed

text \<open>A resource that the last cycle created is shown as missing, and one it planned to delete as in sync.\<close>

lemma created_shows_as_missing: "Error ch = [] \<Longrightarrow> Action ch = ActionCreate \<Longrightarrow> actionToStatus (statusChange (resourceStatus ch)) = ''Missing''"
  and deleted_shows_as_in_sync: "Error ch = [] \<Longrightarrow> Action ch = ActionDelete \<Longrightarrow> actionToStatus (statusChange (resourceStatus ch)) = ''InSync''"
  by (simp_all add: statusChange_def resourceStatus_def actionToStatus_def Let_def)

end
