(* ===== verification/Tui.thy ===== *)
theory Tui
  imports Attach
begin

text \<open>
  The terminal UI as a state machine: \<open>internal/tui/app.go\<close>, \<open>keybindings.go\<close> and \<open>actions.go\<close>. A handler maps the
  state to the new state and the effects it starts: calls of the provider and goroutines. What a goroutine
  brings back is an event of its own, as is what the widgets of \<open>tview\<close> do: moving the selection, typing into
  the command line, pressing a button. The page that comes to the front takes the focus unless the handler
  sets it.
\<close>

section \<open>State\<close>

datatype input_mode = ModeNormal | ModeCommand | ModeSearch
datatype done_func = OnCommandDone | OnSearchDone
datatype focus = FocusTable | FocusTraces | FocusLogs | FocusCmd | FocusPage string
datatype confirm_action = ConfirmApply | ConfirmDelete resource_kind string

datatype ui_effect = Quit | DoApply | DoDelete resource_kind string | DoEdit resource_kind string
  | ObserveDetail resource_kind string | StartLogTail | StopLogTail | FetchSelected string | FetchList | FetchDetail | RemoteSync string | CopyText string

record tui =
  reg :: registry
  mdl :: tui_model
  keyMode :: input_mode
  pendingKey :: "char option"
  cmdLabel :: string
  cmdText :: string
  doneFunc :: done_func
  uiFocus :: focus
  rows :: "table_row list"
  tableRow :: int
  panelT :: traces_panel
  panelL :: logs_panel
  live :: live_store
  trStore :: trace_store
  confirm :: "(string \<times> confirm_action) option"
  attachURL :: "string option"
  curTenant :: string
  refreshQueued :: bool
  uiStopped :: bool

type_synonym ui = "tui \<Rightarrow> tui \<times> ui_effect list"

definition skipU :: ui where "skipU s = (s, [])"
definition updU :: "(tui \<Rightarrow> tui) \<Rightarrow> ui" where "updU f s = (f s, [])"
definition emitU :: "ui_effect \<Rightarrow> ui" where "emitU e s = (s, [e])"
definition seqU :: "ui \<Rightarrow> ui \<Rightarrow> ui" where "seqU f g s = (case f s of (s1, e1) \<Rightarrow> case g s1 of (s2, e2) \<Rightarrow> (s2, e1 @ e2))"
definition ifU :: "(tui \<Rightarrow> bool) \<Rightarrow> ui \<Rightarrow> ui \<Rightarrow> ui" where "ifU b f g s = (if b s then f s else g s)"
definition withU :: "(tui \<Rightarrow> 'a) \<Rightarrow> ('a \<Rightarrow> ui) \<Rightarrow> ui" where "withU a f s = f (a s) s"

section \<open>The application\<close>

definition registeredViews :: "string list" where
  "registeredViews = [''main'', ''logs'', ''traces'', ''detail'', ''drift'', ''confirm'', ''help'']"

text \<open>\<open>NewApp\<close>, with the refresh of the state tab that \<open>Run\<close> starts.\<close>

definition NewApp :: "manifest option \<Rightarrow> string \<Rightarrow> int \<Rightarrow> string option \<Rightarrow> tui" where
  "NewApp m ep iv att =
     \<lparr>reg = SwitchTab TabState (fold RegisterView registeredViews NewViewRegistry),
      mdl = (case att of
               None \<Rightarrow> NewModel m ep iv
             | Some url \<Rightarrow> SetManifestName (''attached: '' @ url) (NewModel None url iv)),
      keyMode = ModeNormal, pendingKey = None, cmdLabel = [], cmdText = [], doneFunc = OnCommandDone, uiFocus = FocusTable,
      rows = [], tableRow = 0, panelT = NewTracesPanel, panelL = NewLogsPanel, live = NewLiveStore 500 500,
      trStore = NewTraceStore, confirm = None, attachURL = att, curTenant = [], refreshQueued = False, uiStopped = False\<rparr>"

text \<open>The handler of web socket events that \<open>NewApp\<close> installs.\<close>

definition onFrame :: "live_codec \<Rightarrow> int \<Rightarrow> ws_event_frame \<Rightarrow> tui \<Rightarrow> tui option" where
  "onFrame cd now f s =
     map_option (\<lambda>lv.
       let s = s\<lparr>live := lv\<rparr> in
       if weEvent f = ''trace.updated''
       then let st = NotifyTraceUpdated (trStore s) in
            s\<lparr>trStore := (if tpLevel (panelT s) \<noteq> Traces then NotifyDetailDirty st else st)\<rparr>
       else s) (HandleEvent cd now f (live s))"

definition showStatus :: "string \<Rightarrow> ui" where
  "showStatus msg = updU (\<lambda>s. s\<lparr>cmdLabel := msg, cmdText := []\<rparr>)"

definition statusTimer :: "string \<Rightarrow> ui" where
  "statusTimer msg = updU (\<lambda>s. if cmdLabel s = msg then s\<lparr>cmdLabel := []\<rparr> else s)"

definition tabFocus :: "tab \<Rightarrow> focus" where
  "tabFocus t = (case t of TabState \<Rightarrow> FocusTable | TabTraces \<Rightarrow> FocusTraces | TabLogs \<Rightarrow> FocusLogs)"

definition focusActiveTab :: ui where
  "focusActiveTab = updU (\<lambda>s. s\<lparr>uiFocus := tabFocus (activeTab (reg s))\<rparr>)"

definition refreshTable :: ui where
  "refreshTable = updU (\<lambda>s. s\<lparr>rows := tableRows (GetChanges (mdl s)), tableRow := 1\<rparr>)"

definition switchKind :: "resource_kind \<Rightarrow> ui" where
  "switchKind k = seqU (updU (\<lambda>s. s\<lparr>mdl := SetKind k (mdl s)\<rparr>)) refreshTable"

definition pushView :: "string \<Rightarrow> ui" where
  "pushView n = updU (\<lambda>s. s\<lparr>reg := PushView n (reg s), uiFocus := (if uiFocus s = FocusCmd then FocusCmd else FocusPage n)\<rparr>)"

definition popView :: ui where
  "popView = seqU (updU (\<lambda>s. s\<lparr>reg := snd (PopView (reg s))\<rparr>)) focusActiveTab"

definition notifyTraces :: ui where
  "notifyTraces = updU (\<lambda>s. s\<lparr>trStore := NotifyTraceUpdated (trStore s)\<rparr>)"

text \<open>
  The goroutines of the log tail: what they do before they call the provider, and what a start does when the
  call has returned. The stub of attach mode cannot tail.
\<close>

definition startLogTail :: ui where
  "startLogTail = ifU (\<lambda>s. attachURL s = None \<and> \<not> tailing (live s)) (emitU StartLogTail) skipU"

definition logTailStarted :: "goerr option \<Rightarrow> ui" where
  "logTailStarted err = (case err of None \<Rightarrow> updU (\<lambda>s. s\<lparr>live := SetTailing True (live s)\<rparr>) | Some e \<Rightarrow> skipU)"

definition stopLogTail :: ui where
  "stopLogTail = ifU (\<lambda>s. tailing (live s)) (seqU (updU (\<lambda>s. s\<lparr>live := SetTailing False (live s)\<rparr>)) (emitU StopLogTail)) skipU"

definition switchTabU :: "tab \<Rightarrow> ui" where
  "switchTabU t = withU (\<lambda>s. activeTab (reg s)) (\<lambda>prev.
     seqU (updU (\<lambda>s. s\<lparr>reg := SwitchTab t (reg s)\<rparr>))
    (seqU (if t = TabLogs \<and> prev \<noteq> TabLogs then startLogTail
           else if t \<noteq> TabLogs \<and> prev = TabLogs then stopLogTail else skipU)
    (seqU (if t = TabTraces \<and> prev \<noteq> TabTraces then notifyTraces else skipU)
     focusActiveTab)))"

definition showDetail :: "change \<Rightarrow> ui" where
  "showDetail c = seqU (emitU (ObserveDetail (chKind c) (chName c))) (seqU (pushView ''detail'')
     (updU (\<lambda>s. s\<lparr>uiFocus := FocusPage ''detail''\<rparr>)))"

definition showDrift :: "change \<Rightarrow> ui" where
  "showDrift c = seqU (pushView ''drift'') (updU (\<lambda>s. s\<lparr>uiFocus := FocusPage ''drift''\<rparr>))"

definition toggleHelp :: ui where
  "toggleHelp = ifU (\<lambda>s. CurrentView (reg s) = ''help'') popView (pushView ''help'')"

definition triggerRefresh :: ui where
  "triggerRefresh = updU (\<lambda>s. s\<lparr>refreshQueued := True\<rparr>)"

definition refreshLogs :: ui where
  "refreshLogs = updU (\<lambda>s. s\<lparr>panelL := RefreshLogs (logSnapshot (live s)) (panelL s)\<rparr>)"

definition refreshActiveTab :: ui where
  "refreshActiveTab = withU (\<lambda>s. activeTab (reg s)) (\<lambda>t.
     case t of
       TabState \<Rightarrow> triggerRefresh
     | TabTraces \<Rightarrow> seqU notifyTraces (ifU (\<lambda>s. tpLevel (panelT s) \<noteq> Traces)
         (updU (\<lambda>s. s\<lparr>trStore := NotifyDetailDirty (trStore s)\<rparr>)) skipU)
     | TabLogs \<Rightarrow> refreshLogs)"

text \<open>\<open>refreshTraces\<close> and one turn of \<open>tabRefreshLoop\<close>; the provider of attach mode has no traces.\<close>

definition running :: "trace_data option \<Rightarrow> bool" where
  "running d = (case d of None \<Rightarrow> False | Some t \<Rightarrow> trStatus t = ''running'' \<or> trStatus t = ''pending'')"

definition refreshTraces :: ui where
  "refreshTraces = ifU (\<lambda>s. tpPaused (panelT s) \<or> attachURL s \<noteq> None) skipU
    (seqU (ifU (\<lambda>s. listDirty (trStore s)) (emitU FetchList) skipU)
    (seqU (ifU (\<lambda>s. tpLevel (panelT s) = Spans \<and> activeTab (reg s) = TabTraces \<and> running (selectedData (trStore s)))
        (updU (\<lambda>s. s\<lparr>trStore := NotifyDetailDirty (trStore s)\<rparr>)) skipU)
      (ifU (\<lambda>s. detailDirty (trStore s)) (emitU FetchDetail) skipU)))"

definition tabTick :: "int \<Rightarrow> ui" where
  "tabTick n =
     seqU (if n mod 20 = 0 then notifyTraces else skipU)
    (seqU refreshTraces
      (ifU (\<lambda>s. dirty (live s))
        (seqU (ifU (\<lambda>s. activeTab (reg s) = TabLogs) refreshLogs skipU) (updU (\<lambda>s. s\<lparr>live := MarkClean (live s)\<rparr>))) skipU))"

section \<open>The header\<close>

text \<open>Durations are in nanoseconds.\<close>

definition formatDuration :: "int \<Rightarrow> string" where
  "formatDuration d =
     (if d < 60000000000 then showInt (d div 1000000000) @ ''s''
      else if d < 3600000000000 then showInt (d div 60000000000) @ ''m''
      else showInt (d div 3600000000000) @ ''h'')"

definition headerText :: "int \<Rightarrow> tui \<Rightarrow> string" where
  "headerText now s =
     (let m = mdl s; sep = HeaderSep; changes = GetChanges m;
          kindLabel = Tag HexGreen (if currentKind m \<noteq> [] then currentKind m else ''all'');
          summary = (if changes \<noteq> [] then sep @ StatusSummaryColored changes else []);
          age = (case lastRefresh m of None \<Rightarrow> [] | Some t \<Rightarrow> sep @ Tag HexOverlay0 (formatDuration (now - t) @ '' ago''));
          how = (case attachURL s of None \<Rightarrow> []
                 | Some u \<Rightarrow> sep @ Tag HexBlue (if curTenant s \<noteq> [] then ''tenant:'' @ curTenant s else ''attach''))
      in '' '' @ BoldTag HexMauve ''gcplane'' @ sep @ manifestName m @ sep @ mdEndpoint m @ sep @ kindLabel @ how @ summary @ age @
         [nl] @ TabBar (reg s))"

section \<open>Actions\<close>

definition applyMessage :: "plan \<Rightarrow> string" where
  "applyMessage p = ''Apply '' @ showNat (Creates p + Updates p) @ '' change(s)?'' @ [nl] @ ''('' @ showNat (Creates p) @ '' create, '' @
     showNat (Updates p) @ '' update)''"

definition deleteMessage :: "resource_kind \<Rightarrow> string \<Rightarrow> string" where
  "deleteMessage k n = ''Delete '' @ k @ ''/'' @ n @ '' from GoClaw?''"

definition askConfirm :: "string \<Rightarrow> confirm_action \<Rightarrow> ui" where
  "askConfirm msg act = seqU (updU (\<lambda>s. s\<lparr>confirm := Some (msg, act)\<rparr>)) (seqU (pushView ''confirm'')
     (updU (\<lambda>s. s\<lparr>uiFocus := FocusPage ''confirm''\<rparr>)))"

definition applyAll :: ui where
  "applyAll = ifU (\<lambda>s. attachURL s \<noteq> None) (showStatus (Tag HexYellow ''Apply not available in attach mode''))
     (withU (\<lambda>s. mdPlan (mdl s)) (\<lambda>p. case p of
        None \<Rightarrow> skipU
      | Some p \<Rightarrow>
          if Creates p + Updates p = 0 then showStatus (Tag HexGreen ''All resources in sync. Nothing to apply.'')
          else askConfirm (applyMessage p) ConfirmApply))"

definition deleteResource :: ui where
  "deleteResource = withU (\<lambda>s. GetSelectedChange (rows s) (tableRow s)) (\<lambda>c. case c of
     None \<Rightarrow> skipU
   | Some c \<Rightarrow> askConfirm (deleteMessage (chKind c) (chName c)) (ConfirmDelete (chKind c) (chName c)))"

text \<open>The callback of the dialog: back to the view before it, then the action if it was confirmed.\<close>

definition answerConfirm :: "bool \<Rightarrow> ui" where
  "answerConfirm yes = withU confirm (\<lambda>c. case c of
     None \<Rightarrow> skipU
   | Some (msg, act) \<Rightarrow> seqU popView
       (if \<not> yes then skipU
        else case act of
          ConfirmApply \<Rightarrow> seqU (showStatus (Tag HexYellow ''Applying...'')) (emitU DoApply)
        | ConfirmDelete k n \<Rightarrow> seqU (showStatus (Tag HexYellow (''Deleting '' @ k @ ''/'' @ n @ ''...''))) (emitU (DoDelete k n))))"

definition editResource :: ui where
  "editResource = withU (\<lambda>s. GetSelectedChange (rows s) (tableRow s)) (\<lambda>c. case c of
     None \<Rightarrow> skipU | Some c \<Rightarrow> emitU (DoEdit (chKind c) (chName c)))"

text \<open>
  What an edit sends: the observed spec goes to the editor as YAML, and the \<open>spec\<close> of what comes back goes to the
  server. \<open>edit\<close> stands for the temporary file and the editor, with the message of a failure to write or read
  the file.
\<close>

definition editSpec ::
  "(gomap \<Rightarrow> string result) \<Rightarrow> (string \<Rightarrow> string + string) \<Rightarrow> (string \<Rightarrow> gomap result) \<Rightarrow> resource_kind \<Rightarrow> string \<Rightarrow>
   gomap option result \<Rightarrow> string + gomap"
where
  "editSpec toYaml edit fromYaml k n observed =
     (case observed of
        Inl err \<Rightarrow> Inl (''Cannot edit: '' @ errText err)
      | Inr m \<Rightarrow>
          (case toYaml [(''kind'', GStr k), (''name'', GStr n), (''spec'', (case m of None \<Rightarrow> GMap [] | Some m \<Rightarrow> GMap m))] of
             Inl err \<Rightarrow> Inl (''Marshal error: '' @ errText err)
           | Inr y \<Rightarrow>
               (case edit y of
                  Inl msg \<Rightarrow> Inl msg
                | Inr y' \<Rightarrow>
                    (case fromYaml y' of
                       Inl err \<Rightarrow> Inl (''Invalid YAML: '' @ errText err)
                     | Inr r \<Rightarrow>
                         (case map_of r ''spec'' of
                            Some (GMap spec) \<Rightarrow> Inr spec
                          | _ \<Rightarrow> Inl ''Missing or invalid 'spec' in edited YAML'')))))"

definition applySummary :: "plan \<Rightarrow> apply_result \<Rightarrow> string" where
  "applySummary p r =
     (let t = ''Applied: '' @ showNat (Applied r) @ '', Failed: '' @ showNat (Failed r) @ '', Creates: '' @ showNat (Creates p) @
            '', Updates: '' @ showNat (Updates p) @ (case resErrors r of [] \<Rightarrow> [] | e # es \<Rightarrow> '' | Errors: '' @ e)
      in Tag (if 0 < Failed r \<or> Applied r = 0 then HexRed else HexGreen) t)"

definition deleteSummary :: "resource_kind \<Rightarrow> string \<Rightarrow> goerr option \<Rightarrow> string" where
  "deleteSummary k n e =
     (case e of None \<Rightarrow> Tag HexGreen (''Deleted '' @ k @ ''/'' @ n) | Some err \<Rightarrow> Tag HexRed (''Delete failed: '' @ errText err))"

text \<open>The goroutines behind a refresh, an apply and a delete, up to the event they end with.\<close>

definition refreshDirect :: "'w engine \<Rightarrow> manifest \<Rightarrow> 'w \<Rightarrow> plan \<times> 'w" where
  "refreshDirect e m w =
     (case Reconcile e m \<lparr>DryRun = True, Prune = False, Force = False, Concurrency = 0\<rparr> w of ((p, r), w') \<Rightarrow> (p, w'))"

definition refreshFromServe :: "'w attach_client \<Rightarrow> string \<Rightarrow> 'w \<Rightarrow> plan result \<times> 'w" where
  "refreshFromServe c t w =
     (case fetchAttached c t w of (Inl err, w') \<Rightarrow> (Inl err, w') | (Inr changes, w') \<Rightarrow> (Inr (syntheticPlan changes), w'))"

definition doApply :: "'w engine \<Rightarrow> manifest \<Rightarrow> 'w \<Rightarrow> string \<times> 'w" where
  "doApply e m w =
     (case Reconcile e m \<lparr>DryRun = False, Prune = False, Force = False, Concurrency = 0\<rparr> w of ((p, r), w') \<Rightarrow> (applySummary p r, w'))"

definition doDelete :: "'w provider_ops \<Rightarrow> resource_kind \<Rightarrow> string \<Rightarrow> 'w \<Rightarrow> string \<times> 'w" where
  "doDelete pr k n w = (case Delete pr k n w of (e, w') \<Rightarrow> (deleteSummary k n e, w'))"

definition planArrived :: "int \<Rightarrow> plan \<Rightarrow> ui" where
  "planArrived now p = seqU (updU (\<lambda>s. s\<lparr>mdl := UpdatePlan now p (mdl s)\<rparr>)) (seqU refreshTable
     (ifU (\<lambda>s. attachURL s = None \<and> planErrors p \<noteq> [])
       (showStatus (Tag HexRed (showNat (length (planErrors p)) @ '' observe error(s): '' @ hd (planErrors p)))) skipU))"

lemma refreshDirect_frame:
  assumes "\<And>k n w. f (snd (Observe (provider e) k n w)) = f w" "\<And>k w. f (snd (ListAll (provider e) k w)) = f w"
  shows "f (snd (refreshDirect e m w)) = f w"
  using Reconcile_dry_frame [of "\<lparr>DryRun = True, Prune = False, Force = False, Concurrency = 0\<rparr>" f e m w] assms
  by (auto simp: refreshDirect_def split: prod.split)

section \<open>Searching\<close>

definition applySearch :: "string \<Rightarrow> ui" where
  "applySearch f = withU (\<lambda>s. activeTab (reg s)) (\<lambda>t. case t of
     TabState \<Rightarrow> seqU (updU (\<lambda>s. s\<lparr>mdl := SetFilterM f (mdl s)\<rparr>)) refreshTable
   | TabTraces \<Rightarrow> seqU (updU (\<lambda>s. s\<lparr>panelT := SetFilterP f (panelT s)\<rparr>))
       (ifU (\<lambda>s. tpLevel (panelT s) = Traces)
         (updU (\<lambda>s. s\<lparr>panelT := RefreshTraces (tsTraces (trStore s)) (tsTotal (trStore s)) (selectedID (trStore s)) (panelT s)\<rparr>)) skipU)
   | TabLogs \<Rightarrow> seqU (updU (\<lambda>s. s\<lparr>panelL := SetFilterL f (panelL s)\<rparr>)) refreshLogs)"

definition clearSearch :: ui where
  "clearSearch = withU (\<lambda>s. activeTab (reg s)) (\<lambda>t. case t of
     TabState \<Rightarrow> seqU (updU (\<lambda>s. s\<lparr>mdl := SetFilterM [] (mdl s)\<rparr>)) refreshTable
   | TabTraces \<Rightarrow> updU (\<lambda>s. s\<lparr>panelT := SetFilterP [] (panelT s)\<rparr>)
   | TabLogs \<Rightarrow> seqU (updU (\<lambda>s. s\<lparr>panelL := SetFilterL [] (panelL s)\<rparr>)) refreshLogs)"

definition activateCommandBar :: ui where
  "activateCommandBar = updU (\<lambda>s. s\<lparr>cmdLabel := '':'', cmdText := [], uiFocus := FocusCmd\<rparr>)"

definition deactivateCommandBar :: ui where
  "deactivateCommandBar = seqU (updU (\<lambda>s. s\<lparr>cmdLabel := [], cmdText := []\<rparr>)) focusActiveTab"

definition activateSearch :: ui where
  "activateSearch = updU (\<lambda>s. s\<lparr>cmdLabel := ''/'', cmdText := [], doneFunc := OnSearchDone, uiFocus := FocusCmd\<rparr>)"

section \<open>Commands\<close>

definition kindAliases :: "(string \<times> resource_kind) list" where
  "kindAliases = [(''provider'', KindProvider), (''agent'', KindAgent), (''channel'', KindChannel), (''mcp'', KindMCPServer),
     (''mcpserver'', KindMCPServer), (''skill'', KindSkill), (''cron'', KindCronJob), (''cronjob'', KindCronJob),
     (''team'', KindAgentTeam), (''agentteam'', KindAgentTeam), (''sysconfig'', KindSystemConfig), (''systemconfig'', KindSystemConfig),
     (''cli'', KindSecureCLI), (''securecli'', KindSecureCLI), (''link'', KindAgentLink), (''agentlink'', KindAgentLink),
     (''workstation'', KindWorkstation), (''ws'', KindWorkstation)]"

text \<open>\<open>strings.Fields\<close>.\<close>

fun strFields :: "string \<Rightarrow> string \<Rightarrow> string list" where
  "strFields acc [] = (if acc = [] then [] else [acc])"
| "strFields acc (c # cs) =
     (if isSpace c then (if acc = [] then strFields [] cs else acc # strFields [] cs) else strFields (acc @ [c]) cs)"

definition handleTenantCommand :: "string \<Rightarrow> ui" where
  "handleTenantCommand cmd = withU attachURL (\<lambda>att. case att of
     None \<Rightarrow> showStatus (Tag HexYellow ''Tenant switching only available in attach mode (--attach)'')
   | Some url \<Rightarrow> seqU
       (case strFields [] cmd of
          p # t # ps \<Rightarrow> seqU (updU (\<lambda>s. s\<lparr>curTenant := t, mdl := SetManifestName (''tenant: '' @ t) (mdl s)\<rparr>))
            (showStatus (Tag HexGreen (''Switched to tenant: '' @ t)))
        | _ \<Rightarrow> seqU (updU (\<lambda>s. s\<lparr>curTenant := [], mdl := SetManifestName (''attached: '' @ url) (mdl s)\<rparr>))
            (showStatus (Tag HexGreen ''Showing all tenants'')))
       triggerRefresh)"

definition triggerRemoteSync :: ui where
  "triggerRemoteSync = ifU (\<lambda>s. attachURL s = None) applyAll (withU curTenant (\<lambda>t. emitU (RemoteSync t)))"

definition stopU :: ui where
  "stopU = seqU (updU (\<lambda>s. s\<lparr>uiStopped := True\<rparr>)) (emitU Quit)"

definition executeCommand :: "string \<Rightarrow> ui" where
  "executeCommand txt =
     (let cmd = trimSpace (lower txt) in
      if cmd = ''q'' \<or> cmd = ''quit'' then stopU
      else if cmd = ''all'' then switchKind []
      else if cmd = ''help'' then toggleHelp
      else if cmd = ''apply'' then applyAll
      else if cmd = ''delete'' \<or> cmd = ''del'' then deleteResource
      else if cmd = ''sync'' then triggerRemoteSync
      else if cmd = ''state'' then switchTabU TabState
      else if cmd = ''logs'' then switchTabU TabLogs
      else if cmd = ''traces'' then switchTabU TabTraces
      else if hasPrefix ''tenant'' cmd then handleTenantCommand cmd
      else case map_of kindAliases cmd of
        Some k \<Rightarrow> switchKind k
      | None \<Rightarrow> (case find (\<lambda>k. lower cmd = lower k) ApplyOrder of Some k \<Rightarrow> switchKind k | None \<Rightarrow> skipU))"

text \<open>The done functions of the command line, for Enter; Escape never reaches it.\<close>

definition onCommandDone :: "string \<Rightarrow> ui" where
  "onCommandDone txt = seqU (updU (\<lambda>s. s\<lparr>keyMode := ModeNormal\<rparr>)) (seqU deactivateCommandBar (executeCommand txt))"

definition onSearchDone :: "string \<Rightarrow> ui" where
  "onSearchDone txt = seqU (applySearch txt)
     (seqU (updU (\<lambda>s. s\<lparr>keyMode := ModeNormal, cmdLabel := [], doneFunc := OnCommandDone\<rparr>)) deactivateCommandBar)"

end
