(* ===== verification/TuiKeys.thy ===== *)
theory TuiKeys
  imports Tui
begin

text \<open>
  \<open>internal/tui/keybindings.go\<close> and the events of the terminal UI: \<open>Handle\<close> sees every key first and either
  consumes it or hands it on to the widget that has the focus. The properties are about runs of events.
\<close>

section \<open>Keys\<close>

datatype key = CtrlC | CtrlQ | CtrlD | CtrlE | CtrlR | CtrlU | Escape | Enter | Down | Up | Rune char | OtherKey

definition runeOf :: "key \<Rightarrow> char option" where
  "runeOf k = (case k of Rune c \<Rightarrow> Some c | _ \<Rightarrow> None)"

definition kindByNumber :: "(char \<times> resource_kind) list" where
  "kindByNumber = [(CHR ''1'', KindProvider), (CHR ''2'', KindAgent), (CHR ''3'', KindChannel), (CHR ''4'', KindMCPServer),
     (CHR ''5'', KindSkill), (CHR ''6'', KindCronJob), (CHR ''7'', KindAgentTeam), (CHR ''8'', KindSystemConfig), (CHR ''9'', KindSecureCLI)]"

definition goToTop :: ui where
  "goToTop = withU (\<lambda>s. activeTab (reg s)) (\<lambda>t. case t of
     TabState \<Rightarrow> updU (\<lambda>s. s\<lparr>tableRow := 1\<rparr>)
   | TabTraces \<Rightarrow> updU (\<lambda>s. s\<lparr>panelT := GoToTopT (panelT s)\<rparr>)
   | TabLogs \<Rightarrow> updU (\<lambda>s. s\<lparr>panelL := (panelL s)\<lparr>lpRow := 1\<rparr>\<rparr>))"

definition goToBottom :: ui where
  "goToBottom = withU (\<lambda>s. activeTab (reg s)) (\<lambda>t. case t of
     TabState \<Rightarrow> ifU (\<lambda>s. 1 < rowCount (rows s)) (updU (\<lambda>s. s\<lparr>tableRow := rowCount (rows s) - 1\<rparr>)) skipU
   | TabTraces \<Rightarrow> updU (\<lambda>s. s\<lparr>panelT := GoToBottomT (panelT s)\<rparr>)
   | TabLogs \<Rightarrow> ifU (\<lambda>s. 1 < rowCount (lpEntries (panelL s)))
       (updU (\<lambda>s. s\<lparr>panelL := (panelL s)\<lparr>lpRow := rowCount (lpEntries (panelL s)) - 1\<rparr>\<rparr>)) skipU)"

record formats =
  fmtSecs :: "int \<Rightarrow> string"
  fmtClock :: "int \<Rightarrow> string"

definition copySelected :: "formats \<Rightarrow> ui" where
  "copySelected fm = withU (\<lambda>s. case activeTab (reg s) of
       TabTraces \<Rightarrow> CopySelected (fmtSecs fm) (panelT s) | TabLogs \<Rightarrow> SelectedEntry (fmtClock fm) (panelL s) | TabState \<Rightarrow> []) (\<lambda>txt.
     if txt \<noteq> [] then seqU (emitU (CopyText txt)) (showStatus (Tag HexGreen ''Copied'')) else skipU)"

text \<open>\<open>drillIntoTrace\<close> selects the trace at once; its spans arrive with a later event.\<close>

definition drillIntoTrace :: ui where
  "drillIntoTrace = withU (\<lambda>s. SelectedTraceID (tpList (panelT s))) (\<lambda>i.
     if i = [] then skipU
     else ifU (\<lambda>s. attachURL s \<noteq> None) (showStatus (Tag HexRed ''Trace API not available''))
       (seqU (updU (\<lambda>s. s\<lparr>trStore := SelectTrace i (trStore s)\<rparr>)) (emitU (FetchSelected i))))"

definition handleDrillIn :: ui where
  "handleDrillIn = ifU (\<lambda>s. activeTab (reg s) \<noteq> TabTraces) skipU
     (withU (\<lambda>s. tpLevel (panelT s)) (\<lambda>l. case l of
        Traces \<Rightarrow> drillIntoTrace
      | Spans \<Rightarrow> updU (\<lambda>s. s\<lparr>panelT := snd (DrillIn (panelT s))\<rparr>)
      | Detail \<Rightarrow> skipU))"

definition handleLogLevelKey :: "char \<Rightarrow> ui" where
  "handleLogLevelKey r =
     (case map_of [(CHR ''1'', ''debug''), (CHR ''2'', ''info''), (CHR ''3'', ''warn''), (CHR ''4'', ''error'')] r of
        None \<Rightarrow> skipU
      | Some l \<Rightarrow> updU (\<lambda>s. s\<lparr>panelL := SetLevelMin l (panelL s)\<rparr>))"

definition handleNumberKey :: "char \<Rightarrow> ui" where
  "handleNumberKey r = withU (\<lambda>s. activeTab (reg s)) (\<lambda>t. case t of
     TabState \<Rightarrow> if r = CHR ''0'' then switchKind []
       else (case map_of kindByNumber r of None \<Rightarrow> skipU | Some k \<Rightarrow> switchKind k)
   | TabLogs \<Rightarrow> handleLogLevelKey r
   | TabTraces \<Rightarrow> skipU)"

definition handlePauseResume :: ui where
  "handlePauseResume = withU (\<lambda>s. activeTab (reg s)) (\<lambda>t. case t of
     TabLogs \<Rightarrow> updU (\<lambda>s. s\<lparr>panelL := TogglePauseL (panelL s)\<rparr>)
   | TabTraces \<Rightarrow> updU (\<lambda>s. s\<lparr>panelT := TogglePauseT (panelT s)\<rparr>)
   | TabState \<Rightarrow> skipU)"

definition noFilters :: trace_filters where
  "noFilters = \<lparr>tfAgentID = [], tfChannel = [], tfLimit = 50, tfOffset = 0\<rparr>"

definition handleClearFilters :: ui where
  "handleClearFilters = withU (\<lambda>s. activeTab (reg s)) (\<lambda>t. case t of
     TabState \<Rightarrow> seqU (switchKind []) (seqU (updU (\<lambda>s. s\<lparr>mdl := SetFilterM [] (mdl s)\<rparr>)) refreshTable)
   | TabLogs \<Rightarrow> seqU (updU (\<lambda>s. s\<lparr>panelL := SetFilterL [] (SetLevelMin ''debug'' (panelL s))\<rparr>)) refreshLogs
   | TabTraces \<Rightarrow> seqU (updU (\<lambda>s. s\<lparr>trStore := SetFiltersT noFilters (trStore s),
         panelT := SetFilterP [] ((panelT s)\<lparr>agentFilter := [], channelFilter := []\<rparr>)\<rparr>)) notifyTraces)"

text \<open>A handler of keys also says which key, if any, goes on to the widget.\<close>

type_synonym keyed = "tui \<Rightarrow> (tui \<times> ui_effect list) \<times> key option"

definition consume :: "ui \<Rightarrow> keyed" where "consume f s = (f s, None)"
definition passOn :: "key \<Rightarrow> keyed" where "passOn k s = (skipU s, Some k)"
definition ifK :: "(tui \<Rightarrow> bool) \<Rightarrow> keyed \<Rightarrow> keyed \<Rightarrow> keyed" where "ifK b f g s = (if b s then f s else g s)"

definition runeNormal :: "key \<Rightarrow> char \<Rightarrow> keyed" where
  "runeNormal k c =
     (if c = CHR ''q'' then consume stopU
      else if c = CHR ''?'' then consume toggleHelp
      else if c = CHR '':'' then consume (seqU (updU (\<lambda>s. s\<lparr>keyMode := ModeCommand\<rparr>)) activateCommandBar)
      else if c = CHR ''/'' then consume (seqU (updU (\<lambda>s. s\<lparr>keyMode := ModeSearch\<rparr>)) activateSearch)
      else if c = CHR ''r'' then consume refreshActiveTab
      else if c = CHR ''G'' then consume goToBottom
      else if c = CHR ''g'' then consume (updU (\<lambda>s. s\<lparr>pendingKey := Some (CHR ''g'')\<rparr>))
      else if c = CHR ''y'' then consume (updU (\<lambda>s. s\<lparr>pendingKey := Some (CHR ''y'')\<rparr>))
      else if c = CHR ''j'' then passOn Down
      else if c = CHR ''k'' then passOn Up
      else if c = CHR ''l'' then ifK (\<lambda>s. activeTab (reg s) = TabTraces) (consume handleDrillIn) (passOn k)
      else if c = CHR ''h'' then
        ifK (\<lambda>s. activeTab (reg s) = TabTraces \<and> tpLevel (panelT s) \<noteq> Traces) (consume (updU (\<lambda>s. s\<lparr>panelT := DrillOut (panelT s)\<rparr>))) (passOn k)
      else if c = CHR '' '' then consume handlePauseResume
      else if c = CHR ''p'' then
        ifK (\<lambda>s. activeTab (reg s) = TabTraces) (consume (updU (\<lambda>s. s\<lparr>panelT := TogglePauseT (panelT s)\<rparr>))) (passOn k)
      else if c = CHR ''c'' then consume handleClearFilters
      else if isDigit c then consume (handleNumberKey c)
      else passOn k)"

definition handleNormal :: "formats \<Rightarrow> key \<Rightarrow> keyed" where
  "handleNormal fm k s =
     (let prev = pendingKey s; s = s\<lparr>pendingKey := None\<rparr> in
      if prev = Some (CHR ''g'') \<and> k = Rune (CHR ''g'') then consume goToTop s
      else if prev = Some (CHR ''y'') \<and> k = Rune (CHR ''y'') then consume (copySelected fm) s
      else if \<not> HasOverlay (reg s) \<and> k = Rune (CHR ''S'') then consume (switchTabU TabState) s
      else if \<not> HasOverlay (reg s) \<and> k = Rune (CHR ''T'') then consume (switchTabU TabTraces) s
      else if \<not> HasOverlay (reg s) \<and> k = Rune (CHR ''L'') then consume (switchTabU TabLogs) s
      else case runeOf k of Some c \<Rightarrow> runeNormal k c s | None \<Rightarrow> passOn k s)"

definition handleEscape :: ui where
  "handleEscape = seqU (updU (\<lambda>s. s\<lparr>pendingKey := None\<rparr>))
     (ifU (\<lambda>s. keyMode s \<noteq> ModeNormal) (seqU (updU (\<lambda>s. s\<lparr>keyMode := ModeNormal\<rparr>)) (seqU clearSearch deactivateCommandBar))
     (ifU (\<lambda>s. HasOverlay (reg s)) popView
     (withU (\<lambda>s. activeTab (reg s)) (\<lambda>t. case t of
        TabTraces \<Rightarrow> ifU (\<lambda>s. tpLevel (panelT s) \<noteq> Traces) (updU (\<lambda>s. s\<lparr>panelT := DrillOut (panelT s)\<rparr>))
          (updU (\<lambda>s. s\<lparr>panelT := SetFilterP [] (panelT s)\<rparr>))
      | TabLogs \<Rightarrow> seqU (updU (\<lambda>s. s\<lparr>panelL := SetFilterL [] (panelL s)\<rparr>)) refreshLogs
      | TabState \<Rightarrow> ifU (\<lambda>s. searchFilter (mdl s) \<noteq> []) (seqU (updU (\<lambda>s. s\<lparr>mdl := SetFilterM [] (mdl s)\<rparr>)) refreshTable) skipU))))"

definition onState :: "tui \<Rightarrow> bool" where
  "onState s \<longleftrightarrow> activeTab (reg s) = TabState \<and> \<not> HasOverlay (reg s)"

definition HandleKey :: "formats \<Rightarrow> key \<Rightarrow> keyed" where
  "HandleKey fm k s =
     (if k = CtrlC \<or> k = CtrlQ then consume stopU s
      else if k = Escape then consume handleEscape s
      else if keyMode s \<noteq> ModeNormal then passOn k s
      else if k = CtrlE \<and> onState s then consume editResource s
      else if k = CtrlR then consume refreshActiveTab s
      else if k = CtrlD then (if onState s then consume deleteResource s else passOn k s)
      else if k = CtrlU then passOn k s
      else if k = Enter then
        (if activeTab (reg s) = TabTraces \<and> \<not> HasOverlay (reg s) then consume handleDrillIn s else passOn k s)
      else handleNormal fm k s)"

text \<open>\<open>ResourceTable.handleInput\<close>, which only sees the keys that were handed on.\<close>

definition tableInput :: "key \<Rightarrow> ui" where
  "tableInput k = withU (\<lambda>s. GetSelectedChange (rows s) (tableRow s)) (\<lambda>c. case c of
     None \<Rightarrow> skipU
   | Some c \<Rightarrow> if k = Rune (CHR ''d'') then showDrift c else if k = Enter then showDetail c else skipU)"

section \<open>Events\<close>

datatype ui_event =
    Key key
  | Typed string
  | Button bool
  | MoveTo int
  | PlanArrived int plan
  | RefreshFailed int goerr
  | SpansArrived
  | StatusExpired string
  | TailStarted "goerr option"
  | Tick int

definition toWidget :: "key \<Rightarrow> ui" where
  "toWidget k = withU (\<lambda>s. (uiFocus s, doneFunc s, cmdText s)) (\<lambda>(f, d, txt).
     case f of
       FocusTable \<Rightarrow> tableInput k
     | FocusCmd \<Rightarrow> if k = Enter then (case d of OnCommandDone \<Rightarrow> onCommandDone txt | OnSearchDone \<Rightarrow> onSearchDone txt) else skipU
     | _ \<Rightarrow> skipU)"

definition keyU :: "formats \<Rightarrow> key \<Rightarrow> ui" where
  "keyU fm k s = (case HandleKey fm k s of (r, None) \<Rightarrow> r | ((s1, es), Some k') \<Rightarrow> seqU (\<lambda>s. (s1, es)) (toWidget k') s)"

text \<open>The spans of the selected trace, when the fetch has succeeded.\<close>

definition spansArrived :: ui where
  "spansArrived = withU (\<lambda>s. (selectedData (trStore s), tsSpans (trStore s))) (\<lambda>(d, spans). case d of
     None \<Rightarrow> skipU
   | Some tr \<Rightarrow> updU (\<lambda>s. s\<lparr>panelT := ShowSpans tr spans (panelT s), uiFocus := FocusTraces\<rparr>))"

definition uiStep :: "formats \<Rightarrow> ui_event \<Rightarrow> ui" where
  "uiStep fm e =
     (case e of
        Key k \<Rightarrow> keyU fm k
      | Typed txt \<Rightarrow> ifU (\<lambda>s. uiFocus s = FocusCmd) (updU (\<lambda>s. s\<lparr>cmdText := txt\<rparr>)) skipU
      | Button yes \<Rightarrow> ifU (\<lambda>s. uiFocus s = FocusPage ''confirm'') (answerConfirm yes) skipU
      | MoveTo r \<Rightarrow> updU (\<lambda>s. s\<lparr>tableRow := r\<rparr>)
      | PlanArrived now p \<Rightarrow> planArrived now p
      | RefreshFailed now err \<Rightarrow> updU (\<lambda>s. s\<lparr>mdl := SetErrorM now err (mdl s)\<rparr>)
      | SpansArrived \<Rightarrow> spansArrived
      | StatusExpired msg \<Rightarrow> statusTimer msg
      | TailStarted err \<Rightarrow> logTailStarted err
      | Tick n \<Rightarrow> tabTick n)"

inductive tui_reachable :: "formats \<Rightarrow> tui \<Rightarrow> bool" for fm where
  start: "tui_reachable fm (NewApp m ep iv att)"
| step: "tui_reachable fm s \<Longrightarrow> tui_reachable fm (fst (uiStep fm e s))"

end
