(* ===== verification/TuiFacts.thy ===== *)
theory TuiFacts
  imports TuiKeys
begin

text \<open>
  What holds of every run of the terminal UI: the page in front is the registry's current one, and nothing is
  applied or deleted without an answer to a dialog that names it.
\<close>

section \<open>Silent handlers\<close>

definition isWrite :: "ui_effect \<Rightarrow> bool" where
  "isWrite e = (case e of DoApply \<Rightarrow> True | DoDelete k n \<Rightarrow> True | DoEdit k n \<Rightarrow> True | _ \<Rightarrow> False)"

definition silentU :: "ui \<Rightarrow> bool" where
  "silentU f \<longleftrightarrow> (\<forall>s. \<forall>e \<in> set (snd (f s)). \<not> isWrite e)"

named_theorems silent_intros

lemma silent_basic [silent_intros]:
  "silentU skipU" "silentU (updU g)" "\<not> isWrite e \<Longrightarrow> silentU (emitU e)"
  by (simp_all add: silentU_def skipU_def updU_def emitU_def)

lemma silent_seqU [silent_intros]: "silentU f \<Longrightarrow> silentU g \<Longrightarrow> silentU (seqU f g)"
  by (auto simp: silentU_def seqU_def split: prod.splits) (metis snd_conv)+

lemma silent_ifU [silent_intros]: "silentU f \<Longrightarrow> silentU g \<Longrightarrow> silentU (ifU b f g)"
  by (simp add: silentU_def ifU_def)

lemma silent_withU [silent_intros]: "(\<And>x. silentU (f x)) \<Longrightarrow> silentU (withU a f)"
  by (simp add: silentU_def withU_def)

lemma silent_ops [silent_intros]:
  "silentU (showStatus msg)" "silentU (statusTimer msg)" "silentU focusActiveTab" "silentU refreshTable" "silentU (switchKind k)" "silentU (pushView n)"
  "silentU popView" "silentU notifyTraces" "silentU triggerRefresh" "silentU refreshLogs" "silentU clearSearch" "silentU activateCommandBar"
  "silentU deactivateCommandBar" "silentU activateSearch" "silentU stopU" "silentU (askConfirm msg act)" "silentU handlePauseResume"
  "silentU handleClearFilters" "silentU goToTop" "silentU goToBottom" "silentU (handleLogLevelKey r)" "silentU drillIntoTrace"
  unfolding showStatus_def statusTimer_def focusActiveTab_def refreshTable_def switchKind_def pushView_def popView_def notifyTraces_def
    triggerRefresh_def refreshLogs_def clearSearch_def activateCommandBar_def deactivateCommandBar_def activateSearch_def stopU_def
    askConfirm_def handlePauseResume_def handleClearFilters_def goToTop_def goToBottom_def handleLogLevelKey_def drillIntoTrace_def
  by (auto split: tab.split option.split simp: isWrite_def intro!: silent_seqU silent_basic silent_withU silent_ifU)

lemma silent_tail [silent_intros]:
  "silentU startLogTail" "silentU stopLogTail" "silentU (logTailStarted err)" "silentU refreshTraces" "silentU (tabTick n)"
  "silentU (planArrived now p)"
  unfolding planArrived_def startLogTail_def stopLogTail_def logTailStarted_def refreshTraces_def tabTick_def
  by (auto split: option.split simp: isWrite_def intro!: silent_intros)

lemma silent_ops2 [silent_intros]:
  "silentU (switchTabU t)" "silentU (showDetail c)" "silentU (showDrift c)" "silentU toggleHelp" "silentU refreshActiveTab" "silentU applyAll"
  "silentU deleteResource" "silentU (applySearch f)" "silentU (handleTenantCommand cmd)" "silentU (handleNumberKey r)" "silentU handleDrillIn"
  "silentU (copySelected fm)" "silentU spansArrived" "silentU handleEscape"
  unfolding switchTabU_def showDetail_def showDrift_def toggleHelp_def refreshActiveTab_def applyAll_def deleteResource_def
    applySearch_def handleTenantCommand_def handleNumberKey_def handleDrillIn_def copySelected_def spansArrived_def handleEscape_def
  by (auto split: tab.split option.split level.split list.split simp: isWrite_def intro!: silent_intros)

lemma silent_ops3 [silent_intros]: "silentU triggerRemoteSync" "silentU (tableInput k)"
  unfolding triggerRemoteSync_def tableInput_def
  by (auto split: option.split simp: isWrite_def intro!: silent_intros)

lemma silent_executeCommand [silent_intros]: "silentU (executeCommand txt)"
  unfolding executeCommand_def Let_def by (auto split: option.split intro!: silent_intros)

lemma silent_toWidget [silent_intros]: "silentU (toWidget k)"
  unfolding toWidget_def onCommandDone_def onSearchDone_def
  by (auto split: focus.split done_func.split intro!: silent_intros)

definition silentK :: "keyed \<Rightarrow> bool" where
  "silentK f \<longleftrightarrow> (\<forall>s. \<forall>e \<in> set (snd (fst (f s))). \<not> isWrite e)"

lemma silentK_basic: "silentU u \<Longrightarrow> silentK (consume u)" "silentK (passOn k)" "silentK f \<Longrightarrow> silentK g \<Longrightarrow> silentK (ifK b f g)"
  by (auto simp: silentK_def silentU_def consume_def passOn_def skipU_def ifK_def)

lemma silentK_if: "silentK f \<Longrightarrow> silentK g \<Longrightarrow> silentK (if b then f else g)"
  by simp

lemma silentK_runeNormal: "silentK (runeNormal k c)"
  unfolding runeNormal_def by (intro silentK_if silentK_basic silent_intros)

lemma silentK_handleNormal: "silentK (handleNormal fm k)"
proof -
  have "\<not> isWrite e" if "e \<in> set (snd (fst (f s)))" "silentK f" for e f s using that by (auto simp: silentK_def)
  moreover have "silentK (consume goToTop)" "silentK (consume (copySelected fm))" "silentK (consume (switchTabU t))" "silentK (passOn k)"
      "silentK (runeNormal k c)" for t c
    by (intro silentK_basic silent_intros silentK_runeNormal)+
  ultimately show ?thesis
    unfolding silentK_def [of "handleNormal fm k"] handleNormal_def Let_def by (auto split: option.split)
qed

text \<open>The only key that starts a write is the one for editing.\<close>

lemma HandleKey_writes:
  assumes "e \<in> set (snd (fst (HandleKey fm k s)))" "isWrite e"
  shows "k = CtrlE \<and> keyMode s = ModeNormal \<and> onState s \<and> HandleKey fm k s = consume editResource s"
proof (rule ccontr)
  assume no: "\<not> ?thesis"
  have q: "silentK (consume stopU)" "silentK (consume handleEscape)" "silentK (passOn k)" "silentK (consume refreshActiveTab)"
      "silentK (consume deleteResource)" "silentK (consume handleDrillIn)" "silentK (handleNormal fm k)"
    by (intro silentK_basic silent_intros silentK_handleNormal)+
  have "e \<notin> set (snd (fst (f s)))" if "silentK f" for f using that assms(2) by (auto simp: silentK_def)
  with q no assms(1) show False
    by (simp add: HandleKey_def split: if_splits)
qed

section \<open>The invariant\<close>

definition dialog_ok :: "(string \<times> confirm_action) option \<Rightarrow> string option \<Rightarrow> bool" where
  "dialog_ok c att \<longleftrightarrow>
     (case c of
        None \<Rightarrow> True
      | Some (msg, ConfirmApply) \<Rightarrow> (\<exists>p. msg = applyMessage p) \<and> att = None
      | Some (msg, ConfirmDelete k n) \<Rightarrow> msg = deleteMessage k n)"

definition tui_ok :: "tui \<Rightarrow> bool" where
  "tui_ok s \<longleftrightarrow> registry_ok (reg s) \<and> set registeredViews \<subseteq> set (regViews (reg s)) \<and> dialog_ok (confirm s) (attachURL s) \<and>
     (uiFocus s = FocusPage ''confirm'' \<longrightarrow> CurrentView (reg s) = ''confirm'' \<and> confirm s \<noteq> None)"

text \<open>The invariant only looks at these fields, and most handlers leave them alone.\<close>

definition frame :: "tui \<Rightarrow> registry \<times> focus \<times> (string \<times> confirm_action) option \<times> string option" where
  "frame s = (reg s, uiFocus s, confirm s, attachURL s)"

lemma tui_ok_frame: "frame s' = frame s \<Longrightarrow> tui_ok s \<Longrightarrow> tui_ok s'"
  by (auto simp: tui_ok_def frame_def)

definition keepsU :: "ui \<Rightarrow> bool" where
  "keepsU f \<longleftrightarrow> (\<forall>s. tui_ok s \<longrightarrow> tui_ok (fst (f s)))"

named_theorems keepsU_intros

lemma keepsU_updU: "(\<And>s. frame (g s) = frame s) \<Longrightarrow> keepsU (updU g)"
  unfolding keepsU_def updU_def using tui_ok_frame by simp

lemma keepsU_basic [keepsU_intros]: "keepsU skipU" "keepsU (emitU e)"
  by (simp_all add: keepsU_def skipU_def emitU_def)

lemma keepsU_seqU [keepsU_intros]: "keepsU f \<Longrightarrow> keepsU g \<Longrightarrow> keepsU (seqU f g)"
  by (auto simp: keepsU_def seqU_def split: prod.splits)

lemma keepsU_ifU [keepsU_intros]: "keepsU f \<Longrightarrow> keepsU g \<Longrightarrow> keepsU (ifU b f g)"
  by (simp add: keepsU_def ifU_def)

lemma keepsU_withU [keepsU_intros]: "(\<And>x. keepsU (f x)) \<Longrightarrow> keepsU (withU a f)"
  by (simp add: keepsU_def withU_def)

text \<open>The handlers that move between views.\<close>

lemma tabFocus_page [simp]: "tabFocus t \<noteq> FocusPage n"
  by (cases t) (simp_all add: tabFocus_def)

lemma regViews_ops [simp]:
  "regViews (SwitchTab t r) = regViews r" "regViews (PushView n r) = regViews r" "regViews (snd (PopView r)) = regViews r"
  by (simp_all add: SwitchTab_def PushView_def PopView_def switchToPage_def Let_def)

lemma keepsU_focus [keepsU_intros]: "keepsU focusActiveTab" "n \<noteq> ''confirm'' \<Longrightarrow> keepsU (updU (\<lambda>s. s\<lparr>uiFocus := FocusPage n\<rparr>))"
  by (auto simp: keepsU_def focusActiveTab_def updU_def tui_ok_def)

lemma keepsU_popView [keepsU_intros]: "keepsU popView"
  using registry_ops(3) by (auto simp: keepsU_def popView_def seqU_def updU_def focusActiveTab_def tui_ok_def)

lemma keepsU_pushView [keepsU_intros]: "n \<in> set registeredViews \<Longrightarrow> n \<noteq> ''confirm'' \<Longrightarrow> keepsU (pushView n)"
  using registry_ops(2) by (auto simp: keepsU_def pushView_def updU_def tui_ok_def)

lemma keepsU_switchTab:
  assumes "tui_ok s"
  shows "tui_ok (s\<lparr>reg := SwitchTab t (reg s), uiFocus := tabFocus t\<rparr>)"
  using assms registry_ops(1) by (simp add: tui_ok_def)

lemma keepsU_askConfirm:
  assumes "case act of ConfirmApply \<Rightarrow> \<exists>p. msg = applyMessage p | ConfirmDelete k n \<Rightarrow> msg = deleteMessage k n"
    and "tui_ok s" "act = ConfirmApply \<longrightarrow> attachURL s = None"
  shows "tui_ok (fst (askConfirm msg act s))"
  using assms registry_ops(2) [of "reg s" "''confirm''"]
  by (auto simp: askConfirm_def seqU_def updU_def pushView_def tui_ok_def dialog_ok_def registeredViews_def CurrentView_def PushView_def
      switchToPage_def split: confirm_action.splits)

lemma frame_simps [simp]:
  "frame (s\<lparr>mdl := a\<rparr>) = frame s" "frame (s\<lparr>keyMode := b\<rparr>) = frame s" "frame (s\<lparr>pendingKey := c\<rparr>) = frame s" "frame (s\<lparr>cmdLabel := d\<rparr>) = frame s"
  "frame (s\<lparr>cmdText := d\<rparr>) = frame s" "frame (s\<lparr>doneFunc := f\<rparr>) = frame s" "frame (s\<lparr>rows := g\<rparr>) = frame s" "frame (s\<lparr>tableRow := h\<rparr>) = frame s"
  "frame (s\<lparr>panelT := i\<rparr>) = frame s" "frame (s\<lparr>panelL := j\<rparr>) = frame s" "frame (s\<lparr>live := k\<rparr>) = frame s" "frame (s\<lparr>trStore := l\<rparr>) = frame s"
  "frame (s\<lparr>curTenant := d\<rparr>) = frame s" "frame (s\<lparr>refreshQueued := m\<rparr>) = frame s" "frame (s\<lparr>uiStopped := m\<rparr>) = frame s"
  by (simp_all add: frame_def)

lemma frame_tail [simp]: "frame (fst (startLogTail s)) = frame s" "frame (fst (stopLogTail s)) = frame s" "frame (fst (notifyTraces s)) = frame s"
  by (simp_all add: startLogTail_def stopLogTail_def notifyTraces_def ifU_def seqU_def updU_def emitU_def skipU_def)

lemma keepsU_switchTabU [keepsU_intros]: "keepsU (switchTabU t)"
proof -
  have "tui_ok (fst (switchTabU t s))" if "tui_ok s" for s
  proof -
    let ?s = "s\<lparr>reg := SwitchTab t (reg s)\<rparr>"
    let ?f = "if t = TabLogs \<and> activeTab (reg s) \<noteq> TabLogs then startLogTail
      else if t \<noteq> TabLogs \<and> activeTab (reg s) = TabLogs then stopLogTail else skipU"
    let ?g = "if t = TabTraces \<and> activeTab (reg s) \<noteq> TabTraces then notifyTraces else skipU"
    have f: "frame (fst (?f ?s)) = frame ?s" by (simp add: skipU_def)
    have g: "frame (fst (?g s1)) = frame s1" for s1 by (simp add: skipU_def)
    have "frame (fst (switchTabU t s)) = frame (fst (focusActiveTab (fst (?g (fst (?f ?s))))))"
      by (simp add: switchTabU_def withU_def seqU_def updU_def case_prod_unfold)
    also have "\<dots> = frame (s\<lparr>reg := SwitchTab t (reg s), uiFocus := tabFocus t\<rparr>)"
      using g [of "fst (?f ?s)"] f
      by (simp only: focusActiveTab_def updU_def frame_def) (simp add: SwitchTab_def switchToPage_def)
    finally have "frame (fst (switchTabU t s)) = frame (s\<lparr>reg := SwitchTab t (reg s), uiFocus := tabFocus t\<rparr>)" .
    with keepsU_switchTab [OF that] tui_ok_frame show ?thesis by metis
  qed
  then show ?thesis by (simp add: keepsU_def)
qed

lemma keepsU_ops [keepsU_intros]:
  "keepsU (showStatus msg)" "keepsU (statusTimer msg)" "keepsU refreshTable" "keepsU (switchKind k)" "keepsU notifyTraces" "keepsU triggerRefresh"
  "keepsU refreshLogs" "keepsU clearSearch" "keepsU deactivateCommandBar" "keepsU stopU" "keepsU handlePauseResume" "keepsU handleClearFilters"
  "keepsU goToTop" "keepsU goToBottom" "keepsU (handleLogLevelKey r)" "keepsU drillIntoTrace"
  unfolding showStatus_def statusTimer_def refreshTable_def switchKind_def notifyTraces_def triggerRefresh_def refreshLogs_def clearSearch_def
    deactivateCommandBar_def stopU_def handlePauseResume_def handleClearFilters_def goToTop_def goToBottom_def handleLogLevelKey_def
    drillIntoTrace_def
  by (auto split: tab.split option.split intro!: keepsU_seqU keepsU_basic keepsU_withU keepsU_ifU keepsU_updU keepsU_focus)

lemma keepsU_tail [keepsU_intros]: "keepsU (logTailStarted err)" "keepsU refreshTraces" "keepsU (tabTick n)"
  "keepsU (planArrived now p)"
  unfolding planArrived_def logTailStarted_def refreshTraces_def tabTick_def
  by (auto split: option.split intro!: keepsU_intros keepsU_updU)

lemma keepsU_cmdBar [keepsU_intros]: "keepsU activateCommandBar" "keepsU activateSearch"
  by (auto simp: keepsU_def activateCommandBar_def activateSearch_def updU_def tui_ok_def)

lemma keepsU_dialogs [keepsU_intros]: "keepsU applyAll" "keepsU deleteResource"
proof -
  have "tui_ok (fst (askConfirm (applyMessage p) ConfirmApply s))" if "tui_ok s" "attachURL s = None" for s p
    using that by (intro keepsU_askConfirm) auto
  then show "keepsU applyAll"
    using keepsU_ops(1) by (auto simp: keepsU_def applyAll_def ifU_def withU_def skipU_def split: option.split)
  have "tui_ok (fst (askConfirm (deleteMessage k n) (ConfirmDelete k n) s))" if "tui_ok s" for s k n
    using that by (intro keepsU_askConfirm) auto
  then show "keepsU deleteResource"
    by (auto simp: keepsU_def deleteResource_def withU_def skipU_def split: option.split)
qed

lemma keepsU_shows [keepsU_intros]: "keepsU (showDetail c)" "keepsU (showDrift c)"
  unfolding showDetail_def showDrift_def by (auto simp: registeredViews_def intro!: keepsU_intros)

lemma keepsU_ops2 [keepsU_intros]:
  "keepsU toggleHelp" "keepsU refreshActiveTab" "keepsU (applySearch f)"
  "keepsU (handleTenantCommand cmd)" "keepsU (handleNumberKey r)" "keepsU handleDrillIn" "keepsU (copySelected fm)" "keepsU editResource"
  "keepsU triggerRemoteSync" "keepsU handleEscape"
  unfolding toggleHelp_def refreshActiveTab_def applySearch_def handleTenantCommand_def handleNumberKey_def
    handleDrillIn_def copySelected_def editResource_def triggerRemoteSync_def handleEscape_def
  by (auto split: tab.split option.split level.split list.split simp: registeredViews_def intro!: keepsU_intros keepsU_updU)

lemma keepsU_executeCommand [keepsU_intros]: "keepsU (executeCommand txt)"
  unfolding executeCommand_def Let_def by (auto split: option.split intro!: keepsU_intros)

lemma keepsU_tableInput [keepsU_intros]: "keepsU (tableInput k)"
  unfolding tableInput_def by (auto split: option.split intro!: keepsU_intros)

lemma keepsU_toWidget [keepsU_intros]: "keepsU (toWidget k)"
  unfolding toWidget_def onCommandDone_def onSearchDone_def
  by (auto split: focus.split done_func.split intro!: keepsU_intros keepsU_updU)

lemma keepsU_answerConfirm [keepsU_intros]: "keepsU (answerConfirm yes)"
  unfolding answerConfirm_def by (auto split: option.split confirm_action.split intro!: keepsU_intros)

lemma keepsU_spansArrived [keepsU_intros]: "keepsU spansArrived"
proof -
  have "keepsU (updU (\<lambda>s. s\<lparr>panelT := ShowSpans tr spans (panelT s), uiFocus := FocusTraces\<rparr>))" for tr spans
    by (auto simp: keepsU_def updU_def tui_ok_def)
  then show ?thesis unfolding spansArrived_def by (auto split: option.split intro!: keepsU_intros)
qed

definition keepsK :: "keyed \<Rightarrow> bool" where
  "keepsK f \<longleftrightarrow> (\<forall>s. tui_ok s \<longrightarrow> tui_ok (fst (fst (f s))))"

lemma keepsK_basic: "keepsU u \<Longrightarrow> keepsK (consume u)" "keepsK (passOn k)" "keepsK f \<Longrightarrow> keepsK g \<Longrightarrow> keepsK (ifK b f g)"
  by (auto simp: keepsK_def keepsU_def consume_def passOn_def skipU_def ifK_def)

lemma keepsU_panelT [keepsU_intros]: "keepsU (updU (\<lambda>s. s\<lparr>panelT := g (panelT s)\<rparr>))"
  and keepsU_pending [keepsU_intros]: "keepsU (updU (\<lambda>s. s\<lparr>pendingKey := p\<rparr>))"
  and keepsU_mode [keepsU_intros]: "keepsU (updU (\<lambda>s. s\<lparr>keyMode := m\<rparr>))"
  by (intro keepsU_updU, simp)+

lemma keepsK_if: "keepsK f \<Longrightarrow> keepsK g \<Longrightarrow> keepsK (if b then f else g)"
  by simp

lemma keepsK_runeNormal: "keepsK (runeNormal k c)"
  unfolding runeNormal_def by (intro keepsK_if keepsK_basic keepsU_intros)

lemma keepsKD: "tui_ok s \<Longrightarrow> keepsK f \<Longrightarrow> tui_ok (fst (fst (f s)))"
  by (simp add: keepsK_def)

lemma keepsUD: "tui_ok s \<Longrightarrow> keepsU f \<Longrightarrow> tui_ok (fst (f s))"
  by (simp add: keepsU_def)

lemma keepsK_handleNormal: "keepsK (handleNormal fm k)"
proof -
  have q: "keepsK (consume goToTop)" "keepsK (consume (copySelected fm))" "keepsK (consume (switchTabU t))" "keepsK (passOn k)"
      "keepsK (runeNormal k c)" for t c
    by (intro keepsK_basic keepsU_intros keepsK_runeNormal)+
  have "tui_ok (fst (fst (handleNormal fm k s)))" if "tui_ok s" for s
  proof -
    have "tui_ok (s\<lparr>pendingKey := None\<rparr>)" using that by (rule tui_ok_frame [rotated]) simp
    note ok = keepsKD [OF this q(1)] keepsKD [OF this q(2)] keepsKD [OF this q(3)] keepsKD [OF this q(4)] keepsKD [OF this q(5)]
    show ?thesis by (simp only: handleNormal_def Let_def ok split: if_split option.split) simp
  qed
  then show ?thesis by (simp add: keepsK_def)
qed

lemma keepsK_HandleKey: "keepsK (HandleKey fm k)"
proof -
  have q: "keepsK (consume stopU)" "keepsK (consume handleEscape)" "keepsK (passOn k)" "keepsK (consume refreshActiveTab)"
      "keepsK (consume deleteResource)" "keepsK (consume handleDrillIn)" "keepsK (handleNormal fm k)" "keepsK (consume editResource)"
    by (intro keepsK_basic keepsU_intros keepsK_handleNormal)+
  have "tui_ok (fst (fst (HandleKey fm k s)))" if "tui_ok s" for s
    unfolding HandleKey_def using q [THEN keepsKD [OF that]] by (simp only: split: if_split) simp
  then show ?thesis by (simp add: keepsK_def)
qed

lemma keepsU_keyU [keepsU_intros]: "keepsU (keyU fm k)"
proof -
  have "tui_ok (fst (keyU fm k s))" if "tui_ok s" for s
  proof -
    obtain s1 es o' where h: "HandleKey fm k s = ((s1, es), o')" by (metis prod.exhaust)
    with keepsKD [OF that keepsK_HandleKey] have "tui_ok s1" by (metis fst_conv)
    then have "tui_ok (fst (toWidget k' s1))" for k' by (rule keepsUD [OF _ keepsU_toWidget])
    with h \<open>tui_ok s1\<close> show ?thesis by (auto simp: keyU_def seqU_def split: option.split prod.split) (metis fst_conv)
  qed
  then show ?thesis by (simp add: keepsU_def)
qed

lemma keepsU_uiStep: "keepsU (uiStep fm e)"
  unfolding uiStep_def by (auto split: ui_event.split intro!: keepsU_intros keepsU_updU)

lemma NewApp_ok: "tui_ok (NewApp m ep iv att)"
proof -
  have "registry_ok (SwitchTab TabState (fold RegisterView registeredViews NewViewRegistry))"
    by (auto simp: registry_ok_def SwitchTab_def switchToPage_def registeredViews_def RegisterView_def NewViewRegistry_def CurrentView_def
        tabPage_def split: tab.split)
  then show ?thesis
    by (auto simp: tui_ok_def NewApp_def dialog_ok_def registeredViews_def RegisterView_def NewViewRegistry_def)
qed

lemma tui_reachable_ok: "tui_reachable fm s \<Longrightarrow> tui_ok s"
proof (induction rule: tui_reachable.induct)
  case (start m ep iv att)
  show ?case by (rule NewApp_ok)
next
  case (step s e)
  then show ?case using keepsU_uiStep by (simp add: keepsU_def)
qed

section \<open>Properties\<close>

lemma silent_uiStep:
  assumes "x \<in> set (snd (uiStep fm e s))" "isWrite x"
  shows "(\<exists>k. e = Key k \<and> x \<in> set (snd (keyU fm k s))) \<or> (\<exists>yes. e = Button yes \<and> uiFocus s = FocusPage ''confirm'' \<and> x \<in> set (snd (answerConfirm yes s)))"
proof (cases "(\<exists>k. e = Key k) \<or> (\<exists>yes. e = Button yes)")
  case True
  with assms show ?thesis by (auto simp: uiStep_def ifU_def skipU_def split: if_splits)
next
  case False
  then have "silentU (uiStep fm e)" by (cases e) (auto simp: uiStep_def intro!: silent_intros)
  with assms show ?thesis by (auto simp: silentU_def)
qed

lemma answerConfirm_writes:
  assumes "x \<in> set (snd (answerConfirm yes s))" "isWrite x"
  shows "yes \<and> ((\<exists>msg. confirm s = Some (msg, ConfirmApply) \<and> x = DoApply) \<or>
    (\<exists>msg k n. confirm s = Some (msg, ConfirmDelete k n) \<and> x = DoDelete k n))"
  using assms
  by (auto simp: answerConfirm_def withU_def seqU_def popView_def updU_def focusActiveTab_def showStatus_def emitU_def skipU_def
      split: option.splits if_splits confirm_action.splits)

lemma keyU_writes:
  assumes "x \<in> set (snd (keyU fm k s))" "isWrite x"
  shows "k = CtrlE \<and> keyMode s = ModeNormal \<and> onState s \<and> x \<in> set (snd (editResource s))"
proof -
  obtain s1 es o' where h: "HandleKey fm k s = ((s1, es), o')" by (metis prod.exhaust)
  have "x \<in> set es"
  proof (cases o')
    case None
    with assms(1) h show ?thesis by (simp add: keyU_def)
  next
    case (Some k')
    with assms(1) h have "x \<in> set es \<or> x \<in> set (snd (toWidget k' s1))" by (auto simp: keyU_def seqU_def split: prod.splits)
    with silent_toWidget assms(2) show ?thesis by (auto simp: silentU_def)
  qed
  with h HandleKey_writes [of x fm k s] assms(2) show ?thesis by (auto simp: consume_def) (metis snd_conv)
qed

text \<open>
  C15: Whatever keys are pressed and whatever arrives from the network, the terminal UI applies or deletes only
  on the answer Yes to the confirmation dialog while it is the page in front, and the dialog names the
  very resource that is deleted, or the counts of a plan that is applied; in attach mode it never applies.
  An edit starts only on Ctrl-E on the state tab without an overlay, for the selected row.
\<close>

theorem tui_writes_are_confirmed:
  assumes "tui_reachable fm s" "x \<in> set (snd (uiStep fm e s))"
  shows "(x = DoApply \<longrightarrow> e = Button True \<and> frontPage (reg s) = ''confirm'' \<and> attachURL s = None \<and>
           (\<exists>p. confirm s = Some (applyMessage p, ConfirmApply))) \<and>
         (\<forall>k n. x = DoDelete k n \<longrightarrow> e = Button True \<and> frontPage (reg s) = ''confirm'' \<and>
           confirm s = Some (deleteMessage k n, ConfirmDelete k n)) \<and>
         (\<forall>k n. x = DoEdit k n \<longrightarrow> e = Key CtrlE \<and> onState s \<and>
           (\<exists>c. GetSelectedChange (rows s) (tableRow s) = Some c \<and> chKind c = k \<and> chName c = n))"
proof (cases "isWrite x")
  case False
  then show ?thesis by (auto simp: isWrite_def)
next
  case True
  note ok = tui_reachable_ok [OF assms(1)]
  from silent_uiStep [OF assms(2) True] show ?thesis
  proof
    assume "\<exists>k. e = Key k \<and> x \<in> set (snd (keyU fm k s))"
    with keyU_writes [OF _ True] show ?thesis
      by (fastforce simp: editResource_def withU_def emitU_def skipU_def split: option.splits)
  next
    assume "\<exists>yes. e = Button yes \<and> uiFocus s = FocusPage ''confirm'' \<and> x \<in> set (snd (answerConfirm yes s))"
    then obtain yes where y: "e = Button yes" "uiFocus s = FocusPage ''confirm''" "x \<in> set (snd (answerConfirm yes s))" by blast
    note c = answerConfirm_writes [OF y(3) True]
    from ok y(2) have "frontPage (reg s) = ''confirm''" by (simp add: tui_ok_def registry_ok_def)
    with y c ok show ?thesis by (auto simp: tui_ok_def dialog_ok_def)
  qed
qed

fun uiRun :: "formats \<Rightarrow> ui_event list \<Rightarrow> tui \<Rightarrow> tui" where
  "uiRun fm [] s = s"
| "uiRun fm (e # es) s = uiRun fm es (fst (uiStep fm e s))"

lemma uiRun_reachable: "tui_reachable fm s \<Longrightarrow> tui_reachable fm (uiRun fm es s)"
  by (induction es arbitrary: s) (auto intro: tui_reachable.step)

definition demoFormats :: formats where
  "demoFormats = \<lparr>fmtSecs = (\<lambda>ms. []), fmtClock = (\<lambda>t. [])\<rparr>"

text \<open>A plan arrives, the selection moves to the second row, Ctrl-D asks, and the answer is Yes.\<close>

definition demoDelete :: tui where
  "demoDelete = uiRun demoFormats [PlanArrived 0 demoCycle, MoveTo 2, Key CtrlD] (NewApp None ''http://h'' 10 None)"

theorem tui_writes_are_confirmed_witness:
  "DoDelete KindAgent ''b'' \<in> set (snd (uiStep demoFormats (Button True) demoDelete)) \<and>
   confirm demoDelete = Some (''Delete Agent/b from GoClaw?'', ConfirmDelete KindAgent ''b'')"
proof -
  have r: "tui_reachable demoFormats demoDelete"
    unfolding demoDelete_def by (intro uiRun_reachable tui_reachable.start)
  have x: "DoDelete KindAgent ''b'' \<in> set (snd (uiStep demoFormats (Button True) demoDelete))" by code_simp
  from tui_writes_are_confirmed [OF r x] x show ?thesis by (simp add: deleteMessage_def)
qed

text \<open>
  Escape out of a search leaves the command line with the done function of the search: the next command
  is taken as a filter and not executed.
\<close>

definition afterSearchEscape :: "ui_event list" where
  "afterSearchEscape = [Key (Rune (CHR ''/'')), Key Escape, Key (Rune (CHR '':'')), Typed ''apply'', Key Enter]"

definition justCommand :: "ui_event list" where
  "justCommand = [Key (Rune (CHR '':'')), Typed ''apply'', Key Enter]"

lemma command_becomes_filter:
  defines "s \<equiv> uiRun demoFormats [PlanArrived 0 demoCycle] (NewApp None ''http://h'' 10 None)"
  shows "map_option fst (confirm (uiRun demoFormats justCommand s)) \<noteq> None \<and> searchFilter (mdl (uiRun demoFormats justCommand s)) = []"
    and "confirm (uiRun demoFormats afterSearchEscape s) = None \<and> searchFilter (mdl (uiRun demoFormats afterSearchEscape s)) = ''apply''"
  unfolding s_def by code_simp+

text \<open>A log tail whose start has not returned yet outlives the tab: nothing stops it.\<close>

lemma tail_left_running:
  defines "s \<equiv> uiRun demoFormats [Key (Rune (CHR ''L'')), Key (Rune (CHR ''S'')), TailStarted None] (NewApp None ''http://h'' 10 None)"
  shows "tailing (live s) \<and> activeTab (reg s) = TabState"
  unfolding s_def by code_simp

end
