(* ===== verification/ReleaseCheck.thy ===== *)
theory ReleaseCheck
  imports Loader
begin

text \<open>
  \<open>internal/update/update.go\<close> and the hooks of \<open>cmd/root.go\<close> that use it: is a newer release out? Version
  numbers are read with \<open>strconv.Atoi\<close>, so they are 64-bit integers: a number out of range is clamped, a
  malformed one is zero. The answer of the release server is kept in a file for a day.
\<close>

section \<open>Reading numbers\<close>

definition maxUint64 :: int where "maxUint64 = 18446744073709551615"

definition uintCutoff :: int where "uintCutoff = 1844674407370955162"

text \<open>
  The loop of \<open>strconv.ParseUint\<close> in base ten: \<open>None\<close> is the syntax error; the largest value comes with the
  range error, which stops the loop, so what follows is not read.
\<close>

fun parseUint :: "int \<Rightarrow> string \<Rightarrow> int option" where
  "parseUint n [] = Some n"
| "parseUint n (c # cs) =
     (if \<not> isDigit c then None
      else if uintCutoff \<le> n then Some maxUint64
      else let n1 = n * 10 + int (code c - 48) in
           if maxUint64 < n1 then Some maxUint64 else parseUint n1 cs)"

text \<open>\<open>strconv.Atoi\<close> without its error: zero after a syntax error, the bound that was passed after a range error.\<close>

definition atoiSigned :: "bool \<Rightarrow> string \<Rightarrow> int" where
  "atoiSigned neg digits =
     (if digits = [] then 0
      else case parseUint 0 digits of
        None \<Rightarrow> 0
      | Some un \<Rightarrow>
          if neg then (if 2 ^ 63 < un then - (2 ^ 63) else - un)
          else (if 2 ^ 63 \<le> un then 2 ^ 63 - 1 else un))"

fun Atoi :: "string \<Rightarrow> int" where
  "Atoi [] = 0"
| "Atoi (c # cs) =
     (if c = CHR ''-'' then atoiSigned True cs
      else if c = CHR ''+'' then atoiSigned False cs
      else atoiSigned False (c # cs))"

text \<open>\<open>strings.SplitN\<close> for a positive bound and a separator that is not empty.\<close>

fun strSplitN :: "nat \<Rightarrow> string \<Rightarrow> string \<Rightarrow> string list" where
  "strSplitN 0 sep s = []"
| "strSplitN (Suc 0) sep s = [s]"
| "strSplitN (Suc (Suc n)) sep s =
     (case strCut sep s of None \<Rightarrow> [s] | Some (b, a) \<Rightarrow> b # strSplitN (Suc n) sep a)"

section \<open>Versions\<close>

definition parseVersion :: "string \<Rightarrow> int \<times> int \<times> int" where
  "parseVersion v =
     (case strSplitN 3 ''.'' (trimPrefix ''v'' v) of
        major # minor # rest \<Rightarrow>
          (Atoi major, Atoi minor, (case rest of [] \<Rightarrow> 0 | p # _ \<Rightarrow> Atoi (hd (strSplitN 2 ''-'' p))))
      | _ \<Rightarrow> (0, 0, 0))"

definition versionGreaterThan :: "string \<Rightarrow> string \<Rightarrow> bool" where
  "versionGreaterThan latest current =
     (case (parseVersion latest, parseVersion current) of
        ((lM, lm, lp), (cM, cm, cp)) \<Rightarrow>
          if lM \<noteq> cM then lM > cM else if lm \<noteq> cm then lm > cm else lp > cp)"

section \<open>The check\<close>

record release_info =
  relVersion :: string
  relURL :: string

record update_state =
  CheckedAt :: int
  stRelease :: release_info

definition checkTTL :: int where "checkTTL = 24 * 60 * 60 * 1000000000"

text \<open>
  What the check depends on: the file \<open>state.json\<close> as it stands, the release server, and \<open>encoding/json\<close>.
  A failing \<open>MkdirAll\<close> leaves the file alone; a failing \<open>WriteFile\<close> leaves what \<open>ucTorn\<close> says.
\<close>

record update_codec =
  ucDecode :: "string \<Rightarrow> update_state result"
  ucEncode :: "update_state \<Rightarrow> string result"
  ucDecodeRelease :: "string \<Rightarrow> release_info result"
  ucMkdirErr :: "goerr option"
  ucWriteErr :: "goerr option"
  ucTorn :: "string option"

record update_world =
  stateFile :: "string option"
  requests :: nat

definition updateURL :: string where
  "updateURL = ''https://api.github.com/repos/'' @ ''dataplanelabs/gcplane'' @ ''/releases/latest''"

definition fetchLatest :: "update_codec \<Rightarrow> (int \<times> string) result \<Rightarrow> release_info result" where
  "fetchLatest uc resp =
     (case resp of
        Inl err \<Rightarrow> Inl err
      | Inr (status, body) \<Rightarrow>
          if status \<noteq> 200 then Inl (errorf (''HTTP '' @ showInt status)) else ucDecodeRelease uc body)"

definition stateFilePath :: "string result \<Rightarrow> string \<Rightarrow> string" where
  "stateFilePath userConfigDir tempDir =
     JoinPath [(case userConfigDir of Inl err \<Rightarrow> tempDir | Inr dir \<Rightarrow> dir), ''gcplane'', ''state.json'']"

definition readState :: "update_codec \<Rightarrow> update_world \<Rightarrow> update_state result" where
  "readState uc w =
     (case stateFile w of
        None \<Rightarrow> Inl (GoErr (Some ErrNotExist) ''open state.json: no such file or directory'')
      | Some data \<Rightarrow> ucDecode uc data)"

definition writeState :: "update_codec \<Rightarrow> update_state \<Rightarrow> update_world \<Rightarrow> goerr option \<times> update_world" where
  "writeState uc s w =
     (case ucMkdirErr uc of
        Some err \<Rightarrow> (Some err, w)
      | None \<Rightarrow>
          (case ucEncode uc s of
             Inl err \<Rightarrow> (Some err, w)
           | Inr data \<Rightarrow>
               (case ucWriteErr uc of
                  Some err \<Rightarrow> (Some err, w\<lparr>stateFile := ucTorn uc\<rparr>)
                | None \<Rightarrow> (None, w\<lparr>stateFile := Some data\<rparr>))))"

definition newerThan :: "string \<Rightarrow> release_info \<Rightarrow> release_info option" where
  "newerThan current rel = (if versionGreaterThan (relVersion rel) current then Some rel else None)"

text \<open>The clock is read twice, at \<open>now\<close> for the age of the cache and at \<open>later\<close> for its new date.\<close>

definition cachedRelease :: "update_codec \<Rightarrow> int \<Rightarrow> update_world \<Rightarrow> release_info option" where
  "cachedRelease uc now w =
     (case readState uc w of
        Inl err \<Rightarrow> None
      | Inr s \<Rightarrow> if now - CheckedAt s < checkTTL then Some (stRelease s) else None)"

definition Check ::
  "update_codec \<Rightarrow> int \<Rightarrow> int \<Rightarrow> (int \<times> string) result \<Rightarrow> string \<Rightarrow> update_world \<Rightarrow> release_info option \<times> update_world"
where
  "Check uc now later resp currentVersion w =
     (case cachedRelease uc now w of
        Some rel \<Rightarrow> (newerThan currentVersion rel, w)
      | None \<Rightarrow>
          (let w1 = w\<lparr>requests := requests w + 1\<rparr> in
           case fetchLatest uc resp of
             Inl err \<Rightarrow> (None, w1)
           | Inr rel \<Rightarrow> (newerThan currentVersion rel, snd (writeState uc \<lparr>CheckedAt = later, stRelease = rel\<rparr> w1))))"

definition ShouldCheck :: "(string \<Rightarrow> string option) \<Rightarrow> bool \<Rightarrow> bool" where
  "ShouldCheck lookupEnv stdoutIsTerminal \<longleftrightarrow>
     (case lookupEnv ''GCPLANE_NO_UPDATE_NOTIFIER'' of None \<Rightarrow> True | Some v \<Rightarrow> v = []) \<and>
     (case lookupEnv ''CI'' of None \<Rightarrow> True | Some v \<Rightarrow> v = []) \<and> stdoutIsTerminal"

section \<open>The hooks of the root command\<close>

definition persistentPreRun :: "(string \<Rightarrow> string option) \<Rightarrow> bool \<Rightarrow> string \<Rightarrow> bool" where
  "persistentPreRun lookupEnv stdoutIsTerminal cmdName \<longleftrightarrow>
     cmdName \<noteq> ''serve'' \<and> cmdName \<noteq> ''version'' \<and> ShouldCheck lookupEnv stdoutIsTerminal"

text \<open>\<open>arrived\<close> is what the background check delivered within two seconds, if it did.\<close>

definition persistentPostRun :: "string \<Rightarrow> bool \<Rightarrow> release_info option option \<Rightarrow> string list" where
  "persistentPostRun version started arrived =
     (if \<not> started then []
      else case arrived of
        Some (Some rel) \<Rightarrow>
          [nl # ''A new version of gcplane is available: '' @ version @ '' '' @ map char_of [226 :: nat, 134, 146] @ '' '' @ relVersion rel @ [nl],
           ''Upgrade: curl -fsSL https://raw.githubusercontent.com/dataplanelabs/gcplane/main/install.sh | sh'' @ [nl]]
      | _ \<Rightarrow> [])"

definition versionCmd :: "string \<Rightarrow> string" where
  "versionCmd version = ''gcplane '' @ version @ [nl]"

text \<open>\<open>Execute\<close>: what it writes to the standard error and the exit code.\<close>

definition Execute :: "goerr option \<Rightarrow> string \<times> nat" where
  "Execute err = (case err of None \<Rightarrow> ([], 0) | Some e \<Rightarrow> (errText e @ [nl], 1))"

section \<open>Facts\<close>

text \<open>The number a string of digits denotes, without any bound.\<close>

fun decVal :: "nat \<Rightarrow> string \<Rightarrow> nat" where
  "decVal n [] = n"
| "decVal n (c # cs) = decVal (n * 10 + (code c - 48)) cs"

lemma decVal_append: "decVal n (s @ t) = decVal (decVal n s) t"
  by (induction n s rule: decVal.induct) auto

lemma decVal_ge: "n \<le> decVal n s"
proof (induction n s rule: decVal.induct)
  case (2 n c cs)
  then show ?case by (simp add: le_trans [rotated])
qed simp

lemma parseUint_min:
  "list_all isDigit s \<Longrightarrow> int n \<le> maxUint64 \<Longrightarrow> parseUint (int n) s = Some (min maxUint64 (int (decVal n s)))"
proof (induction n s rule: decVal.induct)
  case (2 n c cs)
  let ?n1 = "n * 10 + (code c - 48)"
  show ?case
  proof (cases "maxUint64 < int ?n1 \<or> uintCutoff \<le> int n")
    case True
    then have "maxUint64 \<le> int ?n1" by (auto simp: maxUint64_def uintCutoff_def)
    moreover have "int ?n1 \<le> int (decVal ?n1 cs)" using decVal_ge by (simp only: of_nat_le_iff)
    ultimately have "maxUint64 \<le> int (decVal ?n1 cs)" by (rule order_trans)
    with True 2(2) show ?thesis by (auto simp: Let_def min_def)
  next
    case False
    with 2 show ?thesis by (simp add: Let_def)
  qed
qed simp

lemma parseUint_nonneg: "0 \<le> n \<Longrightarrow> parseUint n s = Some un \<Longrightarrow> 0 \<le> un"
  by (induction n s rule: parseUint.induct) (auto simp: Let_def maxUint64_def split: if_splits)

lemma digit_char: "d < 10 \<Longrightarrow> isDigit (char_of (48 + d)) \<and> code (char_of (48 + d)) - 48 = d"
  using code_char_of [of "48 + d"] by (simp add: isDigit_def)

lemma showNat_step: "showNat n = (if n < 10 then [] else showNat (n div 10)) @ [char_of (48 + n mod 10)]"
  by (subst showNat.simps) simp

lemma showNat_digits: "list_all isDigit (showNat n)"
proof (induction n rule: showNat.induct)
  case (1 n)
  then show ?case using digit_char [of "n mod 10"] by (subst showNat_step) auto
qed

lemma decVal_showNat: "decVal 0 (showNat n) = n"
proof (induction n rule: showNat.induct)
  case (1 n)
  then show ?case using digit_char [of "n mod 10"] by (subst showNat_step) (auto simp: decVal_append)
qed

lemma showNat_nonempty [simp]: "showNat n \<noteq> []"
  by (subst showNat_step) simp

lemma isDigit_sep: "isDigit c \<Longrightarrow> c \<noteq> CHR ''.'' \<and> c \<noteq> CHR ''-'' \<and> c \<noteq> CHR ''+'' \<and> c \<noteq> CHR ''v''"
  by (auto simp: isDigit_def)

lemma Atoi_digits:
  "list_all isDigit s \<Longrightarrow> s \<noteq> [] \<Longrightarrow> Atoi s = min (2 ^ 63 - 1) (int (decVal 0 s))"
  using parseUint_min [of s 0] by (cases s) (auto dest: isDigit_sep simp: atoiSigned_def maxUint64_def min_def)

lemma Atoi_showNat: "n < 2 ^ 63 \<Longrightarrow> Atoi (showNat n) = int n"
  by (simp add: Atoi_digits showNat_digits decVal_showNat min_def)

text \<open>Whatever the text, the result is a 64-bit signed integer.\<close>

lemma Atoi_range: "- (2 ^ 63) \<le> Atoi s \<and> Atoi s < 2 ^ 63"
proof -
  have "- (2 ^ 63) \<le> atoiSigned neg t \<and> atoiSigned neg t < 2 ^ 63" for neg t
    using parseUint_nonneg [of 0 t] by (auto simp: atoiSigned_def split: option.split)
  then show ?thesis by (cases s) auto
qed

lemma strCut_char: "c \<notin> set b \<Longrightarrow> strCut [c] (b @ c # a) = Some (b, a)"
  by (induction b) (auto simp: hasPrefix_def)

lemma strCut_char_None: "c \<notin> set s \<Longrightarrow> strCut [c] s = None"
  by (auto simp: strCut_None)

definition showVersion :: "string \<Rightarrow> nat \<times> nat \<times> nat \<Rightarrow> string option \<Rightarrow> string" where
  "showVersion v n pre =
     (case n of (a, b, c) \<Rightarrow> v @ showNat a @ ''.'' @ showNat b @ ''.'' @ showNat c @
        (case pre of None \<Rightarrow> [] | Some p \<Rightarrow> ''-'' @ p))"

lemma showNat_no_sep: "CHR ''.'' \<notin> set (showNat n)" "CHR ''-'' \<notin> set (showNat n)" "hd (showNat n) \<noteq> CHR ''v''"
  using showNat_digits [of n] isDigit_sep by (auto simp: list_all_iff)

lemma hd_split_patch: "hd (strSplitN 2 ''-'' (showNat c @ (case pre of None \<Rightarrow> [] | Some p \<Rightarrow> ''-'' @ p))) = showNat c"
  using showNat_no_sep(2) [of c]
  by (cases pre) (simp_all add: numeral_2_eq_2 strCut_char strCut_char_None)

lemma strip_v: "v \<in> {[], ''v''} \<Longrightarrow> trimPrefix ''v'' (v @ showNat a @ t) = showNat a @ t"
  using showNat_no_sep(3) [of a] by (cases "showNat a") (auto simp: go_simps)

lemma parse_showVersion:
  assumes "v \<in> {[], ''v''}" "a < 2 ^ 63" "b < 2 ^ 63" "c < 2 ^ 63"
  shows "parseVersion (showVersion v (a, b, c) pre) = (int a, int b, int c)"
proof -
  let ?p = "showNat c @ (case pre of None \<Rightarrow> [] | Some p \<Rightarrow> ''-'' @ p)"
  have t: "trimPrefix ''v'' (showVersion v (a, b, c) pre) = showNat a @ CHR ''.'' # showNat b @ CHR ''.'' # ?p"
    using strip_v [OF assms(1), of a] by (simp add: showVersion_def)
  have "strSplitN 3 ''.'' (showNat a @ CHR ''.'' # showNat b @ CHR ''.'' # ?p) = [showNat a, showNat b, ?p]"
    by (simp add: numeral_3_eq_3 strCut_char showNat_no_sep)
  with t assms show ?thesis by (simp add: parseVersion_def hd_split_patch Atoi_showNat)
qed

lemma versionGreaterThan_lex:
  "versionGreaterThan l c \<longleftrightarrow>
     (case (parseVersion l, parseVersion c) of ((lM, lm, lp), (cM, cm, cp)) \<Rightarrow>
        cM < lM \<or> cM = lM \<and> (cm < lm \<or> cm = lm \<and> cp < lp))"
  by (auto simp: versionGreaterThan_def split: prod.splits)

lemma versionGreaterThan_irrefl: "\<not> versionGreaterThan v v"
  by (auto simp: versionGreaterThan_lex split: prod.splits)

lemma versionGreaterThan_trans: "versionGreaterThan a b \<Longrightarrow> versionGreaterThan b c \<Longrightarrow> versionGreaterThan a c"
  by (auto simp: versionGreaterThan_lex split: prod.splits)

text \<open>A build without a version (\<open>dev\<close>) is older than every release but \<open>v0.0.0\<close>.\<close>

lemma dev_is_oldest: "parseVersion ''dev'' = (0, 0, 0)"
  by (simp add: parseVersion_def numeral_3_eq_3 strCut_char_None go_simps)

lemma Check_request_bound: "requests (snd (Check uc now later resp cur w)) \<le> requests w + 1"
  by (simp add: Check_def writeState_def Let_def split: option.split sum.split)

lemma Check_reports_newer: "fst (Check uc now later resp cur w) = Some rel \<Longrightarrow> versionGreaterThan (relVersion rel) cur"
  by (auto simp: Check_def newerThan_def Let_def split: option.split_asm sum.split_asm if_splits)

section \<open>Properties\<close>

text \<open>
  C33: the order of versions is the numeric one. For version texts with or without the leading \<open>v\<close> and
  with or without a suffix after a hyphen, whose three numbers fit a signed 64-bit integer, the comparison
  is lexicographic on the numbers; the suffix does not count.
\<close>

theorem version_order_is_numeric:
  assumes "v \<in> {[], ''v''}" "a < 2 ^ 63" "b < 2 ^ 63" "c < 2 ^ 63"
    and "v' \<in> {[], ''v''}" "a' < 2 ^ 63" "b' < 2 ^ 63" "c' < 2 ^ 63"
  shows "versionGreaterThan (showVersion v (a, b, c) pre) (showVersion v' (a', b', c') pre') \<longleftrightarrow>
    a' < a \<or> a' = a \<and> (b' < b \<or> b' = b \<and> c' < c)"
  using parse_showVersion [OF assms(1-4), of pre] parse_showVersion [OF assms(5-8), of pre']
  by (simp add: versionGreaterThan_lex)

theorem version_order_is_numeric_witness:
  "versionGreaterThan (showVersion ''v'' (1, 10, 0) (Some ''rc1'')) (showVersion [] (1, 9, 3) None)"
  using version_order_is_numeric [of "''v''" 1 10 0 "[]" 1 9 3 "Some ''rc1''" None] by simp

text \<open>
  The release server is asked at most once a day. After a check that fetched a release and could store
  it, a check less than a day later sends no request, leaves the file alone and judges by the same release,
  whatever the version it is asked about.
\<close>

lemma update_check_is_cached:
  assumes codec: "\<And>s data. ucEncode uc s = Inr data \<Longrightarrow> ucDecode uc data = Inr s"
    and stored: "ucMkdirErr uc = None" "ucWriteErr uc = None" "ucEncode uc \<lparr>CheckedAt = later, stRelease = rel\<rparr> = Inr data"
    and first: "cachedRelease uc now w = None" "fetchLatest uc resp = Inr rel" "Check uc now later resp cur w = (r, w1)"
    and within: "now' - later < checkTTL"
  shows "requests w1 = requests w + 1 \<and> Check uc now' later' resp' cur' w1 = (newerThan cur' rel, w1)"
proof -
  have "cachedRelease uc now' (w\<lparr>requests := requests w + 1, stateFile := Some data\<rparr>) = Some rel"
    using codec [OF stored(3)] within by (simp add: cachedRelease_def readState_def)
  moreover have "w1 = w\<lparr>requests := requests w + 1, stateFile := Some data\<rparr>"
    using first stored by (simp add: Check_def writeState_def)
  ultimately show ?thesis by (simp add: Check_def)
qed

end
