(* ===== verification/GoclawPull.thy ===== *)
theory GoclawPull
  imports GoclawDemo Commands
begin

text \<open>
  The rest of the provider: its construction from options and the log tail (\<open>provider.go\<close>), and the
  downloads that \<open>gcplane pull\<close> uses (\<open>skills.go\<close>, \<open>context_files.go\<close>). Decompressing and reading an archive is
  a function \<open>untar\<close>: it fails to open, or gives the entries up to the end or up to an error.
\<close>

section \<open>Construction\<close>

record prov_fields =
  pfTenantID :: string
  pfUserID :: string

fun applyOption :: "provider_option \<Rightarrow> prov_fields \<Rightarrow> prov_fields" where
  "applyOption (WithTenantID i) p = p\<lparr>pfTenantID := i\<rparr>"
| "applyOption (WithUserID i) p = p\<lparr>pfUserID := i\<rparr>"

text \<open>\<open>New\<close> on a transport \<open>t\<close>, which supplies the network, the codecs and the disk.\<close>

definition NewProvider :: "string \<Rightarrow> string \<Rightarrow> provider_option list \<Rightarrow> 's goclaw \<Rightarrow> 's goclaw" where
  "NewProvider ep tok opts t =
     (let p = fold applyOption opts \<lparr>pfTenantID = [], pfUserID = []\<rparr>
      in t\<lparr>endpoint := ep, token := tok, tenantID := pfTenantID p,
           http := NewHTTPClient ep tok (pfTenantID p) (pfUserID p)\<rparr>)"

definition StartLogTail :: "'s goclaw \<Rightarrow> string \<Rightarrow> ('s gworld, unit) api" where
  "StartLogTail gc level =
     bindA (ensureWS gc) (\<lambda>_.
       ignoreResult (wsCall gc ''logs.tail'' (GMap [(''action'', GStr ''start''), (''level'', GStr level)])))"

definition StopLogTail :: "'s goclaw \<Rightarrow> ('s gworld, unit) api" where
  "StopLogTail gc =
     bindA (ensureWS gc) (\<lambda>_. ignoreResult (wsCall gc ''logs.tail'' (GMap [(''action'', GStr ''stop'')])))"

section \<open>Skills\<close>

record tree_entry =
  tePath :: string
  teIsDir :: bool

definition boolField :: "string \<Rightarrow> gomap \<Rightarrow> bool result" where
  "boolField name m =
     (case jsonField name m of
        None \<Rightarrow> Inr False
      | Some GNil \<Rightarrow> Inr False
      | Some (GBool b) \<Rightarrow> Inr b
      | Some _ \<Rightarrow> Inl (errorf ''json: cannot unmarshal into Go struct field of type bool''))"

fun treeEntries :: "gomap list \<Rightarrow> tree_entry list result" where
  "treeEntries [] = Inr []"
| "treeEntries (m # ms) =
     (case (strField ''path'' m, boolField ''isDir'' m, treeEntries ms) of
        (Inr p, Inr d, Inr es) \<Rightarrow> Inr (\<lparr>tePath = p, teIsDir = d\<rparr> # es)
      | (Inl err, _, _) \<Rightarrow> Inl err
      | (_, Inl err, _) \<Rightarrow> Inl err
      | (_, _, Inl err) \<Rightarrow> Inl err)"

definition skillTree :: "'s goclaw \<Rightarrow> string \<Rightarrow> string \<Rightarrow> ('s gworld, tree_entry list) api" where
  "skillTree gc slug i =
     bindA (getRows gc (''/v1/skills/'' @ i @ ''/files'') (''list skill files '' @ slug @ '': '') ''files''
              (''parse skill file tree '' @ slug @ '': '')) (\<lambda>rs.
       wrapA (''parse skill file tree '' @ slug @ '': '') (liftR (treeEntries rs)))"

definition DownloadSkill :: "'s goclaw \<Rightarrow> string \<Rightarrow> ('s gworld, skill_file list) api" where
  "DownloadSkill gc slug =
     bindA (resolveSkillIDFromList gc slug) (\<lambda>i.
     bindA (skillTree gc slug i) (\<lambda>es.
       mapA (\<lambda>en.
         bindA (wrapA (''download skill file '' @ slug @ ''/'' @ tePath en @ '': '')
                  (GetRaw gc (''/v1/skills/'' @ i @ ''/files/'' @ tePath en @ ''?raw=true''))) (\<lambda>raw.
           retA \<lparr>Path = tePath en, Data = raw\<rparr>))
         (filter (\<lambda>en. \<not> teIsDir en \<and> tePath en \<noteq> []) es)))"

definition DownloadSkillSource :: "'s goclaw \<Rightarrow> string \<Rightarrow> ('s gworld, skill_file list \<times> string list) api" where
  "DownloadSkillSource gc slug =
     bindA (DownloadSkill gc slug) (\<lambda>fs.
     bindA (resolveSkillIDFromList gc slug) (\<lambda>i.
     bindA (wrapA (''list skill grants '' @ slug @ '': '') (listSkillGrantAgentKeys gc i)) (\<lambda>grantees.
       retA (fs, grantees))))"

section \<open>Context files\<close>

definition maxContextFileSize :: int where
  "maxContextFileSize = 8388608"

record tar_entry =
  hdrName :: string
  hdrIsDir :: bool
  hdrData :: "string result"

type_synonym untar = "string \<Rightarrow> (tar_entry list \<times> goerr option) result"

text \<open>A context file as its name and content (the two keys of the Go map).\<close>

type_synonym context_file = "string \<times> string"

fun contextEntries :: "tar_entry list \<Rightarrow> goerr option \<Rightarrow> context_file list result" where
  "contextEntries [] stop = (case stop of None \<Rightarrow> Inr [] | Some err \<Rightarrow> Inl (wrapf ''tar read: '' err))"
| "contextEntries (h # hs) stop =
     (let name = trimPrefix ''context_files/'' (hdrName h) in
      if hdrIsDir h \<or> \<not> hasPrefix ''context_files/'' (hdrName h) \<or> name = [] then contextEntries hs stop
      else case hdrData h of
        Inl err \<Rightarrow> Inl (wrapf (''read tar entry '' @ hdrName h @ '': '') err)
      | Inr bytes \<Rightarrow>
          (let data = takeI (maxContextFileSize + 1) bytes in
           if int (length data) > maxContextFileSize
           then Inl (errorf (''context file '' @ name @ '' exceeds '' @ showInt maxContextFileSize @ '' bytes''))
           else case contextEntries hs stop of
             Inl err \<Rightarrow> Inl err
           | Inr out \<Rightarrow> Inr ((name, data) # out)))"

definition parseContextFilesArchive :: "untar \<Rightarrow> string \<Rightarrow> context_file list result" where
  "parseContextFilesArchive untar gz =
     (case untar gz of
        Inl err \<Rightarrow> Inl (wrapf ''gzip open: '' err)
      | Inr (es, stop) \<Rightarrow> contextEntries es stop)"

definition DownloadAgentContextFiles :: "untar \<Rightarrow> 's goclaw \<Rightarrow> string \<Rightarrow> ('s gworld, context_file list) api" where
  "DownloadAgentContextFiles untar gc agentKey =
     bindA (resolveAgentID gc agentKey) (\<lambda>i.
     bindA (wrapA (''export context files for agent '' @ agentKey @ '': '')
              (GetRaw gc (''/v1/agents/'' @ i @ ''/export?sections=context_files&stream=false''))) (\<lambda>gz.
       liftR (parseContextFilesArchive untar gz)))"

section \<open>Facts\<close>

context http_reading
begin

lemma keeps_GetRaw [keeps_intros]: "keeps view (GetRaw gc path)"
  unfolding GetRaw_def by (rule keeps_doRaw) simp

lemma keeps_resolveSkillID [keeps_intros]: "keeps view (resolveSkillIDFromList gc slug)"
  unfolding resolveSkillIDFromList_def by (intro keeps_intros)

lemma keeps_DownloadSkillSource [keeps_intros]: "keeps view (DownloadSkillSource gc slug)"
  unfolding DownloadSkillSource_def DownloadSkill_def skillTree_def by (intro keeps_intros)

lemma keeps_DownloadAgentContextFiles [keeps_intros]: "keeps view (DownloadAgentContextFiles untar gc agentKey)"
  unfolding DownloadAgentContextFiles_def by (intro keeps_intros)

end

text \<open>The pairs a list of context files holds: those with a name that is not empty.\<close>

definition namedFiles :: "gval list \<Rightarrow> context_file list" where
  "namedFiles fs =
     filter (\<lambda>(n, c). n \<noteq> [])
       (map (\<lambda>fm. (strOr (map_of fm ''name''), strOr (map_of fm ''content''))) (List.map_filter (\<lambda>f. asMap (Some f)) fs))"

lemma archiveEntries_named: "archiveEntries fs = map (\<lambda>(n, c). (''context_files/'' @ n, c)) (namedFiles fs)"
  by (induction fs) (auto simp: namedFiles_def Let_def List.map_filter_simps split: option.split)

definition fileEntry :: "string \<times> string \<Rightarrow> tar_entry" where
  "fileEntry e = \<lparr>hdrName = fst e, hdrIsDir = False, hdrData = Inr (snd e)\<rparr>"

lemma contextEntries_files:
  assumes "list_all (\<lambda>(n, c). n \<noteq> [] \<and> int (length c) \<le> maxContextFileSize) fs"
  shows "contextEntries (map fileEntry (map (\<lambda>(n, c). (''context_files/'' @ n, c)) fs)) None = Inr fs"
  using assms
proof (induction fs)
  case (Cons f fs)
  obtain n c where f: "f = (n, c)" by fastforce
  with Cons.prems have "takeI (maxContextFileSize + 1) c = c" by (simp add: takeI_take maxContextFileSize_def)
  with Cons f show ?case by (simp add: fileEntry_def Let_def trimPrefix_def hasPrefix_iff)
qed simp

lemma contextEntries_bounded:
  "contextEntries hs stop = Inr fs \<Longrightarrow> list_all (\<lambda>(n, c). n \<noteq> [] \<and> int (length c) \<le> maxContextFileSize) fs"
  by (induction hs arbitrary: fs) (auto simp: Let_def split: option.splits if_splits sum.splits)

lemma namedFiles_nonempty: "list_all (\<lambda>(n, c). n \<noteq> []) (namedFiles fs)"
  by (auto simp: namedFiles_def list_all_iff)

section \<open>Properties\<close>

text \<open>
  C19: context files survive the trip. When the server hands back an archive with the entries of the one
  that \<open>apply\<close> built (tar keeps regular files in order; a name must not end in a slash, which makes it a
  directory), \<open>pull\<close> reads exactly the named files of the manifest, in order with their contents, provided
  none is larger than 8 MiB; and no archive makes it return a larger one.
\<close>

theorem context_files_roundtrip:
  assumes tar: "\<And>es. list_all (\<lambda>(n, c). last n \<noteq> CHR ''/'') es \<Longrightarrow> tarGz gc es = Inr archive \<Longrightarrow>
      untar archive = Inr (map fileEntry es, None)"
    and built: "buildContextFilesArchive gc fs = Inr archive"
    and ok: "list_all (\<lambda>(n, c). last n \<noteq> CHR ''/'' \<and> int (length c) \<le> maxContextFileSize) (namedFiles fs)"
  shows "parseContextFilesArchive untar archive = Inr (namedFiles fs) \<and>
    (\<forall>gz out n c. parseContextFilesArchive untar gz = Inr out \<longrightarrow> (n, c) \<in> set out \<longrightarrow> int (length c) \<le> maxContextFileSize)"
proof -
  have ne: "list_all (\<lambda>(n, c). n \<noteq> []) (namedFiles fs)" by (rule namedFiles_nonempty)
  then have "list_all (\<lambda>(n, c). last n \<noteq> CHR ''/'') (archiveEntries fs)"
    using ok by (fastforce simp: archiveEntries_named list_all_iff)
  then have "untar archive = Inr (map fileEntry (archiveEntries fs), None)"
    using built by (intro tar) (simp_all add: buildContextFilesArchive_def)
  moreover have "list_all (\<lambda>(n, c). n \<noteq> [] \<and> int (length c) \<le> maxContextFileSize) (namedFiles fs)"
    using ok ne by (auto simp: list_all_iff)
  ultimately have "parseContextFilesArchive untar archive = Inr (namedFiles fs)"
    using contextEntries_files by (simp add: parseContextFilesArchive_def archiveEntries_named)
  moreover have "int (length c) \<le> maxContextFileSize"
    if "parseContextFilesArchive untar gz = Inr out" "(n, c) \<in> set out" for gz out n c
    using that by (auto simp: parseContextFilesArchive_def list_all_iff split: sum.splits dest!: contextEntries_bounded)
  ultimately show ?thesis by blast
qed

definition demoTar :: "(string \<times> string) list \<Rightarrow> string result" where
  "demoTar es = (if es = [(''context_files/SOUL.md'', ''be kind'')] then Inr ''z'' else Inl (errorf ''too large''))"

definition demoUntar :: untar where
  "demoUntar gz = (if gz = ''z'' then Inr ([fileEntry (''context_files/SOUL.md'', ''be kind'')], None) else Inl (errorf ''EOF''))"

theorem context_files_roundtrip_witness:
  "parseContextFilesArchive demoUntar ''z'' = Inr [(''SOUL.md'', ''be kind'')]"
proof -
  let ?fs = "[GMap [(''name'', GStr ''SOUL.md''), (''content'', GStr ''be kind'')], GMap [(''name'', GStr [])], GBool True]"
  have n: "namedFiles ?fs = [(''SOUL.md'', ''be kind'')]" by code_simp
  have "parseContextFilesArchive demoUntar ''z'' = Inr (namedFiles ?fs)"
    by (rule context_files_roundtrip [of "demoGc\<lparr>tarGz := demoTar\<rparr>", THEN conjunct1])
      (auto simp: demoTar_def demoUntar_def fileEntry_def buildContextFilesArchive_def archiveEntries_named n
        maxContextFileSize_def split: if_splits)
  with n show ?thesis by simp
qed

end
