(* ===== verification/Pull.thy ===== *)
theory Pull
  imports GoclawPull
begin

text \<open>
  \<open>cmd/pull.go\<close>: skills and context files evolved on the server are brought back into the repository.
  A run has two sides, the server and the local files; \<open>yaml.v3\<close> is a pair of functions between text and
  node trees, and the tree operations of the source are defined on those trees.
\<close>

section \<open>YAML nodes\<close>

datatype node_kind = NoKind | DocumentNode | SequenceNode | MappingNode | ScalarNode | AliasNode

datatype node_style = PlainStyle | LiteralStyle | OtherStyle nat

text \<open>\<open>yaml.Node\<close>; the last field stands for comments, anchor and position, which the code carries along.\<close>

datatype ynode = YNode (yKind: node_kind) (yTag: string) (yValue: string) (yStyle: node_style)
  (yContent: "ynode list") (yMeta: string)

definition scalarNode :: "node_style \<Rightarrow> string \<Rightarrow> ynode" where
  "scalarNode style v = YNode ScalarNode [] v style [] []"

fun withContent :: "(ynode list \<Rightarrow> ynode list) \<Rightarrow> ynode \<Rightarrow> ynode" where
  "withContent f (YNode k t v s c m) = YNode k t v s (f c) m"

fun pairValue :: "string \<Rightarrow> ynode list \<Rightarrow> ynode option" where
  "pairValue key (k # v # rest) = (if yValue k = key then Some v else pairValue key rest)"
| "pairValue key _ = None"

definition mappingValue :: "ynode \<Rightarrow> string \<Rightarrow> ynode option" where
  "mappingValue m key = (if yKind m \<noteq> MappingNode then None else pairValue key (yContent m))"

definition mappingStringValue :: "ynode \<Rightarrow> string \<Rightarrow> string" where
  "mappingStringValue m key = (case mappingValue m key of None \<Rightarrow> [] | Some v \<Rightarrow> yValue v)"

fun setPair :: "string \<Rightarrow> ynode \<Rightarrow> ynode list \<Rightarrow> ynode list" where
  "setPair key val (k # v # rest) = (if yValue k = key then k # val # rest else k # v # setPair key val rest)"
| "setPair key val rest = rest @ [scalarNode PlainStyle key, val]"

definition setMappingValue :: "ynode \<Rightarrow> string \<Rightarrow> ynode \<Rightarrow> ynode" where
  "setMappingValue m key val = withContent (setPair key val) m"

text \<open>\<open>docRoot\<close> of a node that is there never yields nil.\<close>

definition docRoot :: "ynode \<Rightarrow> ynode" where
  "docRoot n = (if yKind n = DocumentNode \<and> yContent n \<noteq> [] then hd (yContent n) else n)"

definition isAgent :: "string \<Rightarrow> ynode \<Rightarrow> bool" where
  "isAgent agentKey item \<longleftrightarrow>
     yKind item = MappingNode \<and> mappingStringValue item ''kind'' = ''Agent'' \<and> mappingStringValue item ''name'' = agentKey"

definition findAgent :: "ynode \<Rightarrow> string \<Rightarrow> ynode option" where
  "findAgent resources agentKey = find (isAgent agentKey) (yContent resources)"

section \<open>Context files in the manifest\<close>

text \<open>The map from name to the digest of the content; \<open>sha\<close> is \<open>sha256.Sum256\<close>.\<close>

fun currentFiles :: "(string \<Rightarrow> string) \<Rightarrow> ynode list \<Rightarrow> strmap \<Rightarrow> strmap" where
  "currentFiles sha [] cur = cur"
| "currentFiles sha (item # items) cur =
     (let name = mappingStringValue item ''name''; content = mappingStringValue item ''content'' in
      if yKind item \<noteq> MappingNode \<or> name = [] then currentFiles sha items cur
      else currentFiles sha items (AList.update name (sha content) cur))"

definition contextFilesChanged :: "(string \<Rightarrow> string) \<Rightarrow> ynode \<Rightarrow> context_file list \<Rightarrow> bool" where
  "contextFilesChanged sha agentNode files =
     (case mappingValue agentNode ''spec'' of
        None \<Rightarrow> True
      | Some specNode \<Rightarrow>
          (case mappingValue specNode ''contextFiles'' of
             None \<Rightarrow> True
           | Some cfNode \<Rightarrow>
               if yKind cfNode \<noteq> SequenceNode then True
               else
                 let current = currentFiles sha (yContent cfNode) [] in
                 length current \<noteq> length files \<or>
                 list_ex (\<lambda>(name, content). map_of current name \<noteq> Some (sha content)) files))"

definition contextFileNode :: "context_file \<Rightarrow> ynode" where
  "contextFileNode f =
     YNode MappingNode ''!!map'' [] PlainStyle
       [scalarNode PlainStyle ''name'', scalarNode PlainStyle (fst f),
        scalarNode PlainStyle ''content'', scalarNode LiteralStyle (snd f)] []"

definition buildContextFilesNode :: "context_file list \<Rightarrow> ynode" where
  "buildContextFilesNode files = YNode SequenceNode ''!!seq'' [] PlainStyle (map contextFileNode files) []"

text \<open>
  The source changes the spec node in place; here the change is carried from the spec up to the document.
\<close>

fun onPair :: "string \<Rightarrow> (ynode \<Rightarrow> ynode) \<Rightarrow> ynode list \<Rightarrow> ynode list" where
  "onPair key f (k # v # rest) = (if yValue k = key then k # f v # rest else k # v # onPair key f rest)"
| "onPair key f rest = rest"

fun onFirst :: "('a \<Rightarrow> bool) \<Rightarrow> ('a \<Rightarrow> 'a) \<Rightarrow> 'a list \<Rightarrow> 'a list" where
  "onFirst p f [] = []"
| "onFirst p f (x # xs) = (if p x then f x # xs else x # onFirst p f xs)"

definition onRoot :: "(ynode \<Rightarrow> ynode) \<Rightarrow> ynode \<Rightarrow> ynode" where
  "onRoot f n = (if yKind n = DocumentNode \<and> yContent n \<noteq> [] then withContent (\<lambda>c. f (hd c) # tl c) n else f n)"

definition onAgentSpec :: "string \<Rightarrow> (ynode \<Rightarrow> ynode) \<Rightarrow> ynode \<Rightarrow> ynode" where
  "onAgentSpec agentKey f =
     onRoot (withContent (onPair ''resources''
       (withContent (onFirst (isAgent agentKey) (withContent (onPair ''spec'' f))))))"

definition patchedDoc :: "string \<Rightarrow> context_file list \<Rightarrow> ynode \<Rightarrow> ynode" where
  "patchedDoc agentKey files =
     onAgentSpec agentKey (\<lambda>spec. setMappingValue spec ''contextFiles'' (buildContextFilesNode files))"

datatype patch = Skip | Rewrite ynode

text \<open>What \<open>patchAgentsYAML\<close> decides about a parsed file.\<close>

definition planPatch :: "(string \<Rightarrow> string) \<Rightarrow> string \<Rightarrow> string \<Rightarrow> context_file list \<Rightarrow> ynode \<Rightarrow> patch result" where
  "planPatch sha path agentKey files doc =
     (case mappingValue (docRoot doc) ''resources'' of
        None \<Rightarrow> Inl (errorf (''no '' @ [squote] @ ''resources'' @ [squote] @ '' sequence in '' @ path))
      | Some resources \<Rightarrow>
          if yKind resources \<noteq> SequenceNode
          then Inl (errorf (''no '' @ [squote] @ ''resources'' @ [squote] @ '' sequence in '' @ path))
          else case findAgent resources agentKey of
            None \<Rightarrow> Inr Skip
          | Some agentNode \<Rightarrow>
              if \<not> contextFilesChanged sha agentNode files then Inr Skip
              else case mappingValue agentNode ''spec'' of
                None \<Rightarrow> Inl (errorf (''agent '' @ agentKey @ '' has no spec in '' @ path))
              | Some _ \<Rightarrow>
                  Inr (Rewrite (patchedDoc agentKey files doc)))"

record yaml_codec =
  yParse :: "string \<Rightarrow> ynode result"
  yPrint :: "ynode \<Rightarrow> string result"
  yGrants :: "string list \<Rightarrow> string result"

definition patchAgentsYAML ::
  "(string \<Rightarrow> string) \<Rightarrow> yaml_codec \<Rightarrow> 'f fsops \<Rightarrow> string \<Rightarrow> string \<Rightarrow> context_file list \<Rightarrow> ('f, bool) api"
where
  "patchAgentsYAML sha yc ops path agentKey files fs =
     (case fsRead ops path fs of
        Inl err \<Rightarrow> (Inl (wrapf (''read '' @ path @ '': '') err), fs)
      | Inr raw \<Rightarrow>
          (case yParse yc raw of
             Inl err \<Rightarrow> (Inl (wrapf (''parse '' @ path @ '': '') err), fs)
           | Inr doc \<Rightarrow>
               (case planPatch sha path agentKey files doc of
                  Inl err \<Rightarrow> (Inl err, fs)
                | Inr Skip \<Rightarrow> (Inr False, fs)
                | Inr (Rewrite doc') \<Rightarrow>
                    (case yPrint yc doc' of
                       Inl err \<Rightarrow> (Inl (wrapf (''marshal '' @ path @ '': '') err), fs)
                     | Inr out \<Rightarrow>
                         (case fsWrite ops path out fs of
                            (Some err, fs') \<Rightarrow> (Inl (wrapf (''write '' @ path @ '': '') err), fs')
                          | (None, fs') \<Rightarrow> (Inr True, fs'))))))"

section \<open>Where files go\<close>

definition isDirAt :: "disk \<Rightarrow> string \<Rightarrow> bool option" where
  "isDirAt d p = map_option isDirNode (nodeAt d p)"

definition resolveAgentsFile :: "disk \<Rightarrow> string \<Rightarrow> string" where
  "resolveAgentsFile d cfgPath =
     (if cfgPath = [] then ''agents.yaml''
      else if isDirAt d cfgPath = Some True then JoinPath [cfgPath, ''agents.yaml'']
      else JoinPath [DirOf cfgPath, ''agents.yaml''])"

definition inferSourceDir :: "disk \<Rightarrow> string \<Rightarrow> string \<Rightarrow> string" where
  "inferSourceDir d cfgPath slug =
     (let base = (if cfgPath \<noteq> [] \<and> isDirAt d cfgPath = Some False then DirOf cfgPath else cfgPath)
      in JoinPath [base, ''skills'', slug])"

definition writeFrontmatter :: "yaml_codec \<Rightarrow> 'f fsops \<Rightarrow> string \<Rightarrow> string list \<Rightarrow> 'f \<Rightarrow> goerr option \<times> 'f" where
  "writeFrontmatter yc ops sourceDir grantees fs =
     (let outPath = JoinPath [sourceDir, ''frontmatter.yaml''] in
      if grantees = [] then
        (case fsRemove ops outPath fs of
           (Some err, fs') \<Rightarrow> (if errorsIs err ErrNotExist then None else Some err, fs')
         | (None, fs') \<Rightarrow> (None, fs'))
      else case yGrants yc (sort grantees) of
        Inl err \<Rightarrow> (Some err, fs)
      | Inr data \<Rightarrow>
          if (case fsRead ops outPath fs of Inl _ \<Rightarrow> [] | Inr existing \<Rightarrow> existing) = data then (None, fs)
          else fsWrite ops outPath data fs)"

section \<open>Skills\<close>

definition equalFold :: "string \<Rightarrow> string \<Rightarrow> bool" where
  "equalFold s t \<longleftrightarrow> map toLowerC s = map toLowerC t"

definition wantKind :: "string list \<Rightarrow> string \<Rightarrow> bool" where
  "wantKind kinds k \<longleftrightarrow> kinds = [] \<or> list_ex (\<lambda>v. equalFold v k) kinds"

definition shouldPullSkill :: "resource_info \<Rightarrow> bool \<Rightarrow> bool \<Rightarrow> bool" where
  "shouldPullSkill info all localKnown \<longleftrightarrow>
     (if all then \<not> IsSystem info \<and> Source info \<noteq> ''bundled''
      else if Source info \<noteq> ''gcplane'' \<and> Source info \<noteq> ''evolution'' then False
      else localKnown)"

fun localSlugs :: "resource list \<Rightarrow> strmap \<Rightarrow> strmap" where
  "localSlugs [] m = m"
| "localSlugs (r # rs) m =
     (let sd = (case Spec r of None \<Rightarrow> [] | Some spec \<Rightarrow> specStr spec ''sourceDir'') in
      if resKind r = KindSkill \<and> sd \<noteq> [] then localSlugs rs (AList.update (resName r) sd m) else localSlugs rs m)"

record pull_flags =
  pullKinds :: "string list"
  pullAll :: bool
  pullDryRun :: bool
  pullPruneFiles :: bool

text \<open>The two sides of a run: the transport to the server with its decoder of archives, and the local files.\<close>

record ('s, 'f) pull_env =
  peGc :: "'s goclaw"
  peUntar :: untar
  peYaml :: yaml_codec
  peSha :: "string \<Rightarrow> string"
  peFs :: "'f fsops"
  peDisk :: disk
  peConfig :: string

type_synonym ('s, 'f) both = "'s gworld \<times> 'f"

definition onServer :: "('s gworld, 'a) api \<Rightarrow> (('s, 'f) both, 'a) api" where
  "onServer m w = (case m (fst w) of (r, s) \<Rightarrow> (r, (s, snd w)))"

definition onLocal :: "('f, 'a) api \<Rightarrow> (('s, 'f) both, 'a) api" where
  "onLocal m w = (case m (snd w) of (r, f) \<Rightarrow> (r, (fst w, f)))"

definition asApi :: "('f \<Rightarrow> goerr option \<times> 'f) \<Rightarrow> ('f, unit) api" where
  "asApi m f = (case m f of (None, f') \<Rightarrow> (Inr (), f') | (Some err, f') \<Rightarrow> (Inl err, f'))"

text \<open>\<open>printSkillDiff\<close> and \<open>printContextFileDiff\<close>.\<close>

definition printSkillDiff :: "'f fsops \<Rightarrow> string \<Rightarrow> string \<Rightarrow> skill_file list \<Rightarrow> 'f \<Rightarrow> string list" where
  "printSkillDiff ops slug sourceDir files fs =
     (''[dry-run] skill '' @ slug @ '' '' @ arrow @ '' '' @ sourceDir @ '' ('' @ showNat (length files) @ '' files)'' @ [nl]) #
     map (\<lambda>f. ''  ~ '' @ Path f @ [nl])
       (filter (\<lambda>f. fsRead ops (JoinPath [sourceDir, Path f]) fs \<noteq> Inr (Data f)) files)"

definition printContextFileDiff :: "string \<Rightarrow> string \<Rightarrow> context_file list \<Rightarrow> string list" where
  "printContextFileDiff agentKey agentsFile files =
     (''[dry-run] agent '' @ agentKey @ '' context-files in '' @ agentsFile @ '':'' @ [nl]) #
     map (\<lambda>(name, content). ''  ~ '' @ name @ '' ('' @ showNat (length content) @ '' bytes)'' @ [nl]) files"

definition wroteLines :: "string \<Rightarrow> string list \<Rightarrow> string list" where
  "wroteLines slug changed =
     (if changed \<noteq> []
      then (''skill '' @ slug @ '': wrote '' @ showNat (length changed) @ '' file(s)'' @ [nl]) # map (\<lambda>f. ''  '' @ f @ [nl]) changed
      else [''skill '' @ slug @ '': no changes'' @ [nl]])"

text \<open>One skill, as the body of the loop handles it: the lines printed.\<close>

definition pullSkill :: "('s, 'f) pull_env \<Rightarrow> pull_flags \<Rightarrow> string \<Rightarrow> string \<Rightarrow> (('s, 'f) both, string list) api" where
  "pullSkill pe fl slug sourceDir =
     bindA (wrapA (''download skill '' @ slug @ '': '') (onServer (DownloadSkillSource (peGc pe) slug))) (\<lambda>(files, grantees).
       if pullDryRun fl then (\<lambda>w. (Inr (printSkillDiff (peFs pe) slug sourceDir files (snd w)), w))
       else
         bindA (wrapA (''unpack skill '' @ slug @ '': '')
                  (onLocal (UnpackTo (peSha pe) (peFs pe) sourceDir files (pullPruneFiles fl)))) (\<lambda>changed.
         bindA (wrapA (''write frontmatter for '' @ slug @ '': '')
                  (onLocal (asApi (writeFrontmatter (peYaml pe) (peFs pe) sourceDir grantees)))) (\<lambda>_.
           retA (wroteLines slug changed))))"

text \<open>A list of steps, each with its lines; what was printed before an error stays printed.\<close>

fun pullSteps :: "('a \<Rightarrow> ('w, string list) api) \<Rightarrow> 'a list \<Rightarrow> 'w \<Rightarrow> (string list \<times> goerr option) \<times> 'w" where
  "pullSteps f [] w = (([], None), w)"
| "pullSteps f (x # xs) w =
     (case f x w of
        (Inl err, w') \<Rightarrow> (([], Some err), w')
      | (Inr lines, w') \<Rightarrow> (case pullSteps f xs w' of ((rest, e), w'') \<Rightarrow> ((lines @ rest, e), w'')))"

definition selectedSkills :: "('s, 'f) pull_env \<Rightarrow> pull_flags \<Rightarrow> manifest \<Rightarrow> resource_info list \<Rightarrow> (string \<times> string) list" where
  "selectedSkills pe fl m infos =
     (let slugs = localSlugs (Resources m) [] in
      map (\<lambda>info. (infoName info,
             case map_of slugs (infoName info) of
               Some sd \<Rightarrow> sd
             | None \<Rightarrow> inferSourceDir (peDisk pe) (peConfig pe) (infoName info)))
        (filter (\<lambda>info. shouldPullSkill info (pullAll fl) (map_of slugs (infoName info) \<noteq> None)) infos))"

definition pullSkills ::
  "('s, 'f) pull_env \<Rightarrow> pull_flags \<Rightarrow> manifest \<Rightarrow> ('s, 'f) both \<Rightarrow> (string list \<times> goerr option) \<times> ('s, 'f) both"
where
  "pullSkills pe fl m w =
     (case onServer (ListAllG (peGc pe) KindSkill) w of
        (Inl err, w') \<Rightarrow> (([], Some (wrapf ''list skills: '' err)), w')
      | (Inr infos, w') \<Rightarrow>
          (let sel = selectedSkills pe fl m infos in
           if sel = [] then (([''pull skills: no matching skills found'' @ [nl]], None), w')
           else pullSteps (\<lambda>(slug, sourceDir). pullSkill pe fl slug sourceDir) sel w'))"

section \<open>Context files\<close>

definition pullAgent :: "('s, 'f) pull_env \<Rightarrow> pull_flags \<Rightarrow> string \<Rightarrow> (('s, 'f) both, string list) api" where
  "pullAgent pe fl agentKey =
     (let agentsFile = resolveAgentsFile (peDisk pe) (peConfig pe) in
      bindA (wrapA (''download context files for '' @ agentKey @ '': '')
               (onServer (DownloadAgentContextFiles (peUntar pe) (peGc pe) agentKey))) (\<lambda>files.
        if files = [] then retA [''agent '' @ agentKey @ '': no context files'' @ [nl]]
        else if pullDryRun fl then retA (printContextFileDiff agentKey agentsFile files)
        else
          bindA (wrapA (''patch agents.yaml for '' @ agentKey @ '': '')
                   (onLocal (patchAgentsYAML (peSha pe) (peYaml pe) (peFs pe) agentsFile agentKey files))) (\<lambda>changed.
            retA (if changed then [''agent '' @ agentKey @ '': context files updated in '' @ agentsFile @ [nl]]
                  else [''agent '' @ agentKey @ '': context files unchanged'' @ [nl]]))))"

definition pullContextFiles ::
  "('s, 'f) pull_env \<Rightarrow> pull_flags \<Rightarrow> manifest \<Rightarrow> ('s, 'f) both \<Rightarrow> (string list \<times> goerr option) \<times> ('s, 'f) both"
where
  "pullContextFiles pe fl m w =
     (let agentKeys = map resName (filter (\<lambda>r. resKind r = KindAgent) (Resources m)) in
      if agentKeys = [] then (([''pull context-files: no Agent resources in manifest'' @ [nl]], None), w)
      else pullSteps (pullAgent pe fl) agentKeys w)"

text \<open>\<open>pull\<close> once the manifest is loaded and the provider stands.\<close>

definition pullWith ::
  "('s, 'f) pull_env \<Rightarrow> pull_flags \<Rightarrow> manifest \<Rightarrow> ('s, 'f) both \<Rightarrow> (string list \<times> goerr option) \<times> ('s, 'f) both"
where
  "pullWith pe fl m w =
     (case (if wantKind (pullKinds fl) ''skill'' then pullSkills pe fl m w else (([], None), w)) of
        ((out, Some err), w1) \<Rightarrow> ((out, Some err), w1)
      | ((out, None), w1) \<Rightarrow>
          if wantKind (pullKinds fl) ''context-files''
          then (case pullContextFiles pe fl m w1 of ((out', err), w2) \<Rightarrow> ((out @ out', err), w2))
          else ((out, None), w1))"

definition pullCmd ::
  "'w cli \<Rightarrow> ('s, 'f) pull_env \<Rightarrow> pull_flags \<Rightarrow> ('s, 'f) both \<Rightarrow> (string list \<times> goerr option) go \<times> ('s, 'f) both"
where
  "pullCmd cli pe fl w =
     (case loadAndValidateManifest cli of
        Panic msg \<Rightarrow> (Panic msg, w)
      | Ret (Inl err) \<Rightarrow> (Ret (Inr ([], Some err)), w)
      | Ret (Inr m) \<Rightarrow>
          (case resolveConnection cli m of
             Inl err \<Rightarrow> (Ret (Inr ([], Some err)), w)
           | Inr (ep, tok) \<Rightarrow>
               (case resolveProviderOpts cli m of
                  Inl err \<Rightarrow> (Ret (Inr ([], Some err)), w)
                | Inr opts \<Rightarrow>
                    (case pullWith (pe\<lparr>peGc := NewProvider ep tok opts (peGc pe), peDisk := cliDisk cli, peConfig := flagFile cli\<rparr>) fl m w of
                       (out, w') \<Rightarrow> (Ret (Inr out), w')))))"

section \<open>Facts about trees\<close>

named_theorems ynode_simps \<open>kinds, values and lookups after a change of a tree\<close>

lemma withContent_sel [ynode_simps, simp]:
  "yKind (withContent f n) = yKind n" "yValue (withContent f n) = yValue n" "yContent (withContent f n) = f (yContent n)"
  by (cases n; simp)+

lemma scalarNode_sel [ynode_simps, simp]:
  "yKind (scalarNode st v) = ScalarNode" "yValue (scalarNode st v) = v" "yContent (scalarNode st v) = []"
  by (simp_all add: scalarNode_def)

lemma pairValue_onPair: "pairValue key' (onPair key f c) = (if key' = key then map_option f (pairValue key c) else pairValue key' c)"
  by (induction key f c rule: onPair.induct) auto

lemma mappingValue_onPair [ynode_simps]:
  "mappingValue (withContent (onPair key f) m) key' =
     (if key' = key then map_option f (mappingValue m key) else mappingValue m key')"
  by (simp add: mappingValue_def pairValue_onPair)

lemma pairValue_setPair: "even (length c) \<Longrightarrow> pairValue key (setPair key val c) = Some val"
  by (induction key val c rule: setPair.induct) auto

lemma mappingValue_set [ynode_simps]:
  "yKind m = MappingNode \<Longrightarrow> even (length (yContent m)) \<Longrightarrow> mappingValue (setMappingValue m key val) key = Some val"
  by (simp add: mappingValue_def setMappingValue_def pairValue_setPair)

lemma docRoot_onRoot: "g [] = [] \<Longrightarrow> docRoot (onRoot (withContent g) n) = withContent g (docRoot n)"
  by (cases n) (auto simp: docRoot_def onRoot_def)

lemma find_onFirst: "(\<And>x. p x \<Longrightarrow> p (g x)) \<Longrightarrow> find p (onFirst p g xs) = map_option g (find p xs)"
  by (induction xs) auto

lemma find_onFirst_other: "(\<And>x. p x \<Longrightarrow> \<not> q x \<and> \<not> q (g x)) \<Longrightarrow> find q (onFirst p g xs) = find q xs"
  by (induction xs) auto

lemma isAgent_onSpec [ynode_simps]: "isAgent k (withContent (onPair ''spec'' f) x) = isAgent k x"
  by (simp add: isAgent_def mappingStringValue_def mappingValue_onPair)

lemma isAgent_unique: "isAgent k x \<Longrightarrow> isAgent k' x \<Longrightarrow> k = k'"
  by (simp add: isAgent_def)

text \<open>The node of an agent in a document.\<close>

definition agentIn :: "ynode \<Rightarrow> string \<Rightarrow> ynode option" where
  "agentIn doc agentKey =
     (case mappingValue (docRoot doc) ''resources'' of
        None \<Rightarrow> None
      | Some resources \<Rightarrow> if yKind resources \<noteq> SequenceNode then None else findAgent resources agentKey)"

lemma agentIn_onAgentSpec:
  "agentIn (onAgentSpec k f doc) k' =
     (if k' = k then map_option (withContent (onPair ''spec'' f)) (agentIn doc k) else agentIn doc k')"
proof -
  let ?g = "withContent (onPair ''spec'' f)"
  have s: "find (isAgent k) (onFirst (isAgent k) ?g xs) = map_option ?g (find (isAgent k) xs)" for xs
    by (rule find_onFirst) (simp add: ynode_simps)
  have o': "find (isAgent k') (onFirst (isAgent k) ?g xs) = find (isAgent k') xs" if "k' \<noteq> k" for xs
    using that isAgent_unique by (intro find_onFirst_other) (auto simp: ynode_simps)
  show ?thesis
    unfolding onAgentSpec_def agentIn_def findAgent_def
    by (auto simp: docRoot_onRoot ynode_simps s o' split: option.split)
qed

text \<open>\<open>contextFilesChanged\<close> after the files were put there.\<close>

lemma currentFiles_built:
  "list_all (\<lambda>(n, c). n \<noteq> []) fs \<Longrightarrow>
     currentFiles sha (map contextFileNode fs) cur = fold (\<lambda>(n, c). AList.update n (sha c)) fs cur"
  by (induction fs arbitrary: cur)
    (auto simp: contextFileNode_def mappingStringValue_def mappingValue_def Let_def)

lemma fold_update_fresh:
  "distinct (map fst fs) \<Longrightarrow> fst ` set fs \<inter> fst ` set cur = {} \<Longrightarrow>
     fold (\<lambda>(n, c). AList.update n (h c)) fs cur = cur @ map (\<lambda>(n, c). (n, h c)) fs"
proof (induction fs arbitrary: cur)
  case (Cons f fs)
  obtain n c where f: "f = (n, c)" by fastforce
  have "n \<notin> fst ` set cur" using Cons.prems(2) f by auto
  then have "AList.update n (h c) cur = cur @ [(n, h c)]" by (induction cur) auto
  moreover have "fold (\<lambda>(n, c). AList.update n (h c)) fs (cur @ [(n, h c)]) = (cur @ [(n, h c)]) @ map (\<lambda>(n, c). (n, h c)) fs"
    using Cons.prems f by (intro Cons.IH) auto
  ultimately show ?case using f by simp
qed simp

lemma built_unchanged:
  assumes "distinct (map fst fs)" "list_all (\<lambda>(n, c). n \<noteq> []) fs"
    and "mappingValue a ''spec'' = Some spec" "mappingValue spec ''contextFiles'' = Some (buildContextFilesNode fs)"
  shows "\<not> contextFilesChanged sha a fs"
proof -
  have c: "currentFiles sha (map contextFileNode fs) [] = map (\<lambda>(n, c). (n, sha c)) fs"
    using assms(1,2) by (simp add: currentFiles_built fold_update_fresh)
  have "map_of (map (\<lambda>(n, c). (n, sha c)) fs) n = Some (sha c)" if "(n, c) \<in> set fs" for n c
  proof -
    have "distinct (map fst (map (\<lambda>(n, c). (n, sha c)) fs))" using assms(1) by (simp add: comp_def case_prod_unfold)
    then show ?thesis using that by (auto intro!: map_of_is_SomeI)
  qed
  with assms(3,4) c show ?thesis by (auto simp: contextFilesChanged_def buildContextFilesNode_def list_ex_iff)
qed

section \<open>Trees up to what YAML does not keep\<close>

text \<open>A document that was printed and read again has the same kinds, values and contents; tags, styles and positions may differ.\<close>

fun erase :: "ynode \<Rightarrow> ynode" where
  "erase (YNode k t v s c m) = YNode k [] v PlainStyle (map erase c) []"

lemma erase_sel [ynode_simps, simp]:
  "yKind (erase n) = yKind n" "yValue (erase n) = yValue n" "yContent (erase n) = map erase (yContent n)"
  by (cases n; simp)+

lemma pairValue_erase: "pairValue key (map erase c) = map_option erase (pairValue key c)"
  by (induction key c rule: pairValue.induct) auto

lemma mappingValue_erase: "mappingValue (erase m) key = map_option erase (mappingValue m key)"
  by (simp add: mappingValue_def pairValue_erase)

lemma mappingStringValue_erase: "mappingStringValue (erase m) key = mappingStringValue m key"
  by (simp add: mappingStringValue_def mappingValue_erase split: option.split)

lemma docRoot_erase: "docRoot (erase n) = erase (docRoot n)"
  by (simp add: docRoot_def hd_map)

lemma find_isAgent_erase: "find (isAgent k) (map erase xs) = map_option erase (find (isAgent k) xs)"
  by (induction xs) (auto simp: isAgent_def mappingStringValue_erase)

lemma agentIn_erase: "agentIn (erase doc) k = map_option erase (agentIn doc k)"
  by (auto simp: agentIn_def docRoot_erase mappingValue_erase findAgent_def find_isAgent_erase split: option.split)

lemma currentFiles_erase: "currentFiles sha (map erase items) cur = currentFiles sha items cur"
  by (induction sha items cur rule: currentFiles.induct) (simp_all add: mappingStringValue_erase Let_def)

lemma contextFilesChanged_erase: "contextFilesChanged sha (erase a) fs = contextFilesChanged sha a fs"
  by (simp add: contextFilesChanged_def mappingValue_erase currentFiles_erase split: option.split)

lemma planPatch_Skip:
  "planPatch sha path k fs doc = Inr Skip \<longleftrightarrow>
     (\<exists>resources. mappingValue (docRoot doc) ''resources'' = Some resources \<and> yKind resources = SequenceNode) \<and>
     (\<forall>a. agentIn doc k = Some a \<longrightarrow> \<not> contextFilesChanged sha a fs)"
  by (auto simp: planPatch_def agentIn_def split: option.splits)

lemma planPatch_Rewrite:
  "planPatch sha path k fs doc = Inr (Rewrite doc') \<Longrightarrow>
     doc' = patchedDoc k fs doc \<and>
     (\<exists>resources. mappingValue (docRoot doc) ''resources'' = Some resources \<and> yKind resources = SequenceNode) \<and>
     (\<exists>a spec. agentIn doc k = Some a \<and> mappingValue a ''spec'' = Some spec)"
  by (auto simp: planPatch_def agentIn_def split: option.splits if_splits)

lemma resources_erase:
  "(\<exists>resources. mappingValue (docRoot (erase doc)) ''resources'' = Some resources \<and> yKind resources = SequenceNode) =
   (\<exists>resources. mappingValue (docRoot doc) ''resources'' = Some resources \<and> yKind resources = SequenceNode)"
  by (auto simp: docRoot_erase mappingValue_erase)

lemma planPatch_Skip_erase: "planPatch sha path k fs (erase doc) = Inr Skip \<longleftrightarrow> planPatch sha path k fs doc = Inr Skip"
  unfolding planPatch_Skip resources_erase by (auto simp: agentIn_erase contextFilesChanged_erase)

definition goodSpec :: "ynode \<Rightarrow> string \<Rightarrow> bool" where
  "goodSpec doc k \<longleftrightarrow>
     (case agentIn doc k of
        None \<Rightarrow> True
      | Some a \<Rightarrow>
          (case mappingValue a ''spec'' of
             None \<Rightarrow> True
           | Some spec \<Rightarrow> yKind spec = MappingNode \<and> even (length (yContent spec))))"

lemma patched_is_settled:
  assumes "planPatch sha path k fs doc = Inr (Rewrite doc')" "goodSpec doc k"
    and "distinct (map fst fs)" "list_all (\<lambda>(n, c). n \<noteq> []) fs"
  shows "planPatch sha path k fs doc' = Inr Skip"
proof -
  let ?f = "\<lambda>spec. setMappingValue spec ''contextFiles'' (buildContextFilesNode fs)"
  from planPatch_Rewrite [OF assms(1)] obtain resources a spec where
    d: "doc' = onAgentSpec k ?f doc" and r: "mappingValue (docRoot doc) ''resources'' = Some resources" "yKind resources = SequenceNode"
    and a: "agentIn doc k = Some a" "mappingValue a ''spec'' = Some spec"
    unfolding patchedDoc_def by blast
  have "mappingValue (withContent (onPair ''spec'' ?f) a) ''spec'' = Some (?f spec)" using a by (simp add: ynode_simps)
  moreover have "mappingValue (?f spec) ''contextFiles'' = Some (buildContextFilesNode fs)"
    using assms(2) a by (intro mappingValue_set) (simp_all add: goodSpec_def)
  ultimately have "\<not> contextFilesChanged sha (withContent (onPair ''spec'' ?f) a) fs"
    by (rule built_unchanged [OF assms(3,4)])
  moreover have "agentIn doc' k = Some (withContent (onPair ''spec'' ?f) a)" using a by (simp add: d agentIn_onAgentSpec)
  moreover have "\<exists>rs. mappingValue (docRoot doc') ''resources'' = Some rs \<and> yKind rs = SequenceNode"
    using r by (simp add: d onAgentSpec_def docRoot_onRoot ynode_simps)
  ultimately show ?thesis by (simp add: planPatch_Skip)
qed

text \<open>
  An agent whose spec is there but is not a mapping (as in \<open>spec:\<close> with nothing behind it): the files are
  appended to a scalar, which YAML does not print, so the next run finds the same document, rewrites it
  again and says again that it was updated.
\<close>

lemma null_spec_never_settles:
  assumes "agentIn doc k = Some a" "mappingValue a ''spec'' = Some spec" "yKind spec \<noteq> MappingNode"
  shows "\<exists>doc'. planPatch sha path k fs doc = Inr (Rewrite doc')"
  using assms unfolding planPatch_def agentIn_def contextFilesChanged_def
  by (auto simp: mappingValue_def [of spec] split: option.splits if_splits)

section \<open>Frames\<close>

lemma keeps_onServer: "keeps f m \<Longrightarrow> keeps (\<lambda>w. f (fst w)) (onServer m)"
  by (simp add: keeps_def onServer_def split: prod.split) (metis snd_conv)

lemma keeps_onServer_local [keeps_intros]: "keeps snd (onServer m)"
  by (simp add: keeps_def onServer_def split: prod.split)

lemma keeps_onLocal [keeps_intros]: "keeps (\<lambda>w. f (fst w)) (onLocal m)"
  by (simp add: keeps_def onLocal_def split: prod.split)

lemma keeps_look [keeps_intros]: "keeps f (\<lambda>w. (g w, w))"
  by (simp add: keeps_def)

lemma pullSteps_keeps: "(\<And>x. keeps f (g x)) \<Longrightarrow> keeps f (pullSteps g xs)"
proof (induction xs)
  case (Cons x xs)
  have "f w' = f w" if "g x w = (r, w')" for w r w' using Cons.prems [of x] that by (metis keeps_def snd_conv)
  moreover have "f w' = f w" if "pullSteps g xs w = (r, w')" for w r w'
    using Cons.IH [OF Cons.prems] that by (metis keeps_def snd_conv)
  ultimately show ?case by (auto simp: keeps_def split: prod.split sum.split)
qed (simp add: keeps_def)

lemma pullWith_frame:
  assumes list: "keeps f (onServer (ListAllG (peGc pe) KindSkill))"
    and skill: "\<And>slug dir. keeps f (pullSkill pe fl slug dir)" and agent: "\<And>k. keeps f (pullAgent pe fl k)"
  shows "keeps f (pullWith pe fl m)"
proof -
  have ag: "f (snd (pullContextFiles pe fl m w)) = f w" for w
    using pullSteps_keeps [of f "pullAgent pe fl", OF agent] by (cases w) (simp add: pullContextFiles_def Let_def keeps_def)
  have st: "f (snd (pullSteps (\<lambda>(slug, sourceDir). pullSkill pe fl slug sourceDir) xs w)) = f w" for xs w
    using pullSteps_keeps [of f "\<lambda>(slug, sourceDir). pullSkill pe fl slug sourceDir"] skill
    by (cases w) (simp add: keeps_def split_def)
  have li: "f (snd (onServer (ListAllG (peGc pe) KindSkill) w)) = f w" for w using list unfolding keeps_def by blast
  have sk: "f (snd (pullSkills pe fl m w)) = f w" for w
    using st li [of w] by (auto simp: pullSkills_def Let_def split: prod.split sum.split)
  have "f (snd (pullWith pe fl m w)) = f w" for w
    using sk [of w] ag unfolding pullWith_def by (simp split: prod.split option.split) (metis snd_conv)
  then show ?thesis by (simp add: keeps_def)
qed

lemma keeps_onServer_writes:
  "keeps (\<lambda>w. writesOf (net w)) m \<Longrightarrow> keeps (\<lambda>w. writesOf (net (fst w))) (onServer m)"
  by (rule keeps_onServer)

lemma keeps_onLocal_writes: "keeps (\<lambda>w. writesOf (net (fst w))) (onLocal m)"
  by (rule keeps_onLocal)

lemma pullWith_server: "keeps (\<lambda>w. writesOf (net (fst w))) (pullWith (pe\<lparr>peGc := recorded gc\<rparr>) fl m)"
proof (rule pullWith_frame, goal_cases)
  case 1
  show ?case using rec.list_keeps [of gc KindSkill] by (simp add: keeps_onServer_writes)
next
  case (2 slug dir)
  show ?case
    using rec.keeps_DownloadSkillSource [of gc slug] unfolding pullSkill_def
    by (intro keeps_bindA keeps_wrapA keeps_onLocal_writes keeps_onServer_writes keeps_prod keeps_if keeps_look keeps_retA) simp
next
  case (3 k)
  show ?case
    using rec.keeps_DownloadAgentContextFiles [of "peUntar pe" gc k] unfolding pullAgent_def Let_def
    by (intro keeps_bindA keeps_wrapA keeps_onLocal_writes keeps_onServer_writes keeps_prod keeps_if keeps_look keeps_retA) simp
qed

lemma pullWith_dry: "pullDryRun fl \<Longrightarrow> keeps snd (pullWith pe fl m)"
proof (rule pullWith_frame, goal_cases)
  case (2 slug dir)
  then show ?case unfolding pullSkill_def
    by (intro keeps_bindA keeps_wrapA keeps_onServer_local keeps_prod keeps_if keeps_look keeps_retA) simp_all
next
  case (3 k)
  then show ?case unfolding pullAgent_def Let_def
    by (intro keeps_bindA keeps_wrapA keeps_onServer_local keeps_prod keeps_if keeps_look keeps_retA) simp_all
qed (rule keeps_onServer_local)

section \<open>Properties\<close>

text \<open>
  C17: \<open>pull\<close> leaves the server as it is: whatever its flags, what it sends are GET requests. With
  \<open>--dry-run\<close> it leaves the local files as they are as well.
\<close>

theorem pull_sends_only_reads:
  assumes "pullWith (pe\<lparr>peGc := recorded gc\<rparr>) fl m w = (out, w')" "snd (net (fst w)) = []"
  shows "list_all (\<lambda>c. \<not> isWrite c) (snd (net (fst w'))) \<and> (pullDryRun fl \<longrightarrow> snd w' = snd w)"
proof -
  let ?pe = "pe\<lparr>peGc := recorded gc\<rparr>"
  have "keeps (\<lambda>w. writesOf (net (fst w))) (pullWith ?pe fl m)" by (rule pullWith_server)
  then have "writesOf (net (fst w')) = writesOf (net (fst w))"
    using assms(1) unfolding keeps_def by (metis snd_conv)
  moreover have "snd w' = snd w" if "pullDryRun fl"
    using pullWith_dry [OF that, of ?pe m] assms(1) unfolding keeps_def by (metis snd_conv)
  ultimately show ?thesis using assms(2) by (simp add: writesOf_def filter_empty_conv list_all_iff)
qed

text \<open>
  C18: \<open>pull\<close> settles. Take an \<open>agents.yaml\<close> where the agent's spec is a mapping, and files with distinct
  names. After one patch, a second one with the same files finds nothing to do and writes nothing; the
  nodes of all other agents are what they were. The file is read back as written, and the document printed
  is read back with the same kinds, values and contents.
\<close>

theorem pull_patch_settles:
  assumes run: "patchAgentsYAML sha yc ops path k files fs = (Inr changed, fs1)"
    and doc: "fsRead ops path fs = Inr raw" "yParse yc raw = Inr doc" "goodSpec doc k"
    and names: "distinct (map fst files)" "list_all (\<lambda>(n, c). n \<noteq> []) files"
    and disk: "\<And>out. fsWrite ops path out fs = (None, fs1) \<Longrightarrow> fsRead ops path fs1 = Inr out"
    and yaml: "\<And>out. yPrint yc (patchedDoc k files doc) = Inr out \<Longrightarrow>
      \<exists>doc1. yParse yc out = Inr doc1 \<and> erase doc1 = erase (patchedDoc k files doc)"
  shows "patchAgentsYAML sha yc ops path k files fs1 = (Inr False, fs1) \<and>
    (\<exists>raw1 doc1. fsRead ops path fs1 = Inr raw1 \<and> yParse yc raw1 = Inr doc1 \<and>
       (\<forall>k'. k' \<noteq> k \<longrightarrow> map_option erase (agentIn doc1 k') = map_option erase (agentIn doc k')))"
proof (cases "planPatch sha path k files doc")
  case (Inl err)
  with run doc show ?thesis by (simp add: patchAgentsYAML_def)
next
  case (Inr p)
  show ?thesis
  proof (cases p)
    case Skip
    with run doc Inr have "fs1 = fs" "changed = False" by (simp_all add: patchAgentsYAML_def)
    with run doc show ?thesis by auto
  next
    case (Rewrite doc')
    then have d: "doc' = patchedDoc k files doc" using planPatch_Rewrite Inr by blast
    with run doc Inr Rewrite obtain out where o': "yPrint yc (patchedDoc k files doc) = Inr out" "fsWrite ops path out fs = (None, fs1)"
      by (auto simp: patchAgentsYAML_def split: sum.splits prod.splits option.splits)
    from yaml [OF o'(1)] obtain doc1 where y: "yParse yc out = Inr doc1" "erase doc1 = erase (patchedDoc k files doc)" by blast
    have "planPatch sha path k files (patchedDoc k files doc) = Inr Skip"
      using patched_is_settled Inr Rewrite d doc(3) names by metis
    then have "planPatch sha path k files doc1 = Inr Skip" using y(2) planPatch_Skip_erase by metis
    moreover have "map_option erase (agentIn doc1 k') = map_option erase (agentIn doc k')" if "k' \<noteq> k" for k'
    proof -
      have "map_option erase (agentIn doc1 k') = map_option erase (agentIn (patchedDoc k files doc) k')"
        using y(2) agentIn_erase by metis
      with that show ?thesis by (simp add: patchedDoc_def agentIn_onAgentSpec)
    qed
    ultimately show ?thesis using disk [OF o'(2)] y(1) by (auto simp: patchAgentsYAML_def)
  qed
qed

definition demoYaml :: "(string \<times> ynode) list \<Rightarrow> ynode" where
  "demoYaml kvs = YNode MappingNode [] [] PlainStyle (concat (map (\<lambda>(k, v). [scalarNode PlainStyle k, v]) kvs)) []"

definition demoAgentNode :: "string \<Rightarrow> (string \<times> ynode) list \<Rightarrow> ynode" where
  "demoAgentNode name spec =
     demoYaml [(''kind'', scalarNode PlainStyle ''Agent''), (''name'', scalarNode PlainStyle name), (''spec'', demoYaml spec)]"

definition demoDoc :: ynode where
  "demoDoc = YNode DocumentNode [] [] PlainStyle [demoYaml [(''resources'', YNode SequenceNode [] [] PlainStyle
     [demoAgentNode ''alpha'' [(''model'', scalarNode PlainStyle ''m'')], demoAgentNode ''beta'' []] [])]] []"

definition demoYC :: yaml_codec where
  "demoYC =
     \<lparr>yParse = (\<lambda>t. if t = ''old'' then Inr demoDoc else Inr (erase (patchedDoc ''alpha'' [(''SOUL.md'', ''be kind'')] demoDoc))),
      yPrint = (\<lambda>d. Inr ''new''), yGrants = (\<lambda>gs. Inr [])\<rparr>"

definition demoPullFs :: "string fsops" where
  "demoPullFs = \<lparr>fsRead = (\<lambda>p w. Inr w), fsMkdirAll = (\<lambda>p w. (None, w)), fsWrite = (\<lambda>p d w. (None, d)),
     fsRemove = (\<lambda>p w. (None, w)), fsWalkFiles = (\<lambda>p w. ([], None))\<rparr>"

lemma demo_first_pull:
  "patchAgentsYAML (\<lambda>c. c) demoYC demoPullFs ''agents.yaml'' ''alpha'' [(''SOUL.md'', ''be kind'')] ''old'' = (Inr True, ''new'')"
  "goodSpec demoDoc ''alpha''"
  by code_simp+

lemma erase_erase [simp]: "erase (erase n) = erase n"
  by (induction n) (auto simp: comp_def)

theorem pull_patch_settles_witness:
  "patchAgentsYAML (\<lambda>c. c) demoYC demoPullFs ''agents.yaml'' ''alpha'' [(''SOUL.md'', ''be kind'')] ''new'' = (Inr False, ''new'')"
  by (rule conjunct1 [OF pull_patch_settles [OF demo_first_pull(1), of "''old''" demoDoc]])
    (simp_all add: demo_first_pull(2), simp_all add: demoPullFs_def demoYC_def)

theorem pull_sends_only_reads_witness:
  "snd (snd (pullWith \<lparr>peGc = recorded demoGc, peUntar = demoUntar, peYaml = demoYC, peSha = (\<lambda>c. c), peFs = demoPullFs,
       peDisk = demoDisk [], peConfig = []\<rparr> \<lparr>pullKinds = [''Context-Files''], pullAll = False, pullDryRun = True, pullPruneFiles = False\<rparr>
     demoAgents (\<lparr>net = ((True, False), []), tenantOnce = None, warnings = []\<rparr>, ''old''))) = ''old''"
proof -
  let ?pe = "\<lparr>peGc = recorded demoGc, peUntar = demoUntar, peYaml = demoYC, peSha = (\<lambda>c. c), peFs = demoPullFs,
       peDisk = demoDisk [], peConfig = []\<rparr>"
  let ?fl = "\<lparr>pullKinds = [''Context-Files''], pullAll = False, pullDryRun = True, pullPruneFiles = False\<rparr>"
  let ?w = "(\<lparr>net = ((True, False), []), tenantOnce = None, warnings = []\<rparr>, ''old'')"
  obtain out w' where r: "pullWith ?pe ?fl demoAgents ?w = (out, w')" by (metis surj_pair)
  have "pullWith (?pe\<lparr>peGc := recorded demoGc\<rparr>) ?fl demoAgents ?w = (out, w')" using r by simp
  from pull_sends_only_reads [OF this] have "snd w' = ''old''" by simp
  with r show ?thesis by simp
qed

end
