(* ===== verification/Init.thy ===== *)
theory Init
  imports Commands
begin

text \<open>
  \<open>cmd/init.go\<close>: the questions of \<open>gcplane init\<close> and the two files it writes. The standard input is the text
  still to be read, the current directory a map from names to contents.
\<close>

section \<open>Reading answers\<close>

text \<open>\<open>ReadString\<close>: up to and with the newline, or to the end.\<close>

fun readString :: "string \<Rightarrow> string \<times> string" where
  "readString [] = ([], [])"
| "readString (c # cs) = (if c = nl then ([c], cs) else (case readString cs of (l, rest) \<Rightarrow> (c # l, rest)))"

definition readLine :: "string \<Rightarrow> string \<Rightarrow> string \<times> string" where
  "readLine defaultVal inp =
     (case readString inp of
        (raw, rest) \<Rightarrow> (let line = trimSpace raw in if line = [] then defaultVal else line, rest))"

text \<open>
  \<open>strings.ToUpper\<close> of one byte: a byte from 128 on is not a character of its own and becomes the
  replacement character U+FFFD.
\<close>

definition upperByte :: "char \<Rightarrow> string" where
  "upperByte c = (if code c < 128 then [toUpperC c] else map char_of [239 :: nat, 191, 189])"

fun capitalizeFirst :: "string \<Rightarrow> string" where
  "capitalizeFirst [] = []"
| "capitalizeFirst (c # cs) = upperByte c @ cs"

section \<open>Templates\<close>

record provider_template =
  displayName :: string
  providerType :: string
  apiBase :: string
  envVar :: string
  defaultModel :: string

definition anthropicTemplate :: provider_template where
  "anthropicTemplate = \<lparr>displayName = ''Anthropic'', providerType = ''anthropic'', apiBase = ''https://api.anthropic.com'',
     envVar = ''ANTHROPIC_API_KEY'', defaultModel = ''claude-sonnet-4-20250514''\<rparr>"

definition openaiTemplate :: provider_template where
  "openaiTemplate = \<lparr>displayName = ''OpenAI'', providerType = ''openai'', apiBase = ''https://api.openai.com/v1'',
     envVar = ''OPENAI_API_KEY'', defaultModel = ''gpt-4o''\<rparr>"

definition openrouterTemplate :: provider_template where
  "openrouterTemplate = \<lparr>displayName = ''OpenRouter'', providerType = ''openrouter'', apiBase = ''https://openrouter.ai/api/v1'',
     envVar = ''OPENROUTER_API_KEY'', defaultModel = ''google/gemini-3-flash-preview''\<rparr>"

text \<open>The choice of a provider: its template, its name, what was printed, what is left of the input.\<close>

definition chooseProvider :: "string \<Rightarrow> string \<Rightarrow> provider_template \<times> string \<times> string list \<times> string" where
  "chooseProvider choice inp =
     (if choice = ''1'' then (anthropicTemplate, ''anthropic'', [], inp)
      else if choice = ''2'' then (openaiTemplate, ''openai'', [], inp)
      else if choice = ''4'' then
        (case readLine ''custom'' inp of
           (provName, inp) \<Rightarrow>
             (case readLine ''https://api.example.com/v1'' inp of
                (base, inp) \<Rightarrow>
                  (case readLine ''default'' inp of
                     (model, inp) \<Rightarrow>
                       (\<lparr>displayName = provName, providerType = ''custom'', apiBase = base,
                         envVar = map toUpperC provName @ ''_API_KEY'', defaultModel = model\<rparr>,
                        provName, [''Provider name: '', ''API base URL: '', ''Default model: ''], inp))))
      else (openrouterTemplate, ''openrouter'', [], inp))"

definition unlines :: "string list \<Rightarrow> string" where
  "unlines ls = concat (map (\<lambda>l. l @ [nl]) ls)"

definition quoted :: "string \<Rightarrow> string" where
  "quoted s = [char_of (34 :: nat)] @ s @ [char_of (34 :: nat)]"

definition manifestText :: "string \<Rightarrow> string \<Rightarrow> string \<Rightarrow> provider_template \<Rightarrow> string \<Rightarrow> string \<Rightarrow> string" where
  "manifestText name ep provName prov agentName model = unlines
     [''apiVersion: gcplane.io/v1'',
      ''kind: Manifest'',
      ''metadata:'',
      ''  name: '' @ name,
      ''  environment: dev'',
      [],
      ''connection:'',
      ''  endpoint: '' @ ep,
      ''  token: ${GOCLAW_TOKEN}'',
      [],
      ''resources:'',
      ''  - kind: Provider'',
      ''    name: '' @ provName,
      ''    spec:'',
      ''      displayName: '' @ quoted (displayName prov),
      ''      providerType: '' @ providerType prov,
      ''      apiBase: '' @ apiBase prov,
      ''      apiKey: ${'' @ envVar prov @ ''}'',
      ''      enabled: true'',
      [],
      ''  - kind: Agent'',
      ''    name: '' @ agentName,
      ''    spec:'',
      ''      displayName: '' @ quoted (capitalizeFirst agentName),
      ''      provider: '' @ provName,
      ''      model: '' @ model,
      ''      agentType: predefined'',
      ''      status: active'',
      ''      isDefault: true'']"

definition envText :: "provider_template \<Rightarrow> string" where
  "envText prov = unlines
     [''GOCLAW_TOKEN='', envVar prov @ ''='', [], ''# Drift notifications (optional)'', ''GCPLANE_WEBHOOK_URL='', ''GCPLANE_WEBHOOK_FORMAT=slack'']"

section \<open>The command\<close>

type_synonym cwd = "(string \<times> string) list"

text \<open>\<open>os.WriteFile\<close>: \<open>fails\<close> gives the error for a name, and what of the file is left then.\<close>

definition writeTo :: "(string \<Rightarrow> (goerr \<times> string option) option) \<Rightarrow> string \<Rightarrow> string \<Rightarrow> cwd \<Rightarrow> goerr option \<times> cwd" where
  "writeTo fails name content d =
     (case fails name of
        None \<Rightarrow> (None, AList.update name content d)
      | Some (err, None) \<Rightarrow> (Some err, d)
      | Some (err, Some torn) \<Rightarrow> (Some err, AList.update name torn d))"

definition exists :: "string \<Rightarrow> cwd \<Rightarrow> bool" where
  "exists name d \<longleftrightarrow> map_of d name \<noteq> None"

definition initPrompts :: "string list \<Rightarrow> string \<Rightarrow> string list" where
  "initPrompts asked model =
     [''GCPlane Init '' @ Validate.emDash @ '' Generate starter manifest'' @ [nl], [nl], ''Deployment name [my-setup]: '',
      ''GoClaw endpoint [http://localhost:18790]: '', nl # ''Provider type:'' @ [nl], ''  1) anthropic'' @ [nl], ''  2) openai'' @ [nl],
      ''  3) openrouter'' @ [nl], ''  4) custom'' @ [nl], ''Choose [3]: ''] @ asked @
     [''Model ['' @ model @ '']: '', ''Agent name [assistant]: '']"

definition initAnswers :: "string \<Rightarrow> string \<times> string \<times> string \<times> provider_template \<times> string \<times> string \<times> string list" where
  "initAnswers inp =
     (case readLine ''my-setup'' inp of
        (name, inp) \<Rightarrow>
      case readLine ''http://localhost:18790'' inp of
        (ep, inp) \<Rightarrow>
      case readLine ''3'' inp of
        (choice, inp) \<Rightarrow>
      case chooseProvider choice inp of
        (prov, provName, asked, inp) \<Rightarrow>
      case readLine (defaultModel prov) inp of
        (model, inp) \<Rightarrow>
      case readLine ''assistant'' inp of
        (agentName, inp) \<Rightarrow>
          (name, ep, provName, prov, agentName, model,
           initPrompts asked (defaultModel prov)))"

definition nextSteps :: "string list" where
  "nextSteps = [nl # ''Next steps:'' @ [nl], ''  1. cp .env.example .env && edit .env'' @ [nl], ''  2. gcplane plan'' @ [nl],
     ''  3. gcplane apply'' @ [nl]]"

definition initCmd ::
  "(string \<Rightarrow> (goerr \<times> string option) option) \<Rightarrow> string \<Rightarrow> cwd \<Rightarrow> (string list \<times> goerr option) \<times> cwd"
where
  "initCmd fails inp d =
     (if exists ''gcplane.yaml'' d then (([], Some (errorf ''gcplane.yaml already exists'')), d)
      else case initAnswers inp of
        (name, ep, provName, prov, agentName, model, out) \<Rightarrow>
          (case writeTo fails ''gcplane.yaml'' (manifestText name ep provName prov agentName model) d of
             (Some err, d1) \<Rightarrow> ((out, Some (wrapf ''write gcplane.yaml: '' err)), d1)
           | (None, d1) \<Rightarrow>
               (if exists ''.env.example'' d1 then ((out @ [nl # ''Created gcplane.yaml'' @ [nl]] @ nextSteps, None), d1)
                else ((out @ [nl # ''Created gcplane.yaml'' @ [nl], ''Created .env.example'' @ [nl]] @ nextSteps, None),
                      snd (writeTo fails ''.env.example'' (envText prov) d1)))))"

section \<open>Facts\<close>

lemma map_of_writeTo: "n \<noteq> name \<Longrightarrow> map_of (snd (writeTo fails name content d)) n = map_of d n"
  by (auto simp: writeTo_def gomap_simps split: option.split)

lemma readString_split: "readString inp = (l, rest) \<Longrightarrow> inp = l @ rest"
  by (induction inp arbitrary: l) (auto split: if_splits prod.splits)

lemma readLine_nonempty: "defaultVal \<noteq> [] \<Longrightarrow> fst (readLine defaultVal inp) \<noteq> []"
  by (auto simp: readLine_def Let_def split: prod.split)

lemma initAnswers_nonempty:
  assumes "initAnswers inp = (name, ep, provName, prov, agentName, model, lines)"
  shows "name \<noteq> [] \<and> ep \<noteq> [] \<and> agentName \<noteq> []"
proof -
  have "\<exists>i1 i2 i3. name = fst (readLine ''my-setup'' i1) \<and> ep = fst (readLine ''http://localhost:18790'' i2) \<and>
      agentName = fst (readLine ''assistant'' i3)"
    using assms unfolding initAnswers_def by (auto split: prod.splits) (metis fst_conv)+
  then show ?thesis using readLine_nonempty by auto
qed

text \<open>
  A custom provider whose name has a hyphen gets a variable that the resolver does not recognise, so the
  text of the reference is sent as the key.
\<close>

lemma hyphen_key_is_sent_verbatim:
  "envVar (fst (chooseProvider ''4'' (''my-llm'' @ [nl]))) = ''MY-LLM_API_KEY''"
  "Resolve o' (''${'' @ ''MY-LLM_API_KEY'' @ ''}'') = Inr (''${'' @ ''MY-LLM_API_KEY'' @ ''}'')"
proof -
  show "envVar (fst (chooseProvider ''4'' (''my-llm'' @ [nl]))) = ''MY-LLM_API_KEY''" by code_simp
  have n: "matchEnvVar (c # cs) = None" if "CHR ''$'' \<noteq> c" for c cs
    using that by (auto simp: matchEnvVar_def split: list.splits)
  have f: "matchEnvVar ''${MY-LLM_API_KEY}'' = None" by code_simp
  have e: "replaceEnvVars o' [] = ([], [])" by (subst replaceEnvVars.simps) (simp add: matchEnvVar_def)
  have "replaceEnvVars o' cs = (cs, [])" if "CHR ''$'' \<notin> set cs" for cs
    using that by (induction cs) (simp_all add: e n replaceEnvVars.simps [of o' "_ # _"])
  then have "replaceEnvVars o' ''${MY-LLM_API_KEY}'' = (''${MY-LLM_API_KEY}'', [])"
    by (subst replaceEnvVars.simps) (simp add: f)
  then show "Resolve o' (''${'' @ ''MY-LLM_API_KEY'' @ ''}'') = Inr (''${'' @ ''MY-LLM_API_KEY'' @ ''}'')"
    by (simp add: Resolve_def ResolveEnvVars_def cutPrefix_def hasPrefix_def)
qed

section \<open>Properties\<close>

text \<open>
  \<open>init\<close> destroys nothing. Whatever is answered and whichever write fails, every file that was in the
  directory keeps its contents, no file but \<open>gcplane.yaml\<close> and \<open>.env.example\<close> appears, and without an error
  \<open>gcplane.yaml\<close> holds the manifest for the answers, with every blank answer replaced by its default.
\<close>

lemma init_destroys_nothing:
  assumes "initCmd fails inp d = ((out, err), d')"
  shows "(\<forall>n. map_of d n \<noteq> None \<longrightarrow> map_of d' n = map_of d n) \<and>
    (\<forall>n. n \<noteq> ''gcplane.yaml'' \<and> n \<noteq> ''.env.example'' \<longrightarrow> map_of d' n = map_of d n) \<and>
    (err = None \<longrightarrow> (case initAnswers inp of (name, ep, provName, prov, agentName, model, _) \<Rightarrow>
       map_of d' ''gcplane.yaml'' = Some (manifestText name ep provName prov agentName model) \<and>
       name \<noteq> [] \<and> ep \<noteq> [] \<and> agentName \<noteq> []))"
proof (cases "exists ''gcplane.yaml'' d")
  case True
  with assms show ?thesis by (auto simp: initCmd_def)
next
  case False
  obtain name ep provName prov agentName model lines where a: "initAnswers inp = (name, ep, provName, prov, agentName, model, lines)"
    by (metis prod.exhaust)
  let ?c = "manifestText name ep provName prov agentName model"
  obtain e1 d1 where w: "writeTo fails ''gcplane.yaml'' ?c d = (e1, d1)" by fastforce
  have 1: "map_of d1 n = map_of d n" if "n \<noteq> ''gcplane.yaml''" for n
    using map_of_writeTo [OF that, of fails ?c d] w by simp
  have ne: "name \<noteq> []" "ep \<noteq> []" "agentName \<noteq> []"
    using initAnswers_nonempty [OF a] by auto
  show ?thesis
  proof (cases e1)
    case (Some er)
    with assms False a w have "d' = d1" "err \<noteq> None" by (auto simp: initCmd_def)
    moreover have "map_of d1 n = map_of d n" if "map_of d n \<noteq> None" for n
      using that 1 False by (cases "n = ''gcplane.yaml''") (simp_all add: exists_def)
    ultimately show ?thesis using 1 by auto
  next
    case None
    with w have y: "map_of d1 ''gcplane.yaml'' = Some ?c" by (auto simp: writeTo_def gomap_simps split: option.splits)
    have d': "d' = (if exists ''.env.example'' d1 then d1 else snd (writeTo fails ''.env.example'' (envText prov) d1))"
      using assms False a w None by (auto simp: initCmd_def split: if_splits)
    have 2: "map_of d' n = map_of d1 n" if "n \<noteq> ''.env.example'' \<or> map_of d1 n \<noteq> None" for n
      using d' that map_of_writeTo [of n "''.env.example''"] by (auto simp: exists_def)
    have keep: "map_of d' n = map_of d n" if "map_of d n \<noteq> None" for n
    proof -
      from that False have "n \<noteq> ''gcplane.yaml''" by (auto simp: exists_def)
      with that 1 2 [of n] show ?thesis by auto
    qed
    have "map_of d' ''gcplane.yaml'' = Some ?c" using 2 [of "''gcplane.yaml''"] y by simp
    with keep 1 2 ne a show ?thesis by simp
  qed
qed

end
