(* ===== verification/Service.thy ===== *)
theory Service
  imports Tui
begin

text \<open>
  The remaining commands: \<open>cmd/status.go\<close>, the service of \<open>cmd/serve.go\<close> and the dashboard of \<open>cmd/top.go\<close>.
  \<open>serve\<close> is modelled up to the point where its goroutines run (the controllers and the HTTP server have their
  own theories) and from the point where it stops, as the list of the steps it takes. \<open>time.ParseDuration\<close>
  is a function of the environment.
\<close>

section \<open>Status\<close>

text \<open>\<open>%-12s\<close>.\<close>

definition padRight :: "nat \<Rightarrow> string \<Rightarrow> string" where
  "padRight n s = s @ replicate (n - length s) CHR '' ''"

definition checkMark :: string where "checkMark = map char_of [226 :: nat, 156, 147]"

definition kindCount :: "change list \<Rightarrow> resource_kind \<Rightarrow> nat" where
  "kindCount changes kind = length (filter (\<lambda>c. chKind c = kind) changes)"

definition kindLines :: "change list \<Rightarrow> string" where
  "kindLines changes =
     concat (map (\<lambda>kind. if 0 < kindCount changes kind
                        then ''  '' @ padRight 12 kind @ '' '' @ showNat (kindCount changes kind) @ [nl] else [])
       ApplyOrder)"

definition statusText :: "manifest \<Rightarrow> plan \<Rightarrow> string" where
  "statusText m p =
     (let all = Creates p + Updates p + Noops p + Deletes p; inSync = Noops p; drifted = Updates p; missing = Creates p in
      nl # colorBold @ ''GCPlane Status'' @ colorReset @ '' '' @ Validate.emDash @ '' '' @ metaName (Metadata m) @ [nl, nl] @
      ''  Resources:  '' @ showNat all @ '' total'' @ [nl] @
      ''  In Sync:    '' @ colorGreen @ showNat inSync @ colorReset @ [nl] @
      (if 0 < drifted then ''  Drifted:    '' @ colorYellow @ showNat drifted @ colorReset @ [nl] else []) @
      (if 0 < missing then ''  Missing:    '' @ colorRed @ showNat missing @ colorReset @ [nl] else []) @
      [nl] @ kindLines (Changes p) @
      (if 0 < drifted \<or> 0 < missing
       then nl # ''  Run '' @ colorBold @ ''gcplane plan'' @ colorReset @ '' for details.'' @ [nl]
       else nl # ''  '' @ colorGreen @ checkMark @ '' All resources in sync'' @ colorReset @ [nl]) @ [nl])"

definition statusCmd :: "'w cli \<Rightarrow> 'w \<Rightarrow> outcome \<times> 'w" where
  "statusCmd cli =
     withEngine cli [] (\<lambda>e m w.
       case Reconcile e m \<lparr>DryRun = True, Prune = False, Force = False, Concurrency = 0\<rparr> w of
         ((p, r), w') \<Rightarrow> (([Printed (statusText m p)], None), w'))"

section \<open>Serve\<close>

record serve_flags =
  serveAddr :: string
  serveInterval :: string
  serveRepo :: string
  serveBranch :: string
  servePath :: string
  servePrune :: bool
  serveWebhookSecret :: string
  serveTenantsDir :: string

record 'w serve_env =
  seCli :: "'w cli"
  seGit :: "'w git_ops"
  seSha :: "string \<Rightarrow> string"
  seParseDuration :: "string \<Rightarrow> int result"
  seWebhook :: "string \<Rightarrow> string \<Rightarrow> 'w webhook"
  seVerify :: "string \<Rightarrow> string \<Rightarrow> provider_option list \<Rightarrow> string \<Rightarrow> 'w \<Rightarrow> goerr option \<times> 'w"
  seClock :: "'w \<Rightarrow> int"

datatype manifest_source = FileSource string | GitSource git_source

definition manifestSource :: "serve_flags \<Rightarrow> string \<Rightarrow> manifest_source result" where
  "manifestSource fl configFile =
     (if serveRepo fl \<noteq> [] then
        (case NewGitSource (serveRepo fl) (serveBranch fl) (servePath fl) of
           Inl err \<Rightarrow> Inl err
         | Inr g \<Rightarrow> Inr (GitSource g))
      else if configFile \<noteq> [] then Inr (FileSource configFile)
      else Inl (errorf ''either --file (-f), --repo, or --tenants-dir is required''))"

fun fetchFrom ::
  "'w serve_env \<Rightarrow> manifest_source \<Rightarrow> 'w \<Rightarrow> ((manifest \<times> string) go \<times> manifest_source) \<times> 'w"
where
  "fetchFrom env (FileSource path) w =
     ((FetchFile (cliCodecs (seCli env)) (cliValid (seCli env)) (seSha env) (diskOf (seGit env) w) path, FileSource path), w)"
| "fetchFrom env (GitSource g) w =
     (case FetchGit (cliCodecs (seCli env)) (cliValid (seCli env)) (seGit env) g w of
        ((r, g'), w') \<Rightarrow> ((r, GitSource g'), w'))"

text \<open>Why the service stops, and the steps of its life.\<close>

datatype stop_cause = Signalled | ServerFailed goerr

datatype life = RunController | RunTenants "string list" | Listen string | CloseDone | ShutdownHTTP | CleanupClone
  | CloseProvider | CloseTenants

record 'w service =
  svErr :: "goerr option"
  svLife :: "life list"
  svControllers :: "'w controller_config list"
  svSecret :: string

definition controllerFor ::
  "'w serve_env \<Rightarrow> serve_flags \<Rightarrow> manifest_source \<Rightarrow> string \<Rightarrow> string \<Rightarrow> provider_option list \<Rightarrow> 'w controller_config"
where
  "controllerFor env fl src ep tok opts =
     (let n = seWebhook env (Getenv (cliOS (seCli env)) ''GCPLANE_WEBHOOK_URL'') (Getenv (cliOS (seCli env)) ''GCPLANE_WEBHOOK_FORMAT'') in
      \<lparr>Fetch = (\<lambda>w. case fetchFrom env src w of ((r, _), w') \<Rightarrow> (r, w')),
       ctlEngine = newEngine (seCli env) ep tok opts,
       verifier = Some (seVerify env ep tok opts),
       notifier = Some (NotifyDrift n), verifyNotifier = Some (NotifyProviderVerifyFailure n),
       ctlPrune = servePrune fl, clock = seClock env\<rparr>)"

text \<open>The controller \<open>NewTenantManager\<close> makes for a tenant: its configuration names no notifier.\<close>

definition tenantController :: "'w serve_env \<Rightarrow> serve_flags \<Rightarrow> tenant \<Rightarrow> 'w controller_config" where
  "tenantController env fl t =
     \<lparr>Fetch = (\<lambda>w. case fetchFrom env (FileSource (tenPath t)) w of ((r, _), w') \<Rightarrow> (r, w')),
      ctlEngine = newEngine (seCli env) (tenEndpoint t) (tenToken t) (tenOpts t),
      verifier = Some (seVerify env (tenEndpoint t) (tenToken t) (tenOpts t)),
      notifier = None, verifyNotifier = None, ctlPrune = servePrune fl, clock = seClock env\<rparr>"

text \<open>The end of both modes: a signal shuts the server down, a failing server only stops the loops.\<close>

definition stopSteps :: "stop_cause \<Rightarrow> life list \<Rightarrow> goerr option \<times> life list" where
  "stopSteps cause cleanup =
     (case cause of
        ServerFailed err \<Rightarrow> (Some (wrapf ''http server: '' err), [CloseDone])
      | Signalled \<Rightarrow> (None, [CloseDone, ShutdownHTTP] @ cleanup))"

definition runMultiTenantServe :: "'w serve_env \<Rightarrow> serve_flags \<Rightarrow> stop_cause \<Rightarrow> 'w \<Rightarrow> 'w service go \<times> 'w" where
  "runMultiTenantServe env fl cause w =
     (case NewTenantManager (cliCodecs (seCli env)) (cliValid (seCli env)) (seSha env) (cliOS (seCli env))
             (diskOf (seGit env) w) (serveTenantsDir fl) of
        Panic msg \<Rightarrow> (Panic msg, w)
      | Ret (Inl err) \<Rightarrow> (Ret (Inl (wrapf ''init tenant manager: '' err)), w)
      | Ret (Inr ts) \<Rightarrow>
          (let (err, steps) = stopSteps cause [] in
           (Ret (Inr \<lparr>svErr = err,
              svLife = [RunTenants (map fst ts), Listen (serveAddr fl)] @ steps @ [CloseTenants],
              svControllers = map (\<lambda>(name, t). tenantController env fl t) ts,
              svSecret = serveWebhookSecret fl\<rparr>), w)))"

text \<open>The single mode once the source is chosen; the clone of a git source is in the world from the first fetch on.\<close>

definition serveFrom :: "'w serve_env \<Rightarrow> serve_flags \<Rightarrow> stop_cause \<Rightarrow> manifest_source \<Rightarrow> 'w \<Rightarrow> 'w service go \<times> 'w" where
  "serveFrom env fl cause src w =
     (case fetchFrom env src w of
        ((Panic msg, _), w1) \<Rightarrow> (Panic msg, w1)
      | ((Ret (Inl err), _), w1) \<Rightarrow> (Ret (Inl (wrapf ''initial manifest fetch: '' err)), w1)
      | ((Ret (Inr (m, _)), src'), w1) \<Rightarrow>
          (case resolveConnection (seCli env) m of
             Inl err \<Rightarrow> (Ret (Inl err), w1)
           | Inr (ep, tok) \<Rightarrow>
               (case resolveProviderOpts (seCli env) m of
                  Inl err \<Rightarrow> (Ret (Inl err), w1)
                | Inr opts \<Rightarrow>
                    (let (err, steps) = stopSteps cause (case src' of GitSource g \<Rightarrow> [CleanupClone] | FileSource p \<Rightarrow> []);
                         w2 = (case (cause, src') of (Signalled, GitSource g) \<Rightarrow> CleanupGit (seGit env) g w1 | _ \<Rightarrow> w1)
                     in (Ret (Inr \<lparr>svErr = err, svLife = [RunController, Listen (serveAddr fl)] @ steps @ [CloseProvider],
                           svControllers = [controllerFor env fl src' ep tok opts], svSecret = serveWebhookSecret fl\<rparr>), w2)))))"

definition runServe :: "'w serve_env \<Rightarrow> serve_flags \<Rightarrow> stop_cause \<Rightarrow> 'w \<Rightarrow> 'w service go \<times> 'w" where
  "runServe env fl cause w =
     (case seParseDuration env (serveInterval fl) of
        Inl err \<Rightarrow> (Ret (Inl (wrapf (''invalid interval '' @ goQuote (serveInterval fl) @ '': '') err)), w)
      | Inr iv \<Rightarrow>
          if serveTenantsDir fl \<noteq> [] then
            (if flagFile (seCli env) \<noteq> [] \<or> serveRepo fl \<noteq> []
             then (Ret (Inl (errorf ''--tenants-dir is mutually exclusive with -f/--file and --repo'')), w)
             else runMultiTenantServe env fl cause w)
          else case manifestSource fl (flagFile (seCli env)) of
            Inl err \<Rightarrow> (Ret (Inl err), w)
          | Inr src \<Rightarrow> serveFrom env fl cause src w)"

section \<open>Top\<close>

record top_flags =
  topInterval :: string
  topAttach :: string

text \<open>\<open>tui.NewApp\<close> with its errors: a bad interval, or a server that does not answer.\<close>

definition startApp ::
  "(string \<Rightarrow> int result) \<Rightarrow> (string \<Rightarrow> 'w attach_client) \<Rightarrow> manifest option \<Rightarrow> string \<Rightarrow> string \<Rightarrow> string \<Rightarrow> 'w \<Rightarrow> tui result \<times> 'w"
where
  "startApp parseDuration attach m ep every url w =
     (case parseDuration every of
        Inl err \<Rightarrow> (Inl (wrapf (''invalid interval '' @ goQuote every @ '': '') err), w)
      | Inr iv \<Rightarrow>
          if url = [] then (Inr (NewApp m ep iv None), w)
          else case Healthcheck (attach url) w of
            (Some err, w') \<Rightarrow> (Inl err, w')
          | (None, w') \<Rightarrow> (Inr (NewApp None url iv (Some url)), w'))"

definition runTop ::
  "'w cli \<Rightarrow> (string \<Rightarrow> int result) \<Rightarrow> (string \<Rightarrow> 'w attach_client) \<Rightarrow> top_flags \<Rightarrow> 'w \<Rightarrow> tui go \<times> 'w"
where
  "runTop cli parseDuration attach fl w =
     (if topAttach fl \<noteq> [] then
        (case startApp parseDuration attach None [] (topInterval fl) (topAttach fl) w of (r, w') \<Rightarrow> (Ret r, w'))
      else case loadAndValidateManifest cli of
        Panic msg \<Rightarrow> (Panic msg, w)
      | Ret (Inl err) \<Rightarrow> (Ret (Inl err), w)
      | Ret (Inr m) \<Rightarrow>
          (case resolveConnection cli m of
             Inl err \<Rightarrow> (Ret (Inl err), w)
           | Inr (ep, tok) \<Rightarrow>
               (case resolveProviderOpts cli m of
                  Inl err \<Rightarrow> (Ret (Inl err), w)
                | Inr opts \<Rightarrow> (case startApp parseDuration attach (Some m) ep (topInterval fl) [] w of (r, w') \<Rightarrow> (Ret r, w')))))"

section \<open>Facts\<close>

text \<open>However the service ends, its loops are told to stop before anything is shut down or closed.\<close>

lemma stopSteps_order: "\<exists>rest. snd (stopSteps cause cleanup) = CloseDone # rest \<and> CloseDone \<notin> set rest" if "CloseDone \<notin> set cleanup"
  using that by (cases cause) (auto simp: stopSteps_def)

lemma runMultiTenantServe_no_notifier:
  "runMultiTenantServe env fl cause w = (Ret (Inr sv), w') \<Longrightarrow>
     list_all (\<lambda>c. notifier c = None \<and> verifyNotifier c = None) (svControllers sv)"
  by (auto simp: runMultiTenantServe_def tenantController_def list_all_iff split: go.splits sum.splits prod.splits)

text \<open>Drift in a tenant is never announced, whatever webhook the environment configures.\<close>

lemma tenants_never_notify:
  assumes "runMultiTenantServe env fl cause w = (Ret (Inr sv), w')" "c \<in> set (svControllers sv)"
  shows "notifyDrift c changes w1 = w1"
  using runMultiTenantServe_no_notifier [OF assms(1)] assms(2) by (auto simp: notifyDrift_def list_all_iff)

text \<open>When the HTTP server fails, the clone of a git source stays on the disk.\<close>

lemma server_failure_keeps_clone:
  assumes "serveFrom env fl (ServerFailed e) (GitSource g) w = (Ret (Inr sv), w')"
  shows "CleanupClone \<notin> set (svLife sv) \<and> w' = snd (fetchFrom env (GitSource g) w)"
  using assms unfolding serveFrom_def stopSteps_def
  by (auto split: prod.splits go.splits sum.splits manifest_source.splits)

lemma signal_removes_clone:
  assumes "serveFrom env fl Signalled (GitSource g) w = (Ret (Inr sv), w')"
  shows "CleanupClone \<in> set (svLife sv) \<and> svErr sv = None \<and> last (svLife sv) = CloseProvider \<and>
    (\<exists>r g' w1. fetchFrom env (GitSource g) w = ((r, GitSource g'), w1) \<and> w' = CleanupGit (seGit env) g' w1)"
  using assms unfolding serveFrom_def stopSteps_def
  by (auto split: prod.splits go.splits sum.splits manifest_source.splits)

lemma runServe_mode:
  assumes "runServe env fl cause w = (Ret (Inr sv), w')"
  shows "(serveTenantsDir fl \<noteq> []) = (CloseTenants \<in> set (svLife sv)) \<and>
    (serveTenantsDir fl \<noteq> [] \<longrightarrow> flagFile (seCli env) = [] \<and> serveRepo fl = []) \<and>
    (serveTenantsDir fl = [] \<longrightarrow> flagFile (seCli env) \<noteq> [] \<or> serveRepo fl \<noteq> [])"
  using assms unfolding runServe_def runMultiTenantServe_def serveFrom_def manifestSource_def stopSteps_def
  by (auto split: sum.splits if_splits go.splits prod.splits stop_cause.splits manifest_source.splits)

text \<open>
  The report of a run in which no resource could be observed: everything is counted as in sync and the
  closing line says so, though the plan holds the errors.
\<close>

lemma status_hides_errors:
  "case Reconcile (memEngine\<lparr>provider := memProvider\<lparr>Observe := \<lambda>k n w. (Inl (errorf ''down''), w)\<rparr>\<rparr>) demoM
      \<lparr>DryRun = True, Prune = False, Force = False, Concurrency = 0\<rparr> demoW of
     ((p, r), w) \<Rightarrow> planErrors p \<noteq> [] \<and> Noops p = length (Resources demoM) \<and> strContains (statusText demoM p) ''All resources in sync''"
  by code_simp

text \<open>
  \<open>apply -l team=x --prune\<close>: what the selector leaves out counts as absent from the manifest, so a declared
  provider is deleted.
\<close>

lemma selector_prune_deletes_declared:
  "inManifest (Resources demoM) KindProvider ''p'' \<and> map_of demoW (KindProvider, ''p'') \<noteq> None \<and>
   snd (applyWith (\<lambda>v. []) False []
     \<lparr>autoApprove = True, applyPrune = True, applyForce = False, applySelector = ''team=x'', applyLogFile = []\<rparr> []
     memEngine (selectResources ''team=x'' demoM) demoW) = []"
  by code_simp

end
