(* ===== verification/EngineTypes.thy ===== *)
theory EngineTypes
  imports EngineTrace
begin

text \<open>
  What reaches the provider. The locale \<open>write_invariant\<close> is the contract under which a predicate on the world
  survives a whole run: observing, listing and deleting keep it, and so do creations and updates with a spec
  that \<open>execute\<close> may send for a resource. It is interpreted on the engine that records the specs it sends, with
  their types as the predicate.
\<close>

section \<open>Types of values\<close>

datatype gty = TyNil | TyBool | TyInt | TyInt64 | TyF64 | TyF32 | TyStr | TyStrs | TyList "gty list"
  | TyMap "(string \<times> gty) list" | TyAnyMap "(string \<times> gty) list" | TyOther string

text \<open>The dynamic type of a value, with the types of everything it holds.\<close>

fun tyOf :: "gval \<Rightarrow> gty" where
  "tyOf GNil = TyNil"
| "tyOf (GBool b) = TyBool"
| "tyOf (GInt i) = TyInt"
| "tyOf (GInt64 i) = TyInt64"
| "tyOf (GF64 x) = TyF64"
| "tyOf (GF32 x) = TyF32"
| "tyOf (GStr s) = TyStr"
| "tyOf (GStrs ss) = TyStrs"
| "tyOf (GList vs) = TyList (map tyOf vs)"
| "tyOf (GMap m) = TyMap (map (\<lambda>(k, v). (k, tyOf v)) m)"
| "tyOf (GAnyMap m) = TyAnyMap (map (\<lambda>(k, v). (k, tyOf v)) m)"
| "tyOf (GOther t c) = TyOther t"

definition tyMap :: "gomap \<Rightarrow> (string \<times> gty) list" where
  "tyMap m = map (\<lambda>(k, v). (k, tyOf v)) m"

lemma tyOf_resolveValue: "tyOf (resolveValue o' v) = tyOf v"
  by (induction o' v rule: resolveValue.induct) (auto split: sum.split)

lemma tyMap_resolve: "tyMap (resolveSpecSecrets o' spec) = tyMap spec"
  by (simp add: tyMap_def resolveSpecSecrets_def tyOf_resolveValue comp_def case_prod_unfold)

lemma tyMap_update: "tyMap (AList.update k v m) = AList.update k (tyOf v) (tyMap m)"
  by (induction m) (auto simp: tyMap_def)

text \<open>A spec typed as that of a resource, up to the hash the engine adds.\<close>

definition typedFor :: "resource \<Rightarrow> gomap \<Rightarrow> bool" where
  "typedFor r spec \<longleftrightarrow>
     tyMap spec = tyMap (specMap r) \<or> tyMap spec = AList.update WriteOnlyHashField TyStr (tyMap (specMap r))"

section \<open>The specs a run sends\<close>

definition sendable :: "resource \<Rightarrow> gomap \<Rightarrow> bool" where
  "sendable r spec \<longleftrightarrow>
     (\<exists>o'. spec = resolveSpecSecrets o' (specMap r) \<or>
        (\<exists>h. spec = AList.update WriteOnlyHashField (GStr h) (resolveSpecSecrets o' (specMap r))))"

lemma sendable_typed: "sendable r spec \<Longrightarrow> typedFor r spec"
  by (auto simp: sendable_def typedFor_def tyMap_update tyMap_resolve)

locale write_invariant =
  fixes e :: "'w engine" and rs :: "resource list" and I :: "'w \<Rightarrow> bool"
  assumes observing: "I w \<Longrightarrow> I (snd (Observe (provider e) k n w))"
    and listing: "I w \<Longrightarrow> I (snd (ListAll (provider e) k w))"
    and deleting: "I w \<Longrightarrow> I (snd (Delete (provider e) k n w))"
    and creating: "r \<in> set rs \<Longrightarrow> sendable r spec \<Longrightarrow> I w \<Longrightarrow> I (snd (Create (provider e) (resKind r) (resName r) spec w))"
    and updating: "r \<in> set rs \<Longrightarrow> sendable r spec \<Longrightarrow> I w \<Longrightarrow> I (snd (Update (provider e) (resKind r) (resName r) spec w))"
begin

lemma reconcileOne_safe: "I w \<Longrightarrow> I (snd (reconcileOne e r force w))"
proof -
  assume I: "I w"
  have ob: "I w2" if "stepObserve e rc w = (x, w2)" for rc x w2
    using observing [OF I, of "resKind (rcResource rc)" "resName (rcResource rc)"] that
    by (auto simp: stepObserve_def split: prod.splits sum.splits)
  have co: "w2 = w1" if "stepCompare e rc w1 = (x, w2)" for rc x w1 w2
    using that by (auto simp: stepCompare_def Let_def split: option.splits if_splits)
  show ?thesis
    using I ob co unfolding reconcileOne_def
    by (auto simp: stepResolveSecrets_def split: prod.splits option.splits) blast+
qed

lemma reconcileKind_safe: "schedOk e \<Longrightarrow> I w \<Longrightarrow> I (snd (reconcileKind e res force conc w))"
  using reconcileKind_inv [where I = I and Q = "\<lambda>r c. True"] reconcileOne_safe by auto

lemma execute_safe: "r \<in> set rs \<Longrightarrow> I w \<Longrightarrow> I (snd (execute e ch r w))"
proof -
  assume r: "r \<in> set rs" and I: "I w"
  let ?s = "resolveSpecSecrets (os e w) (specMap r)"
  have "sendable r ?s" "sendable r (AList.update WriteOnlyHashField (GStr h) ?s)" for h
    unfolding sendable_def by blast+
  with r I show ?thesis
    by (auto simp: execute_def Let_def creating updating split: action.split)
qed

lemma executeIn_safe:
  "(\<And>i. i \<in> set js \<Longrightarrow> res ! i \<in> set rs) \<Longrightarrow> I w \<Longrightarrow> I (snd (executeIn e cs res js out w))"
proof (induction js arbitrary: out w)
  case (Cons i js)
  obtain err w1 where x: "execute e (cs ! i) (res ! i) w = (err, w1)" by fastforce
  then have "I w1" using execute_safe [of "res ! i" w "cs ! i"] Cons.prems by simp
  with Cons x show ?case by (cases err) (auto simp: Let_def)
qed simp

lemma executeChanges_safe:
  assumes "schedOk e" "set res \<subseteq> set rs" "length cs = length res" "I w"
  shows "I (snd (executeChanges e cs res conc w))"
proof -
  let ?jobs = "filter (\<lambda>i. \<not> skipChange (cs ! i)) [0..<length cs]"
  have job: "res ! i \<in> set rs" if "i \<in> set ?jobs" for i
    using that assms(2,3) by auto
  have "?jobs ! j \<in> set ?jobs" if "j \<in> set (sched e w c (length ?jobs))" for j c
    using that schedOk_set [OF assms(1)] nth_mem by blast
  then show ?thesis
    using job assms(4) unfolding executeChanges_def Let_def by (auto intro!: executeIn_safe simp del: set_filter)
qed

lemma reconcileKinds_safe: "schedOk e \<Longrightarrow> I w \<Longrightarrow> I (snd (reconcileKinds e rs opts kinds p out w))"
proof (induction kinds arbitrary: p out w)
  case (Cons k kinds)
  let ?res = "byKind rs k"
  obtain cs w1 where c: "reconcileKind e ?res (Force opts) (Concurrency opts) w = (cs, w1)" by fastforce
  have I1: "I w1" using reconcileKind_safe [OF Cons.prems, of ?res] c by (metis snd_conv)
  have "length cs = length ?res"
    using reconcileKind_inv [where I = I and Q = "\<lambda>r c. True", OF Cons.prems, of "Force opts" ?res "Concurrency opts"]
      reconcileOne_safe c list_all2_lengthD by force
  then have "I (snd (executeChanges e cs ?res (Concurrency opts) w1))"
    using Cons.prems(1) I1 by (intro executeChanges_safe) (auto simp: byKind_def)
  with Cons I1 c show ?case by (auto simp: Let_def split: prod.split)
qed simp

lemma pruneRemotes_safe: "I w \<Longrightarrow> I (snd (pruneRemotes e rs' dry kind infos cs out w))"
proof (induction infos arbitrary: cs out w)
  case (Cons i infos)
  obtain err w1 where d: "Delete (provider e) kind (infoName i) w = (err, w1)" by fastforce
  then have "I w1" using deleting [OF Cons.prems, of kind "infoName i"] by simp
  with Cons d show ?case by (auto simp: Let_def split: option.split)
qed simp

lemma pruneKinds_safe: "I w \<Longrightarrow> I (snd (pruneKinds e rs' dry kinds cs out w))"
proof (induction kinds arbitrary: cs out w)
  case (Cons k kinds)
  obtain l w1 where l: "ListAll (provider e) k w = (l, w1)" by fastforce
  then have I1: "I w1" using listing [OF Cons.prems, of k] by simp
  have "I w2" if "pruneRemotes e rs' dry k infos cs out w1 = (x, w2)" for infos x w2
    using pruneRemotes_safe [OF I1] that by (metis snd_conv)
  with Cons l I1 show ?case by (auto split: sum.split prod.split)
qed simp

theorem Reconcile_safe: "schedOk e \<Longrightarrow> Resources m = rs \<Longrightarrow> I w \<Longrightarrow> I (snd (Reconcile e m opts w))"
proof -
  assume s: "schedOk e" and m: "Resources m = rs" and I: "I w"
  obtain p out w1 where k: "reconcileKinds e rs opts ApplyOrder emptyPlan emptyResult w = ((p, out), w1)" by (metis surj_pair)
  then have "I w1" using reconcileKinds_safe [OF s I] by (metis snd_conv)
  then show ?thesis
    using k m pruneKinds_safe [of w1] unfolding Reconcile_def detectAndExecutePrunes_def
    by (auto split: prod.split) (metis snd_conv)
qed

end

section \<open>Recording the specs\<close>

type_synonym sent_spec = "resource_kind \<times> string \<times> gomap"

definition recordSpec :: "sent_spec \<Rightarrow> ('w \<Rightarrow> 'r \<times> 'w) \<Rightarrow> 'w \<times> sent_spec list \<Rightarrow> 'r \<times> ('w \<times> sent_spec list)" where
  "recordSpec c f s = (case f (fst s) of (r, w) \<Rightarrow> (r, (w, snd s @ [c])))"

definition unrecorded :: "('w \<Rightarrow> 'r \<times> 'w) \<Rightarrow> 'w \<times> sent_spec list \<Rightarrow> 'r \<times> ('w \<times> sent_spec list)" where
  "unrecorded f s = (case f (fst s) of (r, w) \<Rightarrow> (r, (w, snd s)))"

definition specTraced :: "'w engine \<Rightarrow> ('w \<times> sent_spec list) engine" where
  "specTraced e =
     \<lparr>provider =
        \<lparr>Observe = (\<lambda>k n. unrecorded (Observe (provider e) k n)),
         Create = (\<lambda>k n s. recordSpec (k, n, s) (Create (provider e) k n s)),
         Update = (\<lambda>k n s. recordSpec (k, n, s) (Update (provider e) k n s)),
         Delete = (\<lambda>k n. unrecorded (Delete (provider e) k n)),
         ListAll = (\<lambda>k. unrecorded (ListAll (provider e) k))\<rparr>,
      os = (\<lambda>s. os e (fst s)), codec_of = codec_of e, sched = (\<lambda>s. sched e (fst s))\<rparr>"

lemma log_sel: "snd (snd (recordSpec c f s)) = snd s @ [c]" "snd (snd (unrecorded f s)) = snd s"
  by (simp_all add: recordSpec_def unrecorded_def split: prod.split)

lemma fst_sel: "map_prod id fst (recordSpec c f s) = f (fst s)" "map_prod id fst (unrecorded f s) = f (fst s)"
  by (simp_all add: recordSpec_def unrecorded_def split: prod.split)

lemma schedOk_specTraced: "schedOk e \<Longrightarrow> schedOk (specTraced e)"
  by (simp add: schedOk_def specTraced_def)

text \<open>Recording changes nothing about the run.\<close>

interpretation st: engine_refinement "specTraced e" e fst
  for e :: "'w engine"
  by unfold_locales (simp_all add: specTraced_def fst_sel)

definition fromManifest :: "resource list \<Rightarrow> sent_spec \<Rightarrow> bool" where
  "fromManifest rs = (\<lambda>(k, n, spec). list_ex (\<lambda>r. resKind r = k \<and> resName r = n \<and> typedFor r spec) rs)"

interpretation ty: write_invariant "specTraced e" rs "\<lambda>s. list_all (fromManifest rs) (snd s)"
  for e :: "'w engine" and rs
proof (unfold_locales, goal_cases)
  case (4 r spec w)
  then show ?case by (auto simp: specTraced_def log_sel fromManifest_def list_ex_iff dest: sendable_typed)
next
  case (5 r spec w)
  then show ?case by (auto simp: specTraced_def log_sel fromManifest_def list_ex_iff dest: sendable_typed)
qed (simp_all add: specTraced_def log_sel)

section \<open>Properties\<close>

text \<open>
  C16: specs keep their types. In every run, each spec handed to \<open>Create\<close> or \<open>Update\<close> belongs to a resource of
  the manifest of that kind and name and has, field by field and at every depth, the types the manifest
  gives it, whatever the environment and the secret files hold; the only addition is the text field of the
  write-only hash. Recording the specs does not change the run.
\<close>

theorem sent_specs_keep_their_types:
  assumes "schedOk e" "Reconcile (specTraced e) m opts (w, []) = (r, (w', sent))"
  shows "list_all (fromManifest (Resources m)) sent \<and> Reconcile e m opts w = (r, w')"
proof -
  have "list_all (fromManifest (Resources m)) (snd (snd (Reconcile (specTraced e) m opts (w, []))))"
    using ty.Reconcile_safe [OF schedOk_specTraced [OF assms(1)], of m "Resources m" "(w, [])" opts] by simp
  moreover have "Reconcile e m opts w = map_prod id fst (Reconcile (specTraced e) m opts (w, []))"
    using st.Reconcile_abs [of e m opts "(w, [])"] by simp
  ultimately show ?thesis using assms(2) by simp
qed

theorem sent_specs_keep_their_types_witness:
  "\<exists>r w' k n spec rest. Reconcile (specTraced memEngine) demoM (demoOpts False True 0) (demoW, []) = (r, (w', (k, n, spec) # rest)) \<and>
     list_ex (\<lambda>r. resKind r = k \<and> resName r = n \<and> typedFor r spec) (Resources demoM)"
proof -
  obtain r w' sent where s: "Reconcile (specTraced memEngine) demoM (demoOpts False True 0) (demoW, []) = (r, (w', sent))"
    by (metis surj_pair)
  have "snd (snd (Reconcile (specTraced memEngine) demoM (demoOpts False True 0) (demoW, []))) \<noteq> []" by code_simp
  with s obtain k n spec rest where c: "sent = (k, n, spec) # rest" by (metis neq_Nil_conv prod_cases3 snd_conv)
  with sent_specs_keep_their_types [OF schedOk_mem s] have "fromManifest (Resources demoM) (k, n, spec)" by simp
  with s c show ?thesis unfolding fromManifest_def by auto
qed

end
