(* ===== verification/Spec2Isabelle.thy ===== *)
theory Spec2Isabelle
  imports Keyconv GoclawDemo WSClient TuiFacts ReleaseCheck Pull Init Service EngineTypes
begin

text \<open>
  gcplane keeps a GoClaw deployment in the state that YAML manifests describe. This library models the
  program in \<open>src/\<close> and proves what it guarantees. This theory is the entry point; it holds no
  definitions of its own.

  \<^bold>\<open>The program.\<close> A command of \<open>cmd/\<close> reads its flags, the environment and the disk. The loader
  (\<open>internal/manifest\<close>) turns files and skill directories into one manifest, expands composites and
  validates it. The engine (\<open>internal/reconciler\<close>) observes every resource through a provider, compares it
  with the manifest, and creates, updates or prunes. The provider (\<open>internal/provider/goclaw\<close>) talks to the
  server over HTTP and a web socket. \<open>serve\<close> runs the engine in a loop (\<open>internal/controller\<close>) over a file
  or git source (\<open>internal/source\<close>), for one deployment or for a directory of tenants, with alerts
  (\<open>internal/notifier\<close>) and an HTTP interface (\<open>internal/server\<close>). \<open>top\<close> shows it all in a terminal
  (\<open>internal/tui\<close>), directly or attached to a running \<open>serve\<close>. \<open>pull\<close> brings skills and context files back.

  \<^bold>\<open>How it is modelled.\<close> Strings are byte strings, Go maps association lists whose order is one iteration
  order, so what is proved for all lists holds for all orders. Fallible code returns \<open>goerr + 'a\<close> with the
  text and the sentinel of the error; a panic is a value of its own (\<open>go\<close>, or \<open>None\<close>). Whatever is outside
  the process (server, disk, environment, clock) is a state that functions thread through, and the calls to
  it are fields of records: \<open>provider_ops\<close>, \<open>goclaw\<close>, \<open>fsops\<close>, \<open>git_ops\<close>, \<open>oscalls\<close>. Goroutines are step
  relations whose steps are critical sections and channel operations. Integers that overflow or are
  clamped keep their width (\<open>ReleaseCheck\<close>), and floating point numbers round as in Go (\<open>GoValue\<close>).

  \<^bold>\<open>Foundations.\<close>
  \<^item> \<open>Prelude\<close>: errors, byte classes, the \<open>strings\<close> package, association lists, and the theorem collections.
  \<^item> \<open>GoValue\<close>: the dynamically typed values of specs. \<open>Paths\<close>: \<open>path/filepath\<close>.
  \<^item> \<open>Ring\<close>: the locale \<open>bounded_log\<close> for the three ring buffers of the program.

  \<^bold>\<open>Manifests.\<close>
  \<^item> \<open>Keyconv\<close> (\<open>internal/keyconv\<close>): camelCase and snake case, inverse to each other on field names.
  \<^item> \<open>Manifest\<close> (\<open>types.go\<close>, \<open>field_config.go\<close>, \<open>filter.go\<close>, \<dots>): the data model, the orders of kinds.
  \<^item> \<open>Secrets\<close> (\<open>internal/secrets\<close>): substitution in one pass, file references.
  \<^item> \<open>Skillpkg\<close> (\<open>internal/skillpkg\<close>): packing and unpacking; what is unpacked stays below its directory.
  \<^item> \<open>Validate\<close> (\<open>validate.go\<close>, \<open>validate_refs.go\<close>): no error exactly for well-formed manifests.
  \<^item> \<open>Loader\<close> (\<open>loader.go\<close>, \<open>composite.go\<close>, \<open>skill_loader.go\<close>): no duplicates, expansion of composites.
  \<^item> \<open>Source\<close> (\<open>internal/source\<close>): file and git sources, with the hash the controller compares.

  \<^bold>\<open>Reconciliation.\<close>
  \<^item> \<open>Compare\<close> (\<open>compare.go\<close>): an empty diff is conformance; equality of values is equality of normal forms.
  \<^item> \<open>WriteOnlyHash\<close> (\<open>write_only_hash.go\<close>): the hash sees every change of a field the API does not return.
  \<^item> \<open>Engine\<close> (\<open>engine.go\<close>): the whole run. \<open>EngineFacts\<close>: the decision for one resource and the plan.
    \<open>EngineTrace\<close>: the locale \<open>engine_refinement\<close>, interpreted on the engine that records its calls: a run does
    exactly what the plan shows, a dry run writes nothing, pruning deletes only owned orphans.
    \<open>EngineTypes\<close>: the locale \<open>write_invariant\<close>, interpreted on the engine that records its specs: what is sent
    has the types of the manifest. \<open>EngineConverge\<close>: a second run finds nothing to do. \<open>PruneSettles\<close>: pruning
    leaves no orphan behind. \<open>PlanAgrees\<close>: the real run does what the dry run announced.
  \<^item> \<open>Display\<close> (\<open>internal/display\<close>): plans and results as text.

  \<^bold>\<open>The provider.\<close>
  \<^item> \<open>Api\<close> (\<open>http_client.go\<close>, \<open>helpers.go\<close>): requests, decoding, tenants. \<open>Goclaw\<close>, \<open>GoclawKinds\<close>,
    \<open>GoclawProvider\<close>: one definition per method, for every kind. \<open>GoclawPull\<close>: construction, log tail, downloads.
  \<^item> \<open>GoclawReads\<close>: the locales \<open>http_reading\<close> and \<open>reading\<close>, interpreted on the transport that records requests:
    planning only reads. \<open>GoclawFacts\<close>: own tenant only, deletion of what is absent, grants.
    \<open>GoclawDemo\<close>: a small server on which the hypotheses hold.
  \<^item> \<open>WSClient\<close> (\<open>ws_client.go\<close>): calls, readers and reconnects in every interleaving.

  \<^bold>\<open>The service.\<close>
  \<^item> \<open>Controller\<close>: one cycle with status, metrics and verification. \<open>ControlLoop\<close>: the loop, its triggers and
    waiters as a step relation. \<open>Tenants\<close>: discovery and the aggregated views.
  \<^item> \<open>Notifier\<close>: the five formats of both alerts. \<open>Server\<close>: every endpoint; only authorised requests trigger.

  \<^bold>\<open>The terminal.\<close>
  \<^item> \<open>LiveStore\<close>, \<open>SpanTree\<close>, \<open>TraceStore\<close>: what the panels show, kept up to date by events and fetches.
  \<^item> \<open>Views\<close>, \<open>Panels\<close>, \<open>TuiModel\<close>: texts, filters, selections, the stack of views, the attach client.
  \<^item> \<open>Attach\<close>: the client against the handlers of \<open>Server\<close>. \<open>Tui\<close>, \<open>TuiKeys\<close>, \<open>TuiFacts\<close>: keys, commands,
    dialogs and actions as a state machine in which nothing is written without confirmation.

  \<^bold>\<open>The commands.\<close>
  \<^item> \<open>Commands\<close>: \<open>plan\<close>, \<open>apply\<close>, \<open>diff\<close>, \<open>destroy\<close>, \<open>export\<close>, \<open>validate\<close>. \<open>Service\<close>: \<open>status\<close>, \<open>serve\<close>, \<open>top\<close>.
    \<open>Pull\<close>: \<open>pull\<close>, which only reads the server and settles. \<open>Init\<close>: \<open>init\<close>, which overwrites nothing.
    \<open>ReleaseCheck\<close>: the check for a newer release and the hooks of the root command.

  \<^bold>\<open>Bounds and fuel.\<close> All recursions terminate by structure or by a measure, with one exception: the sort of a
  span tree follows pointers on a heap, and takes the number of spans plus one as fuel; no way up from a node
  to a root repeats a node, so this is enough even when the parents in the data form cycles. Loops that wait
  (the controller, the socket) are step relations, and that they answer is proved as such.

  \<^bold>\<open>Not modelled.\<close> The codecs of \<open>encoding/json\<close>, \<open>yaml.v3\<close>, tar, gzip, zip and multipart, SHA-256 and HMAC,
  templates, semver, the \<open>git\<close> binary, \<open>net/http\<close>, sockets and \<open>time.ParseDuration\<close> are parameters, with what
  the program relies on as named hypotheses of the theorems that need it. Left out are the parsing of flags by
  \<open>cobra\<close> and the help texts, the construction and layout of \<open>tview\<close> widgets with their colours and borders,
  the clipboard programs, log output (but for the warnings the engine gives on blind no-ops), and the lengths
  of timers. Functions of Go on runes are given for ASCII.
\<close>

end
